(* ===== verification/Prelude.thy ===== *)
theory Prelude
  imports Complex_Main "HOL-Library.Word" "HOL-Library.List_Lexorder" "HOL-Library.Char_ord"
    "HOL-Library.Product_Lexorder"
begin

text \<open>
  The vocabulary of the development: the types that stand for Python's values, the string
  operations of the language that the source uses, results with an error, and the reachability
  locale that every state machine of the development is an instance of.

  Conventions.
  \<^item> A Python \<open>str\<close> is a \<^typ>\<open>string\<close>; a \<^typ>\<open>char\<close> is one of the code points 0 to 255 and
    every string operation below is Python's operation on such strings. A \<open>bytes\<close> value is a
    \<^typ>\<open>string\<close> too, one \<^typ>\<open>char\<close> per byte.
  \<^item> A Python \<open>int\<close> is an \<^typ>\<open>int\<close>; a finite \<open>float\<close>, which the source only compares, is the
    rational number it denotes.
  \<^item> A \<open>datetime\<close> is the number of microseconds since 1970-01-01 in UTC, an \<^typ>\<open>int\<close>;
    a \<open>timedelta\<close> is a difference of such numbers.
  \<^item> A UUID is a 128-bit word.
\<close>

type_synonym instant = int
type_synonym uuid = "128 word"
type_synonym bytes = string

abbreviation seconds :: "int \<Rightarrow> int" where
  "seconds n \<equiv> 1000000 * n"

abbreviation minutes :: "int \<Rightarrow> int" where
  "minutes n \<equiv> seconds (60 * n)"

abbreviation hours :: "int \<Rightarrow> int" where
  "hours n \<equiv> minutes (60 * n)"

named_theorems result_simps \<open>case analysis of results\<close>
named_theorems codec_inj \<open>unique readability of printers\<close>

section \<open>Results\<close>

type_synonym ('e, 'a) result = "'e + 'a"

definition rbind :: "('e, 'a) result \<Rightarrow> ('a \<Rightarrow> ('e, 'b) result) \<Rightarrow> ('e, 'b) result" where
  "rbind m f = (case m of Inl e \<Rightarrow> Inl e | Inr x \<Rightarrow> f x)"

lemma rbind_simps [simp]: "rbind (Inl e) f = Inl e" "rbind (Inr x) f = f x"
  by (simp_all add: rbind_def)

lemma rbind_Inr_iff [result_simps]: "rbind m f = Inr y \<longleftrightarrow> (\<exists>x. m = Inr x \<and> f x = Inr y)"
  by (cases m) auto

lemma rbind_Inl_iff [result_simps]:
  "rbind m f = Inl e \<longleftrightarrow> m = Inl e \<or> (\<exists>x. m = Inr x \<and> f x = Inl e)"
  by (cases m) auto

lemma rbind_cong [fundef_cong]:
  "m = m' \<Longrightarrow> (\<And>x. m' = Inr x \<Longrightarrow> f x = g x) \<Longrightarrow> rbind m f = rbind m' g"
  by (cases m') auto

definition guard_result :: "bool \<Rightarrow> 'e \<Rightarrow> ('e, unit) result" where
  "guard_result b e = (if b then Inr () else Inl e)"

lemma guard_result_iff [result_simps]:
  "guard_result b e = Inr u \<longleftrightarrow> b" "guard_result b e = Inl e' \<longleftrightarrow> \<not> b \<and> e' = e"
  by (auto simp: guard_result_def)

text \<open>A list comprehension whose element may raise: the first error wins.\<close>

fun sequence :: "('e, 'a) result list \<Rightarrow> ('e, 'a list) result" where
  "sequence [] = Inr []"
| "sequence (m # ms) = rbind m (\<lambda>x. rbind (sequence ms) (\<lambda>xs. Inr (x # xs)))"

lemma sequence_Inr_iff [result_simps]:
  "sequence ms = Inr xs \<longleftrightarrow> ms = map Inr xs"
  by (induction ms arbitrary: xs) (auto simp: result_simps Cons_eq_map_conv)

lemma sequence_map_Inr [simp]: "sequence (map (\<lambda>x. Inr (f x)) xs) = Inr (map f xs)"
  by (induction xs) auto

lemma sequence_Inl: "sequence ms = Inl e \<Longrightarrow> Inl e \<in> set ms"
  by (induction ms) (auto simp: result_simps)

lemma sequence_map_fwd:
  "sequence (map f xs) = Inr ys \<Longrightarrow> x \<in> set xs \<Longrightarrow> \<exists>y \<in> set ys. f x = Inr y"
  by (induction xs arbitrary: ys) (auto simp: result_simps)

lemma sequence_map_bwd:
  "sequence (map f xs) = Inr ys \<Longrightarrow> y \<in> set ys \<Longrightarrow> \<exists>x \<in> set xs. f x = Inr y"
  by (induction xs arbitrary: ys) (auto simp: result_simps)

lemma sequence_all: "(\<And>x. x \<in> set xs \<Longrightarrow> f x = Inr (g x)) \<Longrightarrow> sequence (map f xs) = Inr (map g xs)"
  by (induction xs) auto

section \<open>Decimal and hexadecimal text\<close>

definition hexdigit :: "nat \<Rightarrow> char" where
  "hexdigit n = ''0123456789abcdef'' ! n"

lemma all_below_16: "list_all P [0..<16] \<Longrightarrow> (n::nat) < 16 \<Longrightarrow> P n"
  by (simp add: list_all_iff)

definition hexval :: "char \<Rightarrow> nat" where
  "hexval c = (if of_char c < (58::nat) then of_char c - 48 else of_char c - 87)"

lemma hexval_hexdigit [simp]: "n < 16 \<Longrightarrow> hexval (hexdigit n) = n"
  by (rule all_below_16 [of "\<lambda>n. hexval (hexdigit n) = n"])
    (simp add: hexdigit_def hexval_def upt_rec)

lemma hexdigit_inj: "m < 16 \<Longrightarrow> n < 16 \<Longrightarrow> hexdigit m = hexdigit n \<longleftrightarrow> m = n"
  by (metis hexval_hexdigit)

definition digits :: "char set" where
  "digits = set ''0123456789''"

lemma hexdigit_digits: "n < 10 \<Longrightarrow> hexdigit n \<in> digits"
  using all_below_16 [of "\<lambda>n. n < 10 \<longrightarrow> hexdigit n \<in> digits" n]
  by (simp add: hexdigit_def digits_def upt_rec)

fun hex_digits :: "nat \<Rightarrow> nat \<Rightarrow> string" where
  "hex_digits 0 n = []"
| "hex_digits (Suc k) n = hex_digits k (n div 16) @ [hexdigit (n mod 16)]"

lemma length_hex_digits [simp]: "length (hex_digits k n) = k"
  by (induction k arbitrary: n) auto

lemma hex_digits_inj: "m < 16 ^ k \<Longrightarrow> n < 16 ^ k \<Longrightarrow> hex_digits k m = hex_digits k n \<Longrightarrow> m = n"
proof (induction k arbitrary: m n)
  case 0
  then show ?case by simp
next
  case (Suc k)
  from Suc.prems(3) have "hex_digits k (m div 16) = hex_digits k (n div 16)"
    and "hexdigit (m mod 16) = hexdigit (n mod 16)" by auto
  moreover have "m div 16 < 16 ^ k" "n div 16 < 16 ^ k"
    using Suc.prems(1,2) by (simp_all add: less_mult_imp_div_less mult.commute)
  ultimately have "m div 16 = n div 16" "m mod 16 = n mod 16"
    using Suc.IH by (auto simp: hexdigit_inj)
  then show ?case by (metis div_mult_mod_eq)
qed

fun show_nat :: "nat \<Rightarrow> string" where
  "show_nat n = (if n < 10 then [hexdigit n] else show_nat (n div 10) @ [hexdigit (n mod 10)])"

declare show_nat.simps [simp del]

lemma show_nat_digits: "set (show_nat n) \<subseteq> digits"
proof (induction n rule: show_nat.induct)
  case (1 n)
  then show ?case by (subst show_nat.simps) (auto simp: hexdigit_digits)
qed

lemma show_nat_nonempty [simp]: "show_nat n \<noteq> []" "[] \<noteq> show_nat n"
  by (subst show_nat.simps; simp)+

lemma show_nat_inj: "show_nat m = show_nat n \<longleftrightarrow> m = n"
proof (induction m arbitrary: n rule: show_nat.induct)
  case (1 m)
  show ?case
  proof (cases "m < 10"; cases "n < 10")
    assume "m < 10" "n < 10"
    then show ?thesis by (simp add: show_nat.simps [of m] show_nat.simps [of n] hexdigit_inj)
  next
    assume "\<not> m < 10" "\<not> n < 10"
    then have "show_nat m = show_nat n \<longleftrightarrow> m div 10 = n div 10 \<and> m mod 10 = n mod 10"
      using "1.IH" [of "n div 10"]
      by (simp add: show_nat.simps [of m] show_nat.simps [of n] hexdigit_inj)
    also have "\<dots> \<longleftrightarrow> m = n" by (metis div_mult_mod_eq)
    finally show ?thesis .
  qed (auto simp: show_nat.simps [of m] show_nat.simps [of n])
qed

definition show_int :: "int \<Rightarrow> string" where
  "show_int i = (if i < 0 then CHR ''-'' # show_nat (nat (- i)) else show_nat (nat i))"

lemma show_int_nonempty [simp]: "show_int i \<noteq> []"
  by (simp add: show_int_def)

lemma minus_not_digit [simp]: "CHR ''-'' \<notin> digits"
  by (simp add: digits_def)

lemma show_nat_not_minus: "show_nat n \<noteq> CHR ''-'' # s"
  using show_nat_digits [of n] by (auto simp: digits_def)

lemma show_int_inj: "show_int i = show_int j \<longleftrightarrow> i = j"
  by (auto simp: show_int_def show_nat_inj show_nat_not_minus show_nat_not_minus [symmetric])

text \<open>A number that fills \<open>k\<close> places with leading zeros (\<open>format(n, "04d")\<close>).\<close>

fun pad_digits :: "nat \<Rightarrow> nat \<Rightarrow> string" where
  "pad_digits 0 n = []"
| "pad_digits (Suc k) n = pad_digits k (n div 10) @ [hexdigit (n mod 10)]"

lemma length_pad_digits [simp]: "length (pad_digits k n) = k"
  by (induction k arbitrary: n) auto

lemma pad_digits_inj: "m < 10 ^ k \<Longrightarrow> n < 10 ^ k \<Longrightarrow> pad_digits k m = pad_digits k n \<longleftrightarrow> m = n"
proof (induction k arbitrary: m n)
  case 0
  then show ?case by simp
next
  case (Suc k)
  have "m div 10 < 10 ^ k" "n div 10 < 10 ^ k"
    using Suc.prems(1,2) by (simp_all add: less_mult_imp_div_less mult.commute)
  then have "pad_digits (Suc k) m = pad_digits (Suc k) n \<longleftrightarrow> m div 10 = n div 10 \<and> m mod 10 = n mod 10"
    using Suc.IH [of "m div 10" "n div 10"] by (simp add: hexdigit_inj)
  also have "\<dots> \<longleftrightarrow> m = n" by (metis div_mult_mod_eq)
  finally show ?case .
qed

text \<open>
  Where a text of digits ends is visible: two such texts followed by something that does not
  start with a digit agree exactly when both parts agree.
\<close>

definition ends_number :: "string \<Rightarrow> bool" where
  "ends_number s \<longleftrightarrow> (case s of [] \<Rightarrow> True | c # _ \<Rightarrow> c \<notin> digits)"

lemma digits_prefix_unique:
  assumes "set a \<subseteq> digits" "set b \<subseteq> digits" "ends_number x" "ends_number y" "a @ x = b @ y"
  shows "a = b \<and> x = y"
  using assms
proof (induction a arbitrary: b)
  case Nil
  then show ?case by (cases b) (auto simp: ends_number_def)
next
  case (Cons c a)
  then show ?case by (cases b) (auto simp: ends_number_def)
qed

lemma show_int_unique [codec_inj]:
  assumes "show_int i @ x = show_int j @ y" "ends_number x" "ends_number y"
  shows "i = j \<and> x = y"
proof -
  have *: "show_nat m @ x = show_nat n @ y \<Longrightarrow> m = n \<and> x = y" for m n
    using digits_prefix_unique [OF show_nat_digits show_nat_digits assms(2,3)] show_nat_inj by blast
  have **: "show_nat n @ u \<noteq> CHR ''-'' # v" for n u v
    using show_nat_digits [of n] by (cases "show_nat n") (auto simp: digits_def)
  show ?thesis
  proof (cases "i < 0"; cases "j < 0")
    assume "i < 0" "j < 0"
    then show ?thesis using assms(1) * [of "nat (- i)" "nat (- j)"] by (auto simp: show_int_def)
  next
    assume "\<not> i < 0" "\<not> j < 0"
    then show ?thesis using assms(1) * [of "nat i" "nat j"] by (auto simp: show_int_def)
  next
    assume "i < 0" "\<not> j < 0"
    then show ?thesis using assms(1) ** [of "nat j" y "show_nat (nat (- i)) @ x"]
      by (simp add: show_int_def)
  next
    assume "\<not> i < 0" "j < 0"
    then show ?thesis using assms(1) ** [of "nat i" x "show_nat (nat (- j)) @ y"]
      by (simp add: show_int_def)
  qed
qed

section \<open>Strings\<close>

definition is_ascii :: "char \<Rightarrow> bool" where
  "is_ascii c \<longleftrightarrow> of_char c < (128::nat)"

definition is_ascii_upper :: "char \<Rightarrow> bool" where
  "is_ascii_upper c \<longleftrightarrow> 65 \<le> (of_char c :: nat) \<and> (of_char c :: nat) \<le> 90"

definition is_ascii_lower :: "char \<Rightarrow> bool" where
  "is_ascii_lower c \<longleftrightarrow> 97 \<le> (of_char c :: nat) \<and> (of_char c :: nat) \<le> 122"

definition is_digit :: "char \<Rightarrow> bool" where
  "is_digit c \<longleftrightarrow> 48 \<le> (of_char c :: nat) \<and> (of_char c :: nat) \<le> 57"

definition is_ascii_alnum :: "char \<Rightarrow> bool" where
  "is_ascii_alnum c \<longleftrightarrow> is_ascii_upper c \<or> is_ascii_lower c \<or> is_digit c"

text \<open>\<open>str.lower\<close>: the capitals of ASCII and of the upper half of Latin-1 move up by 32.\<close>

definition lower_char :: "char \<Rightarrow> char" where
  "lower_char c = (let n = of_char c :: nat in
     if 65 \<le> n \<and> n \<le> 90 \<or> 192 \<le> n \<and> n \<le> 222 \<and> n \<noteq> 215 then char_of (n + 32) else c)"

definition lower :: "string \<Rightarrow> string" where
  "lower s = map lower_char s"

text \<open>\<open>str.strip\<close>: Python's white space below code point 256.\<close>

definition is_space :: "char \<Rightarrow> bool" where
  "is_space c \<longleftrightarrow> (let n = of_char c :: nat in
     9 \<le> n \<and> n \<le> 13 \<or> 28 \<le> n \<and> n \<le> 32 \<or> n = 133 \<or> n = 160)"

definition strip :: "string \<Rightarrow> string" where
  "strip s = rev (dropWhile is_space (rev (dropWhile is_space s)))"

lemma strip_empty_iff: "strip s = [] \<longleftrightarrow> (\<forall>c \<in> set s. is_space c)"
proof -
  have "strip s = [] \<longleftrightarrow> (\<forall>c \<in> set (dropWhile is_space s). is_space c)"
    by (auto simp: strip_def)
  also have "\<dots> \<longleftrightarrow> (\<forall>c \<in> set s. is_space c)"
    by (induction s) auto
  finally show ?thesis .
qed

fun starts_with :: "string \<Rightarrow> string \<Rightarrow> bool" where
  "starts_with [] s = True"
| "starts_with (p # ps) [] = False"
| "starts_with (p # ps) (c # cs) = (p = c \<and> starts_with ps cs)"

lemma starts_with_iff: "starts_with p s \<longleftrightarrow> (\<exists>t. s = p @ t)"
  by (induction p s rule: starts_with.induct) auto

fun has_part :: "string \<Rightarrow> string \<Rightarrow> bool" where
  "has_part p [] = (p = [])"
| "has_part p (c # cs) = (starts_with p (c # cs) \<or> has_part p cs)"

lemma has_part_iff: "has_part p s \<longleftrightarrow> (\<exists>u v. s = u @ p @ v)"
proof (induction s)
  case Nil
  then show ?case by auto
next
  case (Cons c cs)
  show ?case
  proof
    assume "has_part p (c # cs)"
    then consider "starts_with p (c # cs)" | "has_part p cs" by auto
    then show "\<exists>u v. c # cs = u @ p @ v"
    proof cases
      case 1
      then show ?thesis unfolding starts_with_iff by (metis append_Nil)
    next
      case 2
      then show ?thesis using Cons by (metis append_Cons)
    qed
  next
    assume "\<exists>u v. c # cs = u @ p @ v"
    then obtain u v where uv: "c # cs = u @ p @ v" by blast
    show "has_part p (c # cs)"
    proof (cases u)
      case Nil
      then have "starts_with p (c # cs)" using uv by (auto simp: starts_with_iff)
      then show ?thesis by simp
    next
      case (Cons d u')
      then have "\<exists>u v. cs = u @ p @ v" using uv by auto
      then show ?thesis using \<open>has_part p cs = _\<close> by simp
    qed
  qed
qed

text \<open>\<open>s.split(sep, 1)\<close> for a one-character separator: \<open>None\<close> when it does not occur.\<close>

fun split_once :: "char \<Rightarrow> string \<Rightarrow> (string \<times> string) option" where
  "split_once d [] = None"
| "split_once d (c # cs) =
     (if c = d then Some ([], cs)
      else case split_once d cs of None \<Rightarrow> None | Some (a, b) \<Rightarrow> Some (c # a, b))"

lemma split_once_Some: "split_once d s = Some (a, b) \<Longrightarrow> s = a @ d # b \<and> d \<notin> set a"
  by (induction s arbitrary: a b) (auto split: option.splits if_splits)

lemma split_once_append: "d \<notin> set a \<Longrightarrow> split_once d (a @ d # b) = Some (a, b)"
  by (induction a) auto

lemma split_once_Some_iff: "split_once d s = Some (a, b) \<longleftrightarrow> s = a @ d # b \<and> d \<notin> set a"
  using split_once_Some split_once_append by blast

lemma split_once_None_iff: "split_once d s = None \<longleftrightarrow> d \<notin> set s"
  by (induction s) (auto split: option.splits)

text \<open>\<open>s.split(sep)\<close> for a one-character separator.\<close>

fun split_all :: "char \<Rightarrow> string \<Rightarrow> string list" where
  "split_all d [] = [[]]"
| "split_all d (c # cs) =
     (if c = d then [] # split_all d cs
      else case split_all d cs of [] \<Rightarrow> [[c]] | p # ps \<Rightarrow> (c # p) # ps)"

lemma split_all_nonempty [simp]: "split_all d s \<noteq> []"
  by (cases s) (auto split: list.splits)

definition ends_with :: "string \<Rightarrow> string \<Rightarrow> bool" where
  "ends_with p s \<longleftrightarrow> starts_with (rev p) (rev s)"

text \<open>The translation of line ends when a file is read as text.\<close>

fun universal_newlines :: "string \<Rightarrow> string" where
  "universal_newlines [] = []"
| "universal_newlines (c # cs) =
     (if c = CHR 0x0D then
        CHR 0x0A # (case cs of d # ds \<Rightarrow> if d = CHR 0x0A then universal_newlines ds else universal_newlines cs
          | [] \<Rightarrow> [])
      else c # universal_newlines cs)"

lemma universal_newlines_id: "CHR 0x0D \<notin> set xs \<Longrightarrow> universal_newlines xs = xs"
  by (induction xs rule: universal_newlines.induct) auto

text \<open>
  \<open>str.encode("utf-8")\<close> on code points below 256: one byte for ASCII, two otherwise.
\<close>

definition utf8_char :: "char \<Rightarrow> bytes" where
  "utf8_char c = (let n = of_char c :: nat in
     if n < 128 then [c] else [char_of (192 + n div 64), char_of (128 + n mod 64)])"

definition utf8 :: "string \<Rightarrow> bytes" where
  "utf8 s = concat (map utf8_char s)"

lemma utf8_unique:
  assumes "utf8_char c @ x = utf8_char d @ y"
  shows "c = d \<and> x = y"
proof -
  let ?c = "of_char c :: nat" and ?d = "of_char d :: nat"
  have bound: "?c < 256" "?d < 256" by simp_all
  have lead: "of_char (char_of (192 + n div 64) :: char) = 192 + n div 64"
    "of_char (char_of (128 + n mod 64) :: char) = 128 + n mod 64" if "n < 256" for n :: nat
    using that by (simp_all add: less_mult_imp_div_less)
  have join: "m div 64 = n div 64 \<Longrightarrow> m mod 64 = n mod 64 \<Longrightarrow> m = n" for m n :: nat
    by (metis div_mult_mod_eq)
  show ?thesis
  proof (cases "?c < 128"; cases "?d < 128")
    assume small: "?c < 128" "?d < 128"
    then show ?thesis using assms by (simp add: utf8_char_def Let_def)
  next
    assume "?c < 128" "\<not> ?d < 128"
    then have "c = char_of (192 + ?d div 64)" using assms by (simp add: utf8_char_def Let_def)
    with lead(1) [OF bound(2)] \<open>?c < 128\<close> show ?thesis by simp
  next
    assume "\<not> ?c < 128" "?d < 128"
    then have "d = char_of (192 + ?c div 64)" using assms by (simp add: utf8_char_def Let_def)
    with lead(1) [OF bound(1)] \<open>?d < 128\<close> show ?thesis by simp
  next
    assume "\<not> ?c < 128" "\<not> ?d < 128"
    then have "(char_of (192 + ?c div 64) :: char) = char_of (192 + ?d div 64)"
      "(char_of (128 + ?c mod 64) :: char) = char_of (128 + ?d mod 64)" and rest: "x = y"
      using assms by (simp_all add: utf8_char_def Let_def)
    then have "?c div 64 = ?d div 64" "?c mod 64 = ?d mod 64"
      using lead [OF bound(1)] lead [OF bound(2)] by (metis add_left_cancel)+
    then have "?c = ?d" by (rule join)
    with rest show ?thesis by simp
  qed
qed

lemma utf8_char_nonempty [simp]: "utf8_char c \<noteq> []"
  by (simp add: utf8_char_def Let_def)

lemma utf8_inj: "utf8 s = utf8 t \<longleftrightarrow> s = t"
proof (induction s arbitrary: t)
  case Nil
  then show ?case by (cases t) (simp_all add: utf8_def)
next
  case (Cons c s)
  show ?case
  proof (cases t)
    case Nil
    then show ?thesis by (simp add: utf8_def)
  next
    case t: (Cons d u)
    have "utf8 (c # s) = utf8 (d # u) \<longleftrightarrow> c = d \<and> utf8 s = utf8 u"
      using utf8_unique [of c "utf8 s" d "utf8 u"] by (auto simp: utf8_def)
    with Cons t show ?thesis by simp
  qed
qed

section \<open>Identifiers as text\<close>

text \<open>\<open>str(uuid)\<close>: 32 lower-case hexadecimal digits in groups of 8, 4, 4, 4 and 12.\<close>

definition uuid_str :: "uuid \<Rightarrow> string" where
  "uuid_str u = (let h = hex_digits 32 (unat u) in
     take 8 h @ ''-'' @ take 4 (drop 8 h) @ ''-'' @ take 4 (drop 12 h) @ ''-'' @
     take 4 (drop 16 h) @ ''-'' @ drop 20 h)"

lemma length_uuid_str [simp]: "length (uuid_str u) = 36"
  by (simp add: uuid_str_def Let_def)

lemma uuid_str_inj: "uuid_str u = uuid_str v \<longleftrightarrow> u = v"
proof
  assume eq: "uuid_str u = uuid_str v"
  let ?g = "hex_digits 32 (unat u)" and ?h = "hex_digits 32 (unat v)"
  have parts: "take 8 ?g = take 8 ?h" "take 4 (drop 8 ?g) = take 4 (drop 8 ?h)"
    "take 4 (drop 12 ?g) = take 4 (drop 12 ?h)" "take 4 (drop 16 ?g) = take 4 (drop 16 ?h)"
    "drop 20 ?g = drop 20 ?h"
    using eq by (auto simp: uuid_str_def Let_def)
  have join: "h = take 8 h @ take 4 (drop 8 h) @ take 4 (drop 12 h) @ take 4 (drop 16 h) @ drop 20 h"
    for h :: string
  proof -
    have "drop 16 h = take 4 (drop 16 h) @ drop 20 h" using append_take_drop_id [of 4 "drop 16 h"] by simp
    moreover have "drop 12 h = take 4 (drop 12 h) @ drop 16 h"
      using append_take_drop_id [of 4 "drop 12 h"] by simp
    moreover have "drop 8 h = take 4 (drop 8 h) @ drop 12 h"
      using append_take_drop_id [of 4 "drop 8 h"] by simp
    ultimately show ?thesis by (metis append_take_drop_id)
  qed
  have "?g = ?h" using join [of ?g] join [of ?h] parts by simp
  moreover have "unat w < 16 ^ 32" for w :: uuid
    using unsigned_less [of w, where 'a = nat] by simp
  ultimately have "unat u = unat v" by (metis hex_digits_inj)
  then show "u = v" by (simp add: word_unat_eq_iff)
qed simp

section \<open>State machines\<close>

text \<open>
  The states a machine can reach, and the one locale through which every component states its
  invariant: an initial condition that establishes it and steps that keep it.
\<close>

inductive reach :: "('s \<Rightarrow> bool) \<Rightarrow> ('s \<Rightarrow> 's \<Rightarrow> bool) \<Rightarrow> 's \<Rightarrow> bool" for ini stp where
  reach_init: "ini s \<Longrightarrow> reach ini stp s"
| reach_step: "reach ini stp s \<Longrightarrow> stp s t \<Longrightarrow> reach ini stp t"

inductive steps :: "('s \<Rightarrow> 's \<Rightarrow> bool) \<Rightarrow> 's \<Rightarrow> 's \<Rightarrow> bool" for stp where
  steps_refl: "steps stp s s"
| steps_step: "steps stp s t \<Longrightarrow> stp t u \<Longrightarrow> steps stp s u"

lemma steps_trans: "steps stp t u \<Longrightarrow> steps stp s t \<Longrightarrow> steps stp s u"
  by (induction rule: steps.induct) (auto intro: steps.intros)

lemma reach_steps: "steps stp s t \<Longrightarrow> reach ini stp s \<Longrightarrow> reach ini stp t"
  by (induction rule: steps.induct) (auto intro: reach.intros)

locale invariant_machine =
  fixes ini :: "'s \<Rightarrow> bool" and stp :: "'s \<Rightarrow> 's \<Rightarrow> bool" and inv :: "'s \<Rightarrow> bool"
  assumes establishes: "ini s \<Longrightarrow> inv s"
    and keeps: "inv s \<Longrightarrow> stp s t \<Longrightarrow> inv t"
begin

lemma steps_keep: "steps stp s t \<Longrightarrow> inv s \<Longrightarrow> inv t"
  by (induction rule: steps.induct) (auto intro: keeps)

lemma reach_inv: "reach ini stp s \<Longrightarrow> inv s"
  by (induction rule: reach.induct) (auto intro: establishes keeps)

end

text \<open>A property of one object that no step takes away again.\<close>

locale stable_property =
  fixes stp :: "'s \<Rightarrow> 's \<Rightarrow> bool" and P :: "'s \<Rightarrow> bool"
  assumes stable: "P s \<Longrightarrow> stp s t \<Longrightarrow> P t"
begin

lemma stable_steps: "steps stp s t \<Longrightarrow> P s \<Longrightarrow> P t"
  by (induction rule: steps.induct) (auto intro: stable)

end

end
