(* ===== verification/Errors.thy ===== *)
theory Errors
  imports Prelude
begin

text \<open>
  The exceptions of the program (\<open>errors.py\<close>, \<open>application/errors.py\<close>,
  \<open>admin/auth.py\<close>, \<open>policy/models.py\<close>) as one datatype, their class hierarchy, and the three
  boundaries that turn an exception into a stable code: the scheduler's run results, the MCP
  tools and the admin API's JSON responses.
\<close>

section \<open>Exceptions and their classes\<close>

type_synonym metadata = "int \<times> string option" \<comment> \<open>\<open>status_code\<close> and optional \<open>error_code\<close>\<close>

datatype exn =
    AccountNotFound
  | AccountIdentityConflict
  | AccountDisabled
  | AccountPaused
  | AccountRemoved
  | AuthenticationRequired
  | PolicyUnavailable
  | ReconciliationRequired
  | PlanPreconditionFailed
  | PolicyConflict
  | SessionRejected
  | ContractChanged
  | ClientVersionRejected
  | InventoryFull
  | InsufficientResource "metadata option"
  | GameConflict "string option"
  | GameRateLimited "rat option"
  | AmbiguousMutation string
  | GameUnavailable string
  | GameSchemaMismatch string "metadata option"
  | GameHttpError string "metadata option"
  | PlanInProgress
  | GameContractChanged
  | IdleReconciliationRequired
  | PasswordTooShort
  | SetupAlreadyComplete
  | Unauthorized
  | InvalidSecret
  | ValueErr
  | TypeErr
  | RuntimeErr
  | OtherException
  | CancelledError

text \<open>\<open>OtherException\<close> stands for every other subclass of \<open>Exception\<close> that no handler of the
  source names (a database error, a transport error of a library).\<close>

datatype exn_class =
    C_BaseException | C_Exception | C_RuntimeError | C_ValueError | C_TypeError | C_CancelledError
  | C_AccountError | C_GameError | C_ApplicationError | C_AdminAuthError | C_InvalidSecret
  | C_AccountNotFound | C_AccountIdentityConflict | C_AccountDisabled | C_AccountPaused
  | C_AccountRemoved | C_AuthenticationRequired | C_PolicyUnavailable | C_ReconciliationRequired
  | C_PlanPreconditionFailed | C_PolicyConflict
  | C_SessionRejected | C_ContractChanged | C_ClientVersionRejected | C_InventoryFull
  | C_InsufficientResource | C_GameConflict | C_GameRateLimited | C_AmbiguousMutation
  | C_GameUnavailable | C_GameSchemaMismatch | C_GameHttpError
  | C_PlanInProgress | C_GameContractChanged | C_IdleReconciliationRequired
  | C_PasswordTooShort | C_SetupAlreadyComplete | C_Unauthorized | C_Other

fun class_of :: "exn \<Rightarrow> exn_class" where
  "class_of AccountNotFound = C_AccountNotFound"
| "class_of AccountIdentityConflict = C_AccountIdentityConflict"
| "class_of AccountDisabled = C_AccountDisabled"
| "class_of AccountPaused = C_AccountPaused"
| "class_of AccountRemoved = C_AccountRemoved"
| "class_of AuthenticationRequired = C_AuthenticationRequired"
| "class_of PolicyUnavailable = C_PolicyUnavailable"
| "class_of ReconciliationRequired = C_ReconciliationRequired"
| "class_of PlanPreconditionFailed = C_PlanPreconditionFailed"
| "class_of PolicyConflict = C_PolicyConflict"
| "class_of SessionRejected = C_SessionRejected"
| "class_of ContractChanged = C_ContractChanged"
| "class_of ClientVersionRejected = C_ClientVersionRejected"
| "class_of InventoryFull = C_InventoryFull"
| "class_of (InsufficientResource m) = C_InsufficientResource"
| "class_of (GameConflict c) = C_GameConflict"
| "class_of (GameRateLimited r) = C_GameRateLimited"
| "class_of (AmbiguousMutation s) = C_AmbiguousMutation"
| "class_of (GameUnavailable s) = C_GameUnavailable"
| "class_of (GameSchemaMismatch s m) = C_GameSchemaMismatch"
| "class_of (GameHttpError s m) = C_GameHttpError"
| "class_of PlanInProgress = C_PlanInProgress"
| "class_of GameContractChanged = C_GameContractChanged"
| "class_of IdleReconciliationRequired = C_IdleReconciliationRequired"
| "class_of PasswordTooShort = C_PasswordTooShort"
| "class_of SetupAlreadyComplete = C_SetupAlreadyComplete"
| "class_of Unauthorized = C_Unauthorized"
| "class_of InvalidSecret = C_InvalidSecret"
| "class_of ValueErr = C_ValueError"
| "class_of TypeErr = C_TypeError"
| "class_of RuntimeErr = C_RuntimeError"
| "class_of OtherException = C_Other"
| "class_of CancelledError = C_CancelledError"

text \<open>The base class each class is declared with.\<close>

definition base_class :: "exn_class \<Rightarrow> exn_class option" where
  "base_class c =
     (if c = C_BaseException then None
      else if c \<in> {C_Exception, C_CancelledError} then Some C_BaseException
      else if c \<in> {C_RuntimeError, C_ValueError, C_TypeError, C_Other} then Some C_Exception
      else if c \<in> {C_AccountError, C_GameError, C_ApplicationError, C_AdminAuthError}
        then Some C_RuntimeError
      else if c = C_InvalidSecret then Some C_ValueError
      else if c \<in> {C_PlanInProgress, C_GameContractChanged, C_IdleReconciliationRequired}
        then Some C_ApplicationError
      else if c \<in> {C_PasswordTooShort, C_SetupAlreadyComplete, C_Unauthorized}
        then Some C_AdminAuthError
      else if c \<in> {C_AccountNotFound, C_AccountIdentityConflict, C_AccountDisabled,
          C_AccountPaused, C_AccountRemoved, C_AuthenticationRequired, C_PolicyUnavailable,
          C_ReconciliationRequired, C_PlanPreconditionFailed, C_PolicyConflict}
        then Some C_AccountError
      else Some C_GameError)"

text \<open>A class is at most five levels deep, so five look-ups of the base class reach the root.\<close>

fun mro :: "nat \<Rightarrow> exn_class \<Rightarrow> exn_class list" where
  "mro 0 c = []"
| "mro (Suc k) c = c # (case base_class c of None \<Rightarrow> [] | Some d \<Rightarrow> mro k d)"

definition instance_of :: "exn \<Rightarrow> exn_class \<Rightarrow> bool" where
  "instance_of e c \<longleftrightarrow> c \<in> set (mro 5 (class_of e))"

lemma mro_complete: "last (mro 5 c) = C_BaseException"
  by (cases c) (simp_all add: base_class_def eval_nat_numeral)

lemma instance_of_simps:
  "instance_of e C_Exception \<longleftrightarrow> e \<noteq> CancelledError"
  "instance_of e C_ApplicationError \<longleftrightarrow>
     e \<in> {PlanInProgress, GameContractChanged, IdleReconciliationRequired}"
  "instance_of e C_AdminAuthError \<longleftrightarrow> e \<in> {PasswordTooShort, SetupAlreadyComplete, Unauthorized}"
  "instance_of e C_ValueError \<longleftrightarrow> e \<in> {InvalidSecret, ValueErr}"
  by (cases e; simp add: instance_of_def base_class_def eval_nat_numeral)+

definition is_account_error :: "exn \<Rightarrow> bool" where
  "is_account_error e \<longleftrightarrow> instance_of e C_AccountError"

definition is_game_error :: "exn \<Rightarrow> bool" where
  "is_game_error e \<longleftrightarrow> instance_of e C_GameError"

lemma is_account_error_simps [simp]:
  "is_account_error AccountNotFound" "is_account_error AccountIdentityConflict"
  "is_account_error AccountDisabled" "is_account_error AccountPaused"
  "is_account_error AccountRemoved" "is_account_error AuthenticationRequired"
  "is_account_error PolicyUnavailable" "is_account_error ReconciliationRequired"
  "is_account_error PlanPreconditionFailed" "is_account_error PolicyConflict"
  "\<not> is_account_error InvalidSecret" "\<not> is_account_error SessionRejected"
  "\<not> is_account_error (GameConflict c)" "\<not> is_account_error (AmbiguousMutation s)"
  "\<not> is_account_error CancelledError"
  by (simp_all add: is_account_error_def instance_of_def base_class_def eval_nat_numeral)

lemma is_game_error_simps [simp]:
  "is_game_error SessionRejected" "is_game_error ContractChanged"
  "is_game_error ClientVersionRejected" "is_game_error InventoryFull"
  "is_game_error (InsufficientResource m)" "is_game_error (GameConflict c)"
  "is_game_error (GameRateLimited r)" "is_game_error (AmbiguousMutation s)"
  "is_game_error (GameUnavailable s)" "is_game_error (GameSchemaMismatch s m)"
  "is_game_error (GameHttpError s m)"
  "\<not> is_game_error PlanPreconditionFailed" "\<not> is_game_error AuthenticationRequired"
  "\<not> is_game_error ReconciliationRequired" "\<not> is_game_error CancelledError"
  "\<not> is_game_error InvalidSecret"
  by (simp_all add: is_game_error_def instance_of_def base_class_def eval_nat_numeral)

section \<open>Stable error codes\<close>

text \<open>The codes the classes below \<open>ApplicationError\<close> and \<open>AdminAuthError\<close> carry.\<close>

fun carried_code :: "exn \<Rightarrow> string" where
  "carried_code PlanInProgress = ''plan_in_progress''"
| "carried_code GameContractChanged = ''game_contract_changed''"
| "carried_code IdleReconciliationRequired = ''reconciliation_required''"
| "carried_code PasswordTooShort = ''password_too_short''"
| "carried_code SetupAlreadyComplete = ''setup_already_complete''"
| "carried_code Unauthorized = ''unauthorized''"
| "carried_code e = []"

text \<open>The first entry of a table whose class the exception is an instance of.\<close>

fun first_match :: "(exn_class \<times> 'a) list \<Rightarrow> exn \<Rightarrow> 'a option" where
  "first_match [] e = None"
| "first_match ((c, x) # rest) e = (if instance_of e c then Some x else first_match rest e)"

definition scheduler_error_codes :: "(exn_class \<times> string) list" where
  "scheduler_error_codes =
    [(C_AccountNotFound, ''account_not_found''),
     (C_AccountIdentityConflict, ''account_identity_conflict''),
     (C_AccountDisabled, ''account_disabled''),
     (C_AccountPaused, ''account_paused''),
     (C_AccountRemoved, ''account_removed''),
     (C_AuthenticationRequired, ''authentication_required''),
     (C_PolicyUnavailable, ''policy_unavailable''),
     (C_ReconciliationRequired, ''reconciliation_required''),
     (C_PlanPreconditionFailed, ''plan_precondition_failed''),
     (C_SessionRejected, ''session_rejected''),
     (C_ClientVersionRejected, ''game_client_version_rejected''),
     (C_ContractChanged, ''game_contract_changed''),
     (C_GameSchemaMismatch, ''game_contract_changed''),
     (C_InventoryFull, ''inventory_full''),
     (C_InsufficientResource, ''insufficient_resource''),
     (C_GameConflict, ''game_conflict''),
     (C_GameRateLimited, ''game_rate_limited''),
     (C_AmbiguousMutation, ''ambiguous_mutation''),
     (C_GameUnavailable, ''game_unavailable''),
     (C_GameHttpError, ''game_unavailable'')]"

definition error_code :: "exn \<Rightarrow> string" where
  "error_code e =
     (if instance_of e C_ApplicationError then carried_code e
      else case first_match scheduler_error_codes e of
        Some code \<Rightarrow> code | None \<Rightarrow> ''internal_error'')"

definition mcp_error_codes :: "(exn_class \<times> string) list" where
  "mcp_error_codes =
    [(C_AccountNotFound, ''account_not_found''),
     (C_AccountIdentityConflict, ''account_identity_conflict''),
     (C_AccountDisabled, ''account_disabled''),
     (C_AccountPaused, ''account_paused''),
     (C_AccountRemoved, ''account_removed''),
     (C_AuthenticationRequired, ''authentication_required''),
     (C_PolicyUnavailable, ''policy_unavailable''),
     (C_ReconciliationRequired, ''reconciliation_required''),
     (C_PlanPreconditionFailed, ''plan_precondition_failed''),
     (C_SessionRejected, ''session_rejected''),
     (C_ClientVersionRejected, ''game_client_version_rejected''),
     (C_ContractChanged, ''game_contract_changed''),
     (C_GameSchemaMismatch, ''game_contract_changed''),
     (C_InventoryFull, ''inventory_full''),
     (C_InsufficientResource, ''insufficient_resource''),
     (C_GameConflict, ''game_conflict''),
     (C_GameRateLimited, ''game_rate_limited''),
     (C_AmbiguousMutation, ''ambiguous_mutation''),
     (C_GameUnavailable, ''game_unavailable''),
     (C_GameHttpError, ''game_unavailable'')]"

text \<open>
  \<open>_invoke\<close> of the MCP adapter: a value, a tool error with a code, or, for what is no
  \<open>Exception\<close>, the cancellation itself.
\<close>

datatype 'a tool_outcome = ToolResult 'a | ToolError string | ToolCancelled

fun mcp_invoke :: "(exn, 'a) result \<Rightarrow> 'a tool_outcome" where
  "mcp_invoke (Inr x) = ToolResult x"
| "mcp_invoke (Inl e) =
     (if instance_of e C_ApplicationError then ToolError (carried_code e)
      else if instance_of e C_Exception then
        ToolError (case first_match mcp_error_codes e of
          Some code \<Rightarrow> code | None \<Rightarrow> ''internal_error'')
      else ToolCancelled)"

definition http_error_codes :: "(exn_class \<times> string \<times> int) list" where
  "http_error_codes =
    [(C_AccountNotFound, ''account_not_found'', 404),
     (C_AccountIdentityConflict, ''account_identity_conflict'', 409),
     (C_AccountDisabled, ''account_disabled'', 409),
     (C_AccountPaused, ''account_paused'', 409),
     (C_AccountRemoved, ''account_removed'', 409),
     (C_AuthenticationRequired, ''authentication_required'', 409),
     (C_PolicyUnavailable, ''policy_unavailable'', 409),
     (C_ReconciliationRequired, ''reconciliation_required'', 409),
     (C_PlanPreconditionFailed, ''plan_precondition_failed'', 409),
     (C_SessionRejected, ''session_rejected'', 409),
     (C_ClientVersionRejected, ''game_client_version_rejected'', 409),
     (C_ContractChanged, ''game_contract_changed'', 409),
     (C_GameSchemaMismatch, ''game_contract_changed'', 409),
     (C_InventoryFull, ''inventory_full'', 409),
     (C_InsufficientResource, ''insufficient_resource'', 409),
     (C_GameConflict, ''game_conflict'', 409),
     (C_GameRateLimited, ''game_rate_limited'', 429),
     (C_AmbiguousMutation, ''ambiguous_mutation'', 409),
     (C_GameUnavailable, ''game_unavailable'', 503),
     (C_GameHttpError, ''game_unavailable'', 503)]"

text \<open>\<open>error_response\<close> of the admin API: the code in the JSON body and the status.\<close>

definition error_response :: "exn \<Rightarrow> string \<times> int" where
  "error_response e =
     (if instance_of e C_AdminAuthError then
        (carried_code e,
         if instance_of e C_PasswordTooShort then 422
         else if instance_of e C_Unauthorized then 401 else 409)
      else if instance_of e C_ApplicationError then (carried_code e, 409)
      else if instance_of e C_ValueError then (''invalid_request'', 422)
      else case first_match http_error_codes e of
        Some (code, status) \<Rightarrow> (code, status)
      | None \<Rightarrow> (''internal_error'', 500))"

text \<open>\<open>type(error).__name__\<close> of the exceptions the account service reports by class name.\<close>

fun error_name :: "exn \<Rightarrow> string" where
  "error_name AccountNotFound = ''AccountNotFound''"
| "error_name AccountIdentityConflict = ''AccountIdentityConflict''"
| "error_name AccountDisabled = ''AccountDisabled''"
| "error_name AccountPaused = ''AccountPaused''"
| "error_name AccountRemoved = ''AccountRemoved''"
| "error_name AuthenticationRequired = ''AuthenticationRequired''"
| "error_name PolicyUnavailable = ''PolicyUnavailable''"
| "error_name ReconciliationRequired = ''ReconciliationRequired''"
| "error_name PlanPreconditionFailed = ''PlanPreconditionFailed''"
| "error_name PolicyConflict = ''PolicyConflict''"
| "error_name SessionRejected = ''SessionRejected''"
| "error_name ContractChanged = ''ContractChanged''"
| "error_name ClientVersionRejected = ''ClientVersionRejected''"
| "error_name InventoryFull = ''InventoryFull''"
| "error_name (InsufficientResource m) = ''InsufficientResource''"
| "error_name (GameConflict c) = ''GameConflict''"
| "error_name (GameRateLimited r) = ''GameRateLimited''"
| "error_name (AmbiguousMutation s) = ''AmbiguousMutation''"
| "error_name (GameUnavailable s) = ''GameUnavailable''"
| "error_name (GameSchemaMismatch s m) = ''GameSchemaMismatch''"
| "error_name (GameHttpError s m) = ''GameHttpError''"
| "error_name e = ''Exception''"

lemmas code_tables = scheduler_error_codes_def mcp_error_codes_def http_error_codes_def

lemma mcp_invoke_code:
  "e \<noteq> CancelledError \<Longrightarrow> mcp_invoke (Inl e) = ToolError (error_code e)"
  by (simp add: error_code_def instance_of_simps code_tables)

lemma error_response_code:
  "\<not> instance_of e C_AdminAuthError \<Longrightarrow> \<not> instance_of e C_ValueError \<Longrightarrow>
   fst (error_response e) = error_code e"
  by (cases e) (simp_all add: error_response_def error_code_def code_tables instance_of_def
      base_class_def eval_nat_numeral)

lemma error_response_status:
  "snd (error_response e) \<in> {401, 404, 409, 422, 429, 500, 503}"
  by (cases e) (simp_all add: error_response_def code_tables instance_of_def
      base_class_def eval_nat_numeral)



text \<open>
  A stored secret that cannot be decrypted is the service's own failure, and the scheduler
  reports it as \<open>internal_error\<close>; the admin API blames the request for it (422
  \<open>invalid_request\<close>), because \<open>InvalidSecret\<close> is a \<open>ValueError\<close> and that branch comes first.
\<close>

lemma undecryptable_secret_blames_request:
  "error_code InvalidSecret = ''internal_error'' \<and>
   error_response InvalidSecret = (''invalid_request'', 422)"
  by (simp add: error_code_def error_response_def code_tables instance_of_def base_class_def
      eval_nat_numeral)

end
