(* ===== verification/Json.thy ===== *)
theory Json
  imports Errors
begin

text \<open>
  JSON values, the canonical encoding and the fingerprint of \<open>policy/plans.py\<close>, and the
  redaction of \<open>security/redaction.py\<close>. A Python dict is the list of its items in insertion
  order; its keys are distinct. SHA-256 is a parameter \<open>sha\<close> of the fingerprint.
\<close>

section \<open>Values\<close>

datatype json =
    JNull
  | JBool bool
  | JInt int
  | JFloat rat
  | JStr string
  | JArr "json list"
  | JObj "(string \<times> json) list"
  | JOther \<comment> \<open>a value of any other Python type\<close>

text \<open>Equality of dicts whose values are compared by \<open>==\<close>: the order of the items is ignored.\<close>

definition dict_eq :: "(string \<times> json) list \<Rightarrow> (string \<times> json) list \<Rightarrow> bool" where
  "dict_eq a b \<longleftrightarrow> length a = length b \<and> list_all (\<lambda>(k, v). map_of b k = Some v) a"

definition dict_get :: "(string \<times> json) list \<Rightarrow> string \<Rightarrow> json option" where
  "dict_get kvs k = map_of kvs k"

text \<open>\<open>d[k] = v\<close>: an existing key keeps its place.\<close>

definition dict_set :: "(string \<times> json) list \<Rightarrow> string \<Rightarrow> json \<Rightarrow> (string \<times> json) list" where
  "dict_set kvs k v =
     (if k \<in> fst ` set kvs then map (\<lambda>(k', v'). (k', if k' = k then v else v')) kvs
      else kvs @ [(k, v)])"

lemma length_dict_set: "length (dict_set kvs k v) \<le> Suc (length kvs)"
  by (simp add: dict_set_def)

lemma set_dict_set: "set (dict_set kvs k v) \<subseteq> insert (k, v) (set kvs)"
  by (auto simp: dict_set_def split: if_splits)

section \<open>Normalisation\<close>

fun normalize :: "json \<Rightarrow> (exn, json) result" where
  "normalize (JFloat q) = Inl TypeErr"
| "normalize JOther = Inl TypeErr"
| "normalize (JArr vs) = rbind (sequence (map normalize vs)) (\<lambda>ws. Inr (JArr ws))"
| "normalize (JObj kvs) =
     rbind (sequence (map (\<lambda>(k, v). rbind (normalize v) (\<lambda>w. Inr (k, w))) kvs)) (\<lambda>ws. Inr (JObj ws))"
| "normalize v = Inr v"

text \<open>The values that have a canonical encoding.\<close>

fun canonical_value :: "json \<Rightarrow> bool" where
  "canonical_value (JFloat q) = False"
| "canonical_value JOther = False"
| "canonical_value (JArr vs) = list_all canonical_value vs"
| "canonical_value (JObj kvs) = list_all (\<lambda>(k, v). canonical_value v) kvs"
| "canonical_value v = True"

lemma normalize_canonical: "canonical_value v \<Longrightarrow> normalize v = Inr v"
proof (induction v rule: normalize.induct)
  case (3 vs)
  then have "sequence (map normalize vs) = Inr (map id vs)"
    by (intro sequence_all) (auto simp: list_all_iff)
  then show ?case by simp
next
  case (4 kvs)
  then have "sequence (map (\<lambda>(k, v). rbind (normalize v) (\<lambda>w. Inr (k, w))) kvs) = Inr (map id kvs)"
    by (intro sequence_all) (fastforce simp: list_all_iff)
  then show ?case by simp
qed auto

lemma normalize_Inr: "normalize v = Inr w \<Longrightarrow> canonical_value v \<and> w = v"
proof (induction v arbitrary: w rule: normalize.induct)
  case (3 vs)
  then obtain ws where ws: "map normalize vs = map Inr ws" "w = JArr ws"
    by (auto simp: result_simps)
  then have "\<And>i. i < length vs \<Longrightarrow> normalize (vs ! i) = Inr (ws ! i)"
    by (metis length_map nth_map)
  then have "\<And>i. i < length vs \<Longrightarrow> canonical_value (vs ! i) \<and> ws ! i = vs ! i"
    using "3.IH" nth_mem by blast
  moreover have "length ws = length vs" using ws(1) by (metis length_map)
  ultimately show ?case using ws(2) by (auto simp: list_all_length intro: nth_equalityI)
next
  case (4 kvs)
  then obtain ws where ws: "map (\<lambda>(k, v). rbind (normalize v) (\<lambda>w. Inr (k, w))) kvs = map Inr ws"
    "w = JObj ws" by (auto simp: result_simps)
  have "canonical_value (snd (kvs ! i)) \<and> ws ! i = kvs ! i" if i: "i < length kvs" for i
  proof -
    obtain k v where kv: "kvs ! i = (k, v)" by force
    have "length ws = length kvs" using ws(1) by (metis length_map)
    then have "rbind (normalize v) (\<lambda>w. Inr (k, w)) = Inr (ws ! i)"
      using i kv arg_cong [OF ws(1), of "\<lambda>l. l ! i"] by simp
    then obtain w' where "normalize v = Inr w'" "ws ! i = (k, w')" by (auto simp: result_simps)
    moreover have "(k, v) \<in> set kvs" using i kv nth_mem by metis
    ultimately show ?thesis using "4.IH" [of "(k, v)"] kv by auto
  qed
  moreover have "length ws = length kvs" using ws(1) by (metis length_map)
  ultimately show ?case
    using ws(2) by (auto simp: list_all_length case_prod_beta intro: nth_equalityI)
qed auto

lemma normalize_iff: "normalize v = Inr w \<longleftrightarrow> canonical_value v \<and> w = v"
  using normalize_Inr normalize_canonical by blast

section \<open>Printing\<close>

abbreviation backslash :: char where
  "backslash \<equiv> CHR 0x5C"

abbreviation quote_mark :: char where
  "quote_mark \<equiv> CHR 0x22"

text \<open>
  The escapes of \<open>json.dumps\<close>. With \<open>ensure_ascii=True\<close> (\<open>ascii\<close>) every character outside
  the printable ASCII range is written as \<open>\u00XX\<close>, otherwise only control characters are.
\<close>

definition escape_char :: "bool \<Rightarrow> char \<Rightarrow> string" where
  "escape_char ascii c = (let n = of_char c :: nat in
     if c = backslash then [backslash, backslash]
     else if c = quote_mark then [backslash, quote_mark]
     else if n = 8 then [backslash, CHR ''b'']
     else if n = 12 then [backslash, CHR ''f'']
     else if n = 10 then [backslash, CHR ''n'']
     else if n = 13 then [backslash, CHR ''r'']
     else if n = 9 then [backslash, CHR ''t'']
     else if n < 32 \<or> (ascii \<and> 127 \<le> n)
       then [backslash, CHR ''u'', CHR ''0'', CHR ''0'', hexdigit (n div 16), hexdigit (n mod 16)]
     else [c])"

definition quote :: "bool \<Rightarrow> string \<Rightarrow> string" where
  "quote ascii s = quote_mark # concat (map (escape_char ascii) s) @ [quote_mark]"

fun join :: "string \<Rightarrow> string list \<Rightarrow> string" where
  "join sep [] = []"
| "join sep [x] = x"
| "join sep (x # y # r) = x @ sep @ join sep (y # r)"

text \<open>Compact printing, items in the order of the list.\<close>

fun print_json :: "bool \<Rightarrow> json \<Rightarrow> string" where
  "print_json ascii JNull = ''null''"
| "print_json ascii (JBool b) = (if b then ''true'' else ''false'')"
| "print_json ascii (JInt i) = show_int i"
| "print_json ascii (JStr s) = quote ascii s"
| "print_json ascii (JArr vs) = ''['' @ join '','' (map (print_json ascii) vs) @ '']''"
| "print_json ascii (JObj kvs) =
     CHR ''{'' # join '','' (map (\<lambda>(k, v). quote ascii k @ '':'' @ print_json ascii v) kvs) @ [CHR ''}'']"
| "print_json ascii v = []" \<comment> \<open>never reached: \<open>normalize\<close> refuses these first\<close>

text \<open>\<open>sort_keys=True\<close>.\<close>

fun sort_keys :: "json \<Rightarrow> json" where
  "sort_keys (JArr vs) = JArr (map sort_keys vs)"
| "sort_keys (JObj kvs) = JObj (sort_key fst (map (\<lambda>(k, v). (k, sort_keys v)) kvs))"
| "sort_keys v = v"

definition dumps :: "bool \<Rightarrow> json \<Rightarrow> string" where
  "dumps ascii v = print_json ascii (sort_keys v)"

definition canonical_json :: "json \<Rightarrow> (exn, bytes) result" where
  "canonical_json v = rbind (normalize v) (\<lambda>w. Inr (utf8 (dumps False w)))"

section \<open>Unique readability\<close>

definition unescape :: "string \<Rightarrow> char" where
  "unescape s = (case s of
     a # b # r \<Rightarrow>
       if a \<noteq> backslash then a
       else if b = CHR ''u'' then char_of (16 * hexval (r ! 2) + hexval (r ! 3))
       else if b = CHR ''b'' then char_of (8::nat)
       else if b = CHR ''f'' then char_of (12::nat)
       else if b = CHR ''n'' then char_of (10::nat)
       else if b = CHR ''r'' then char_of (13::nat)
       else if b = CHR ''t'' then char_of (9::nat)
       else b
   | [a] \<Rightarrow> a | [] \<Rightarrow> backslash)"

lemma char_of_eq: "(of_char c :: nat) = n \<Longrightarrow> char_of n = c"
  using char_of_char by blast

lemma unescape_escape: "unescape (escape_char ascii c @ x) = c"
proof -
  have "16 * ((of_char c :: nat) div 16) + (of_char c :: nat) mod 16 = of_char c" by simp
  moreover have "(of_char c :: nat) div 16 < 16" by (simp add: less_mult_imp_div_less)
  ultimately show ?thesis
    by (cases x) (auto simp: unescape_def escape_char_def Let_def char_of_eq)
qed

lemma escape_unique: "escape_char ascii c @ x = escape_char ascii d @ y \<Longrightarrow> c = d \<and> x = y"
  by (metis unescape_escape same_append_eq)

lemma escape_not_quote: "escape_char ascii c \<noteq> [] \<and> hd (escape_char ascii c) \<noteq> quote_mark"
  by (simp add: escape_char_def Let_def)

lemma escape_not_quote_Cons:
  "escape_char ascii c @ x \<noteq> quote_mark # y" "quote_mark # y \<noteq> escape_char ascii c @ x"
  using escape_not_quote [of ascii c] by (cases "escape_char ascii c"; force)+

lemma quote_unique [codec_inj]:
  "quote ascii s @ x = quote ascii t @ y \<Longrightarrow> s = t \<and> x = y"
proof (induction s arbitrary: t)
  case Nil
  then show ?case by (cases t) (auto simp: quote_def escape_not_quote_Cons)
next
  case (Cons c s)
  show ?case
  proof (cases t)
    case Nil
    then show ?thesis using Cons.prems by (auto simp: quote_def escape_not_quote_Cons)
  next
    case t: (Cons d u)
    with Cons.prems have "escape_char ascii c @ (concat (map (escape_char ascii) s) @ [quote_mark] @ x)
      = escape_char ascii d @ (concat (map (escape_char ascii) u) @ [quote_mark] @ y)"
      by (simp add: quote_def)
    then have "c = d" and "quote ascii s @ x = quote ascii u @ y"
      using escape_unique by (auto simp: quote_def)
    then show ?thesis using Cons.IH t by blast
  qed
qed

text \<open>What may follow a value inside a larger text: nothing, a comma or a closing bracket.\<close>

definition ends_value :: "string \<Rightarrow> bool" where
  "ends_value s \<longleftrightarrow> (case s of [] \<Rightarrow> True | c # _ \<Rightarrow> c \<in> {CHR '','', CHR '']'', CHR ''}''})"

lemma ends_value_number: "ends_value s \<Longrightarrow> ends_number s"
  by (auto simp: ends_value_def ends_number_def digits_def split: list.splits)

lemma ends_value_simps [simp]:
  "ends_value []" "ends_value (CHR '','' # s)" "ends_value (CHR '']'' # s)"
  "ends_value (CHR ''}'' # s)"
  by (simp_all add: ends_value_def)

lemma join_Cons: "join '','' (x # xs) = x @ concat (map (\<lambda>y. CHR '','' # y) xs)"
proof (induction xs arbitrary: x)
  case Nil
  then show ?case by simp
next
  case (Cons y ys)
  then show ?case by simp
qed

lemma join_tail_unique:
  assumes uniq: "\<And>a b u v. a \<in> set as \<Longrightarrow> b \<in> set bs \<Longrightarrow> ends_value u \<Longrightarrow> ends_value v \<Longrightarrow>
      p a @ u = p b @ v \<Longrightarrow> a = b \<and> u = v"
    and close: "close \<in> {CHR '']'', CHR ''}''}"
    and eq: "concat (map (\<lambda>y. CHR '','' # y) (map p as)) @ close # x =
      concat (map (\<lambda>y. CHR '','' # y) (map p bs)) @ close # y"
  shows "as = bs \<and> x = y"
  using uniq eq
proof (induction as arbitrary: bs)
  case Nil
  then show ?case using close by (cases bs) auto
next
  case (Cons a as)
  show ?case
  proof (cases bs)
    case Nil
    then show ?thesis using Cons.prems(2) close by auto
  next
    case bs: (Cons b bs')
    let ?t = "\<lambda>l z. concat (map (\<lambda>y. CHR '','' # y) (map p l)) @ close # z"
    have ends: "ends_value (?t l z)" for l z
      using close by (cases l) auto
    have "p a @ ?t as x = p b @ ?t bs' y" using Cons.prems(2) bs by simp
    then have "a = b" and "?t as x = ?t bs' y"
      using Cons.prems(1) [of a b "?t as x" "?t bs' y"] bs ends by auto
    moreover have "as = bs' \<and> x = y"
      by (rule Cons.IH) (use Cons.prems(1) bs \<open>?t as x = ?t bs' y\<close> in auto)
    ultimately show ?thesis using bs by simp
  qed
qed

lemma join_unique:
  assumes uniq: "\<And>a b u v. a \<in> set as \<Longrightarrow> b \<in> set bs \<Longrightarrow> ends_value u \<Longrightarrow> ends_value v \<Longrightarrow>
      p a @ u = p b @ v \<Longrightarrow> a = b \<and> u = v"
    and start: "\<And>a z. a \<in> set as \<union> set bs \<Longrightarrow> p a @ z \<noteq> [] \<and> hd (p a @ z) \<noteq> close"
    and close: "close \<in> {CHR '']'', CHR ''}''}"
    and eq: "join '','' (map p as) @ close # x = join '','' (map p bs) @ close # y"
  shows "as = bs \<and> x = y"
proof (cases as; cases bs)
  assume "as = []" "bs = []"
  then show ?thesis using eq by simp
next
  fix b bs' assume c: "as = []" "bs = b # bs'"
  then have "p b @ (concat (map (\<lambda>y. CHR '','' # y) (map p bs')) @ close # y) = close # x"
    using eq by (simp add: join_Cons)
  then show ?thesis using start [of b] c(2) by (metis list.sel(1) UnCI list.set_intros(1))
next
  fix a as' assume c: "as = a # as'" "bs = []"
  then have "p a @ (concat (map (\<lambda>y. CHR '','' # y) (map p as')) @ close # x) = close # y"
    using eq by (simp add: join_Cons)
  then show ?thesis using start [of a] c(1) by (metis list.sel(1) UnCI list.set_intros(1))
next
  fix a as' b bs' assume c: "as = a # as'" "bs = b # bs'"
  let ?t = "\<lambda>l z. concat (map (\<lambda>y. CHR '','' # y) (map p l)) @ close # z"
  have ends: "ends_value (?t l z)" for l z
    using close by (cases l) auto
  have "p a @ ?t as' x = p b @ ?t bs' y" using eq c by (simp add: join_Cons)
  then have "a = b" and "?t as' x = ?t bs' y"
    using uniq [of a b "?t as' x" "?t bs' y"] c ends by auto
  moreover have "as' = bs' \<and> x = y"
    by (rule join_tail_unique [where p = p and close = close])
      (use uniq c close \<open>?t as' x = ?t bs' y\<close> in auto)
  ultimately show ?thesis using c by simp
qed

text \<open>The first character of a printed value tells its constructor.\<close>

fun json_kind :: "json \<Rightarrow> nat" where
  "json_kind JNull = 0"
| "json_kind (JBool b) = (if b then 1 else 2)"
| "json_kind (JInt i) = 3"
| "json_kind (JStr s) = 4"
| "json_kind (JArr vs) = 5"
| "json_kind (JObj kvs) = 6"
| "json_kind v = 7"

definition kind_of_char :: "char \<Rightarrow> nat" where
  "kind_of_char c = (if c = CHR ''n'' then 0 else if c = CHR ''t'' then 1
     else if c = CHR ''f'' then 2 else if c = quote_mark then 4 else if c = CHR ''['' then 5
     else if c = CHR ''{'' then 6 else 3)"

lemma kind_of_digit: "c \<in> digits \<Longrightarrow> kind_of_char c = 3"
  by (auto simp: digits_def kind_of_char_def)

lemma show_int_kind: "kind_of_char (hd (show_int i @ x)) = 3"
proof (cases "i < 0")
  case True
  then show ?thesis by (simp add: show_int_def kind_of_char_def)
next
  case False
  have "hd (show_nat (nat i)) \<in> digits"
    using show_nat_digits [of "nat i"] by (metis show_nat_nonempty(1) hd_in_set subsetD)
  with False show ?thesis by (simp add: show_int_def kind_of_digit)
qed

lemma print_json_kind:
  assumes "canonical_value v"
  shows "print_json ascii v @ x \<noteq> []" "kind_of_char (hd (print_json ascii v @ x)) = json_kind v"
proof -
  have "print_json ascii v \<noteq> [] \<and> kind_of_char (hd (print_json ascii v @ x)) = json_kind v"
    using assms show_int_kind by (cases v) (simp_all add: quote_def kind_of_char_def)
  then show "print_json ascii v @ x \<noteq> []" "kind_of_char (hd (print_json ascii v @ x)) = json_kind v"
    by blast+
qed

lemma print_json_not_close:
  "canonical_value v \<Longrightarrow> print_json ascii v @ x \<noteq> [] \<and> hd (print_json ascii v @ x) \<noteq> CHR '']''"
proof -
  assume v: "canonical_value v"
  have "hd (print_json ascii v @ x) = CHR '']'' \<Longrightarrow> False"
  proof -
    assume h: "hd (print_json ascii v @ x) = CHR '']''"
    then have "json_kind v = 3"
      using print_json_kind(2) [OF v, of ascii x] by (simp add: kind_of_char_def)
    then obtain i where vi: "v = JInt i" using v by (cases v) (auto split: if_splits)
    show False
    proof (cases "i < 0")
      case True
      with vi h show False by (simp add: show_int_def)
    next
      case False
      have "hd (show_nat (nat i)) \<in> digits"
        using show_nat_digits [of "nat i"] by (metis show_nat_nonempty(1) hd_in_set subsetD)
      with False vi h show False by (simp add: show_int_def digits_def)
    qed
  qed
  then show ?thesis using print_json_kind(1) [OF v] by blast
qed

lemma print_json_unique [codec_inj]:
  assumes "canonical_value v" "canonical_value w" "ends_value x" "ends_value y"
    and "print_json ascii v @ x = print_json ascii w @ y"
  shows "v = w \<and> x = y"
  using assms
proof (induction v arbitrary: w x y)
  case (JArr vs)
  then have "json_kind w = 5" by (metis json_kind.simps(5) print_json_kind(2))
  then obtain ws where w: "w = JArr ws" using JArr.prems(2) by (cases w) (auto split: if_splits)
  have "vs = ws \<and> x = y"
  proof (rule join_unique [where p = "print_json ascii" and close = "CHR '']''"])
    fix a b u v
    assume "a \<in> set vs" "b \<in> set ws" "ends_value u" "ends_value v"
      and "print_json ascii a @ u = print_json ascii b @ v"
    then show "a = b \<and> u = v"
      using JArr.IH JArr.prems(1,2) w by (auto simp: list_all_iff)
  next
    fix a z assume "a \<in> set vs \<union> set ws"
    then show "print_json ascii a @ z \<noteq> [] \<and> hd (print_json ascii a @ z) \<noteq> CHR '']''"
      using JArr.prems(1,2) w by (intro print_json_not_close) (auto simp: list_all_iff)
  qed (use JArr.prems(5) w in auto)
  then show ?case using w by simp
next
  case (JObj kvs)
  then have "json_kind w = 6" by (metis json_kind.simps(6) print_json_kind(2))
  then obtain ws where w: "w = JObj ws" using JObj.prems(2) by (cases w) (auto split: if_splits)
  let ?p = "\<lambda>(k, v). quote ascii k @ '':'' @ print_json ascii v"
  have "kvs = ws \<and> x = y"
  proof (rule join_unique [where p = ?p and close = "CHR ''}''"])
    fix a b u v
    assume ab: "a \<in> set kvs" "b \<in> set ws" and uv: "ends_value u" "ends_value v"
      and eq: "?p a @ u = ?p b @ v"
    obtain k c l d where kc: "a = (k, c)" "b = (l, d)" by force
    have "k = l" and "print_json ascii c @ u = print_json ascii d @ v"
      using eq kc quote_unique [of ascii k "'':'' @ print_json ascii c @ u" l "'':'' @ print_json ascii d @ v"]
      by auto
    moreover have "canonical_value c" "canonical_value d"
      using JObj.prems(1,2) w ab kc by (auto simp: list_all_iff)
    ultimately have "c = d \<and> u = v"
      using JObj.IH [of a c d u v] ab kc uv by auto
    with \<open>k = l\<close> kc show "a = b \<and> u = v" by simp
  next
    fix a z assume "a \<in> set kvs \<union> set ws"
    show "?p a @ z \<noteq> [] \<and> hd (?p a @ z) \<noteq> CHR ''}''"
      by (auto simp: quote_def split: prod.splits)
  qed (use JObj.prems(5) w in auto)
  then show ?case using w by simp
next
  case (JInt i)
  then have "json_kind w = 3" by (metis json_kind.simps(3) print_json_kind(2))
  then obtain j where "w = JInt j" using JInt.prems(2) by (cases w) (auto split: if_splits)
  moreover from this have "show_int i @ x = show_int j @ y" using JInt.prems(5) by simp
  then have "i = j \<and> x = y"
    using JInt.prems(3,4) by (intro show_int_unique) (auto intro: ends_value_number)
  ultimately show ?case by simp
next
  case (JStr s)
  then have "json_kind w = 4" by (metis json_kind.simps(4) print_json_kind(2))
  then obtain t where "w = JStr t" using JStr.prems(2) by (cases w) (auto split: if_splits)
  moreover from this have "quote ascii s @ x = quote ascii t @ y" using JStr.prems(5) by simp
  then have "s = t \<and> x = y" by (rule quote_unique)
  ultimately show ?case by simp
next
  case (JBool b)
  then have "json_kind w = (if b then 1 else 2)" by (metis json_kind.simps(2) print_json_kind(2))
  then have "w = JBool b" using JBool.prems(2) by (cases w) (auto split: if_splits)
  then show ?case using JBool.prems(5) by simp
next
  case JNull
  then have "json_kind w = 0" by (metis json_kind.simps(1) print_json_kind(2))
  then have "w = JNull" using JNull.prems(2) by (cases w) (auto split: if_splits)
  then show ?case using JNull.prems(5) by simp
qed auto

end
