(* ===== verification/Fingerprint.thy ===== *)
theory Fingerprint
  imports Json "HOL-Library.Multiset"
begin

text \<open>
  The fingerprint of a projected game state (\<open>canonical_fingerprint\<close> and
  \<open>_normalize_projection\<close> of \<open>policy/plans.py\<close>): what two equal fingerprints say about the
  states they were computed from, and which differences they ignore on purpose.
\<close>

section \<open>The projection\<close>

definition last_segment :: "string \<Rightarrow> string" where
  "last_segment path = rev (takeWhile (\<lambda>c. c \<noteq> CHR ''.'') (rev path))"

definition array_field :: "(string \<times> string) list \<Rightarrow> string \<Rightarrow> string option" where
  "array_field keyed path =
     (case map_of keyed path of Some f \<Rightarrow> Some f | None \<Rightarrow> map_of keyed (last_segment path))"

definition key_field :: "string \<Rightarrow> json \<Rightarrow> string option" where
  "key_field f v = (case v of
     JObj kvs \<Rightarrow> (case map_of kvs f of Some (JStr s) \<Rightarrow> Some s | _ \<Rightarrow> None)
   | _ \<Rightarrow> None)"

definition sub_path :: "string \<Rightarrow> string \<Rightarrow> string" where
  "sub_path path k = (if path = [] then k else path @ ''.'' @ k)"

function normalize_projection :: "(string \<times> string) list \<Rightarrow> string \<Rightarrow> json \<Rightarrow> (exn, json) result" where
  "normalize_projection keyed path (JObj kvs) =
     rbind (sequence (map (\<lambda>(k, v).
         rbind (normalize_projection keyed (sub_path path k) v) (\<lambda>w. Inr (k, w))) (sort_key fst kvs)))
       (\<lambda>ws. Inr (JObj ws))"
| "normalize_projection keyed path (JArr vs) =
     rbind (sequence (map (normalize_projection keyed path) vs)) (\<lambda>vals.
       case array_field keyed path of
         None \<Rightarrow> Inr (JArr vals)
       | Some f \<Rightarrow>
           if list_all (\<lambda>v. key_field f v \<noteq> None) vals
           then Inr (JArr (sort_key (\<lambda>v. the (key_field f v)) vals))
           else Inl TypeErr)"
| "normalize_projection keyed path (JInt i) = normalize (JInt i)"
| "normalize_projection keyed path (JStr s) = normalize (JStr s)"
| "normalize_projection keyed path (JBool b) = normalize (JBool b)"
| "normalize_projection keyed path JNull = normalize JNull"
| "normalize_projection keyed path (JFloat q) = normalize (JFloat q)"
| "normalize_projection keyed path JOther = normalize JOther"
  by pat_completeness auto
termination
proof (relation "measure (\<lambda>(keyed, path, v). size v)")
  fix keyed :: "(string \<times> string) list" and path :: string and kvs x k v
  assume "x \<in> set (sort_key fst (kvs :: (string \<times> json) list))" "(k, v) = x"
  then have "(k, v) \<in> set kvs" by simp
  then have "size v < size (JObj kvs)" by (induction kvs) auto
  then show "((keyed, sub_path path k, v), keyed, path, JObj kvs) \<in> measure (\<lambda>(keyed, path, v). size v)"
    by simp
next
  fix keyed :: "(string \<times> string) list" and path :: string and vs v
  assume "v \<in> set (vs :: json list)"
  then have "size v < size (JArr vs)" by (induction vs) auto
  then show "((keyed, path, v), keyed, path, JArr vs) \<in> measure (\<lambda>(keyed, path, v). size v)"
    by simp
qed simp

section \<open>The fingerprint\<close>

definition fingerprint_document :: "string \<Rightarrow> json \<Rightarrow> (string \<times> string) list \<Rightarrow> (exn, bytes) result" where
  "fingerprint_document family projection keyed =
     rbind (normalize_projection keyed [] projection) (\<lambda>p.
       canonical_json (JObj [(''family'', JStr family), (''projection'', p)]))"

definition canonical_fingerprint ::
  "(bytes \<Rightarrow> string) \<Rightarrow> string \<Rightarrow> json \<Rightarrow> (string \<times> string) list \<Rightarrow> (exn, string) result" where
  "canonical_fingerprint sha family projection keyed =
     rbind (fingerprint_document family projection keyed) (\<lambda>doc. Inr (''pgfp:v1:'' @ sha doc))"

section \<open>Sorting items by a key\<close>

lemma map_of_insort: "map_of (insort_key fst (k, v) kvs) = (map_of kvs)(k \<mapsto> v)"
  by (induction kvs) (auto simp: fun_upd_twist)

lemma map_of_sort_key [simp]: "map_of (sort_key fst kvs) = map_of kvs"
  by (induction kvs) (auto simp: map_of_insort)

lemma map_of_map_values: "map_of (map (\<lambda>(k, v). (k, f v)) kvs) k = map_option f (map_of kvs k)"
  by (induction kvs) auto

lemma sort_key_mset_eq:
  assumes "mset xs = mset ys" "inj_on f (set xs)"
  shows "sort_key f xs = sort_key f ys"
  by (rule sort_key_inj_key_eq) (use assms in \<open>auto dest: mset_eq_setD\<close>)

lemma distinct_map_inj_on: "distinct (map f xs) \<Longrightarrow> inj_on f (set xs)"
  by (simp add: distinct_map)

section \<open>What the canonical encoding determines\<close>

lemma canonical_sort_keys [simp]: "canonical_value (sort_keys v) = canonical_value v"
proof (induction v rule: sort_keys.induct)
  case (1 vs)
  then show ?case by (auto simp: list_all_iff)
next
  case (2 kvs)
  then show ?case by (fastforce simp: list_all_iff)
qed auto

lemma canonical_json_Inr_iff:
  "canonical_json v = Inr x \<longleftrightarrow> canonical_value v \<and> x = utf8 (dumps False v)"
  by (auto simp: canonical_json_def normalize_iff result_simps)

lemma dumps_inj:
  assumes "canonical_value v" "canonical_value w"
  shows "dumps ascii v = dumps ascii w \<longleftrightarrow> sort_keys v = sort_keys w"
  using print_json_unique [of "sort_keys v" "sort_keys w" "[]" "[]" ascii] assms
  by (auto simp: dumps_def)

text \<open>
  C14: the canonical encoding loses nothing but the order of object keys. Two values that both
  have an encoding have the same bytes exactly when they agree after sorting the keys of every
  object, so no separator, quote, escape or number of one value can be mistaken for another's.
\<close>

theorem canonical_json_injective:
  assumes "canonical_json v = Inr x" "canonical_json w = Inr y"
  shows "x = y \<longleftrightarrow> sort_keys v = sort_keys w"
  using assms dumps_inj [of v w False] by (auto simp: canonical_json_Inr_iff utf8_inj)

theorem canonical_json_injective_witness:
  "canonical_json (JArr [JStr '',''])
     \<noteq> canonical_json (JArr [JStr [], JStr []])"
proof -
  have "canonical_json (JArr [JStr '','']) = Inr (utf8 (dumps False (JArr [JStr '',''])))"
    "canonical_json (JArr [JStr [], JStr []]) = Inr (utf8 (dumps False (JArr [JStr [], JStr []])))"
    by (simp_all add: canonical_json_Inr_iff)
  from canonical_json_injective [OF this] this show ?thesis by simp
qed

lemma normalize_Inl: "normalize v = Inl e \<Longrightarrow> e = TypeErr"
proof (induction v arbitrary: e rule: normalize.induct)
  case (3 vs)
  from "3.prems" have "Inl e \<in> set (map normalize vs)"
    by (intro sequence_Inl) (auto simp: rbind_Inl_iff)
  then obtain v where "v \<in> set vs" "normalize v = Inl e" by auto
  then show ?case using "3.IH" by blast
next
  case (4 kvs)
  let ?f = "\<lambda>(k, v). rbind (normalize v) (\<lambda>w. Inr (k, w))"
  from "4.prems" have "Inl e \<in> set (map ?f kvs)"
    by (intro sequence_Inl) (auto simp: rbind_Inl_iff)
  then obtain k v where "(k, v) \<in> set kvs" "normalize v = Inl e"
    by (auto simp: rbind_Inl_iff dest: sym)
  then show ?case using "4.IH" by blast
qed auto

lemma canonical_json_key_order:
  assumes "mset kvs = mset kvs'" "distinct (map fst kvs)"
  shows "canonical_json (JObj kvs) = canonical_json (JObj kvs')"
proof -
  let ?s = "\<lambda>(k, v). (k, sort_keys v)"
  have perm: "mset (map ?s kvs) = mset (map ?s kvs')" using assms(1) by simp
  have "map fst (map ?s kvs) = map fst kvs" by (induction kvs) auto
  then have "inj_on fst (set (map ?s kvs))" using assms(2) by (metis distinct_map_inj_on)
  then have "sort_keys (JObj kvs) = sort_keys (JObj kvs')"
    using sort_key_mset_eq [OF perm] by simp
  moreover have "canonical_value (JObj kvs) = canonical_value (JObj kvs')"
    using mset_eq_setD [OF assms(1)] by (simp add: list_all_iff)
  moreover have "canonical_json v = (if canonical_value v then Inr (utf8 (dumps False v)) else Inl TypeErr)" for v
  proof (cases "canonical_json v")
    case (Inl e)
    then have "e = TypeErr" by (auto simp: canonical_json_def rbind_Inl_iff dest: normalize_Inl)
    with Inl show ?thesis using canonical_json_Inr_iff [of v] by auto
  next
    case (Inr x)
    then show ?thesis by (simp add: canonical_json_Inr_iff)
  qed
  ultimately show ?thesis by (simp add: dumps_def)
qed

section \<open>What the fingerprint determines and ignores\<close>

lemma normalize_projection_canonical:
  "normalize_projection keyed path v = Inr w \<Longrightarrow> canonical_value v \<and> canonical_value w"
proof (induction keyed path v arbitrary: w rule: normalize_projection.induct)
  case (1 keyed path kvs)
  let ?f = "\<lambda>(k, v). rbind (normalize_projection keyed (sub_path path k) v) (\<lambda>w. Inr (k, w))"
  obtain ws where ws: "sequence (map ?f (sort_key fst kvs)) = Inr ws" "w = JObj ws"
    using "1.prems" by (auto simp only: normalize_projection.simps rbind_Inr_iff)
  have "canonical_value v" if "(k, v) \<in> set kvs" for k v
    using sequence_map_fwd [OF ws(1), of "(k, v)"] that "1.IH" [of "(k, v)" k v]
    by (auto simp: rbind_Inr_iff)
  moreover have "canonical_value u" if ku: "(k, u) \<in> set ws" for k u
  proof -
    obtain v where "(k, v) \<in> set kvs" "normalize_projection keyed (sub_path path k) v = Inr u"
      using sequence_map_bwd [OF ws(1) ku] by (auto simp: rbind_Inr_iff)
    then show ?thesis using "1.IH" [of "(k, v)" k v] by simp
  qed
  ultimately show ?case using ws(2) by (auto simp: list_all_iff)
next
  case (2 keyed path vs)
  obtain vals where vals: "sequence (map (normalize_projection keyed path) vs) = Inr vals"
    and w: "w = JArr vals \<or> (\<exists>f. w = JArr (sort_key (\<lambda>v. the (key_field f v)) vals))"
    using "2.prems" by (auto simp: rbind_Inr_iff split: option.splits if_splits)
  have "\<forall>v \<in> set vs. canonical_value v"
    using sequence_map_fwd [OF vals] "2.IH" by blast
  moreover have "\<forall>u \<in> set vals. canonical_value u"
    using sequence_map_bwd [OF vals] "2.IH" by blast
  ultimately show ?case using w by (auto simp: list_all_iff)
qed auto

lemma fingerprint_document_Inr:
  "fingerprint_document family p keyed = Inr doc \<longleftrightarrow>
     (\<exists>q. normalize_projection keyed [] p = Inr q \<and>
        doc = utf8 (dumps False (JObj [(''family'', JStr family), (''projection'', q)])))"
  by (auto simp: fingerprint_document_def result_simps canonical_json_Inr_iff
      dest: normalize_projection_canonical)

lemma fingerprint_document_inj:
  assumes "fingerprint_document family p keyed = Inr doc"
    and "fingerprint_document family' p' keyed' = Inr doc"
  shows "family = family' \<and> (\<exists>q q'. normalize_projection keyed [] p = Inr q \<and>
    normalize_projection keyed' [] p' = Inr q' \<and> sort_keys q = sort_keys q')"
proof -
  obtain q q' where q: "normalize_projection keyed [] p = Inr q"
      "normalize_projection keyed' [] p' = Inr q'"
    and eq: "dumps False (JObj [(''family'', JStr family), (''projection'', q)]) =
      dumps False (JObj [(''family'', JStr family'), (''projection'', q')])"
    using assms by (auto simp: fingerprint_document_Inr utf8_inj)
  have "canonical_value q" "canonical_value q'" using q normalize_projection_canonical by auto
  then have "sort_keys (JObj [(''family'', JStr family), (''projection'', q)]) =
      sort_keys (JObj [(''family'', JStr family'), (''projection'', q')])"
    using eq by (subst (asm) dumps_inj) auto
  then have "family = family' \<and> sort_keys q = sort_keys q'"
    by (simp split: if_splits)
  with q show ?thesis by blast
qed

text \<open>
  C39: equal fingerprints mean equal projections. If SHA-256 does not collide on the two
  documents at hand, two equal fingerprints come from the same family and from projections that
  agree up to the order of object keys, after the arrays with a key field were sorted. This is
  what makes the comparison before a mutation a check of the game state itself.
\<close>

theorem fingerprint_sound:
  assumes "canonical_fingerprint sha family p keyed = Inr f"
    and "canonical_fingerprint sha family' p' keyed' = Inr f"
    and no_collision: "\<And>d d'. fingerprint_document family p keyed = Inr d \<Longrightarrow>
      fingerprint_document family' p' keyed' = Inr d' \<Longrightarrow> sha d = sha d' \<Longrightarrow> d = d'"
  shows "family = family' \<and> (\<exists>q q'. normalize_projection keyed [] p = Inr q \<and>
    normalize_projection keyed' [] p' = Inr q' \<and> sort_keys q = sort_keys q')"
proof -
  obtain d d' where "fingerprint_document family p keyed = Inr d"
    "fingerprint_document family' p' keyed' = Inr d'" "sha d = sha d'"
    using assms(1,2) by (auto simp: canonical_fingerprint_def result_simps)
  with no_collision show ?thesis using fingerprint_document_inj by blast
qed

theorem fingerprint_sound_witness:
  "canonical_fingerprint id ''idle'' (JObj [(''a'', JInt 1)]) []
     \<noteq> canonical_fingerprint id ''idle'' (JObj [(''a'', JInt 2)]) []"
proof
  assume eq: "canonical_fingerprint id ''idle'' (JObj [(''a'', JInt 1)]) []
     = canonical_fingerprint id ''idle'' (JObj [(''a'', JInt 2)]) []"
  obtain f where f: "canonical_fingerprint id ''idle'' (JObj [(''a'', JInt 1)]) [] = Inr f"
    by (simp add: canonical_fingerprint_def fingerprint_document_def canonical_json_def
        sub_path_def)
  from fingerprint_sound [OF f, of "''idle''" "JObj [(''a'', JInt 2)]" "[]"] eq f
  show False by (simp add: sub_path_def)
qed

lemma normalize_projection_key_field:
  "normalize_projection keyed path v = Inr w \<Longrightarrow> key_field f v = Some s \<Longrightarrow> key_field f w = Some s"
proof (cases v)
  case (JObj kvs)
  let ?f = "\<lambda>(k, v). rbind (normalize_projection keyed (sub_path path k) v) (\<lambda>w. Inr (k, w))"
  assume np: "normalize_projection keyed path v = Inr w" and key: "key_field f v = Some s"
  obtain ws where ws: "map ?f (sort_key fst kvs) = map Inr ws" "w = JObj ws"
    using np unfolding JObj normalize_projection.simps rbind_Inr_iff sequence_Inr_iff by blast
  have *: "map ?f l = map Inr zs \<Longrightarrow> map_of l f = Some (JStr s) \<Longrightarrow> map_of zs f = Some (JStr s)"
    for l :: "(string \<times> json) list" and zs
  proof (induction l arbitrary: zs)
    case (Cons kv l)
    obtain k u where kv: "kv = (k, u)" by force
    obtain z r where z: "zs = z # r" "?f (k, u) = Inr z" "map ?f l = map Inr r"
      using Cons.prems(1) kv by (cases zs) auto
    then obtain u' where "z = (k, u')" "normalize_projection keyed (sub_path path k) u = Inr u'"
      by (auto simp: rbind_Inr_iff)
    then show ?case using Cons.IH [OF z(3)] Cons.prems(2) kv z(1) by (auto split: if_splits)
  qed simp
  have "map_of (sort_key fst kvs) f = Some (JStr s)"
    using key JObj by (auto simp: key_field_def split: option.splits json.splits)
  from * [OF ws(1) this] ws(2) show "key_field f w = Some s" by (simp add: key_field_def)
qed (auto simp: key_field_def)

text \<open>The states that have a projection; the rules follow the construction of a state.\<close>

definition projectable :: "(string \<times> string) list \<Rightarrow> string \<Rightarrow> json \<Rightarrow> bool" where
  "projectable keyed path v \<longleftrightarrow> (\<exists>w. normalize_projection keyed path v = Inr w)"

lemma sequence_total: "(\<And>m. m \<in> set ms \<Longrightarrow> \<exists>x. m = Inr x) \<Longrightarrow> \<exists>xs. sequence ms = Inr xs"
proof (induction ms)
  case (Cons m ms)
  obtain x where "m = Inr x" using Cons.prems [of m] by auto
  moreover obtain xs where "sequence ms = Inr xs" using Cons by auto
  ultimately show ?case by simp
qed simp

lemma projectable_obj:
  "(\<And>k v. (k, v) \<in> set kvs \<Longrightarrow> projectable keyed (sub_path path k) v) \<Longrightarrow> projectable keyed path (JObj kvs)"
proof -
  assume each: "\<And>k v. (k, v) \<in> set kvs \<Longrightarrow> projectable keyed (sub_path path k) v"
  have "\<exists>xs. sequence (map (\<lambda>(k, v). rbind (normalize_projection keyed (sub_path path k) v)
      (\<lambda>w. Inr (k, w))) (sort_key fst kvs)) = Inr xs"
    by (rule sequence_total) (use each in \<open>fastforce simp: projectable_def rbind_Inr_iff\<close>)
  then show ?thesis by (auto simp: projectable_def)
qed

lemma projectable_arr:
  assumes "\<And>v. v \<in> set vs \<Longrightarrow> projectable keyed path v"
    and "\<And>f v. array_field keyed path = Some f \<Longrightarrow> v \<in> set vs \<Longrightarrow> key_field f v \<noteq> None"
  shows "projectable keyed path (JArr vs)"
proof -
  obtain vals where vals: "sequence (map (normalize_projection keyed path) vs) = Inr vals"
    using sequence_total [of "map (normalize_projection keyed path) vs"] assms(1)
    by (auto simp: projectable_def)
  have "list_all (\<lambda>v. key_field f v \<noteq> None) vals" if "array_field keyed path = Some f" for f
    unfolding list_all_iff
  proof
    fix u assume "u \<in> set vals"
    then obtain v where "v \<in> set vs" "normalize_projection keyed path v = Inr u"
      using sequence_map_bwd [OF vals] by blast
    then show "key_field f u \<noteq> None"
      using assms(2) [OF that] normalize_projection_key_field by (metis not_None_eq)
  qed
  then show ?thesis using vals by (auto simp: projectable_def split: option.split)
qed

lemma projectable_atoms [simp]:
  "projectable keyed path (JInt i)" "projectable keyed path (JStr s)" "projectable keyed path (JBool b)"
  "projectable keyed path JNull"
  by (simp_all add: projectable_def)

lemma fingerprint_total:
  assumes "projectable keyed [] p"
  shows "\<exists>f. canonical_fingerprint sha family p keyed = Inr f"
proof -
  obtain q where "normalize_projection keyed [] p = Inr q" using assms by (auto simp: projectable_def)
  then obtain doc where "fingerprint_document family p keyed = Inr doc"
    using fingerprint_document_Inr by blast
  then show ?thesis by (simp add: canonical_fingerprint_def)
qed

lemma sequence_mset:
  assumes "mset ms = mset ms'" "sequence ms = Inr xs"
  shows "\<exists>ys. sequence ms' = Inr ys \<and> mset xs = mset ys"
proof -
  have ms: "ms = map Inr xs" using assms(2) by (simp add: result_simps)
  then have "\<forall>m \<in> set ms'. \<exists>y. m = Inr y" using mset_eq_setD [OF assms(1)] by auto
  then obtain ys where ys: "ms' = map Inr ys" by (auto simp: ex_map_conv [symmetric])
  have "image_mset projr (mset ms) = image_mset projr (mset ms')" using assms(1) by simp
  then have "mset xs = mset ys" unfolding ms ys by (simp add: image_mset.compositionality comp_def)
  with ys show ?thesis by (auto simp: result_simps)
qed

lemma normalize_projection_Inl: "normalize_projection keyed path v = Inl e \<Longrightarrow> e = TypeErr"
proof (induction keyed path v arbitrary: e rule: normalize_projection.induct)
  case (1 keyed path kvs)
  let ?f = "\<lambda>(k, v). rbind (normalize_projection keyed (sub_path path k) v) (\<lambda>w. Inr (k, w))"
  from "1.prems" have "Inl e \<in> set (map ?f (sort_key fst kvs))"
    by (intro sequence_Inl) (auto simp: rbind_Inl_iff)
  then obtain k v where "(k, v) \<in> set kvs" "normalize_projection keyed (sub_path path k) v = Inl e"
    by (auto simp: rbind_Inl_iff dest: sym)
  then show ?case using "1.IH" [of "(k, v)" k v] by simp
next
  case (2 keyed path vs)
  from "2.prems" consider "sequence (map (normalize_projection keyed path) vs) = Inl e" | "e = TypeErr"
    by (auto simp: rbind_Inl_iff split: option.splits if_splits)
  then show ?case
  proof cases
    case 1
    then have "Inl e \<in> set (map (normalize_projection keyed path) vs)" by (rule sequence_Inl)
    then obtain v where "v \<in> set vs" "normalize_projection keyed path v = Inl e" by auto
    then show ?thesis using "2.IH" by blast
  qed
qed (use normalize_Inl in auto)

lemma normalize_projection_array_order:
  assumes perm: "mset vs = mset vs'" and field: "array_field keyed path = Some f"
    and keys: "None \<notin> set (map (key_field f) vs)" "distinct (map (key_field f) vs)"
  shows "normalize_projection keyed path (JArr vs) = normalize_projection keyed path (JArr vs')"
proof (cases "sequence (map (normalize_projection keyed path) vs)")
  case (Inr vals)
  let ?np = "normalize_projection keyed path"
  obtain vals' where vals': "sequence (map ?np vs') = Inr vals'" and mv: "mset vals = mset vals'"
    using sequence_mset [OF _ Inr, of "map ?np vs'"] perm by auto
  have each: "map ?np vs = map Inr vals" using Inr by (simp add: sequence_Inr_iff)
  have "map (key_field f) vals = map (key_field f) vs"
  proof (rule nth_equalityI)
    show len: "length (map (key_field f) vals) = length (map (key_field f) vs)"
      using each by (metis length_map)
    fix i assume i: "i < length (map (key_field f) vals)"
    then have "?np (vs ! i) = Inr (vals ! i)" using each len by (metis length_map nth_map)
    moreover obtain s where "key_field f (vs ! i) = Some s"
      using keys(1) i len by (metis in_set_conv_nth length_map nth_map not_None_eq)
    ultimately show "map (key_field f) vals ! i = map (key_field f) vs ! i"
      using normalize_projection_key_field i len by auto
  qed
  with keys have nn: "None \<notin> set (map (key_field f) vals)" and d: "distinct (map (key_field f) vals)"
    by simp_all
  have inj: "inj_on (\<lambda>v. the (key_field f v)) (set vals)"
    using nn distinct_map_inj_on [OF d] by (auto simp: inj_on_def image_iff) (metis option.collapse)
  have all: "list_all (\<lambda>v. key_field f v \<noteq> None) vals"
    using nn by (force simp: list_all_iff)
  then have all': "list_all (\<lambda>v. key_field f v \<noteq> None) vals'"
    using mset_eq_setD [OF mv] by (simp add: list_all_iff)
  show ?thesis
    using Inr vals' field all all' sort_key_mset_eq [OF mv inj] by simp
next
  case (Inl e)
  let ?np = "normalize_projection keyed path"
  obtain e' where e': "sequence (map ?np vs') = Inl e'"
    using sequence_mset [of "map ?np vs'" "map ?np vs"] perm Inl
    by (cases "sequence (map ?np vs')") auto
  have "?np (JArr vs) = Inl e" "?np (JArr vs') = Inl e'" using Inl e' by simp_all
  then show ?thesis using normalize_projection_Inl by metis
qed

lemma list_all2_insort_fst:
  assumes "\<And>p q. R p q \<Longrightarrow> fst p = fst q" "R p q" "list_all2 R xs ys"
  shows "list_all2 R (insort_key fst p xs) (insort_key fst q ys)"
  using assms(3,2) assms(1) by (induction rule: list_all2_induct) auto

lemma list_all2_sort_fst:
  assumes "\<And>p q. R p q \<Longrightarrow> fst p = fst q" "list_all2 R xs ys"
  shows "list_all2 R (sort_key fst xs) (sort_key fst ys)"
  using assms(2) by (induction rule: list_all2_induct) (auto intro: list_all2_insort_fst assms(1))

text \<open>
  The order in which the game lists the elements of a keyed array does not matter. When the
  elements of such an array have distinct keys, listing them in another order gives the same
  fingerprint, whatever else the projection holds and whatever the hash is.
\<close>

theorem fingerprint_array_order:
  assumes "mset vs = mset vs'" "array_field keyed name = Some f"
    and "None \<notin> set (map (key_field f) vs)" "distinct (map (key_field f) vs)"
  shows "canonical_fingerprint sha family (JObj (before @ (name, JArr vs) # after)) keyed
    = canonical_fingerprint sha family (JObj (before @ (name, JArr vs') # after)) keyed"
proof -
  let ?f = "\<lambda>(k, v). rbind (normalize_projection keyed (sub_path [] k) v) (\<lambda>w. Inr (k, w))"
  let ?R = "\<lambda>p q. fst p = fst q \<and> ?f p = ?f q"
  have "list_all2 ?R (before @ (name, JArr vs) # after) (before @ (name, JArr vs') # after)"
  proof (intro list_all2_appendI list_all2_Cons [THEN iffD2] conjI)
    have "sub_path [] name = name" by (simp add: sub_path_def)
    then show "?f (name, JArr vs) = ?f (name, JArr vs')"
      using normalize_projection_array_order [OF assms(1,2,3,4)] by (simp only: prod.case)
  qed (auto intro: list_all2_refl)
  then have "list_all2 ?R (sort_key fst (before @ (name, JArr vs) # after))
      (sort_key fst (before @ (name, JArr vs') # after))"
    by (rule list_all2_sort_fst [rotated]) simp
  then have "map ?f (sort_key fst (before @ (name, JArr vs) # after))
      = map ?f (sort_key fst (before @ (name, JArr vs') # after))"
    by (induction rule: list_all2_induct) auto
  then have "normalize_projection keyed [] (JObj (before @ (name, JArr vs) # after))
      = normalize_projection keyed [] (JObj (before @ (name, JArr vs') # after))"
    by (simp only: normalize_projection.simps)
  then show ?thesis by (simp only: canonical_fingerprint_def fingerprint_document_def)
qed

theorem fingerprint_array_order_witness:
  "canonical_fingerprint id ''world_boss''
     (JObj [(''instances'', JArr [JObj [(''key'', JStr ''b'')], JObj [(''key'', JStr ''a'')]])])
     [(''instances'', ''key'')]
   = canonical_fingerprint id ''world_boss''
     (JObj [(''instances'', JArr [JObj [(''key'', JStr ''a'')], JObj [(''key'', JStr ''b'')]])])
     [(''instances'', ''key'')]"
  using fingerprint_array_order [of "[JObj [(''key'', JStr ''b'')], JObj [(''key'', JStr ''a'')]]"
      "[JObj [(''key'', JStr ''a'')], JObj [(''key'', JStr ''b'')]]" "[(''instances'', ''key'')]"
      "''instances''" "''key''" id "''world_boss''" "[]" "[]"]
  by (simp add: array_field_def key_field_def add_mset_commute)

end
