(* ===== verification/Redaction.thy ===== *)
theory Redaction
  imports Json
begin

text \<open>
  The redaction of structured payloads before they reach the audit table
  (\<open>security/redaction.py\<close>): what it hides, what it keeps, and that it may run twice, as it
  does when an already redacted result passes through the \<open>RedactedJSON\<close> column type.
\<close>

definition sensitive_key_parts :: "string list" where
  "sensitive_key_parts =
    [''password'', ''token'', ''secret'', ''authorization'', ''cookie'', ''master_key'']"

definition max_redacted_string_length :: nat where
  "max_redacted_string_length = 256"

definition is_sensitive_key :: "string \<Rightarrow> bool" where
  "is_sensitive_key key \<longleftrightarrow> list_ex (\<lambda>part. has_part part (lower key)) sensitive_key_parts"

definition redacted_mark :: json where
  "redacted_mark = JStr ''[REDACTED]''"

fun redact :: "json \<Rightarrow> json" where
  "redact (JObj kvs) =
     JObj (map (\<lambda>(k, v). (k, if is_sensitive_key k then redacted_mark else redact v)) kvs)"
| "redact (JArr vs) = JArr (map redact vs)"
| "redact (JStr s) =
     (if max_redacted_string_length < length s
      then JStr (take max_redacted_string_length s @ ''...[TRUNCATED]'') else JStr s)"
| "redact v = v"

text \<open>\<open>RedactedJSON.process_bind_param\<close>: what the database stores for a payload.\<close>

definition bind_redacted :: "json option \<Rightarrow> json option" where
  "bind_redacted value = map_option redact value"

section \<open>Specification\<close>

text \<open>The payload with every value under a sensitive key erased, and nothing else changed.\<close>

fun erase_sensitive :: "json \<Rightarrow> json" where
  "erase_sensitive (JObj kvs) =
     JObj (map (\<lambda>(k, v). (k, if is_sensitive_key k then JNull else erase_sensitive v)) kvs)"
| "erase_sensitive (JArr vs) = JArr (map erase_sensitive vs)"
| "erase_sensitive v = v"

text \<open>Every value under a sensitive key is the mark, and no string is longer than the bound.\<close>

fun is_clean :: "json \<Rightarrow> bool" where
  "is_clean (JObj kvs) =
     list_all (\<lambda>(k, v). is_clean v \<and> (is_sensitive_key k \<longrightarrow> v = redacted_mark)) kvs"
| "is_clean (JArr vs) = list_all is_clean vs"
| "is_clean (JStr s) = (length s \<le> max_redacted_string_length + 14)"
| "is_clean v = True"

lemma redact_mark [simp]: "redact redacted_mark = redacted_mark" "is_clean redacted_mark"
  by (simp_all add: redacted_mark_def max_redacted_string_length_def)

lemma redact_erase: "redact (erase_sensitive v) = redact v"
proof (induction v rule: redact.induct)
  case (1 kvs)
  then show ?case by auto
qed auto

lemma redact_clean: "is_clean (redact v)"
proof (induction v rule: redact.induct)
  case (1 kvs)
  then show ?case by (auto simp: list_all_iff split: if_splits)
qed (auto simp: list_all_iff)

lemma redact_twice: "redact (redact v) = redact v"
proof (induction v rule: redact.induct)
  case (1 kvs)
  then show ?case by auto
qed (auto simp: max_redacted_string_length_def)

text \<open>
  C29: redaction hides. The redacted payload is a function of the payload with all values under
  sensitive keys erased: two payloads that differ only there, at any depth, become the same. What
  comes out holds the mark under every sensitive key and no string beyond the bound, and
  redacting it again changes nothing.
\<close>

theorem redact_noninterference:
  assumes "erase_sensitive v = erase_sensitive w"
  shows "redact v = redact w \<and> is_clean (redact v) \<and> bind_redacted (Some (redact v)) = Some (redact v)"
proof -
  have "redact v = redact (erase_sensitive v)" by (simp add: redact_erase)
  also have "\<dots> = redact w" using assms by (simp add: redact_erase)
  finally show ?thesis by (simp add: redact_clean redact_twice bind_redacted_def)
qed

theorem redact_noninterference_witness:
  "redact (JArr [JObj [(''Session_Token'', JStr ''abc''), (''plan'', JInt 7)]])
   = JArr [JObj [(''Session_Token'', JStr ''[REDACTED]''), (''plan'', JInt 7)]]"
proof -
  have s: "is_sensitive_key ''Session_Token''" "\<not> is_sensitive_key ''plan''"
    by code_simp+
  have "erase_sensitive (JArr [JObj [(''Session_Token'', JStr ''abc''), (''plan'', JInt 7)]])
    = erase_sensitive (JArr [JObj [(''Session_Token'', JNull), (''plan'', JInt 7)]])"
    by (simp add: s)
  from redact_noninterference [OF this] show ?thesis by (simp add: s redacted_mark_def)
qed

end
