(* ===== verification/Effects.thy ===== *)
theory Effects
  imports Errors
begin

text \<open>
  How a coroutine of the service is modelled: a function of a state that gives a value or an
  exception, and the state it leaves behind. An exception keeps the state changes made before it,
  as in Python; \<open>atomically\<close> is \<open>async with sessions.begin()\<close>, which gives them up for the part of
  the state the database holds. The operations of one program compose with \<open>bnd\<close>; every
  combinator computes, so that a program applied to a concrete state evaluates.
\<close>

type_synonym ('s, 'a) prog = "'s \<Rightarrow> (exn, 'a) result \<times> 's"

named_theorems prog_simps \<open>evaluation of programs\<close>

definition ret :: "'a \<Rightarrow> ('s, 'a) prog" where
  "ret x = (\<lambda>s. (Inr x, s))"

definition raise :: "exn \<Rightarrow> ('s, 'a) prog" where
  "raise e = (\<lambda>s. (Inl e, s))"

definition bnd :: "('s, 'a) prog \<Rightarrow> ('a \<Rightarrow> ('s, 'b) prog) \<Rightarrow> ('s, 'b) prog" where
  "bnd m f = (\<lambda>s. case m s of (Inl e, t) \<Rightarrow> (Inl e, t) | (Inr x, t) \<Rightarrow> f x t)"

definition andthen :: "('s, 'a) prog \<Rightarrow> ('s, 'b) prog \<Rightarrow> ('s, 'b) prog" where
  "andthen m n = bnd m (\<lambda>_. n)"

text \<open>\<open>try m except\<close> a class of exceptions given by a predicate: the handler sees the exception.\<close>

definition handle :: "('s, 'a) prog \<Rightarrow> (exn \<Rightarrow> bool) \<Rightarrow> (exn \<Rightarrow> ('s, 'a) prog) \<Rightarrow> ('s, 'a) prog" where
  "handle m p h = (\<lambda>s. case m s of
     (Inl e, t) \<Rightarrow> if p e then h e t else (Inl e, t)
   | (Inr x, t) \<Rightarrow> (Inr x, t))"

text \<open>\<open>try: m except ...: h else: f\<close>, where the exceptions of \<open>f\<close> are not handled.\<close>

definition try_else ::
  "('s, 'a) prog \<Rightarrow> (exn \<Rightarrow> bool) \<Rightarrow> (exn \<Rightarrow> ('s, 'b) prog) \<Rightarrow> ('a \<Rightarrow> ('s, 'b) prog) \<Rightarrow> ('s, 'b) prog" where
  "try_else m p h f = (\<lambda>s. case m s of
     (Inl e, t) \<Rightarrow> if p e then h e t else (Inl e, t)
   | (Inr x, t) \<Rightarrow> f x t)"

definition check :: "bool \<Rightarrow> exn \<Rightarrow> ('s, unit) prog" where
  "check b e = (if b then ret () else raise e)"

definition asks :: "('s \<Rightarrow> 'a) \<Rightarrow> ('s, 'a) prog" where
  "asks f = (\<lambda>s. (Inr (f s), s))"

definition modify :: "('s \<Rightarrow> 's) \<Rightarrow> ('s, unit) prog" where
  "modify f = (\<lambda>s. (Inr (), f s))"

definition lift_result :: "(exn, 'a) result \<Rightarrow> ('s, 'a) prog" where
  "lift_result r = (\<lambda>s. (r, s))"

text \<open>
  A transaction: when it ends in an exception, the part of the state that \<open>get\<close> reads and
  \<open>put\<close> writes is what it was at the start; the rest (the calls made, the time) is not undone.
\<close>

definition atomically :: "('s \<Rightarrow> 'd) \<Rightarrow> ('d \<Rightarrow> 's \<Rightarrow> 's) \<Rightarrow> ('s, 'a) prog \<Rightarrow> ('s, 'a) prog" where
  "atomically get put m = (\<lambda>s. case m s of
     (Inl e, t) \<Rightarrow> (Inl e, put (get s) t)
   | (Inr x, t) \<Rightarrow> (Inr x, t))"

lemma prog_eval [prog_simps]:
  "ret x s = (Inr x, s)"
  "raise e s = (Inl e, s)"
  "asks g s = (Inr (g s), s)"
  "modify h s = (Inr (), h s)"
  "lift_result r s = (r, s)"
  "check b e s = (if b then (Inr (), s) else (Inl e, s))"
  by (simp_all add: ret_def raise_def asks_def modify_def lift_result_def check_def)

lemma bnd_eval [prog_simps]:
  "bnd m f s = (case m s of (Inl e, t) \<Rightarrow> (Inl e, t) | (Inr x, t) \<Rightarrow> f x t)"
  by (simp add: bnd_def)

lemma bnd_cases:
  assumes "bnd m f s = (r, t)"
  obtains (err) e where "m s = (Inl e, t)" "r = Inl e"
    | (ok) x u where "m s = (Inr x, u)" "f x u = (r, t)"
  using assms by (auto simp: bnd_def split: prod.splits sum.splits)

lemma andthen_eval [prog_simps]:
  "andthen m n s = (case m s of (Inl e, t) \<Rightarrow> (Inl e, t) | (Inr x, t) \<Rightarrow> n t)"
  by (simp add: andthen_def bnd_def)

lemma handle_cases:
  assumes "handle m p h s = (r, t)"
  obtains (ok) x where "m s = (Inr x, t)" "r = Inr x"
    | (caught) e u where "m s = (Inl e, u)" "p e" "h e u = (r, t)"
    | (err) e where "m s = (Inl e, t)" "\<not> p e" "r = Inl e"
  using assms by (auto simp: handle_def split: prod.splits sum.splits if_splits)

lemma try_else_cases:
  assumes "try_else m p h f s = (r, t)"
  obtains (ok) x u where "m s = (Inr x, u)" "f x u = (r, t)"
    | (caught) e u where "m s = (Inl e, u)" "p e" "h e u = (r, t)"
    | (err) e where "m s = (Inl e, t)" "\<not> p e" "r = Inl e"
  using assms by (auto simp: try_else_def split: prod.splits sum.splits if_splits)

lemma atomically_cases:
  assumes "atomically get put m s = (r, t)"
  obtains (ok) x where "m s = (Inr x, t)" "r = Inr x"
    | (err) e u where "m s = (Inl e, u)" "r = Inl e" "t = put (get s) u"
  using assms by (auto simp: atomically_def split: prod.splits sum.splits)

section \<open>What a program keeps\<close>

text \<open>
  \<open>keeps P m\<close>: whatever the outcome, a state with \<open>P\<close> is left as a state with \<open>P\<close>. The rules
  follow the combinators, so a proof about a program reduces to its primitive steps.
\<close>

definition keeps :: "('s \<Rightarrow> bool) \<Rightarrow> ('s, 'a) prog \<Rightarrow> bool" where
  "keeps P m \<longleftrightarrow> (\<forall>s. P s \<longrightarrow> P (snd (m s)))"

named_theorems keeps_intros \<open>what the combinators keep\<close>

lemma keepsD: "keeps P m \<Longrightarrow> m s = (r, t) \<Longrightarrow> P s \<Longrightarrow> P t"
  by (auto simp: keeps_def dest: spec [of _ s])

lemma keepsI: "(\<And>s. P s \<Longrightarrow> P (snd (m s))) \<Longrightarrow> keeps P m"
  by (simp add: keeps_def)

lemma keeps_basic [keeps_intros]:
  "keeps P (ret x)" "keeps P (raise e)" "keeps P (asks g)" "keeps P (lift_result r)"
  "keeps P (check b e)"
  by (simp_all add: keeps_def prog_simps)

lemma keeps_modify [keeps_intros]: "(\<And>s. P s \<Longrightarrow> P (f s)) \<Longrightarrow> keeps P (modify f)"
  by (simp add: keeps_def prog_simps)

lemma keeps_bnd [keeps_intros]: "keeps P m \<Longrightarrow> (\<And>x. keeps P (f x)) \<Longrightarrow> keeps P (bnd m f)"
  by (auto simp: keeps_def bnd_def split: prod.splits sum.splits)

lemma keeps_andthen [keeps_intros]: "keeps P m \<Longrightarrow> keeps P n \<Longrightarrow> keeps P (andthen m n)"
  unfolding andthen_def by (intro keeps_bnd)

lemma keeps_handle [keeps_intros]:
  "keeps P m \<Longrightarrow> (\<And>e. p e \<Longrightarrow> keeps P (h e)) \<Longrightarrow> keeps P (handle m p h)"
  by (auto simp: keeps_def handle_def split: prod.splits sum.splits)

lemma keeps_try_else [keeps_intros]:
  "keeps P m \<Longrightarrow> (\<And>e. p e \<Longrightarrow> keeps P (h e)) \<Longrightarrow> (\<And>x. keeps P (f x)) \<Longrightarrow> keeps P (try_else m p h f)"
  by (auto simp: keeps_def try_else_def split: prod.splits sum.splits)

lemma keeps_if [keeps_intros]:
  "(b \<Longrightarrow> keeps P m) \<Longrightarrow> (\<not> b \<Longrightarrow> keeps P n) \<Longrightarrow> keeps P (if b then m else n)"
  by simp

lemma keeps_option [keeps_intros]:
  "(x = None \<Longrightarrow> keeps P m) \<Longrightarrow> (\<And>y. x = Some y \<Longrightarrow> keeps P (f y)) \<Longrightarrow>
   keeps P (case x of None \<Rightarrow> m | Some y \<Rightarrow> f y)"
  by (cases x) auto

lemma keeps_prod [keeps_intros]: "(\<And>a b. keeps P (f a b)) \<Longrightarrow> keeps P (case x of (a, b) \<Rightarrow> f a b)"
  by (cases x) auto

lemma keeps_let [keeps_intros]: "keeps P (f x) \<Longrightarrow> keeps P (let y = x in f y)"
  by simp

lemma keeps_atomically:
  assumes "keeps P m" and "\<And>s t. P s \<Longrightarrow> P t \<Longrightarrow> P (put (get s) t)"
  shows "keeps P (atomically get put m)"
proof (rule keepsI)
  fix s assume P: "P s"
  then have "P (snd (m s))" using assms(1) by (simp add: keeps_def)
  then show "P (snd (atomically get put m s))"
    using P assms(2) by (auto simp: atomically_def split: prod.splits sum.splits)
qed

end
