(* ===== verification/Secrets.thy ===== *)
theory Secrets
  imports Errors
begin

text \<open>
  Stored credentials (\<open>contracts.py\<close>, \<open>security/crypto.py\<close> and the accessors of \<open>GameAccount\<close>
  in \<open>models.py\<close>): the frame a ciphertext is stored in, and the associated data that ties it to
  one row and one column. AES-GCM is a parameter, an \<^verbatim>\<open>aead\<close> record.
\<close>

section \<open>Frames\<close>

record encrypted_secret =
  nonce :: bytes
  ciphertext :: bytes

definition secret_format_version :: char where
  "secret_format_version = CHR 0x01"

definition nonce_bytes :: nat where
  "nonce_bytes = 12"

definition gcm_tag_bytes :: nat where
  "gcm_tag_bytes = 16"

definition encode_encrypted_secret :: "encrypted_secret \<Rightarrow> bytes" where
  "encode_encrypted_secret secret = [secret_format_version] @ nonce secret @ ciphertext secret"

definition decode_encrypted_secret :: "bytes \<Rightarrow> (exn, encrypted_secret) result" where
  "decode_encrypted_secret value =
     (if length value < 1 + nonce_bytes + gcm_tag_bytes \<or> value ! 0 \<noteq> secret_format_version
      then Inl ValueErr
      else Inr \<lparr>nonce = take nonce_bytes (drop 1 value),
                ciphertext = drop (1 + nonce_bytes) value\<rparr>)"

definition bind_secret :: "encrypted_secret option \<Rightarrow> bytes option" where
  "bind_secret value = map_option encode_encrypted_secret value"

definition load_secret :: "bytes option \<Rightarrow> (exn, encrypted_secret option) result" where
  "load_secret value = (case value of
     None \<Rightarrow> Inr None
   | Some frame \<Rightarrow> rbind (decode_encrypted_secret frame) (\<lambda>s. Inr (Some s)))"

definition well_framed :: "encrypted_secret \<Rightarrow> bool" where
  "well_framed s \<longleftrightarrow> length (nonce s) = nonce_bytes \<and> gcm_tag_bytes \<le> length (ciphertext s)"

lemma decode_encode: "well_framed s \<Longrightarrow> decode_encrypted_secret (encode_encrypted_secret s) = Inr s"
  by (simp add: decode_encrypted_secret_def encode_encrypted_secret_def well_framed_def)

lemma encode_decode:
  assumes "decode_encrypted_secret value = Inr s"
  shows "encode_encrypted_secret s = value \<and> well_framed s"
proof -
  have len: "\<not> length value < 29" and hd: "value ! 0 = secret_format_version"
    and s: "s = \<lparr>nonce = take 12 (drop 1 value), ciphertext = drop 13 value\<rparr>"
    using assms by (auto simp: decode_encrypted_secret_def nonce_bytes_def gcm_tag_bytes_def
        split: if_splits)
  obtain c r where frame: "value = c # r" using len by (cases "value") auto
  have "take 12 r @ drop 12 r = r" by simp
  then show ?thesis
    using hd len unfolding s frame
    by (simp add: encode_encrypted_secret_def well_framed_def nonce_bytes_def gcm_tag_bytes_def)
qed

text \<open>
  Frames round trip in both directions. A secret with a 12-byte nonce and at least a tag of
  ciphertext comes back from its stored bytes, and bytes that load at all are exactly the frame
  of what they load as: no two stored values stand for one secret and no frame of another
  version or of a shorter length is accepted.
\<close>

theorem secret_frame_roundtrip:
  assumes "well_framed s"
  shows "load_secret (bind_secret (Some s)) = Inr (Some s) \<and>
    (load_secret (Some frame) = Inr (Some s) \<longleftrightarrow> frame = encode_encrypted_secret s)"
  using decode_encode [OF assms] encode_decode [of frame s]
  by (auto simp: load_secret_def bind_secret_def result_simps)

theorem secret_frame_roundtrip_witness:
  "load_secret (bind_secret (Some \<lparr>nonce = replicate 12 CHR ''n'', ciphertext = replicate 20 CHR ''c''\<rparr>))
   = Inr (Some \<lparr>nonce = replicate 12 CHR ''n'', ciphertext = replicate 20 CHR ''c''\<rparr>)"
  using secret_frame_roundtrip
    [of "\<lparr>nonce = replicate 12 CHR ''n'', ciphertext = replicate 20 CHR ''c''\<rparr>" "[]"]
  by (simp add: well_framed_def nonce_bytes_def gcm_tag_bytes_def)

section \<open>The secret box\<close>

text \<open>
  AES-GCM with a fixed key: \<open>ae_encrypt nonce plaintext aad\<close> and \<open>ae_decrypt nonce ciphertext
  aad\<close>, where \<open>None\<close> is \<open>InvalidTag\<close>.
\<close>

record aead =
  ae_encrypt :: "bytes \<Rightarrow> bytes \<Rightarrow> bytes \<Rightarrow> bytes"
  ae_decrypt :: "bytes \<Rightarrow> bytes \<Rightarrow> bytes \<Rightarrow> bytes option"

text \<open>\<open>bytes.decode()\<close>, restricted to texts of code points below 256.\<close>

fun utf8_decode :: "bytes \<Rightarrow> string option" where
  "utf8_decode [] = Some []"
| "utf8_decode (a # r) =
     (if is_ascii a then map_option (Cons a) (utf8_decode r)
      else case r of
        [] \<Rightarrow> None
      | b # r' \<Rightarrow>
          (let m = of_char a :: nat; n = of_char b :: nat in
           if m \<in> {194, 195} \<and> 128 \<le> n \<and> n < 192
           then map_option (Cons (char_of ((m - 192) * 64 + (n - 128)))) (utf8_decode r')
           else None))"

lemma utf8_decode_utf8 [simp]: "utf8_decode (utf8 s) = Some s"
proof (induction s)
  case Nil
  then show ?case by (simp add: utf8_def)
next
  case (Cons c s)
  let ?n = "of_char c :: nat"
  show ?case
  proof (cases "?n < 128")
    case True
    then show ?thesis using Cons by (simp add: utf8_def utf8_char_def is_ascii_def Let_def)
  next
    case False
    have "?n < 256" by simp
    with False have hi: "?n div 64 = 2 \<or> ?n div 64 = 3" by linarith
    have eq: "?n div 64 * 64 + ?n mod 64 = ?n" by simp
    have lead: "of_char (char_of (192 + ?n div 64) :: char) = 192 + ?n div 64"
      "of_char (char_of (128 + ?n mod 64) :: char) = 128 + ?n mod 64"
    proof -
      have "192 + ?n div 64 < 256" "128 + ?n mod 64 < 256" using hi by auto
      then show "of_char (char_of (192 + ?n div 64) :: char) = 192 + ?n div 64"
        "of_char (char_of (128 + ?n mod 64) :: char) = 128 + ?n mod 64" by simp_all
    qed
    have body: "(192 + ?n div 64 - 192) * 64 + (128 + ?n mod 64 - 128) = ?n" using eq by simp
    have "utf8 (c # s) = char_of (192 + ?n div 64) # char_of (128 + ?n mod 64) # utf8 s"
      using False by (simp add: utf8_def utf8_char_def Let_def)
    moreover have "192 + ?n div 64 \<in> {194, 195}" using hi by auto
    ultimately show ?thesis
      using Cons.IH by (simp only: utf8_decode.simps is_ascii_def lead Let_def list.case body
          char_of_char) simp
  qed
qed

definition secret_encrypt :: "aead \<Rightarrow> bytes \<Rightarrow> string \<Rightarrow> string \<Rightarrow> encrypted_secret" where
  "secret_encrypt box random value aad =
     \<lparr>nonce = random, ciphertext = ae_encrypt box random (utf8 value) (utf8 aad)\<rparr>"

definition secret_decrypt :: "aead \<Rightarrow> encrypted_secret \<Rightarrow> string \<Rightarrow> (exn, string) result" where
  "secret_decrypt box blob aad =
     (case ae_decrypt box (nonce blob) (ciphertext blob) (utf8 aad) of
        None \<Rightarrow> Inl InvalidSecret
      | Some plain \<Rightarrow> (case utf8_decode plain of None \<Rightarrow> Inl InvalidSecret | Some s \<Rightarrow> Inr s))"

definition encrypted_aad :: "string \<Rightarrow> string \<Rightarrow> string \<Rightarrow> string" where
  "encrypted_aad table record_id column = table @ ''/'' @ record_id @ ''/'' @ column"

definition secret_aad :: "uuid \<Rightarrow> string \<Rightarrow> string" where
  "secret_aad account_id column = encrypted_aad ''game_accounts'' (uuid_str account_id) column"

definition seal_secret ::
  "aead \<Rightarrow> bytes \<Rightarrow> uuid \<Rightarrow> string \<Rightarrow> string option \<Rightarrow> encrypted_secret option" where
  "seal_secret box random account_id column value =
     map_option (\<lambda>v. secret_encrypt box random v (secret_aad account_id column)) value"

definition open_secret ::
  "aead \<Rightarrow> uuid \<Rightarrow> string \<Rightarrow> encrypted_secret option \<Rightarrow> (exn, string option) result" where
  "open_secret box account_id column value =
     (case value of
        None \<Rightarrow> Inr None
      | Some blob \<Rightarrow> rbind (secret_decrypt box blob (secret_aad account_id column)) (\<lambda>s. Inr (Some s)))"

lemma secret_aad_inj: "secret_aad a c = secret_aad b d \<longleftrightarrow> a = b \<and> c = d"
  by (auto simp: secret_aad_def encrypted_aad_def uuid_str_inj)

text \<open>What the library documents of AES-GCM: decryption undoes encryption under the same nonce and
  associated data, and refuses a ciphertext that was made with other associated data.\<close>

definition aead_correct :: "aead \<Rightarrow> bool" where
  "aead_correct box \<longleftrightarrow> (\<forall>n p a. ae_decrypt box n (ae_encrypt box n p a) a = Some p)"

definition aead_binds :: "aead \<Rightarrow> bool" where
  "aead_binds box \<longleftrightarrow> (\<forall>n p a b. a \<noteq> b \<longrightarrow> ae_decrypt box n (ae_encrypt box n p a) b = None)"

lemma open_seal:
  "aead_correct box \<Longrightarrow> open_secret box a c (seal_secret box r a c v) = Inr v"
  by (cases v) (simp_all add: open_secret_def seal_secret_def secret_decrypt_def secret_encrypt_def
      aead_correct_def)

text \<open>
  C12: a stored credential opens for its own row and column only. What an account's setter sealed,
  its getter returns; the same ciphertext moved to another account or to another column of the
  same account is refused as an invalid secret.
\<close>

theorem secret_bound_to_row_and_column:
  assumes "aead_correct box" "aead_binds box"
  shows "open_secret box b d (seal_secret box random a c (Some v)) =
    (if a = b \<and> c = d then Inr (Some v) else Inl InvalidSecret)"
proof (cases "a = b \<and> c = d")
  case True
  then show ?thesis using open_seal [OF assms(1)] by simp
next
  case False
  then have "utf8 (secret_aad a c) \<noteq> utf8 (secret_aad b d)"
    by (auto simp: utf8_inj secret_aad_inj)
  then show ?thesis
    using assms(2) False
    by (auto simp: open_secret_def seal_secret_def secret_decrypt_def secret_encrypt_def aead_binds_def)
qed

text \<open>A box that prefixes the plaintext with its associated data has both properties.\<close>

definition plain_box :: aead where
  "plain_box = \<lparr>ae_encrypt = (\<lambda>n p a. show_nat (length a) @ '':'' @ a @ p),
     ae_decrypt = (\<lambda>n c a. if starts_with (show_nat (length a) @ '':'' @ a) c
       then Some (drop (length (show_nat (length a) @ '':'' @ a)) c) else None)\<rparr>"

lemma plain_box_aead: "aead_correct plain_box" "aead_binds plain_box"
proof -
  show "aead_correct plain_box"
    by (simp add: aead_correct_def plain_box_def starts_with_iff)
  have "a = b" if "show_nat (length a) @ '':'' @ a @ p = show_nat (length b) @ '':'' @ b @ q" for a b p q
  proof -
    have "show_nat (length a) = show_nat (length b) \<and> '':'' @ a @ p = '':'' @ b @ q"
      using that by (intro digits_prefix_unique) (auto simp: ends_number_def digits_def
          dest: subsetD [OF show_nat_digits])
    then show ?thesis by (auto simp: show_nat_inj)
  qed
  note header = this
  show "aead_binds plain_box"
    unfolding aead_binds_def
  proof (intro allI impI)
    fix n p a b :: string
    assume "a \<noteq> b"
    then have "\<not> starts_with (show_nat (length b) @ '':'' @ b) (show_nat (length a) @ '':'' @ a @ p)"
      using header [of a p b] unfolding starts_with_iff by (metis append.assoc)
    then show "ae_decrypt plain_box n (ae_encrypt plain_box n p a) b = None"
      by (simp add: plain_box_def)
  qed
qed

theorem secret_bound_to_row_and_column_witness:
  "open_secret plain_box 7 ''session_token'' (seal_secret plain_box [] 7 ''password'' (Some ''x''))
   = Inl InvalidSecret"
  using secret_bound_to_row_and_column [OF plain_box_aead, of 7 "''session_token''" "[]" 7 "''password''" "''x''"]
  by simp

section \<open>Account selectors\<close>

record account_target =
  target_id :: "uuid option"
  target_ids :: "uuid list"
  target_all_enabled :: bool

definition target_validate :: "account_target \<Rightarrow> (exn, unit) result" where
  "target_validate t =
     (if sum_list (map of_bool [target_id t \<noteq> None, target_ids t \<noteq> [], target_all_enabled t]) \<noteq> (1::nat)
      then Inl ValueErr else Inr ())"

end
