(* ===== verification/Database.thy ===== *)
theory Database
  imports Effects Json Secrets Redaction
begin

text \<open>
  The tables (\<open>models.py\<close>) as lists of rows and one database that holds them, with the look-ups
  and updates by key that the services use, and the constraints the schema declares. A row of a
  table carries the columns some operation reads or sets; the bookkeeping stamps
  \<open>created_at\<close> and \<open>updated_at\<close> that SQLAlchemy fills in by itself are kept where an operation
  sets or reads them.
\<close>

section \<open>Tables\<close>

named_theorems table_simps \<open>look-ups after updates\<close>

definition lookup :: "('r \<Rightarrow> 'k) \<Rightarrow> 'k \<Rightarrow> 'r list \<Rightarrow> 'r option" where
  "lookup key k rows = find (\<lambda>r. key r = k) rows"

definition replace_row :: "('r \<Rightarrow> 'k) \<Rightarrow> 'r \<Rightarrow> 'r list \<Rightarrow> 'r list" where
  "replace_row key row rows = map (\<lambda>r. if key r = key row then row else r) rows"

lemma lookup_simps [table_simps]:
  "lookup key k [] = None"
  "lookup key k (r # rs) = (if key r = k then Some r else lookup key k rs)"
  by (simp_all add: lookup_def)

lemma lookup_Some: "lookup key k rows = Some r \<Longrightarrow> r \<in> set rows \<and> key r = k"
  by (induction rows) (auto simp: table_simps split: if_splits)

lemma lookup_None: "lookup key k rows = None \<longleftrightarrow> k \<notin> key ` set rows"
  by (induction rows) (auto simp: table_simps)

lemma lookup_append [table_simps]:
  "lookup key k (rows @ rows') =
     (case lookup key k rows of None \<Rightarrow> lookup key k rows' | Some r \<Rightarrow> Some r)"
  by (induction rows) (auto simp: table_simps)

lemma lookup_replace [table_simps]:
  "lookup key k (replace_row key row rows) =
     (if k = key row then map_option (\<lambda>_. row) (lookup key k rows) else lookup key k rows)"
  by (induction rows) (auto simp: table_simps replace_row_def)

lemma keys_replace [simp]: "map key (replace_row key row rows) = map key rows"
  by (induction rows) (auto simp: replace_row_def)

lemma length_replace [simp]: "length (replace_row key row rows) = length rows"
  by (simp add: replace_row_def)

lemma replace_row_id: "distinct (map key rows) \<Longrightarrow> r \<in> set rows \<Longrightarrow> replace_row key r rows = rows"
  by (auto simp: replace_row_def distinct_map dest: inj_onD intro!: map_idI)

lemma set_replace: "set (replace_row key row rows) \<subseteq> insert row (set rows)"
  by (auto simp: replace_row_def)

lemma lookup_unique:
  "distinct (map key rows) \<Longrightarrow> r \<in> set rows \<Longrightarrow> lookup key (key r) rows = Some r"
  by (induction rows) (force simp: table_simps)+

section \<open>Actors\<close>

record actor =
  actor_kind :: string
  actor_id :: string
  actor_scopes :: "string set"

section \<open>Rows\<close>

record game_account =
  ga_id :: uuid
  game_account_id :: "string option"
  ga_label :: string
  ga_game_username :: "encrypted_secret option"
  ga_auth_mode :: string
  ga_password :: "encrypted_secret option"
  ga_session_token :: "encrypted_secret option"
  ga_session_expires_at :: "instant option"
  ga_enabled :: bool
  ga_paused_reason :: "string option"
  ga_policy_version :: int
  ga_last_success_at :: "instant option"
  ga_last_error_at :: "instant option"
  ga_auth_failure_count :: int
  ga_auth_failure_window_started_at :: "instant option"

record account_policy_row =
  pol_account_id :: uuid
  pol_policy :: json
  pol_version :: int

record account_snapshot_row =
  snap_account_id :: uuid
  snap_state :: json
  snap_fingerprint :: string
  snap_fetched_at :: instant
  snap_expires_at :: instant

record job =
  job_id :: uuid
  job_account_id :: uuid
  job_kind :: string
  job_schedule :: string
  job_timezone :: string
  job_enabled :: bool
  job_next_run_at :: "instant option"
  job_misfire_policy :: string
  job_created_at :: instant

record job_run =
  run_id :: uuid
  run_job_id :: uuid
  run_account_id :: uuid
  run_idempotency_key :: string
  run_dispatched_at :: instant
  run_lease_owner :: "string option"
  run_lease_expires_at :: "instant option"
  run_attempt :: int
  run_result :: "json option"
  run_retry_count :: int
  run_next_retry_at :: "instant option"
  run_completed_at :: "instant option"

record action_plan =
  plan_id :: uuid
  plan_account_id :: uuid
  plan_state_fingerprint :: string
  plan_policy_version :: int
  plan_proposed_actions :: json
  plan_estimated_costs :: json
  plan_risk :: string
  plan_expires_at :: instant
  plan_confirmation_required :: bool
  plan_confirmed_at :: "instant option"
  plan_confirmed_by :: "string option"
  plan_execution_state :: string
  plan_executed_at :: "instant option"
  plan_execution_result :: "json option"
  plan_execution_owner :: "string option"
  plan_execution_started_at :: "instant option"
  plan_execution_lease_expires_at :: "instant option"
  plan_execution_attempt_count :: int

record admin_credential =
  cred_password_hash :: string
  cred_created_at :: instant
  cred_updated_at :: instant

record admin_session =
  sess_token_digest :: string
  sess_created_at :: instant
  sess_absolute_expires_at :: instant
  sess_last_seen_at :: instant

record audit_event =
  aud_actor :: string
  aud_source :: string
  aud_account_id :: "uuid option"
  aud_plan_id :: "uuid option"
  aud_action :: string
  aud_result :: "json option"
  aud_correlation_id :: "string option"
  aud_before :: "json option"
  aud_after :: "json option"

record scheduler_lease =
  lease_owner :: "string option"
  lease_expires_at :: "instant option"

text \<open>
  The database. The credential and the scheduler lease are single rows that may be missing (their
  primary keys are fixed by a check constraint).
\<close>

record database =
  accounts :: "game_account list"
  policies :: "account_policy_row list"
  snapshots :: "account_snapshot_row list"
  jobs :: "job list"
  job_runs :: "job_run list"
  plans :: "action_plan list"
  credential :: "admin_credential option"
  admin_sessions :: "admin_session list"
  audits :: "audit_event list"
  sched_lease :: "scheduler_lease option"

definition empty_database :: database where
  "empty_database = \<lparr>accounts = [], policies = [], snapshots = [], jobs = [], job_runs = [],
     plans = [], credential = None, admin_sessions = [], audits = [], sched_lease = None\<rparr>"

definition get_account :: "uuid \<Rightarrow> database \<Rightarrow> game_account option" where
  "get_account a d = lookup ga_id a (accounts d)"

definition put_account :: "game_account \<Rightarrow> database \<Rightarrow> database" where
  "put_account r d = d\<lparr>accounts := replace_row ga_id r (accounts d)\<rparr>"

definition get_plan :: "uuid \<Rightarrow> database \<Rightarrow> action_plan option" where
  "get_plan p d = lookup plan_id p (plans d)"

definition put_plan :: "action_plan \<Rightarrow> database \<Rightarrow> database" where
  "put_plan r d = d\<lparr>plans := replace_row plan_id r (plans d)\<rparr>"

definition get_policy_row :: "uuid \<Rightarrow> database \<Rightarrow> account_policy_row option" where
  "get_policy_row a d = lookup pol_account_id a (policies d)"

lemma get_put_account [table_simps]:
  "get_account a (put_account r d) =
     (if a = ga_id r then map_option (\<lambda>_. r) (get_account a d) else get_account a d)"
  by (simp add: get_account_def put_account_def table_simps)

lemma get_put_plan [table_simps]:
  "get_plan p (put_plan r d) =
     (if p = plan_id r then map_option (\<lambda>_. r) (get_plan p d) else get_plan p d)"
  by (simp add: get_plan_def put_plan_def table_simps)

lemma get_account_id: "get_account a d = Some r \<Longrightarrow> ga_id r = a"
  by (auto simp: get_account_def dest: lookup_Some)

lemma get_plan_id: "get_plan p d = Some r \<Longrightarrow> plan_id r = p"
  by (auto simp: get_plan_def dest: lookup_Some)

lemma put_selects [simp]:
  "plans (put_account r d) = plans d" "accounts (put_plan q d) = accounts d"
  "audits (put_account r d) = audits d" "audits (put_plan q d) = audits d"
  "policies (put_account r d) = policies d" "policies (put_plan q d) = policies d"
  "jobs (put_account r d) = jobs d" "snapshots (put_account r d) = snapshots d"
  by (simp_all add: put_account_def put_plan_def)

section \<open>Declared constraints\<close>

definition constraints :: "database \<Rightarrow> bool" where
  "constraints d \<longleftrightarrow>
     distinct (map ga_id (accounts d)) \<and>
     (\<forall>r \<in> set (accounts d). 1 \<le> ga_policy_version r) \<and>
     distinct (List.map_filter game_account_id (accounts d)) \<and>
     distinct (map pol_account_id (policies d)) \<and>
     (\<forall>r \<in> set (policies d). case pol_policy r of JObj _ \<Rightarrow> True | _ \<Rightarrow> False) \<and>
     (\<forall>r \<in> set (snapshots d). snap_expires_at r = snap_fetched_at r + minutes 5) \<and>
     distinct (map plan_id (plans d)) \<and>
     distinct (map (\<lambda>r. (run_account_id r, run_idempotency_key r)) (job_runs d)) \<and>
     distinct (map sess_token_digest (admin_sessions d))"

section \<open>The audit log\<close>

text \<open>\<open>AccountRepository.add_audit\<close>; the payload columns redact what is bound to them.\<close>

definition add_audit ::
  "string \<Rightarrow> string \<Rightarrow> uuid option \<Rightarrow> uuid option \<Rightarrow> string \<Rightarrow> json option \<Rightarrow> json option \<Rightarrow> json option \<Rightarrow>
   string option \<Rightarrow> database \<Rightarrow> database" where
  "add_audit act source account plan action result bef aft corr d =
     d\<lparr>audits := audits d @ [\<lparr>aud_actor = act, aud_source = source, aud_account_id = account,
       aud_plan_id = plan, aud_action = action, aud_result = bind_redacted result,
       aud_correlation_id = corr, aud_before = bind_redacted bef,
       aud_after = bind_redacted aft\<rparr>]\<rparr>"

end
