(* ===== verification/Plans.thy ===== *)
theory Plans
  imports Database Fingerprint
begin

text \<open>
  Action plans (\<open>policy/plans.py\<close>): the registered actions and decisions with their JSON form
  and its validation, the typed plan, and the plan store. What pydantic accepts for an \<open>int\<close> or
  \<open>bool\<close> field besides a value of that type (its lax mode) is a parameter \<open>px\<close>; a validation
  error is a \<open>ValueError\<close>.
\<close>

section \<open>Validation of JSON values\<close>

record pydantic =
  lax_int :: "json \<Rightarrow> int option"
  lax_bool :: "json \<Rightarrow> bool option"

definition pydantic_ok :: "pydantic \<Rightarrow> bool" where
  "pydantic_ok px \<longleftrightarrow> (\<forall>i. lax_int px (JInt i) = Some i) \<and> (\<forall>b. lax_bool px (JBool b) = Some b)"

text \<open>The instance that accepts nothing else, for concrete runs.\<close>

definition strict_pydantic :: pydantic where
  "strict_pydantic = \<lparr>lax_int = (\<lambda>v. case v of JInt i \<Rightarrow> Some i | _ \<Rightarrow> None),
     lax_bool = (\<lambda>v. case v of JBool b \<Rightarrow> Some b | _ \<Rightarrow> None)\<rparr>"

lemma strict_pydantic_ok: "pydantic_ok strict_pydantic"
  by (simp add: pydantic_ok_def strict_pydantic_def)

fun as_str :: "json \<Rightarrow> string option" where
  "as_str (JStr s) = Some s"
| "as_str _ = None"

fun as_str_list :: "json \<Rightarrow> string list option" where
  "as_str_list (JArr vs) =
     (if list_all (\<lambda>v. as_str v \<noteq> None) vs then Some (map (\<lambda>v. the (as_str v)) vs) else None)"
| "as_str_list _ = None"

fun as_opt_str :: "json \<Rightarrow> string option option" where
  "as_opt_str JNull = Some None"
| "as_opt_str v = map_option Some (as_str v)"

text \<open>
  A model field may be given by its alias or, with \<open>populate_by_name\<close>, by its name; with
  \<open>extra = "forbid"\<close> no other key may occur.
\<close>

definition field :: "(string \<times> json) list \<Rightarrow> string \<Rightarrow> string \<Rightarrow> json option" where
  "field kvs alias name =
     (case dict_get kvs alias of Some v \<Rightarrow> Some v | None \<Rightarrow> dict_get kvs name)"

definition only_fields :: "(string \<times> json) list \<Rightarrow> (string \<times> string) list \<Rightarrow> bool" where
  "only_fields kvs fs \<longleftrightarrow>
     list_all (\<lambda>(k, v). list_ex (\<lambda>(alias, name). k = alias \<or> k = name \<and> dict_get kvs alias = None) fs) kvs"

definition non_empty :: "string option \<Rightarrow> string option" where
  "non_empty v = (case v of Some (c # s) \<Rightarrow> Some (c # s) | _ \<Rightarrow> None)"

definition at_least :: "int \<Rightarrow> int option \<Rightarrow> int option" where
  "at_least n v = (case v of Some i \<Rightarrow> if n \<le> i then Some i else None | None \<Rightarrow> None)"

lemma non_empty_Some [simp]: "non_empty (Some s) = (if s = [] then None else Some s)"
  by (cases s) (simp_all add: non_empty_def)

lemma non_empty_iff: "non_empty v = Some s \<longleftrightarrow> v = Some s \<and> s \<noteq> []"
  by (cases v) (auto simp: non_empty_def split: list.splits)

lemma at_least_iff: "at_least n v = Some i \<longleftrightarrow> v = Some i \<and> n \<le> i"
  by (cases v) (auto simp: at_least_def)

text \<open>\<open>Literal\<close> types as datatypes with the table of their texts.\<close>

definition of_table :: "(string \<times> 'a) list \<Rightarrow> json \<Rightarrow> 'a option" where
  "of_table t v = (case v of JStr s \<Rightarrow> map_of t s | _ \<Rightarrow> None)"

section \<open>Actions\<close>

datatype family =
    Fam_idle | Fam_personal_boss | Fam_ordinary_boss | Fam_world_boss | Fam_profession
  | Fam_safe_reward

datatype difficulty = Normal | Hard | Nightmare

datatype buff = Buff_none | Buff_assault | Buff_guard | Buff_focus

fun family_str :: "family \<Rightarrow> string" where
  "family_str Fam_idle = ''idle''"
| "family_str Fam_personal_boss = ''personal_boss''"
| "family_str Fam_ordinary_boss = ''ordinary_boss''"
| "family_str Fam_world_boss = ''world_boss''"
| "family_str Fam_profession = ''profession''"
| "family_str Fam_safe_reward = ''safe_reward''"

fun difficulty_str :: "difficulty \<Rightarrow> string" where
  "difficulty_str Normal = ''normal''"
| "difficulty_str Hard = ''hard''"
| "difficulty_str Nightmare = ''nightmare''"

fun buff_str :: "buff \<Rightarrow> string" where
  "buff_str Buff_none = ''none''"
| "buff_str Buff_assault = ''assault''"
| "buff_str Buff_guard = ''guard''"
| "buff_str Buff_focus = ''focus''"

definition families :: "(string \<times> family) list" where
  "families = map (\<lambda>f. (family_str f, f)) [Fam_idle, Fam_personal_boss, Fam_ordinary_boss,
     Fam_world_boss, Fam_profession, Fam_safe_reward]"

definition difficulties :: "(string \<times> difficulty) list" where
  "difficulties = map (\<lambda>d. (difficulty_str d, d)) [Normal, Hard, Nightmare]"

definition buffs :: "(string \<times> buff) list" where
  "buffs = map (\<lambda>b. (buff_str b, b)) [Buff_none, Buff_assault, Buff_guard, Buff_focus]"

lemma literal_tables [simp]:
  "of_table families (JStr (family_str f)) = Some f"
  "of_table difficulties (JStr (difficulty_str d)) = Some d"
  "of_table buffs (JStr (buff_str b)) = Some b"
  by ((cases f; simp add: of_table_def families_def),
      (cases d; simp add: of_table_def difficulties_def),
      (cases b; simp add: of_table_def buffs_def))

text \<open>The order of the difficulties the optimizer uses.\<close>

fun difficulty_rank :: "difficulty \<Rightarrow> nat" where
  "difficulty_rank Normal = 0"
| "difficulty_rank Hard = 1"
| "difficulty_rank Nightmare = 2"

lemma difficulty_rank_inj: "difficulty_rank x = difficulty_rank y \<longleftrightarrow> x = y"
  by (cases x; cases y) auto

instantiation difficulty :: linorder
begin

definition less_eq_difficulty :: "difficulty \<Rightarrow> difficulty \<Rightarrow> bool" where
  "less_eq_difficulty x y \<longleftrightarrow> difficulty_rank x \<le> difficulty_rank y"

definition less_difficulty :: "difficulty \<Rightarrow> difficulty \<Rightarrow> bool" where
  "less_difficulty x y \<longleftrightarrow> difficulty_rank x < difficulty_rank y"

instance
  by standard (auto simp: less_eq_difficulty_def less_difficulty_def difficulty_rank_inj)

end

record boss_challenge =
  bc_family :: family
  bc_boss_key :: string
  bc_difficulty :: difficulty
  bc_selected_skill_keys :: "string list"
  bc_buff_key :: buff
  bc_affix_key :: "string option"
  bc_target_slot :: string
  bc_use_material_boost :: bool

datatype action =
    IdleCollectAction
  | BossChallengeAction boss_challenge
  | BossAssistAction string
  | ProfessionSettleAction
  | ProfessionEnqueueAction string int
  | ProfessionSupplyEquipAction string string
  | DailyClaimAction int
  | QuestClaimAction string
  | AchievementClaimAction string
  | CodexClaimAction string
  | MailClaimAction string

fun action_family :: "action \<Rightarrow> family" where
  "action_family IdleCollectAction = Fam_idle"
| "action_family (BossChallengeAction b) = bc_family b"
| "action_family (BossAssistAction k) = Fam_world_boss"
| "action_family ProfessionSettleAction = Fam_profession"
| "action_family (ProfessionEnqueueAction k n) = Fam_profession"
| "action_family (ProfessionSupplyEquipAction t k) = Fam_profession"
| "action_family _ = Fam_safe_reward"

fun action_kind :: "action \<Rightarrow> string" where
  "action_kind IdleCollectAction = ''idle_collect''"
| "action_kind (BossChallengeAction b) = ''boss_challenge''"
| "action_kind (BossAssistAction k) = ''boss_assist''"
| "action_kind ProfessionSettleAction = ''profession_settle''"
| "action_kind (ProfessionEnqueueAction k n) = ''profession_enqueue''"
| "action_kind (ProfessionSupplyEquipAction t k) = ''profession_supply_equip''"
| "action_kind (DailyClaimAction p) = ''daily_claim''"
| "action_kind (QuestClaimAction k) = ''quest_claim''"
| "action_kind (AchievementClaimAction k) = ''achievement_claim''"
| "action_kind (CodexClaimAction k) = ''codex_claim''"
| "action_kind (MailClaimAction k) = ''mail_claim''"

text \<open>The field constraints of the action models.\<close>

fun action_valid :: "action \<Rightarrow> bool" where
  "action_valid (BossChallengeAction b) \<longleftrightarrow>
     bc_family b \<in> {Fam_personal_boss, Fam_ordinary_boss} \<and> bc_boss_key b \<noteq> [] \<and>
     length (bc_selected_skill_keys b) \<le> 3 \<and> bc_target_slot b \<noteq> []"
| "action_valid (BossAssistAction k) \<longleftrightarrow> k \<noteq> []"
| "action_valid (ProfessionEnqueueAction k n) \<longleftrightarrow> k \<noteq> [] \<and> 1 \<le> n"
| "action_valid (ProfessionSupplyEquipAction t k) \<longleftrightarrow> t \<noteq> [] \<and> k \<noteq> []"
| "action_valid (DailyClaimAction p) \<longleftrightarrow> 0 \<le> p"
| "action_valid (QuestClaimAction k) \<longleftrightarrow> k \<noteq> []"
| "action_valid (AchievementClaimAction k) \<longleftrightarrow> k \<noteq> []"
| "action_valid (CodexClaimAction k) \<longleftrightarrow> k \<noteq> []"
| "action_valid (MailClaimAction k) \<longleftrightarrow> k \<noteq> []"
| "action_valid _ \<longleftrightarrow> True"

text \<open>\<open>model_dump(mode="json", by_alias=True)\<close>.\<close>

fun action_payload :: "action \<Rightarrow> (string \<times> json) list" where
  "action_payload (BossChallengeAction b) =
     [(''bossKey'', JStr (bc_boss_key b)),
      (''difficulty'', JStr (difficulty_str (bc_difficulty b))),
      (''selectedSkillKeys'', JArr (map JStr (bc_selected_skill_keys b))),
      (''buffKey'', JStr (buff_str (bc_buff_key b))),
      (''affixKey'', case bc_affix_key b of None \<Rightarrow> JNull | Some k \<Rightarrow> JStr k),
      (''targetSlot'', JStr (bc_target_slot b)),
      (''useMaterialBoost'', JBool (bc_use_material_boost b))]"
| "action_payload (BossAssistAction k) = [(''bossKey'', JStr k)]"
| "action_payload (ProfessionEnqueueAction k n) = [(''actionKey'', JStr k), (''count'', JInt n)]"
| "action_payload (ProfessionSupplyEquipAction t k) = [(''supplyType'', JStr t), (''itemKey'', JStr k)]"
| "action_payload (DailyClaimAction p) = [(''point'', JInt p)]"
| "action_payload (QuestClaimAction k) = [(''questKey'', JStr k)]"
| "action_payload (AchievementClaimAction k) = [(''achievementKey'', JStr k)]"
| "action_payload (CodexClaimAction k) = [(''rewardKey'', JStr k)]"
| "action_payload (MailClaimAction k) = [(''mailId'', JStr k)]"
| "action_payload _ = []"

definition action_json :: "action \<Rightarrow> json" where
  "action_json a = JObj ([(''family'', JStr (family_str (action_family a))),
     (''kind'', JStr (action_kind a))] @ action_payload a)"

text \<open>The \<open>family\<close> field of an action has a default and admits the listed literals.\<close>

definition parse_family :: "(string \<times> json) list \<Rightarrow> family list \<Rightarrow> family option" where
  "parse_family kvs allowed =
     (case dict_get kvs ''family'' of
        None \<Rightarrow> Some (hd allowed)
      | Some v \<Rightarrow> (case of_table families v of
          Some f \<Rightarrow> if f \<in> set allowed then Some f else None
        | None \<Rightarrow> None))"

definition str_field :: "(string \<times> json) list \<Rightarrow> string \<Rightarrow> string \<Rightarrow> string option" where
  "str_field kvs alias name =
     non_empty (case field kvs alias name of Some v \<Rightarrow> as_str v | None \<Rightarrow> None)"

definition int_field :: "pydantic \<Rightarrow> (string \<times> json) list \<Rightarrow> string \<Rightarrow> int \<Rightarrow> int option" where
  "int_field px kvs name least =
     at_least least (case dict_get kvs name of Some v \<Rightarrow> lax_int px v | None \<Rightarrow> None)"

definition action_fields :: "(string \<times> string) list \<Rightarrow> (string \<times> string) list" where
  "action_fields fs = [(''family'', ''family''), (''kind'', ''kind'')] @ fs"

text \<open>An action of one string field.\<close>

definition parse_single ::
  "(string \<times> json) list \<Rightarrow> family \<Rightarrow> string \<Rightarrow> string \<Rightarrow> (string \<Rightarrow> action) \<Rightarrow> action option" where
  "parse_single kvs fam alias name mk =
     (if only_fields kvs (action_fields [(alias, name)]) \<and> parse_family kvs [fam] \<noteq> None
      then map_option mk (str_field kvs alias name) else None)"

definition parse_boss_challenge :: "pydantic \<Rightarrow> (string \<times> json) list \<Rightarrow> action option" where
  "parse_boss_challenge px kvs =
     (if only_fields kvs (action_fields [(''bossKey'', ''boss_key''), (''difficulty'', ''difficulty''),
          (''selectedSkillKeys'', ''selected_skill_keys''), (''buffKey'', ''buff_key''),
          (''affixKey'', ''affix_key''), (''targetSlot'', ''target_slot''),
          (''useMaterialBoost'', ''use_material_boost'')])
      then case (parse_family kvs [Fam_personal_boss, Fam_ordinary_boss],
          str_field kvs ''bossKey'' ''boss_key'',
          Option.bind (dict_get kvs ''difficulty'') (of_table difficulties),
          Option.bind (field kvs ''selectedSkillKeys'' ''selected_skill_keys'') as_str_list,
          Option.bind (field kvs ''buffKey'' ''buff_key'') (of_table buffs),
          Option.bind (field kvs ''affixKey'' ''affix_key'') as_opt_str,
          str_field kvs ''targetSlot'' ''target_slot'',
          Option.bind (field kvs ''useMaterialBoost'' ''use_material_boost'') (lax_bool px)) of
        (Some fam, Some boss, Some d, Some skills, Some b, Some affix, Some slot, Some boost) \<Rightarrow>
          if length skills \<le> 3 then
            Some (BossChallengeAction \<lparr>bc_family = fam, bc_boss_key = boss, bc_difficulty = d,
              bc_selected_skill_keys = skills, bc_buff_key = b, bc_affix_key = affix,
              bc_target_slot = slot, bc_use_material_boost = boost\<rparr>)
          else None
      | _ \<Rightarrow> None
      else None)"

definition parse_action_kind :: "pydantic \<Rightarrow> string \<Rightarrow> (string \<times> json) list \<Rightarrow> action option" where
  "parse_action_kind px kind kvs =
     (if kind = ''idle_collect'' then
        (if only_fields kvs (action_fields []) \<and> parse_family kvs [Fam_idle] \<noteq> None
         then Some IdleCollectAction else None)
      else if kind = ''boss_challenge'' then parse_boss_challenge px kvs
      else if kind = ''boss_assist'' then
        parse_single kvs Fam_world_boss ''bossKey'' ''boss_key'' BossAssistAction
      else if kind = ''profession_settle'' then
        (if only_fields kvs (action_fields []) \<and> parse_family kvs [Fam_profession] \<noteq> None
         then Some ProfessionSettleAction else None)
      else if kind = ''profession_enqueue'' then
        (if only_fields kvs (action_fields [(''actionKey'', ''action_key''), (''count'', ''count'')]) \<and>
            parse_family kvs [Fam_profession] \<noteq> None
         then case (str_field kvs ''actionKey'' ''action_key'', int_field px kvs ''count'' 1) of
             (Some k, Some n) \<Rightarrow> Some (ProfessionEnqueueAction k n) | _ \<Rightarrow> None
         else None)
      else if kind = ''profession_supply_equip'' then
        (if only_fields kvs (action_fields [(''supplyType'', ''supply_type''), (''itemKey'', ''item_key'')]) \<and>
            parse_family kvs [Fam_profession] \<noteq> None
         then case (str_field kvs ''supplyType'' ''supply_type'', str_field kvs ''itemKey'' ''item_key'') of
             (Some t, Some k) \<Rightarrow> Some (ProfessionSupplyEquipAction t k) | _ \<Rightarrow> None
         else None)
      else if kind = ''daily_claim'' then
        (if only_fields kvs (action_fields [(''point'', ''point'')]) \<and>
            parse_family kvs [Fam_safe_reward] \<noteq> None
         then map_option DailyClaimAction (int_field px kvs ''point'' 0) else None)
      else if kind = ''quest_claim'' then
        parse_single kvs Fam_safe_reward ''questKey'' ''quest_key'' QuestClaimAction
      else if kind = ''achievement_claim'' then
        parse_single kvs Fam_safe_reward ''achievementKey'' ''achievement_key'' AchievementClaimAction
      else if kind = ''codex_claim'' then
        parse_single kvs Fam_safe_reward ''rewardKey'' ''reward_key'' CodexClaimAction
      else if kind = ''mail_claim'' then
        parse_single kvs Fam_safe_reward ''mailId'' ''mail_id'' MailClaimAction
      else None)"

fun parse_action :: "pydantic \<Rightarrow> json \<Rightarrow> action option" where
  "parse_action px (JObj kvs) =
     (case dict_get kvs ''kind'' of
        Some (JStr kind) \<Rightarrow> parse_action_kind px kind kvs
      | _ \<Rightarrow> None)"
| "parse_action px _ = None"

lemmas parse_defs = dict_get_def field_def only_fields_def action_fields_def str_field_def
  int_field_def parse_family_def parse_single_def

lemma as_str_list_map: "as_str_list (JArr (map JStr ss)) = Some ss"
  by (simp add: list_all_iff comp_def)

lemma parse_family_json:
  "f \<in> set allowed \<Longrightarrow> parse_family ((''family'', JStr (family_str f)) # kvs) allowed = Some f"
  by (simp add: parse_family_def dict_get_def)

lemma parse_boss_challenge_json:
  assumes "pydantic_ok px" "action_valid (BossChallengeAction b)"
  shows "parse_action px (action_json (BossChallengeAction b)) = Some (BossChallengeAction b)"
  using assms
  by (cases "bc_affix_key b")
    (auto simp: action_json_def parse_action_kind_def parse_boss_challenge_def parse_family_json
      as_str_list_map field_def dict_get_def only_fields_def action_fields_def str_field_def
      pydantic_ok_def simp del: family_str.simps as_str_list.simps)

lemma parse_action_json [simp]:
  assumes "pydantic_ok px" "action_valid a"
  shows "parse_action px (action_json a) = Some a"
  using assms
  by (cases a) (simp_all add: parse_boss_challenge_json, simp_all add: action_json_def
      parse_action_kind_def parse_family_json parse_single_def
      field_def dict_get_def only_fields_def action_fields_def str_field_def int_field_def
      at_least_def pydantic_ok_def del: family_str.simps)

section \<open>Decisions\<close>

datatype decision =
    SelectedDecision family string action
  | SkippedDecision family string "action option"
  | BlockedDecision family string "action option"

fun decision_family :: "decision \<Rightarrow> family" where
  "decision_family (SelectedDecision f r a) = f"
| "decision_family (SkippedDecision f r a) = f"
| "decision_family (BlockedDecision f r a) = f"

fun decision_reason :: "decision \<Rightarrow> string" where
  "decision_reason (SelectedDecision f r a) = r"
| "decision_reason (SkippedDecision f r a) = r"
| "decision_reason (BlockedDecision f r a) = r"

fun decision_action :: "decision \<Rightarrow> action option" where
  "decision_action (SelectedDecision f r a) = Some a"
| "decision_action (SkippedDecision f r a) = a"
| "decision_action (BlockedDecision f r a) = a"

fun decision_state :: "decision \<Rightarrow> string" where
  "decision_state (SelectedDecision f r a) = ''selected''"
| "decision_state (SkippedDecision f r a) = ''skipped''"
| "decision_state (BlockedDecision f r a) = ''blocked''"

text \<open>The pattern \<open>^[a-z][a-z0-9_]{0,127}$\<close>.\<close>

definition reason_ok :: "string \<Rightarrow> bool" where
  "reason_ok r \<longleftrightarrow> (case r of
     [] \<Rightarrow> False
   | c # cs \<Rightarrow> is_ascii_lower c \<and> length cs \<le> 127 \<and>
       list_all (\<lambda>c. is_ascii_lower c \<or> is_digit c \<or> c = CHR ''_'') cs)"

definition decision_valid :: "decision \<Rightarrow> bool" where
  "decision_valid d \<longleftrightarrow> reason_ok (decision_reason d) \<and>
     (case decision_action d of
        None \<Rightarrow> True | Some a \<Rightarrow> action_valid a \<and> action_family a = decision_family d)"

definition decision_json :: "decision \<Rightarrow> json" where
  "decision_json d = JObj [(''family'', JStr (family_str (decision_family d))),
     (''reason'', JStr (decision_reason d)), (''state'', JStr (decision_state d)),
     (''action'', case decision_action d of None \<Rightarrow> JNull | Some a \<Rightarrow> action_json a)]"

definition parse_decision_fields ::
  "pydantic \<Rightarrow> string \<Rightarrow> (string \<times> json) list \<Rightarrow> decision option" where
  "parse_decision_fields px state kvs =
     (if only_fields kvs [(''family'', ''family''), (''reason'', ''reason''), (''state'', ''state''),
          (''action'', ''action'')]
      then case (Option.bind (dict_get kvs ''family'') (of_table families),
                 Option.bind (dict_get kvs ''reason'') as_str) of
        (Some f, Some r) \<Rightarrow>
          (let action = (case dict_get kvs ''action'' of
               None \<Rightarrow> if state = ''selected'' then None else Some None
             | Some JNull \<Rightarrow> if state = ''selected'' then None else Some None
             | Some v \<Rightarrow> map_option Some (parse_action px v)) in
           case action of
             None \<Rightarrow> None
           | Some a \<Rightarrow>
               if reason_ok r \<and> (case a of None \<Rightarrow> True | Some a \<Rightarrow> action_family a = f) then
                 (if state = ''selected'' then map_option (SelectedDecision f r) a
                  else if state = ''skipped'' then Some (SkippedDecision f r a)
                  else if state = ''blocked'' then Some (BlockedDecision f r a)
                  else None)
               else None)
      | _ \<Rightarrow> None
      else None)"

fun parse_decision :: "pydantic \<Rightarrow> json \<Rightarrow> decision option" where
  "parse_decision px (JObj kvs) =
     (case dict_get kvs ''state'' of
        Some (JStr state) \<Rightarrow> parse_decision_fields px state kvs
      | _ \<Rightarrow> None)"
| "parse_decision px _ = None"

lemma action_json_not_null [simp]: "action_json a \<noteq> JNull"
  by (simp add: action_json_def)

lemma action_json_obj: "\<exists>kvs. action_json a = JObj kvs"
  by (simp add: action_json_def)

lemma parse_decision_json [simp]:
  assumes "pydantic_ok px" "decision_valid d"
  shows "parse_decision px (decision_json d) = Some d"
proof (cases "decision_action d")
  case None
  then show ?thesis using assms
    by (cases d) (simp_all add: decision_json_def parse_decision_fields_def decision_valid_def
        dict_get_def only_fields_def del: family_str.simps)
next
  case (Some a)
  obtain kvs where kvs: "action_json a = JObj kvs" using action_json_obj by blast
  have "parse_action px (JObj kvs) = Some a"
    using parse_action_json [OF assms(1), of a] assms(2) Some kvs by (simp add: decision_valid_def)
  then show ?thesis using assms(2) Some
    by (cases d) (simp_all add: kvs decision_json_def parse_decision_fields_def decision_valid_def
        dict_get_def only_fields_def del: family_str.simps parse_action.simps)
qed

section \<open>Plans\<close>

datatype plan_state = Pending | Confirmed | Executing | Executed | Failed | Reconciliation_required

fun plan_state_str :: "plan_state \<Rightarrow> string" where
  "plan_state_str Pending = ''pending''"
| "plan_state_str Confirmed = ''confirmed''"
| "plan_state_str Executing = ''executing''"
| "plan_state_str Executed = ''executed''"
| "plan_state_str Failed = ''failed''"
| "plan_state_str Reconciliation_required = ''reconciliation_required''"

definition plan_states :: "(string \<times> plan_state) list" where
  "plan_states = map (\<lambda>s. (plan_state_str s, s))
     [Pending, Confirmed, Executing, Executed, Failed, Reconciliation_required]"

lemma plan_states_of_str [simp]: "map_of plan_states (plan_state_str s) = Some s"
  by (cases s) (simp_all add: plan_states_def)

lemma plan_states_str: "map_of plan_states t = Some s \<Longrightarrow> t = plan_state_str s"
  by (auto simp: plan_states_def split: if_splits)

definition terminal_states :: "string list" where
  "terminal_states = [''executed'', ''failed'', ''reconciliation_required'']"

record estimated_costs =
  cost_material :: int
  cost_attempts :: int
  cost_currency :: int

definition no_costs :: estimated_costs where
  "no_costs = \<lparr>cost_material = 0, cost_attempts = 0, cost_currency = 0\<rparr>"

definition costs_valid :: "estimated_costs \<Rightarrow> bool" where
  "costs_valid c \<longleftrightarrow> 0 \<le> cost_material c \<and> 0 \<le> cost_attempts c \<and> 0 \<le> cost_currency c"

definition costs_json :: "estimated_costs \<Rightarrow> json" where
  "costs_json c = JObj [(''material'', JInt (cost_material c)),
     (''attempts'', JInt (cost_attempts c)), (''currency'', JInt (cost_currency c))]"

definition cost_field :: "pydantic \<Rightarrow> (string \<times> json) list \<Rightarrow> string \<Rightarrow> int option" where
  "cost_field px kvs name =
     (case dict_get kvs name of None \<Rightarrow> Some 0 | Some v \<Rightarrow> at_least 0 (lax_int px v))"

fun parse_costs :: "pydantic \<Rightarrow> json \<Rightarrow> estimated_costs option" where
  "parse_costs px (JObj kvs) =
     (if only_fields kvs [(''material'', ''material''), (''attempts'', ''attempts''),
          (''currency'', ''currency'')]
      then case (cost_field px kvs ''material'', cost_field px kvs ''attempts'',
                 cost_field px kvs ''currency'') of
          (Some m, Some a, Some c) \<Rightarrow>
            Some \<lparr>cost_material = m, cost_attempts = a, cost_currency = c\<rparr>
        | _ \<Rightarrow> None
      else None)"
| "parse_costs px _ = None"

lemma parse_costs_json [simp]:
  "pydantic_ok px \<Longrightarrow> costs_valid c \<Longrightarrow> parse_costs px (costs_json c) = Some c"
  by (simp add: costs_json_def costs_valid_def cost_field_def only_fields_def dict_get_def
      pydantic_ok_def at_least_def)

record plan_details =
  pd_account_id :: uuid
  pd_state_fingerprint :: string
  pd_policy_version :: int
  pd_decisions :: "decision list"
  pd_estimated_costs :: estimated_costs
  pd_risk :: string
  pd_expires_at :: instant
  pd_confirmation_required :: bool

record action_plan_draft = plan_details +
  draft_family :: family

record typed_action_plan = plan_details +
  tp_id :: uuid
  tp_confirmed_at :: "instant option"
  tp_confirmed_by :: "string option"
  tp_execution_state :: plan_state
  tp_executed_at :: "instant option"
  tp_execution_result :: "(string \<times> json) list option"
  tp_execution_owner :: "string option"
  tp_execution_started_at :: "instant option"
  tp_execution_lease_expires_at :: "instant option"
  tp_execution_attempt_count :: int

text \<open>The pattern \<open>^pgfp:v1:[0-9a-f]{64}$\<close>.\<close>

definition fingerprint_ok :: "string \<Rightarrow> bool" where
  "fingerprint_ok s \<longleftrightarrow> length s = 72 \<and> take 8 s = ''pgfp:v1:'' \<and>
     list_all (\<lambda>c. c \<in> set ''0123456789abcdef'') (drop 8 s)"

definition details_valid :: "'a plan_details_scheme \<Rightarrow> bool" where
  "details_valid p \<longleftrightarrow>
     fingerprint_ok (pd_state_fingerprint p) \<and> 1 \<le> pd_policy_version p \<and> pd_decisions p \<noteq> [] \<and>
     list_all decision_valid (pd_decisions p) \<and> costs_valid (pd_estimated_costs p) \<and>
     pd_risk p \<in> set [''low'', ''medium'', ''high''] \<and>
     list_all (\<lambda>d. decision_family d = decision_family (hd (pd_decisions p))) (pd_decisions p)"

definition draft_valid :: "action_plan_draft \<Rightarrow> bool" where
  "draft_valid p \<longleftrightarrow> details_valid p \<and> list_all (\<lambda>d. decision_family d = draft_family p) (pd_decisions p)"

definition tp_family :: "typed_action_plan \<Rightarrow> family" where
  "tp_family p = decision_family (hd (pd_decisions p))"

text \<open>The values \<open>StrictStr | StrictBool | StrictInt\<close> admits.\<close>

fun result_value :: "json \<Rightarrow> bool" where
  "result_value (JStr s) = True"
| "result_value (JBool b) = True"
| "result_value (JInt i) = True"
| "result_value v = False"

definition result_fits :: "(string \<times> json) list \<Rightarrow> bool" where
  "result_fits kvs \<longleftrightarrow> length kvs \<le> 16 \<and>
     list_all (\<lambda>(k, v). length k \<le> 64 \<and>
       (case v of JStr s \<Rightarrow> length s \<le> 256 | _ \<Rightarrow> True)) kvs"

fun parse_result :: "json option \<Rightarrow> (string \<times> json) list option option" where
  "parse_result None = Some None"
| "parse_result (Some (JObj kvs)) =
     (if list_all (\<lambda>(k, v). result_value v) kvs then Some (Some kvs) else None)"
| "parse_result (Some _) = None"

definition typed_plan_valid :: "typed_action_plan \<Rightarrow> bool" where
  "typed_plan_valid p \<longleftrightarrow> details_valid p \<and>
     ((tp_confirmed_at p = None) = (tp_confirmed_by p = None)) \<and>
     (tp_execution_state p = Confirmed \<longrightarrow> tp_confirmed_at p \<noteq> None) \<and>
     (case tp_execution_result p of None \<Rightarrow> True
      | Some kvs \<Rightarrow> list_all (\<lambda>(k, v). result_value v) kvs \<and> result_fits kvs) \<and>
     0 \<le> tp_execution_attempt_count p"

fun parse_decisions :: "pydantic \<Rightarrow> json \<Rightarrow> decision list option" where
  "parse_decisions px (JArr vs) =
     (if list_all (\<lambda>v. parse_decision px v \<noteq> None) vs
      then Some (map (\<lambda>v. the (parse_decision px v)) vs) else None)"
| "parse_decisions px _ = None"

lemma parse_decisions_json [simp]:
  "pydantic_ok px \<Longrightarrow> list_all decision_valid ds \<Longrightarrow>
   parse_decisions px (JArr (map decision_json ds)) = Some ds"
  by (auto simp: list_all_iff intro!: map_idI)

section \<open>The plan store\<close>

text \<open>\<open>PostgresPlanStore._typed\<close>: a row read as a validated plan.\<close>

definition typed :: "pydantic \<Rightarrow> action_plan \<Rightarrow> (exn, typed_action_plan) result" where
  "typed px row =
     (case (parse_decisions px (plan_proposed_actions row),
            parse_costs px (plan_estimated_costs row),
            map_of plan_states (plan_execution_state row),
            parse_result (plan_execution_result row)) of
        (Some ds, Some costs, Some st, Some res) \<Rightarrow>
          (let p = \<lparr>pd_account_id = plan_account_id row,
               pd_state_fingerprint = plan_state_fingerprint row,
               pd_policy_version = plan_policy_version row, pd_decisions = ds,
               pd_estimated_costs = costs, pd_risk = plan_risk row,
               pd_expires_at = plan_expires_at row,
               pd_confirmation_required = plan_confirmation_required row,
               tp_id = plan_id row, tp_confirmed_at = plan_confirmed_at row,
               tp_confirmed_by = plan_confirmed_by row, tp_execution_state = st,
               tp_executed_at = plan_executed_at row, tp_execution_result = res,
               tp_execution_owner = plan_execution_owner row,
               tp_execution_started_at = plan_execution_started_at row,
               tp_execution_lease_expires_at = plan_execution_lease_expires_at row,
               tp_execution_attempt_count = plan_execution_attempt_count row\<rparr> in
           if typed_plan_valid p then Inr p else Inl ValueErr)
      | _ \<Rightarrow> Inl ValueErr)"

definition draft_row :: "uuid \<Rightarrow> action_plan_draft \<Rightarrow> action_plan" where
  "draft_row new_id p = \<lparr>plan_id = new_id, plan_account_id = pd_account_id p,
     plan_state_fingerprint = pd_state_fingerprint p, plan_policy_version = pd_policy_version p,
     plan_proposed_actions = JArr (map decision_json (pd_decisions p)),
     plan_estimated_costs = costs_json (pd_estimated_costs p), plan_risk = pd_risk p,
     plan_expires_at = pd_expires_at p,
     plan_confirmation_required = pd_confirmation_required p, plan_confirmed_at = None,
     plan_confirmed_by = None, plan_execution_state = ''pending'', plan_executed_at = None,
     plan_execution_result = None, plan_execution_owner = None,
     plan_execution_started_at = None, plan_execution_lease_expires_at = None,
     plan_execution_attempt_count = 0\<rparr>"

definition insert_plan :: "action_plan \<Rightarrow> database \<Rightarrow> database" where
  "insert_plan row d = d\<lparr>plans := plans d @ [row]\<rparr>"

definition plan_create ::
  "pydantic \<Rightarrow> uuid \<Rightarrow> action_plan_draft \<Rightarrow> database \<Rightarrow> (exn, typed_action_plan \<times> database) result" where
  "plan_create px new_id draft d =
     (let row = draft_row new_id draft in
      rbind (typed px row) (\<lambda>t. Inr (t, insert_plan row d)))"

definition plan_get_for_update ::
  "pydantic \<Rightarrow> uuid \<Rightarrow> uuid \<Rightarrow> database \<Rightarrow> (exn, typed_action_plan) result" where
  "plan_get_for_update px p account d =
     (case get_plan p d of
        None \<Rightarrow> Inl PlanPreconditionFailed
      | Some row \<Rightarrow> if plan_account_id row = account then typed px row else Inl PlanPreconditionFailed)"

definition safe_actor_char :: "char \<Rightarrow> char" where
  "safe_actor_char c =
     (if is_ascii c \<and> (is_ascii_alnum c \<or> c \<in> set ''_.:@-'') then c else CHR ''_'')"

definition confirm_row :: "instant \<Rightarrow> actor \<Rightarrow> action_plan \<Rightarrow> action_plan" where
  "confirm_row now who row = row\<lparr>plan_execution_state := ''confirmed'',
     plan_confirmed_at := Some now,
     plan_confirmed_by := Some (take 128 (actor_kind who @ '':'' @ map safe_actor_char (actor_id who)))\<rparr>"

text \<open>\<open>confirm\<close> reads the clock twice: for the expiry and for the stamp.\<close>

definition plan_confirm ::
  "pydantic \<Rightarrow> instant \<Rightarrow> instant \<Rightarrow> uuid \<Rightarrow> uuid \<Rightarrow> actor \<Rightarrow> database \<Rightarrow>
   (exn, typed_action_plan \<times> database) result" where
  "plan_confirm px now now' p account who d =
     (case get_plan p d of
        None \<Rightarrow> Inl PlanPreconditionFailed
      | Some row \<Rightarrow>
          if plan_account_id row \<noteq> account \<or> plan_execution_state row \<noteq> ''pending'' \<or>
             plan_expires_at row \<le> now
          then Inl PlanPreconditionFailed
          else rbind (typed px (confirm_row now' who row))
            (\<lambda>t. Inr (t, put_plan (confirm_row now' who row) d)))"

definition plan_mark_executing ::
  "instant \<Rightarrow> uuid \<Rightarrow> string \<Rightarrow> database \<Rightarrow> (exn, database) result" where
  "plan_mark_executing now p expected d =
     (if expected \<notin> set [''pending'', ''confirmed''] then Inl PlanPreconditionFailed
      else case get_plan p d of
        None \<Rightarrow> Inl PlanPreconditionFailed
      | Some row \<Rightarrow>
          if plan_execution_state row \<noteq> expected \<or> plan_expires_at row \<le> now \<or>
             expected = ''pending'' \<and> plan_confirmation_required row
          then Inl PlanPreconditionFailed
          else Inr (put_plan (row\<lparr>plan_execution_state := ''executing''\<rparr>) d))"

fun clip_value :: "json \<Rightarrow> json" where
  "clip_value (JStr s) = JStr (take 256 s)"
| "clip_value v = v"

fun safe_result :: "(string \<times> json) list \<Rightarrow> (string \<times> json) list \<Rightarrow> (string \<times> json) list" where
  "safe_result safe [] = safe"
| "safe_result safe ((k, v) # rest) =
     safe_result (if length safe < 16 \<and> result_value v then dict_set safe (take 64 k) (clip_value v)
                  else safe) rest"

definition finish_row :: "instant \<Rightarrow> string \<Rightarrow> (string \<times> json) list \<Rightarrow> action_plan \<Rightarrow> action_plan" where
  "finish_row now status res row = row\<lparr>plan_execution_state := status,
     plan_execution_result := Some (JObj (safe_result [] res)), plan_executed_at := Some now\<rparr>"

definition plan_finish ::
  "instant \<Rightarrow> uuid \<Rightarrow> string \<Rightarrow> (string \<times> json) list \<Rightarrow> database \<Rightarrow> (exn, database) result" where
  "plan_finish now p status res d =
     (if status \<notin> set terminal_states then Inl PlanPreconditionFailed
      else case get_plan p d of
        None \<Rightarrow> Inl PlanPreconditionFailed
      | Some row \<Rightarrow>
          if plan_execution_state row \<in> set terminal_states then Inl PlanPreconditionFailed
          else if plan_execution_state row \<notin> set [''pending'', ''confirmed'', ''executing'']
          then Inl PlanPreconditionFailed
          else Inr (put_plan (finish_row now status res row) d))"

section \<open>What the store reads back\<close>

lemma typed_draft_row:
  assumes "pydantic_ok px" "draft_valid p"
  shows "typed px (draft_row new_id p) = Inr \<lparr>pd_account_id = pd_account_id p,
    pd_state_fingerprint = pd_state_fingerprint p, pd_policy_version = pd_policy_version p,
    pd_decisions = pd_decisions p, pd_estimated_costs = pd_estimated_costs p,
    pd_risk = pd_risk p, pd_expires_at = pd_expires_at p,
    pd_confirmation_required = pd_confirmation_required p, tp_id = new_id,
    tp_confirmed_at = None, tp_confirmed_by = None, tp_execution_state = Pending,
    tp_executed_at = None, tp_execution_result = None, tp_execution_owner = None,
    tp_execution_started_at = None, tp_execution_lease_expires_at = None,
    tp_execution_attempt_count = 0\<rparr>"
proof -
  have details: "details_valid p" using assms(2) by (simp add: draft_valid_def)
  then have ds: "parse_decisions px (JArr (map decision_json (pd_decisions p))) = Some (pd_decisions p)"
    and cs: "parse_costs px (costs_json (pd_estimated_costs p)) = Some (pd_estimated_costs p)"
    using assms(1) by (auto simp: details_valid_def simp del: parse_decisions.simps)
  have st: "map_of plan_states ''pending'' = Some Pending"
    using plan_states_of_str [of Pending] by simp
  show ?thesis
    using details
    by (simp add: typed_def draft_row_def ds cs st typed_plan_valid_def details_valid_def Let_def
        del: parse_decisions.simps)
qed

lemma lookup_insert_plan [table_simps]:
  "get_plan p (insert_plan row d) =
     (case get_plan p d of None \<Rightarrow> if plan_id row = p then Some row else None | Some r \<Rightarrow> Some r)"
  by (simp add: get_plan_def insert_plan_def table_simps split: option.splits)

text \<open>
  C37: what \<open>create\<close> persists is what \<open>get_for_update\<close> returns. A draft that pydantic admitted is
  written as JSON and read back as a pending, unconfirmed plan with exactly the draft's account,
  fingerprint, policy version, decisions, costs, risk, expiry and confirmation flag.
\<close>

theorem plan_create_roundtrip:
  assumes "pydantic_ok px" "draft_valid p" "get_plan new_id d = None"
  shows "\<exists>t d'. plan_create px new_id p d = Inr (t, d') \<and>
    plan_get_for_update px new_id (pd_account_id p) d' = Inr t \<and>
    plan_details.truncate t = plan_details.truncate p \<and>
    tp_id t = new_id \<and> tp_execution_state t = Pending \<and> tp_confirmed_at t = None \<and>
    tp_execution_result t = None"
  using typed_draft_row [OF assms(1,2), of new_id] assms(3)
  by (simp add: plan_create_def plan_get_for_update_def table_simps Let_def draft_row_def
      plan_details.defs)

definition sample_boss :: boss_challenge where
  "sample_boss = \<lparr>bc_family = Fam_ordinary_boss, bc_boss_key = ''b1'', bc_difficulty = Hard,
     bc_selected_skill_keys = [''s1'', ''s2''], bc_buff_key = Buff_guard, bc_affix_key = None,
     bc_target_slot = ''slot'', bc_use_material_boost = True\<rparr>"

definition sample_draft :: action_plan_draft where
  "sample_draft = \<lparr>pd_account_id = 7, pd_state_fingerprint = ''pgfp:v1:'' @ replicate 64 CHR ''a'',
     pd_policy_version = 1, pd_decisions = [SelectedDecision Fam_ordinary_boss ''best_chance''
       (BossChallengeAction sample_boss), SkippedDecision Fam_ordinary_boss ''no_attempts'' None],
     pd_estimated_costs = no_costs, pd_risk = ''medium'', pd_expires_at = 300,
     pd_confirmation_required = True, draft_family = Fam_ordinary_boss\<rparr>"

lemma sample_draft_valid: "draft_valid sample_draft"
  by (simp add: draft_valid_def details_valid_def sample_draft_def sample_boss_def fingerprint_ok_def
      decision_valid_def reason_ok_def is_ascii_lower_def is_digit_def no_costs_def costs_valid_def
      list_all_iff)

theorem plan_create_roundtrip_witness:
  "\<exists>t d'. plan_create strict_pydantic 9 sample_draft empty_database = Inr (t, d') \<and>
    plan_get_for_update strict_pydantic 9 7 d' = Inr t \<and> tp_execution_state t = Pending"
  using plan_create_roundtrip [OF strict_pydantic_ok sample_draft_valid, of 9 empty_database]
  by (auto simp: sample_draft_def empty_database_def get_plan_def table_simps)

section \<open>Results stay within their bounds\<close>

lemma safe_result_bounds:
  assumes "result_fits safe" "list_all (\<lambda>(k, v). result_value v) safe"
  shows "result_fits (safe_result safe res) \<and>
    list_all (\<lambda>(k, v). result_value v) (safe_result safe res)"
  using assms
proof (induction safe res rule: safe_result.induct)
  case (1 safe)
  then show ?case by simp
next
  case (2 safe k v rest)
  let ?set = "dict_set safe (take 64 k) (clip_value v)"
  have clip: "result_value v \<Longrightarrow> result_value (clip_value v) \<and>
      (case clip_value v of JStr s \<Rightarrow> length s \<le> 256 | _ \<Rightarrow> True)"
    by (cases v) auto
  have "result_fits ?set \<and> list_all (\<lambda>(k, v). result_value v) ?set"
    if "length safe < 16" "result_value v"
    using 2(2,3) that clip length_dict_set [of safe "take 64 k" "clip_value v"]
      set_dict_set [of safe "take 64 k" "clip_value v"]
    by (fastforce simp: result_fits_def list_all_iff)
  with 2 show ?case by simp
qed

lemma finish_row_typed:
  assumes "typed px row = Inr t" "status \<in> set terminal_states"
  shows "\<exists>t'. typed px (finish_row now status res row) = Inr t' \<and>
    plan_state_str (tp_execution_state t') = status \<and>
    plan_details.truncate t' = plan_details.truncate t \<and>
    tp_execution_result t' = Some (safe_result [] res) \<and> tp_executed_at t' = Some now"
proof -
  obtain ds cs where ds: "parse_decisions px (plan_proposed_actions row) = Some ds"
    and cs: "parse_costs px (plan_estimated_costs row) = Some cs"
    using assms(1) by (auto simp: typed_def split: option.splits)
  have "status = plan_state_str Executed \<or> status = plan_state_str Failed \<or>
      status = plan_state_str Reconciliation_required"
    using assms(2) by (auto simp: terminal_states_def)
  then obtain s where s: "status = plan_state_str s" "s \<noteq> Confirmed"
    by (metis plan_state.distinct(14,16,18))
  have bounds: "result_fits (safe_result [] res)" "list_all (\<lambda>(k, v). result_value v) (safe_result [] res)"
    using safe_result_bounds [of "[]" res] by (simp_all add: result_fits_def)
  have st: "map_of plan_states status = Some s" unfolding s(1) by (rule plan_states_of_str)
  show ?thesis
    using assms(1) bounds s
    by (auto simp: typed_def finish_row_def ds cs st typed_plan_valid_def details_valid_def Let_def
        plan_details.defs split: option.splits if_splits)
qed

text \<open>
  A plan can be finished once, and stays readable. From any state that is not terminal,
  \<open>finish\<close> with a terminal status succeeds on a plan the store can read and leaves a plan the
  store can read: same details, the given state, and a result of at most 16 entries with keys of at most
  64 and texts of at most 256 characters, whatever the caller passed; a second \<open>finish\<close> fails.
\<close>

theorem plan_finish_once:
  assumes "get_plan p d = Some row" "typed px row = Inr t" "status \<in> set terminal_states"
    "plan_execution_state row \<notin> set terminal_states"
  shows "\<exists>d' t'. plan_finish now p status res d = Inr d' \<and>
    plan_get_for_update px p (plan_account_id row) d' = Inr t' \<and>
    plan_details.truncate t' = plan_details.truncate t \<and>
    plan_state_str (tp_execution_state t') = status \<and>
    (\<exists>kvs. tp_execution_result t' = Some kvs \<and> result_fits kvs) \<and>
    (\<forall>now' status' res'. plan_finish now' p status' res' d' = Inl PlanPreconditionFailed) \<and>
    (\<forall>q. q \<noteq> p \<longrightarrow> get_plan q d' = get_plan q d)"
proof -
  have id: "plan_id row = p" using assms(1) by (rule get_plan_id)
  have "map_of plan_states (plan_execution_state row) \<noteq> None"
    using assms(2) by (auto simp: typed_def split: option.splits)
  then have live: "plan_execution_state row \<in> set [''pending'', ''confirmed'', ''executing'']"
    using assms(4) by (auto simp: plan_states_def terminal_states_def split: if_splits)
  let ?row = "finish_row now status res row"
  have fin: "plan_finish now p status res d = Inr (put_plan ?row d)"
    using assms(1,3,4) live by (simp add: plan_finish_def)
  have keep: "plan_id ?row = p" "plan_account_id ?row = plan_account_id row"
    "plan_execution_state ?row = status"
    using id by (simp_all add: finish_row_def)
  have get: "get_plan p (put_plan ?row d) = Some ?row"
    using assms(1) keep by (simp add: table_simps)
  have fits: "result_fits (safe_result [] res)"
    using safe_result_bounds [of "[]" res] by (simp add: result_fits_def)
  have stuck: "plan_finish now' p status' res' (put_plan ?row d) = Inl PlanPreconditionFailed"
    for now' status' res'
    using get keep(3) assms(3) by (simp add: plan_finish_def)
  have read: "plan_get_for_update px p (plan_account_id row) (put_plan ?row d) = typed px ?row"
    unfolding plan_get_for_update_def get using keep by simp
  have rest: "q \<noteq> p \<longrightarrow> get_plan q (put_plan ?row d) = get_plan q d" for q
    using keep by (simp add: table_simps)
  obtain t' where "typed px ?row = Inr t'" "plan_state_str (tp_execution_state t') = status"
    "plan_details.truncate t' = plan_details.truncate t"
    "tp_execution_result t' = Some (safe_result [] res)"
    using finish_row_typed [OF assms(2,3), of now res] by blast
  with fin read fits stuck rest show ?thesis by (metis (no_types, lifting))
qed

theorem plan_finish_once_witness:
  "\<exists>d' t'. plan_finish 5 9 ''failed'' [(''status'', JStr ''x'')]
      (insert_plan (draft_row 9 sample_draft) empty_database) = Inr d' \<and>
    plan_get_for_update strict_pydantic 9 7 d' = Inr t' \<and> tp_execution_state t' = Failed"
proof -
  have "get_plan 9 (insert_plan (draft_row 9 sample_draft) empty_database) =
      Some (draft_row 9 sample_draft)"
    by (simp add: table_simps empty_database_def get_plan_def draft_row_def insert_plan_def)
  from plan_finish_once [OF this typed_draft_row [OF strict_pydantic_ok sample_draft_valid],
      of "''failed''" 5 "[(''status'', JStr ''x'')]"]
  obtain d' t' where *: "plan_finish 5 9 ''failed'' [(''status'', JStr ''x'')]
      (insert_plan (draft_row 9 sample_draft) empty_database) = Inr d'"
    "plan_get_for_update strict_pydantic 9 7 d' = Inr t'"
    "plan_state_str (tp_execution_state t') = ''failed''"
    by (auto simp: terminal_states_def draft_row_def sample_draft_def)
  moreover have "tp_execution_state t' = Failed" using *(3) by (cases "tp_execution_state t'") auto
  ultimately show ?thesis by blast
qed

end
