(* ===== verification/Policy.thy ===== *)
theory Policy
  imports Plans
begin

text \<open>
  Account policies (\<open>policy/models.py\<close>, \<open>policy/store.py\<close>): the model with its field constraints
  and JSON form, and the service that stores one versioned policy per account under optimistic
  concurrency. A \<open>frozenset\<close> of strings is the list of its elements in iteration order.
\<close>

section \<open>The model\<close>

datatype quality = Quality_white | Quality_green | Quality_blue

fun quality_str :: "quality \<Rightarrow> string" where
  "quality_str Quality_white = ''white''"
| "quality_str Quality_green = ''green''"
| "quality_str Quality_blue = ''blue''"

definition qualities :: "(string \<times> quality) list" where
  "qualities = map (\<lambda>q. (quality_str q, q)) [Quality_white, Quality_green, Quality_blue]"

lemma of_table_qualities [simp]: "of_table qualities (JStr (quality_str q)) = Some q"
  by (cases q) (simp_all add: of_table_def qualities_def)

record account_policy =
  idle_threshold_minutes :: int
  boss_min_chance :: int
  personal_paid_attempts :: bool
  world_collaboration_enabled :: bool
  world_attempts :: int
  material_reserve :: int
  profession_food_target :: int
  profession_potion_target :: int
  profession_horizon_hours :: int
  inventory_warning_percent :: int
  inventory_critical_percent :: int
  inventory_auto_quality_ceiling :: quality
  inventory_keep_item_ids :: "string list"
  inventory_protected_affixes :: "string list"
  warehouse_auto_deposit_types :: "string list"
  safe_reward_claims :: bool

record versioned_policy = account_policy +
  policy_version :: int

definition default_policy :: account_policy where
  "default_policy = \<lparr>idle_threshold_minutes = 690, boss_min_chance = 80,
     personal_paid_attempts = False, world_collaboration_enabled = True, world_attempts = 3,
     material_reserve = 64, profession_food_target = 6, profession_potion_target = 12,
     profession_horizon_hours = 12, inventory_warning_percent = 85,
     inventory_critical_percent = 95, inventory_auto_quality_ceiling = Quality_blue,
     inventory_keep_item_ids = [], inventory_protected_affixes = [],
     warehouse_auto_deposit_types = [''boss_material'', ''profession_material''],
     safe_reward_claims = True\<rparr>"

text \<open>The constraints of the fields and of \<open>ordered_inventory_thresholds\<close>.\<close>

definition policy_valid :: "'a account_policy_scheme \<Rightarrow> bool" where
  "policy_valid p \<longleftrightarrow>
     60 \<le> idle_threshold_minutes p \<and>
     50 \<le> boss_min_chance p \<and> boss_min_chance p \<le> 98 \<and>
     world_attempts p = 3 \<and>
     0 \<le> material_reserve p \<and>
     0 \<le> profession_food_target p \<and>
     0 \<le> profession_potion_target p \<and>
     1 \<le> profession_horizon_hours p \<and>
     1 \<le> inventory_warning_percent p \<and> inventory_warning_percent p \<le> 99 \<and>
     1 \<le> inventory_critical_percent p \<and> inventory_critical_percent p \<le> 100 \<and>
     distinct (inventory_keep_item_ids p) \<and> distinct (inventory_protected_affixes p) \<and>
     distinct (warehouse_auto_deposit_types p) \<and>
     inventory_warning_percent p \<le> inventory_critical_percent p"

lemma default_policy_valid: "policy_valid default_policy"
  by (simp add: policy_valid_def default_policy_def)

text \<open>\<open>model_dump(mode="json")\<close>.\<close>

definition policy_json :: "'a account_policy_scheme \<Rightarrow> json" where
  "policy_json p = JObj
     [(''idle_threshold_minutes'', JInt (idle_threshold_minutes p)),
      (''boss_min_chance'', JInt (boss_min_chance p)),
      (''personal_paid_attempts'', JBool (personal_paid_attempts p)),
      (''world_collaboration_enabled'', JBool (world_collaboration_enabled p)),
      (''world_attempts'', JInt (world_attempts p)),
      (''material_reserve'', JInt (material_reserve p)),
      (''profession_food_target'', JInt (profession_food_target p)),
      (''profession_potion_target'', JInt (profession_potion_target p)),
      (''profession_horizon_hours'', JInt (profession_horizon_hours p)),
      (''inventory_warning_percent'', JInt (inventory_warning_percent p)),
      (''inventory_critical_percent'', JInt (inventory_critical_percent p)),
      (''inventory_auto_quality_ceiling'', JStr (quality_str (inventory_auto_quality_ceiling p))),
      (''inventory_keep_item_ids'', JArr (map JStr (inventory_keep_item_ids p))),
      (''inventory_protected_affixes'', JArr (map JStr (inventory_protected_affixes p))),
      (''warehouse_auto_deposit_types'', JArr (map JStr (warehouse_auto_deposit_types p))),
      (''safe_reward_claims'', JBool (safe_reward_claims p))]"

text \<open>\<open>AccountPolicy.model_validate\<close>: a missing field has its default.\<close>

definition default_field ::
  "(string \<times> json) list \<Rightarrow> string \<Rightarrow> 'a \<Rightarrow> (json \<Rightarrow> 'a option) \<Rightarrow> 'a option" where
  "default_field kvs name dflt parse =
     (case dict_get kvs name of None \<Rightarrow> Some dflt | Some v \<Rightarrow> parse v)"

definition as_frozenset :: "json \<Rightarrow> string list option" where
  "as_frozenset v = map_option remdups (as_str_list v)"

definition as_three :: "json \<Rightarrow> int option" where
  "as_three v = (if v = JInt 3 then Some 3 else None)"

definition policy_field_names :: "string list" where
  "policy_field_names = [''idle_threshold_minutes'', ''boss_min_chance'',
     ''personal_paid_attempts'', ''world_collaboration_enabled'', ''world_attempts'',
     ''material_reserve'', ''profession_food_target'', ''profession_potion_target'',
     ''profession_horizon_hours'', ''inventory_warning_percent'', ''inventory_critical_percent'',
     ''inventory_auto_quality_ceiling'', ''inventory_keep_item_ids'',
     ''inventory_protected_affixes'', ''warehouse_auto_deposit_types'', ''safe_reward_claims'']"

definition parse_policy_fields :: "pydantic \<Rightarrow> (string \<times> json) list \<Rightarrow> account_policy option" where
  "parse_policy_fields px kvs =
     Option.bind (default_field kvs ''idle_threshold_minutes'' 690 (lax_int px)) (\<lambda>idle.
     Option.bind (default_field kvs ''boss_min_chance'' 80 (lax_int px)) (\<lambda>chance.
     Option.bind (default_field kvs ''personal_paid_attempts'' False (lax_bool px)) (\<lambda>paid.
     Option.bind (default_field kvs ''world_collaboration_enabled'' True (lax_bool px)) (\<lambda>collab.
     Option.bind (default_field kvs ''world_attempts'' 3 as_three) (\<lambda>attempts.
     Option.bind (default_field kvs ''material_reserve'' 64 (lax_int px)) (\<lambda>reserve.
     Option.bind (default_field kvs ''profession_food_target'' 6 (lax_int px)) (\<lambda>food.
     Option.bind (default_field kvs ''profession_potion_target'' 12 (lax_int px)) (\<lambda>potion.
     Option.bind (default_field kvs ''profession_horizon_hours'' 12 (lax_int px)) (\<lambda>horizon.
     Option.bind (default_field kvs ''inventory_warning_percent'' 85 (lax_int px)) (\<lambda>warn.
     Option.bind (default_field kvs ''inventory_critical_percent'' 95 (lax_int px)) (\<lambda>crit.
     Option.bind (default_field kvs ''inventory_auto_quality_ceiling'' Quality_blue
       (of_table qualities)) (\<lambda>ceiling.
     Option.bind (default_field kvs ''inventory_keep_item_ids'' [] as_frozenset) (\<lambda>keep.
     Option.bind (default_field kvs ''inventory_protected_affixes'' [] as_frozenset) (\<lambda>protected.
     Option.bind (default_field kvs ''warehouse_auto_deposit_types''
       [''boss_material'', ''profession_material''] as_frozenset) (\<lambda>deposit.
     Option.bind (default_field kvs ''safe_reward_claims'' True (lax_bool px)) (\<lambda>rewards.
     Some \<lparr>idle_threshold_minutes = idle, boss_min_chance = chance,
       personal_paid_attempts = paid, world_collaboration_enabled = collab,
       world_attempts = attempts, material_reserve = reserve, profession_food_target = food,
       profession_potion_target = potion, profession_horizon_hours = horizon,
       inventory_warning_percent = warn, inventory_critical_percent = crit,
       inventory_auto_quality_ceiling = ceiling, inventory_keep_item_ids = keep,
       inventory_protected_affixes = protected, warehouse_auto_deposit_types = deposit,
       safe_reward_claims = rewards\<rparr>))))))))))))))))"

fun parse_policy :: "pydantic \<Rightarrow> json \<Rightarrow> (exn, account_policy) result" where
  "parse_policy px (JObj kvs) =
     (if list_all (\<lambda>(k, v). k \<in> set policy_field_names) kvs
      then case parse_policy_fields px kvs of
          Some p \<Rightarrow> if policy_valid p then Inr p else Inl ValueErr
        | None \<Rightarrow> Inl ValueErr
      else Inl ValueErr)"
| "parse_policy px _ = Inl ValueErr"

lemma default_field_iff:
  "dict_get kvs name = Some v \<Longrightarrow> default_field kvs name dflt parse = parse v"
  by (simp add: default_field_def)

lemma parse_policy_fields_json:
  assumes "pydantic_ok px" "policy_valid p" "policy_json p = JObj kvs"
  shows "parse_policy_fields px kvs = Some (account_policy.truncate p)"
proof -
  have "distinct (inventory_keep_item_ids p)" "distinct (inventory_protected_affixes p)"
    "distinct (warehouse_auto_deposit_types p)" "world_attempts p = 3"
    using assms(2) by (simp_all add: policy_valid_def)
  then show ?thesis
    using assms(1,3)
    by (auto simp: policy_json_def parse_policy_fields_def default_field_def dict_get_def
        as_frozenset_def as_str_list_map pydantic_ok_def as_three_def account_policy.defs
        distinct_remdups_id simp del: as_str_list.simps)
qed

lemma parse_policy_json:
  assumes "pydantic_ok px" "policy_valid p"
  shows "parse_policy px (policy_json p) = Inr (account_policy.truncate p)"
proof -
  obtain kvs where kvs: "policy_json p = JObj kvs" by (simp add: policy_json_def)
  then have "list_all (\<lambda>(k, v). k \<in> set policy_field_names) kvs"
    by (auto simp: policy_json_def policy_field_names_def)
  moreover have "policy_valid (account_policy.truncate p)"
    using assms(2) by (simp add: policy_valid_def account_policy.defs)
  ultimately show ?thesis
    using parse_policy_fields_json [OF assms kvs] by (simp add: kvs)
qed

lemma parse_policy_valid: "parse_policy px v = Inr p \<Longrightarrow> policy_valid p"
  by (cases "(px, v)" rule: parse_policy.cases) (auto split: if_splits option.splits)

section \<open>The service\<close>

definition with_version :: "int \<Rightarrow> account_policy \<Rightarrow> versioned_policy" where
  "with_version n p = account_policy.extend p \<lparr>policy_version = n\<rparr>"

lemma with_version_simps [simp]:
  "policy_version (with_version n p) = n"
  "account_policy.truncate (with_version n p) = p"
  by (simp_all add: with_version_def account_policy.defs)

definition versioned ::
  "pydantic \<Rightarrow> game_account \<Rightarrow> account_policy_row option \<Rightarrow> (exn, versioned_policy) result" where
  "versioned px account row =
     (if ga_policy_version account < 1 then Inl PolicyUnavailable
      else case row of
        None \<Rightarrow>
          if ga_policy_version account \<noteq> 1 then Inl PolicyUnavailable
          else Inr (with_version 1 default_policy)
      | Some r \<Rightarrow>
          if (case pol_policy r of JObj _ \<Rightarrow> False | _ \<Rightarrow> True) then Inl PolicyUnavailable
          else if pol_version r \<noteq> ga_policy_version account then Inl PolicyUnavailable
          else (case parse_policy px (pol_policy r) of
              Inl _ \<Rightarrow> Inl PolicyUnavailable
            | Inr p \<Rightarrow> Inr (with_version (ga_policy_version account) p)))"

text \<open>\<open>get\<close>; \<open>up\<close> is false when the query fails with a \<open>SQLAlchemyError\<close>.\<close>

definition policy_get ::
  "pydantic \<Rightarrow> bool \<Rightarrow> uuid \<Rightarrow> database \<Rightarrow> (exn, versioned_policy) result" where
  "policy_get px up account d =
     (if \<not> up then Inl PolicyUnavailable
      else case get_account account d of
        None \<Rightarrow> Inl PolicyUnavailable
      | Some a \<Rightarrow> versioned px a (get_policy_row account d))"

definition put_policy_row :: "account_policy_row \<Rightarrow> database \<Rightarrow> database" where
  "put_policy_row row d =
     d\<lparr>policies := (case get_policy_row (pol_account_id row) d of
        None \<Rightarrow> policies d @ [row]
      | Some _ \<Rightarrow> replace_row pol_account_id row (policies d))\<rparr>"

definition policy_audit :: "actor \<Rightarrow> uuid \<Rightarrow> json \<Rightarrow> database \<Rightarrow> database" where
  "policy_audit who account res d =
     add_audit (actor_kind who @ '':'' @ actor_id who) (actor_kind who) (Some account) None
       ''policy.save'' (Some res) None None None d"

text \<open>
  \<open>save\<close>. The expected version is the value as the caller passed it; only a true integer can match.
  The conflict is audited in the transaction and raised after it committed.
\<close>

definition version_conflict :: "json \<Rightarrow> game_account \<Rightarrow> account_policy_row option \<Rightarrow> bool" where
  "version_conflict expected account row \<longleftrightarrow> (case expected of
     JInt n \<Rightarrow> n < 1 \<or> n \<noteq> ga_policy_version account \<or>
       (case row of None \<Rightarrow> False | Some r \<Rightarrow> n \<noteq> pol_version r)
   | _ \<Rightarrow> True)"

definition policy_save ::
  "pydantic \<Rightarrow> uuid \<Rightarrow> account_policy \<Rightarrow> json \<Rightarrow> actor \<Rightarrow> database \<Rightarrow>
   (exn, versioned_policy) result \<times> database" where
  "policy_save px account p expected who d =
     (case get_account account d of
        None \<Rightarrow> (Inl PolicyUnavailable, d)
      | Some a \<Rightarrow>
          (case versioned px a (get_policy_row account d) of
             Inl _ \<Rightarrow> (Inl PolicyUnavailable, d)
           | Inr _ \<Rightarrow>
               if version_conflict expected a (get_policy_row account d) then
                 (Inl PolicyConflict, policy_audit who account
                    (JObj [(''status'', JStr ''conflict''), (''error'', JStr ''PolicyConflict'')]) d)
               else if \<not> policy_valid p then (Inl ValueErr, d)
               else
                 (let next = ga_policy_version a + 1;
                      d' = put_policy_row \<lparr>pol_account_id = account, pol_policy = policy_json p,
                             pol_version = next\<rparr> d;
                      d'' = put_account (a\<lparr>ga_policy_version := next\<rparr>) d' in
                  (Inr (with_version next p), policy_audit who account
                    (JObj [(''status'', JStr ''saved''), (''version'', JInt next)]) d''))))"

text \<open>The reader of the game's own capacity may fail with any exception or answer with anything.\<close>

definition server_idle_capacity :: "(exn, json) result \<Rightarrow> (exn, int) result" where
  "server_idle_capacity answer =
     (case answer of
        Inl e \<Rightarrow> if instance_of e C_Exception then Inl PolicyUnavailable else Inl e
      | Inr (JInt n) \<Rightarrow> if n < 0 then Inl PolicyUnavailable else Inr n
      | Inr _ \<Rightarrow> Inl PolicyUnavailable)"

section \<open>Versioned cells\<close>

text \<open>
  The contract a client of optimistic concurrency relies on: a write names the version it saw, it
  succeeds only if that is the current one, and then the version goes up by one; a refused write
  leaves the version. Writers that interleave in any order then never overwrite each other.
\<close>

locale versioned_cell =
  fixes ver :: "'s \<Rightarrow> int" and put :: "'s \<Rightarrow> int \<Rightarrow> 'p \<Rightarrow> bool \<times> 's"
  assumes success: "put s v p = (True, t) \<Longrightarrow> ver s = v \<and> ver t = v + 1"
    and refusal: "put s v p = (False, t) \<Longrightarrow> ver t = ver s"
begin

lemma ver_mono: "put s v p = (b, t) \<Longrightarrow> ver s \<le> ver t"
  by (cases b) (auto dest: success refusal)

lemma fold_mono: "ver s \<le> ver (fold (\<lambda>(v, p) s. snd (put s v p)) ws s)"
proof (induction ws arbitrary: s)
  case (Cons w ws)
  obtain v p where w: "w = (v, p)" by force
  obtain b t where t: "put s v p = (b, t)" by force
  show ?case using Cons [of t] ver_mono [OF t] by (simp add: w t)
qed simp

lemma no_lost_update:
  assumes "put s v p = (True, t)"
  shows "\<not> fst (put (fold (\<lambda>(v, p) s. snd (put s v p)) ws t) v q)"
proof
  let ?u = "fold (\<lambda>(v, p) s. snd (put s v p)) ws t"
  assume "fst (put ?u v q)"
  then obtain u where "put ?u v q = (True, u)" by (cases "put ?u v q") auto
  then have "ver ?u = v" by (rule success [THEN conjunct1])
  moreover have "v + 1 \<le> ver ?u" using success [OF assms] fold_mono [of t ws] by simp
  ultimately show False by simp
qed

end

definition stored_policy_version :: "uuid \<Rightarrow> database \<Rightarrow> int" where
  "stored_policy_version account d =
     (case get_account account d of None \<Rightarrow> 0 | Some a \<Rightarrow> ga_policy_version a)"

definition policy_write ::
  "pydantic \<Rightarrow> uuid \<Rightarrow> database \<Rightarrow> int \<Rightarrow> account_policy \<times> actor \<Rightarrow> bool \<times> database" where
  "policy_write px account d v w =
     (case policy_save px account (fst w) (JInt v) (snd w) d of
        (Inl _, d') \<Rightarrow> (False, d') | (Inr _, d') \<Rightarrow> (True, d'))"

lemma policy_lookups [table_simps]:
  "get_account a (policy_audit who b res d) = get_account a d"
  "get_policy_row a (policy_audit who b res d) = get_policy_row a d"
  "get_account a (put_policy_row row d) = get_account a d"
  "get_policy_row a (put_account r d) = get_policy_row a d"
  "get_policy_row a (put_policy_row row d) =
     (if a = pol_account_id row then Some row else get_policy_row a d)"
  by (auto simp: policy_audit_def add_audit_def get_account_def get_policy_row_def
      put_policy_row_def put_account_def table_simps split: option.splits)

lemma policy_save_Inr:
  assumes "policy_save px account p expected who d = (Inr vp, d')"
  shows "\<exists>a. get_account account d = Some a \<and> expected = JInt (ga_policy_version a) \<and>
    policy_valid p \<and> vp = with_version (ga_policy_version a + 1) p \<and>
    get_account account d' = Some (a\<lparr>ga_policy_version := ga_policy_version a + 1\<rparr>) \<and>
    get_policy_row account d' = Some \<lparr>pol_account_id = account, pol_policy = policy_json p,
      pol_version = ga_policy_version a + 1\<rparr>"
proof -
  obtain a where a: "get_account account d = Some a"
    using assms by (auto simp: policy_save_def split: option.splits)
  moreover have id: "ga_id a = account" using get_account_id [OF a] .
  ultimately show ?thesis
    using assms
    by (auto simp: policy_save_def version_conflict_def Let_def table_simps id
        split: sum.splits if_splits json.splits)
qed

lemma policy_save_Inl:
  assumes "policy_save px account p expected who d = (Inl e, d')"
  shows "d' = d \<or> (\<exists>res. d' = policy_audit who account res d)"
  using assms
  by (auto simp: policy_save_def Let_def split: option.splits sum.splits if_splits)

interpretation policy_cell: versioned_cell "stored_policy_version account" "policy_write px account"
  for px account
proof unfold_locales
  fix s v p t
  assume "policy_write px account s v p = (True, t)"
  then obtain vp where "policy_save px account (fst p) (JInt v) (snd p) s = (Inr vp, t)"
    by (auto simp: policy_write_def split: prod.splits sum.splits)
  from policy_save_Inr [OF this]
  show "stored_policy_version account s = v \<and> stored_policy_version account t = v + 1"
    by (auto simp: stored_policy_version_def)
next
  fix s v p t
  assume "policy_write px account s v p = (False, t)"
  then obtain e where "policy_save px account (fst p) (JInt v) (snd p) s = (Inl e, t)"
    by (auto simp: policy_write_def split: prod.splits sum.splits)
  from policy_save_Inl [OF this]
  show "stored_policy_version account t = stored_policy_version account s"
    by (auto simp: stored_policy_version_def table_simps)
qed

text \<open>
  C36: policies are saved by compare-and-set. A save that returns wrote exactly the given policy:
  it was made against the stored version, reading the policy back yields the saved
  one with the next version, and any later save that still names the old version is refused,
  whatever saves by whomever came in between.
\<close>

theorem policy_compare_and_set:
  assumes "pydantic_ok px"
    and "policy_save px account p (JInt v) who d = (Inr vp, d')"
  shows "stored_policy_version account d = v \<and> policy_get px True account d' = Inr vp \<and>
    policy_version vp = v + 1 \<and> account_policy.truncate vp = p \<and>
    \<not> fst (policy_write px account
       (fold (\<lambda>(v, w) d. snd (policy_write px account d v w)) others d') v (q, who'))"
proof -
  obtain a where a: "get_account account d = Some a" "v = ga_policy_version a" "policy_valid p"
    "vp = with_version (ga_policy_version a + 1) p"
    "get_account account d' = Some (a\<lparr>ga_policy_version := ga_policy_version a + 1\<rparr>)"
    "get_policy_row account d' = Some \<lparr>pol_account_id = account, pol_policy = policy_json p,
      pol_version = ga_policy_version a + 1\<rparr>"
    using policy_save_Inr [OF assms(2)] by auto
  have "\<not> version_conflict (JInt v) a (get_policy_row account d)"
    using assms(2) a(1) by (auto simp: policy_save_def split: sum.splits if_splits)
  then have pos: "1 \<le> v" by (auto simp: version_conflict_def)
  have "policy_write px account d v (p, who) = (True, d')"
    using assms(2) by (simp add: policy_write_def)
  from policy_cell.no_lost_update [OF this]
  have later: "\<not> fst (policy_write px account
       (fold (\<lambda>(v, w) d. snd (policy_write px account d v w)) others d') v (q, who'))" .
  have "parse_policy px (policy_json p) = Inr p"
    using parse_policy_json [OF assms(1) a(3)] by (simp add: account_policy.defs)
  moreover have "\<exists>kvs. policy_json p = JObj kvs" by (simp add: policy_json_def)
  ultimately have "policy_get px True account d' = Inr vp"
    using a pos by (auto simp: policy_get_def versioned_def)
  with a later show ?thesis by (simp add: stored_policy_version_def)
qed

definition sample_account :: game_account where
  "sample_account = \<lparr>ga_id = 7, game_account_id = Some ''g7'', ga_label = ''main'',
     ga_game_username = None, ga_auth_mode = ''token_only'', ga_password = None,
     ga_session_token = None, ga_session_expires_at = None, ga_enabled = True,
     ga_paused_reason = None, ga_policy_version = 1, ga_last_success_at = None,
     ga_last_error_at = None, ga_auth_failure_count = 0,
     ga_auth_failure_window_started_at = None\<rparr>"

definition sample_actor :: actor where
  "sample_actor = \<lparr>actor_kind = ''webui'', actor_id = ''admin'', actor_scopes = {}\<rparr>"

definition sample_database :: database where
  "sample_database = empty_database\<lparr>accounts := [sample_account]\<rparr>"

lemma sample_save:
  "\<exists>d'. policy_save strict_pydantic 7 (default_policy\<lparr>boss_min_chance := 90\<rparr>) (JInt 1) sample_actor
     sample_database = (Inr (with_version 2 (default_policy\<lparr>boss_min_chance := 90\<rparr>)), d')"
  using default_policy_valid
  by (simp add: policy_save_def sample_database_def empty_database_def sample_account_def
      get_account_def get_policy_row_def table_simps versioned_def version_conflict_def
      policy_valid_def default_policy_def)

theorem policy_compare_and_set_witness:
  "\<exists>d'. policy_save strict_pydantic 7 (default_policy\<lparr>boss_min_chance := 90\<rparr>) (JInt 1) sample_actor
       sample_database = (Inr (with_version 2 (default_policy\<lparr>boss_min_chance := 90\<rparr>)), d') \<and>
     policy_get strict_pydantic True 7 d' =
       Inr (with_version 2 (default_policy\<lparr>boss_min_chance := 90\<rparr>)) \<and>
     \<not> fst (policy_write strict_pydantic 7 d' 1 (default_policy, sample_actor))"
proof -
  obtain d' where d': "policy_save strict_pydantic 7 (default_policy\<lparr>boss_min_chance := 90\<rparr>) (JInt 1)
      sample_actor sample_database =
      (Inr (with_version 2 (default_policy\<lparr>boss_min_chance := 90\<rparr>)), d')"
    using sample_save by blast
  from policy_compare_and_set [OF strict_pydantic_ok d', of "[]"] d' show ?thesis by auto
qed

text \<open>
  What a policy save does when it does not save. A stale or malformed expected version leaves
  accounts and policies untouched and one conflict record in the audit log; an unreadable stored
  policy, a missing account or an invalid policy changes nothing at all.
\<close>

theorem policy_save_refused:
  assumes "policy_save px account p expected who d = (Inl e, d')"
  shows "accounts d' = accounts d \<and> policies d' = policies d \<and> plans d' = plans d \<and>
    (e = PolicyConflict \<and> length (audits d') = length (audits d) + 1 \<or>
     e \<in> {PolicyUnavailable, ValueErr} \<and> d' = d)"
  using assms
  by (auto simp: policy_save_def policy_audit_def add_audit_def Let_def
      split: option.splits sum.splits if_splits)

theorem policy_save_refused_witness:
  "\<exists>d'. policy_save strict_pydantic 7 default_policy (JInt 2) sample_actor sample_database =
      (Inl PolicyConflict, d') \<and> accounts d' = accounts sample_database \<and> length (audits d') = 1"
proof -
  obtain d' where d': "policy_save strict_pydantic 7 default_policy (JInt 2) sample_actor sample_database =
      (Inl PolicyConflict, d')"
    by (simp add: policy_save_def sample_database_def empty_database_def sample_account_def
        get_account_def get_policy_row_def table_simps versioned_def version_conflict_def)
  from policy_save_refused [OF d'] d' show ?thesis
    by (auto simp: sample_database_def empty_database_def)
qed

text \<open>
  A policy the service hands out is usable. Whatever bytes the policy column holds, \<open>get\<close>
  either answers with a policy that satisfies every bound of the model, under the version the
  account carries, or fails closed with \<open>PolicyUnavailable\<close>.
\<close>

theorem policy_get_fails_closed:
  "case policy_get px up account d of
     Inl e \<Rightarrow> e = PolicyUnavailable
   | Inr vp \<Rightarrow> up \<and> policy_valid vp \<and> 1 \<le> policy_version vp \<and>
       policy_version vp = stored_policy_version account d"
proof (cases "policy_get px up account d")
  case (Inl e)
  then show ?thesis
    by (auto simp: policy_get_def versioned_def split: if_splits option.splits sum.splits)
next
  case (Inr vp)
  obtain a where a: "get_account account d = Some a" "up" "versioned px a (get_policy_row account d) = Inr vp"
    using Inr by (auto simp: policy_get_def split: if_splits option.splits)
  have ext: "policy_valid p \<Longrightarrow> policy_valid (with_version n p)" for p n
    by (simp add: policy_valid_def with_version_def account_policy.defs)
  have "policy_valid vp \<and> 1 \<le> policy_version vp \<and> policy_version vp = ga_policy_version a"
    using a(3) default_policy_valid parse_policy_valid
    by (auto simp: versioned_def intro!: ext split: if_splits option.splits sum.splits)
  then show ?thesis using Inr a by (simp add: stored_policy_version_def)
qed

end
