(* ===== verification/Schemas.thy ===== *)
theory Schemas
  imports Plans
begin

text \<open>
  What the game answers (\<open>game/schemas.py\<close>): the response models as records with their strict
  validation from JSON. Unknown keys are ignored (\<open>extra = "allow"\<close>), a field may be given by its
  alias or its name, and no value is converted: an \<open>int\<close> field takes an integer only, a
  \<open>float\<close> field any finite number.
\<close>

section \<open>Strict fields\<close>

definition req :: "(string \<times> json) list \<Rightarrow> string \<Rightarrow> string \<Rightarrow> (json \<Rightarrow> 'a option) \<Rightarrow> 'a option" where
  "req kvs alias name parse = Option.bind (field kvs alias name) parse"

definition opt ::
  "(string \<times> json) list \<Rightarrow> string \<Rightarrow> string \<Rightarrow> 'a \<Rightarrow> (json \<Rightarrow> 'a option) \<Rightarrow> 'a option" where
  "opt kvs alias name dflt parse =
     (case field kvs alias name of None \<Rightarrow> Some dflt | Some v \<Rightarrow> parse v)"

fun strict_int :: "int \<Rightarrow> json \<Rightarrow> int option" where
  "strict_int least (JInt i) = (if least \<le> i then Some i else None)"
| "strict_int least _ = None"

fun strict_bool :: "json \<Rightarrow> bool option" where
  "strict_bool (JBool b) = Some b"
| "strict_bool _ = None"

fun strict_float :: "json \<Rightarrow> rat option" where
  "strict_float (JFloat q) = Some q"
| "strict_float (JInt i) = Some (of_int i)"
| "strict_float _ = None"

definition percent :: "json \<Rightarrow> rat option" where
  "percent v = (case strict_float v of
     Some q \<Rightarrow> if 0 \<le> q \<and> q \<le> 100 then Some q else None | None \<Rightarrow> None)"

definition strict_str :: "json \<Rightarrow> string option" where
  "strict_str v = non_empty (as_str v)"

definition nullable :: "(json \<Rightarrow> 'a option) \<Rightarrow> json \<Rightarrow> 'a option option" where
  "nullable parse v = (if v = JNull then Some None else map_option Some (parse v))"

fun list_of :: "(json \<Rightarrow> 'a option) \<Rightarrow> json \<Rightarrow> 'a list option" where
  "list_of parse (JArr vs) =
     (if list_all (\<lambda>v. parse v \<noteq> None) vs then Some (map (\<lambda>v. the (parse v)) vs) else None)"
| "list_of parse _ = None"

definition some_of :: "'a list option \<Rightarrow> 'a list option" where
  "some_of v = (case v of Some (x # xs) \<Rightarrow> Some (x # xs) | _ \<Rightarrow> None)"

fun dict_of :: "(json \<Rightarrow> 'a option) \<Rightarrow> json \<Rightarrow> (string \<times> 'a) list option" where
  "dict_of parse (JObj kvs) =
     (if list_all (\<lambda>(k, v). parse v \<noteq> None) kvs then Some (map (\<lambda>(k, v). (k, the (parse v))) kvs)
      else None)"
| "dict_of parse _ = None"

definition obj :: "((string \<times> json) list \<Rightarrow> 'a option) \<Rightarrow> json \<Rightarrow> 'a option" where
  "obj parse v = (case v of JObj kvs \<Rightarrow> parse kvs | _ \<Rightarrow> None)"

lemma strict_int_Some: "strict_int least v = Some i \<Longrightarrow> v = JInt i \<and> least \<le> i"
  by (cases v) (auto split: if_splits)

lemma percent_Some: "percent v = Some q \<Longrightarrow> 0 \<le> q \<and> q \<le> 100"
  by (auto simp: percent_def split: option.splits if_splits)

lemma list_of_Some: "list_of parse v = Some xs \<Longrightarrow> x \<in> set xs \<Longrightarrow> \<exists>w. parse w = Some x"
  by (cases v) (fastforce simp: list_all_iff split: if_splits)+

section \<open>Sessions and idle rewards\<close>

record login_result =
  session_token :: string
  login_expires_at :: "int option"

definition parse_login :: "json \<Rightarrow> login_result option" where
  "parse_login = obj (\<lambda>kvs.
     Option.bind (req kvs ''sessionToken'' ''session_token'' strict_str) (\<lambda>token.
     Option.bind (opt kvs ''expiresAt'' ''expires_at'' None
       (nullable (\<lambda>v. case v of JInt i \<Rightarrow> Some i | _ \<Rightarrow> None))) (\<lambda>exp.
     Some \<lparr>session_token = token, login_expires_at = exp\<rparr>)))"

text \<open>The pattern \<open>\S\<close> on code points below 256: some character is not Unicode white space.\<close>

definition unicode_space :: "char \<Rightarrow> bool" where
  "unicode_space c \<longleftrightarrow> (let n = of_char c :: nat in
     9 \<le> n \<and> n \<le> 13 \<or> n = 32 \<or> n = 133 \<or> n = 160)"

definition parse_user_id :: "json \<Rightarrow> string option" where
  "parse_user_id v = (case strict_str v of
     Some s \<Rightarrow> if length s \<le> 128 \<and> list_ex (\<lambda>c. \<not> unicode_space c) s then Some s else None
   | None \<Rightarrow> None)"

record bootstrap_state =
  bootstrap_account_id :: string

definition parse_bootstrap :: "json \<Rightarrow> bootstrap_state option" where
  "parse_bootstrap = obj (\<lambda>kvs.
     Option.bind (req kvs ''user'' ''user'' (obj (\<lambda>user. req user ''id'' ''id'' parse_user_id))) (\<lambda>i.
     Some \<lparr>bootstrap_account_id = i\<rparr>))"

definition parse_catalog :: "json \<Rightarrow> unit option" where
  "parse_catalog = obj (\<lambda>kvs. Some ())"

record idle_summary =
  valid_seconds :: rat
  capacity_seconds :: "int option"

definition accumulated_seconds :: "idle_summary \<Rightarrow> int" where
  "accumulated_seconds idle = \<lfloor>valid_seconds idle\<rfloor>"

definition parse_idle_summary :: "json \<Rightarrow> idle_summary option" where
  "parse_idle_summary = obj (\<lambda>kvs.
     Option.bind (req kvs ''validSeconds'' ''valid_seconds''
       (\<lambda>v. case strict_float v of Some q \<Rightarrow> if 0 \<le> q then Some q else None | None \<Rightarrow> None)) (\<lambda>q.
     Option.bind (opt kvs ''capacitySeconds'' ''capacity_seconds'' None (nullable (strict_int 1))) (\<lambda>c.
     Some \<lparr>valid_seconds = q, capacity_seconds = c\<rparr>)))"

definition idle_summary_ok :: "idle_summary \<Rightarrow> bool" where
  "idle_summary_ok idle \<longleftrightarrow> 0 \<le> valid_seconds idle \<and>
     (case capacity_seconds idle of None \<Rightarrow> True | Some c \<Rightarrow> 0 < c)"

lemma parse_idle_summary_ok: "parse_idle_summary v = Some idle \<Longrightarrow> idle_summary_ok idle"
  by (auto simp: parse_idle_summary_def obj_def req_def opt_def nullable_def idle_summary_ok_def
      dest!: strict_int_Some split: json.splits option.splits if_splits
      Option.bind_splits)

lemma accumulated_nonneg: "idle_summary_ok idle \<Longrightarrow> 0 \<le> accumulated_seconds idle"
  by (simp add: idle_summary_ok_def accumulated_seconds_def)

record idle_collect_result =
  collected :: bool

definition parse_idle_collect :: "json \<Rightarrow> idle_collect_result option" where
  "parse_idle_collect = obj (\<lambda>kvs.
     Option.bind (req kvs ''collected'' ''collected'' strict_bool) (\<lambda>b. Some \<lparr>collected = b\<rparr>))"

section \<open>Bosses\<close>

record boss_preview =
  predicted_win :: bool
  chance :: rat
  player_hp_remaining_percent :: rat
  boss_hp_remaining_percent :: rat

definition parse_boss_preview_fields :: "(string \<times> json) list \<Rightarrow> boss_preview option" where
  "parse_boss_preview_fields kvs =
     Option.bind (req kvs ''predictedWin'' ''predicted_win'' strict_bool) (\<lambda>w.
     Option.bind (req kvs ''chance'' ''chance'' percent) (\<lambda>c.
     Option.bind (req kvs ''playerHpRemainingPercent'' ''player_hp_remaining_percent'' percent) (\<lambda>p.
     Option.bind (req kvs ''bossHpRemainingPercent'' ''boss_hp_remaining_percent'' percent) (\<lambda>b.
     Some \<lparr>predicted_win = w, chance = c, player_hp_remaining_percent = p,
       boss_hp_remaining_percent = b\<rparr>))))"

definition parse_boss_preview :: "json \<Rightarrow> boss_preview option" where
  "parse_boss_preview = obj parse_boss_preview_fields"

definition boss_preview_ok :: "boss_preview \<Rightarrow> bool" where
  "boss_preview_ok p \<longleftrightarrow> 0 \<le> chance p \<and> chance p \<le> 100 \<and>
     0 \<le> player_hp_remaining_percent p \<and> player_hp_remaining_percent p \<le> 100 \<and>
     0 \<le> boss_hp_remaining_percent p \<and> boss_hp_remaining_percent p \<le> 100"

lemma parse_boss_preview_ok: "parse_boss_preview v = Some p \<Longrightarrow> boss_preview_ok p"
  by (auto simp: parse_boss_preview_def parse_boss_preview_fields_def obj_def req_def
      boss_preview_ok_def dest!: percent_Some split: json.splits Option.bind_splits)

record boss_difficulty_option =
  bdo_key :: string
  bdo_preview :: boss_preview

definition parse_difficulty_option :: "json \<Rightarrow> boss_difficulty_option option" where
  "parse_difficulty_option = obj (\<lambda>kvs.
     Option.bind (req kvs ''key'' ''key'' strict_str) (\<lambda>k.
     Option.bind (parse_boss_preview_fields kvs) (\<lambda>p.
     Some \<lparr>bdo_key = k, bdo_preview = p\<rparr>)))"

record personal_attempt_pool =
  free_remaining :: int
  free_limit :: int
  ticket_used :: int
  ticket_limit :: int

definition parse_attempt_pool :: "json \<Rightarrow> personal_attempt_pool option" where
  "parse_attempt_pool = obj (\<lambda>kvs.
     Option.bind (req kvs ''freeRemaining'' ''free_remaining'' (strict_int 0)) (\<lambda>fr.
     Option.bind (req kvs ''freeLimit'' ''free_limit'' (strict_int 0)) (\<lambda>fl.
     Option.bind (req kvs ''ticketUsed'' ''ticket_used'' (strict_int 0)) (\<lambda>tu.
     Option.bind (req kvs ''ticketLimit'' ''ticket_limit'' (strict_int 0)) (\<lambda>tl.
     Some \<lparr>free_remaining = fr, free_limit = fl, ticket_used = tu, ticket_limit = tl\<rparr>)))))"

record boss_section_entry =
  bse_key :: string
  bse_type :: string
  bse_attempts :: "int option"
  bse_blocked_reason :: "string option"
  bse_difficulty_options :: "boss_difficulty_option list"
  bse_refresh_text :: "string option"
  bse_personal_attempt_pool :: "personal_attempt_pool option"

definition parse_section_entry :: "json \<Rightarrow> boss_section_entry option" where
  "parse_section_entry = obj (\<lambda>kvs.
     Option.bind (req kvs ''key'' ''key'' strict_str) (\<lambda>k.
     Option.bind (req kvs ''type'' ''type'' strict_str) (\<lambda>t.
     Option.bind (opt kvs ''attempts'' ''attempts'' None (nullable (strict_int 0))) (\<lambda>a.
     Option.bind (req kvs ''blockedReason'' ''blocked_reason'' (nullable as_str)) (\<lambda>r.
     Option.bind (req kvs ''difficultyOptions'' ''difficulty_options''
       (list_of parse_difficulty_option)) (\<lambda>ds.
     Option.bind (opt kvs ''refreshText'' ''refresh_text'' None (nullable as_str)) (\<lambda>x.
     Option.bind (opt kvs ''personalAttemptPool'' ''personal_attempt_pool'' None
       (nullable parse_attempt_pool)) (\<lambda>p.
     Some \<lparr>bse_key = k, bse_type = t, bse_attempts = a, bse_blocked_reason = r,
       bse_difficulty_options = ds, bse_refresh_text = x, bse_personal_attempt_pool = p\<rparr>))))))))"

record boss_entry_state =
  be_key :: string
  be_type :: string
  be_required_level :: int
  be_attempts :: "int option"
  be_blocked_reason :: "string option"
  be_refresh_key :: "string option"
  be_difficulty_options :: "difficulty list"

definition parse_boss_entry :: "json \<Rightarrow> boss_entry_state option" where
  "parse_boss_entry = obj (\<lambda>kvs.
     Option.bind (req kvs ''key'' ''key'' strict_str) (\<lambda>k.
     Option.bind (req kvs ''type'' ''type'' strict_str) (\<lambda>t.
     Option.bind (req kvs ''requiredLevel'' ''required_level'' (strict_int 0)) (\<lambda>l.
     Option.bind (opt kvs ''attempts'' ''attempts'' None (nullable (strict_int 0))) (\<lambda>a.
     Option.bind (opt kvs ''blockedReason'' ''blocked_reason'' None (nullable as_str)) (\<lambda>r.
     Option.bind (opt kvs ''refreshKey'' ''refresh_key'' None (nullable as_str)) (\<lambda>x.
     Option.bind (some_of (req kvs ''difficultyOptions'' ''difficulty_options''
       (list_of (of_table difficulties)))) (\<lambda>ds.
     Some \<lparr>be_key = k, be_type = t, be_required_level = l, be_attempts = a,
       be_blocked_reason = r, be_refresh_key = x, be_difficulty_options = ds\<rparr>))))))))"

record equipment_slot =
  slot_key :: string
  slot_score :: int
  slot_eligible :: bool

definition parse_slot :: "json \<Rightarrow> equipment_slot option" where
  "parse_slot = obj (\<lambda>kvs.
     Option.bind (req kvs ''key'' ''key'' strict_str) (\<lambda>k.
     Option.bind (req kvs ''score'' ''score'' (strict_int 0)) (\<lambda>s.
     Option.bind (req kvs ''eligible'' ''eligible'' strict_bool) (\<lambda>e.
     Some \<lparr>slot_key = k, slot_score = s, slot_eligible = e\<rparr>))))"

record potion_state =
  potion_active_key :: "string option"
  potion_required_key :: "string option"

definition parse_potion :: "json \<Rightarrow> potion_state option" where
  "parse_potion = obj (\<lambda>kvs.
     Option.bind (opt kvs ''activeKey'' ''active_key'' None (nullable as_str)) (\<lambda>a.
     Option.bind (opt kvs ''requiredKey'' ''required_key'' None (nullable as_str)) (\<lambda>r.
     Some \<lparr>potion_active_key = a, potion_required_key = r\<rparr>)))"

record boss_affix =
  affix_key :: string
  affix_multiplier :: rat

definition parse_affix :: "json \<Rightarrow> boss_affix option" where
  "parse_affix = obj (\<lambda>kvs.
     Option.bind (req kvs ''key'' ''key'' strict_str) (\<lambda>k.
     Option.bind (req kvs ''multiplier'' ''multiplier''
       (\<lambda>v. case strict_float v of Some q \<Rightarrow> if 0 < q then Some q else None | None \<Rightarrow> None)) (\<lambda>m.
     Some \<lparr>affix_key = k, affix_multiplier = m\<rparr>)))"

record boss_state =
  bs_entries :: "boss_entry_state list"
  bs_free_attempts :: int
  bs_material_balance :: int
  bs_equipment :: "equipment_slot list"
  bs_potion :: potion_state
  bs_affixes :: "boss_affix list"

definition parse_boss_state :: "json \<Rightarrow> boss_state option" where
  "parse_boss_state = obj (\<lambda>kvs.
     Option.bind (some_of (req kvs ''entries'' ''entries'' (list_of parse_boss_entry))) (\<lambda>es.
     Option.bind (req kvs ''freeAttempts'' ''free_attempts'' (strict_int 0)) (\<lambda>f.
     Option.bind (req kvs ''materialBalance'' ''material_balance'' (strict_int 0)) (\<lambda>m.
     Option.bind (some_of (req kvs ''equipment'' ''equipment'' (list_of parse_slot))) (\<lambda>eq.
     Option.bind (req kvs ''potion'' ''potion'' parse_potion) (\<lambda>p.
     Option.bind (req kvs ''affixes'' ''affixes'' (list_of parse_affix)) (\<lambda>as.
     Some \<lparr>bs_entries = es, bs_free_attempts = f, bs_material_balance = m, bs_equipment = eq,
       bs_potion = p, bs_affixes = as\<rparr>)))))))"

record world_boss_instance =
  wb_key :: string
  wb_lifecycle :: string
  wb_active :: bool
  wb_alive :: bool
  wb_my_attempt_count :: int
  wb_remaining_attempt_count :: int

definition parse_world_boss :: "json \<Rightarrow> world_boss_instance option" where
  "parse_world_boss = obj (\<lambda>kvs.
     Option.bind (req kvs ''key'' ''key'' strict_str) (\<lambda>k.
     Option.bind (req kvs ''lifecycle'' ''lifecycle'' strict_str) (\<lambda>l.
     Option.bind (req kvs ''active'' ''active'' strict_bool) (\<lambda>ac.
     Option.bind (req kvs ''alive'' ''alive'' strict_bool) (\<lambda>al.
     Option.bind (req kvs ''myAttemptCount'' ''my_attempt_count'' (strict_int 0)) (\<lambda>m.
     Option.bind (req kvs ''remainingAttemptCount'' ''remaining_attempt_count'' (strict_int 0)) (\<lambda>r.
     Some \<lparr>wb_key = k, wb_lifecycle = l, wb_active = ac, wb_alive = al, wb_my_attempt_count = m,
       wb_remaining_attempt_count = r\<rparr>)))))))"

definition parse_world_boss_state :: "json \<Rightarrow> world_boss_instance list option" where
  "parse_world_boss_state = obj (\<lambda>kvs.
     some_of (req kvs ''instances'' ''instances'' (list_of parse_world_boss)))"

section \<open>Professions and rewards\<close>

record profession_queue_entry =
  pq_action_key :: string
  pq_remaining_seconds :: int

record profession_recipe =
  recipe_key :: string
  recipe_duration_seconds :: int
  recipe_output_key :: string
  recipe_output_count :: int
  recipe_required_inputs :: "(string \<times> int) list"
  recipe_unlock_milestone :: bool

record profession_state =
  ps_selected_profession_key :: string
  ps_queue :: "profession_queue_entry list"
  ps_unlock_progress :: int
  ps_recipes :: "profession_recipe list"
  ps_balances :: "(string \<times> int) list"
  ps_recipe_version :: string

definition any_int :: "json \<Rightarrow> int option" where
  "any_int v = (case v of JInt i \<Rightarrow> Some i | _ \<Rightarrow> None)"

definition parse_queue_entry :: "json \<Rightarrow> profession_queue_entry option" where
  "parse_queue_entry = obj (\<lambda>kvs.
     Option.bind (req kvs ''actionKey'' ''action_key'' strict_str) (\<lambda>k.
     Option.bind (req kvs ''remainingSeconds'' ''remaining_seconds'' (strict_int 0)) (\<lambda>r.
     Some \<lparr>pq_action_key = k, pq_remaining_seconds = r\<rparr>)))"

definition parse_recipe :: "json \<Rightarrow> profession_recipe option" where
  "parse_recipe = obj (\<lambda>kvs.
     Option.bind (req kvs ''key'' ''key'' strict_str) (\<lambda>k.
     Option.bind (req kvs ''durationSeconds'' ''duration_seconds'' (strict_int 1)) (\<lambda>d.
     Option.bind (req kvs ''outputKey'' ''output_key'' strict_str) (\<lambda>ok.
     Option.bind (req kvs ''outputCount'' ''output_count'' (strict_int 1)) (\<lambda>oc.
     Option.bind (req kvs ''requiredInputs'' ''required_inputs'' (dict_of any_int)) (\<lambda>ins.
     Option.bind (opt kvs ''unlockMilestone'' ''unlock_milestone'' False strict_bool) (\<lambda>u.
     Some \<lparr>recipe_key = k, recipe_duration_seconds = d, recipe_output_key = ok,
       recipe_output_count = oc, recipe_required_inputs = ins, recipe_unlock_milestone = u\<rparr>)))))))"

definition parse_profession_state :: "json \<Rightarrow> profession_state option" where
  "parse_profession_state = obj (\<lambda>kvs.
     Option.bind (req kvs ''selectedProfessionKey'' ''selected_profession_key'' strict_str) (\<lambda>k.
     Option.bind (req kvs ''queue'' ''queue'' (list_of parse_queue_entry)) (\<lambda>q.
     Option.bind (req kvs ''unlockProgress'' ''unlock_progress'' (strict_int 0)) (\<lambda>u.
     Option.bind (some_of (req kvs ''recipes'' ''recipes'' (list_of parse_recipe))) (\<lambda>rs.
     Option.bind (req kvs ''balances'' ''balances'' (dict_of any_int)) (\<lambda>b.
     Option.bind (req kvs ''recipeVersion'' ''recipe_version'' strict_str) (\<lambda>v.
     Some \<lparr>ps_selected_profession_key = k, ps_queue = q, ps_unlock_progress = u, ps_recipes = rs,
       ps_balances = b, ps_recipe_version = v\<rparr>)))))))"

record reward_candidate =
  rc_kind :: string
  rc_identifier :: string
  rc_completed :: bool
  rc_claimed :: bool
  rc_choice_count :: int
  rc_cost :: int
  rc_would_overflow :: bool

record reward_state =
  rs_inventory_safety_available :: bool
  rs_candidates :: "reward_candidate list"

definition parse_candidate :: "json \<Rightarrow> reward_candidate option" where
  "parse_candidate = obj (\<lambda>kvs.
     Option.bind (req kvs ''kind'' ''kind'' strict_str) (\<lambda>k.
     Option.bind (req kvs ''identifier'' ''identifier'' strict_str) (\<lambda>i.
     Option.bind (req kvs ''completed'' ''completed'' strict_bool) (\<lambda>co.
     Option.bind (req kvs ''claimed'' ''claimed'' strict_bool) (\<lambda>cl.
     Option.bind (req kvs ''choiceCount'' ''choice_count'' (strict_int 0)) (\<lambda>n.
     Option.bind (req kvs ''cost'' ''cost'' (strict_int 0)) (\<lambda>c.
     Option.bind (req kvs ''wouldOverflow'' ''would_overflow'' strict_bool) (\<lambda>w.
     Some \<lparr>rc_kind = k, rc_identifier = i, rc_completed = co, rc_claimed = cl,
       rc_choice_count = n, rc_cost = c, rc_would_overflow = w\<rparr>))))))))"

definition parse_reward_state :: "json \<Rightarrow> reward_state option" where
  "parse_reward_state = obj (\<lambda>kvs.
     Option.bind (req kvs ''inventorySafetyAvailable'' ''inventory_safety_available'' strict_bool) (\<lambda>b.
     Option.bind (req kvs ''candidates'' ''candidates'' (list_of parse_candidate)) (\<lambda>cs.
     Some \<lparr>rs_inventory_safety_available = b, rs_candidates = cs\<rparr>)))"

section \<open>Views\<close>

record view_sections =
  vs_section_etags :: "(string \<times> string) list"
  vs_bosses :: "boss_section_entry list option"
  vs_boss_state :: "boss_state option"
  vs_world_boss_state :: "world_boss_instance list option"
  vs_profession_state :: "profession_state option"
  vs_reward_state :: "reward_state option"

definition parse_view_sections :: "json \<Rightarrow> view_sections option" where
  "parse_view_sections = obj (\<lambda>kvs.
     Option.bind (req kvs ''sectionEtags'' ''section_etags'' (dict_of as_str)) (\<lambda>e.
     Option.bind (opt kvs ''bosses'' ''bosses'' None (nullable (list_of parse_section_entry))) (\<lambda>b.
     Option.bind (opt kvs ''bossState'' ''boss_state'' None (nullable parse_boss_state)) (\<lambda>s.
     Option.bind (opt kvs ''worldBossState'' ''world_boss_state'' None
       (nullable parse_world_boss_state)) (\<lambda>w.
     Option.bind (opt kvs ''professionState'' ''profession_state'' None
       (nullable parse_profession_state)) (\<lambda>p.
     Option.bind (opt kvs ''rewardState'' ''reward_state'' None (nullable parse_reward_state)) (\<lambda>r.
     Some \<lparr>vs_section_etags = e, vs_bosses = b, vs_boss_state = s, vs_world_boss_state = w,
       vs_profession_state = p, vs_reward_state = r\<rparr>)))))))"

section \<open>Results of the other mutations\<close>

definition parse_boss_challenge_result :: "json \<Rightarrow> bool option" where
  "parse_boss_challenge_result = obj (\<lambda>kvs. req kvs ''won'' ''won'' strict_bool)"

definition parse_boss_assist_result :: "json \<Rightarrow> (int \<times> int) option" where
  "parse_boss_assist_result = obj (\<lambda>kvs.
     Option.bind (req kvs ''myAttemptCount'' ''my_attempt_count'' (strict_int 0)) (\<lambda>m.
     Option.bind (req kvs ''remainingAttemptCount'' ''remaining_attempt_count'' (strict_int 0)) (\<lambda>r.
     Some (m, r))))"

definition parse_profession_settle_result :: "json \<Rightarrow> (string \<times> int) option" where
  "parse_profession_settle_result = obj (\<lambda>kvs.
     Option.bind (req kvs ''selectedProfessionKey'' ''selected_profession_key'' strict_str) (\<lambda>k.
     Option.bind (req kvs ''queueSize'' ''queue_size'' (strict_int 0)) (\<lambda>n. Some (k, n))))"

definition parse_profession_queue_result :: "json \<Rightarrow> int option" where
  "parse_profession_queue_result = obj (\<lambda>kvs. req kvs ''queueSize'' ''queue_size'' (strict_int 0))"

definition parse_profession_supply_result :: "json \<Rightarrow> bool option" where
  "parse_profession_supply_result = obj (\<lambda>kvs. req kvs ''equipped'' ''equipped'' strict_bool)"

definition parse_reward_claim_result :: "json \<Rightarrow> bool option" where
  "parse_reward_claim_result = obj (\<lambda>kvs. req kvs ''claimed'' ''claimed'' strict_bool)"

end
