(* ===== verification/Rewards.thy ===== *)
theory Rewards
  imports Policy Schemas
begin

text \<open>
  Claiming rewards (\<open>rewards.py\<close>): one decision per candidate, at most one of them selected, and
  the plan that carries them. \<open>build_plan\<close> is the constructor call the planners of the policy engine
  share; a fresh identifier is an argument wherever the source draws one.
\<close>

section \<open>Building a plan\<close>

definition build_plan ::
  "(bytes \<Rightarrow> string) \<Rightarrow> uuid \<Rightarrow> uuid \<Rightarrow> int \<Rightarrow> family \<Rightarrow> decision list \<Rightarrow> json \<Rightarrow> (string \<times> string) list \<Rightarrow>
   string \<Rightarrow> instant \<Rightarrow> (exn, typed_action_plan) result" where
  "build_plan sha new_id account version fam decisions projection keyed risk now =
     rbind (canonical_fingerprint sha (family_str fam) projection keyed) (\<lambda>f.
       let p = \<lparr>pd_account_id = account, pd_state_fingerprint = f, pd_policy_version = version,
             pd_decisions = decisions, pd_estimated_costs = no_costs, pd_risk = risk,
             pd_expires_at = now + minutes 5, pd_confirmation_required = False, tp_id = new_id,
             tp_confirmed_at = None, tp_confirmed_by = None, tp_execution_state = Pending,
             tp_executed_at = None, tp_execution_result = None, tp_execution_owner = None,
             tp_execution_started_at = None, tp_execution_lease_expires_at = None,
             tp_execution_attempt_count = 0\<rparr> in
       if typed_plan_valid p then Inr p else Inl ValueErr)"

definition sha_hex :: "(bytes \<Rightarrow> string) \<Rightarrow> bool" where
  "sha_hex sha \<longleftrightarrow> (\<forall>b. length (sha b) = 64 \<and> set (sha b) \<subseteq> set ''0123456789abcdef'')"

text \<open>A plan is built whenever its projection has a fingerprint and its decisions belong together.\<close>

lemma build_plan_total:
  assumes "sha_hex sha" "canonical_fingerprint sha (family_str fam) projection keyed = Inr f"
    and "1 \<le> version" "decisions \<noteq> []" "risk \<in> set [''low'', ''medium'', ''high'']"
    and "\<And>d. d \<in> set decisions \<Longrightarrow> decision_valid d \<and> decision_family d = fam"
  shows "\<exists>p. build_plan sha new_id account version fam decisions projection keyed risk now = Inr p \<and>
    pd_account_id p = account \<and> pd_decisions p = decisions \<and> pd_state_fingerprint p = f \<and>
    pd_expires_at p = now + minutes 5 \<and> pd_policy_version p = version \<and> pd_risk p = risk"
proof -
  obtain doc where "f = ''pgfp:v1:'' @ sha doc"
    using assms(2) by (auto simp: canonical_fingerprint_def result_simps)
  moreover have "length (sha doc) = 64" "set (sha doc) \<subseteq> set ''0123456789abcdef''"
    using assms(1) by (simp_all add: sha_hex_def)
  ultimately have f: "fingerprint_ok f"
    unfolding fingerprint_ok_def list_all_iff by (auto simp del: set_simps)
  have hd: "decision_family (hd decisions) = fam" using assms(4,6) by simp
  have all: "list_all decision_valid decisions"
    "list_all (\<lambda>d. decision_family d = decision_family (hd decisions)) decisions"
    using assms(6) hd by (simp_all add: list_all_iff)
  show ?thesis
    unfolding build_plan_def assms(2) rbind_simps Let_def typed_plan_valid_def details_valid_def
    using f all assms(3,4,5) by (simp add: no_costs_def costs_valid_def)
qed

section \<open>Reading an integer\<close>

text \<open>\<open>int(text)\<close>: white space around, a sign, digits with single underscores between them, at most
  4300 digits.\<close>

fun int_digits :: "string \<Rightarrow> string option" where
  "int_digits [] = None"
| "int_digits [c] = (if is_digit c then Some [c] else None)"
| "int_digits (c # d # cs) =
     (if \<not> is_digit c then None
      else if d = CHR ''_'' then map_option ((#) c) (int_digits cs)
      else map_option ((#) c) (int_digits (d # cs)))"

definition python_int :: "string \<Rightarrow> int option" where
  "python_int text =
     (let s = strip text;
          negative = (case s of c # _ \<Rightarrow> c = CHR ''-'' | [] \<Rightarrow> False);
          body = (case s of c # cs \<Rightarrow> if c \<in> set ''+-'' then cs else s | [] \<Rightarrow> []) in
      case int_digits body of
        None \<Rightarrow> None
      | Some ds \<Rightarrow>
          if 4300 < length ds then None
          else let n = int (foldl (\<lambda>n c. 10 * n + hexval c) 0 ds) in
            Some (if negative then - n else n))"

section \<open>Decisions\<close>

text \<open>\<open>_action\<close>: an unreadable or negative point has no action; an empty identifier is a
  validation error.\<close>

definition reward_action :: "reward_candidate \<Rightarrow> (exn, action option) result" where
  "reward_action c =
     (let checked = (\<lambda>a. if action_valid a then Inr (Some a) else Inl ValueErr) in
      if rc_kind c = ''daily'' then
        (case python_int (rc_identifier c) of
           None \<Rightarrow> Inr None
         | Some n \<Rightarrow> if action_valid (DailyClaimAction n) then Inr (Some (DailyClaimAction n)) else Inr None)
      else if rc_kind c = ''quest'' then checked (QuestClaimAction (rc_identifier c))
      else if rc_kind c = ''achievement'' then checked (AchievementClaimAction (rc_identifier c))
      else if rc_kind c = ''codex'' then checked (CodexClaimAction (rc_identifier c))
      else if rc_kind c = ''mail'' then checked (MailClaimAction (rc_identifier c))
      else Inr None)"

definition skip_reward :: "string \<Rightarrow> (exn, decision) result" where
  "skip_reward reason = Inr (SkippedDecision Fam_safe_reward reason None)"

definition reward_decision ::
  "reward_candidate \<Rightarrow> reward_state \<Rightarrow> 'p account_policy_scheme \<Rightarrow> bool \<Rightarrow> (exn, decision) result" where
  "reward_decision c st policy selected =
     (if \<not> safe_reward_claims policy then skip_reward ''reward_claims_disabled''
      else if \<not> rs_inventory_safety_available st then
        Inr (BlockedDecision Fam_safe_reward ''inventory_safety_unavailable'' None)
      else if \<not> rc_completed c then skip_reward ''reward_incomplete''
      else if rc_claimed c then skip_reward ''reward_already_claimed''
      else if rc_choice_count c \<noteq> 0 then skip_reward ''reward_choice_required''
      else if rc_cost c \<noteq> 0 then skip_reward ''reward_has_cost''
      else if rc_would_overflow c then skip_reward ''reward_inventory_overflow''
      else rbind (reward_action c) (\<lambda>a.
        case a of
          None \<Rightarrow> skip_reward ''reward_unknown_kind''
        | Some act \<Rightarrow>
            if selected then skip_reward ''reward_plan_limit''
            else Inr (SelectedDecision Fam_safe_reward ''reward_safe_to_claim'' act)))"

fun is_selected :: "decision \<Rightarrow> bool" where
  "is_selected (SelectedDecision f r a) = True"
| "is_selected d = False"

fun reward_decisions ::
  "reward_candidate list \<Rightarrow> reward_state \<Rightarrow> 'p account_policy_scheme \<Rightarrow> bool \<Rightarrow> (exn, decision list) result" where
  "reward_decisions [] st policy selected = Inr []"
| "reward_decisions (c # cs) st policy selected =
     rbind (reward_decision c st policy selected) (\<lambda>d.
     rbind (reward_decisions cs st policy (selected \<or> is_selected d)) (\<lambda>ds. Inr (d # ds)))"

definition candidate_json :: "reward_candidate \<Rightarrow> json" where
  "candidate_json c = JObj [(''key'', JStr (rc_identifier c)), (''kind'', JStr (rc_kind c)),
     (''completed'', JBool (rc_completed c)), (''claimed'', JBool (rc_claimed c)),
     (''choiceCount'', JInt (rc_choice_count c)), (''cost'', JInt (rc_cost c)),
     (''wouldOverflow'', JBool (rc_would_overflow c))]"

definition reward_projection :: "reward_state \<Rightarrow> json" where
  "reward_projection st = JObj [(''candidates'', JArr (map candidate_json (rs_candidates st))),
     (''inventorySafetyAvailable'', JBool (rs_inventory_safety_available st))]"

definition reward_plan ::
  "(bytes \<Rightarrow> string) \<Rightarrow> uuid \<Rightarrow> uuid \<Rightarrow> reward_state \<Rightarrow> versioned_policy \<Rightarrow> instant \<Rightarrow>
   (exn, typed_action_plan) result" where
  "reward_plan sha new_id account st policy now =
     rbind (reward_decisions (rs_candidates st) st policy False) (\<lambda>ds.
       build_plan sha new_id account (policy_version policy) Fam_safe_reward
         (if ds = [] then [SkippedDecision Fam_safe_reward ''no_reward_candidates'' None] else ds)
         (reward_projection st) [(''candidates'', ''key'')] ''low'' now)"

section \<open>At most one safe claim\<close>

definition claimable :: "reward_state \<Rightarrow> 'p account_policy_scheme \<Rightarrow> reward_candidate \<Rightarrow> bool" where
  "claimable st policy c \<longleftrightarrow> safe_reward_claims policy \<and> rs_inventory_safety_available st \<and>
     rc_completed c \<and> \<not> rc_claimed c \<and> rc_choice_count c = 0 \<and> rc_cost c = 0 \<and>
     \<not> rc_would_overflow c \<and> (\<exists>a. reward_action c = Inr (Some a))"

lemma reward_decision_selected:
  "reward_decision c st policy selected = Inr d \<Longrightarrow>
     is_selected d \<longleftrightarrow> claimable st policy c \<and> \<not> selected"
  by (cases "reward_action c")
    (auto simp: reward_decision_def skip_reward_def claimable_def split: if_splits option.splits)

lemma reward_decisions_run:
  assumes "reward_decisions cs st policy selected = Inr ds"
  shows "length ds = length cs \<and> (\<forall>i < length cs. (is_selected (ds ! i) \<longrightarrow>
      (\<exists>a. reward_action (cs ! i) = Inr (Some a) \<and>
        ds ! i = SelectedDecision Fam_safe_reward ''reward_safe_to_claim'' a)) \<and>
    (is_selected (ds ! i) \<longleftrightarrow> \<not> selected \<and> claimable st policy (cs ! i) \<and> (\<forall>j < i. \<not> claimable st policy (cs ! j))))"
  using assms
proof (induction cs arbitrary: selected ds)
  case (Cons c cs)
  then obtain d es where d: "reward_decision c st policy selected = Inr d"
    and es: "reward_decisions cs st policy (selected \<or> is_selected d) = Inr es" and ds: "ds = d # es"
    by (auto simp: result_simps)
  note sel = reward_decision_selected [OF d]
  have act: "is_selected d \<longrightarrow> (\<exists>a. reward_action c = Inr (Some a) \<and>
      d = SelectedDecision Fam_safe_reward ''reward_safe_to_claim'' a)"
    using d by (cases "reward_action c")
      (auto simp: reward_decision_def skip_reward_def split: if_splits option.splits)
  have "(is_selected (ds ! i) \<longrightarrow> (\<exists>a. reward_action ((c # cs) ! i) = Inr (Some a) \<and>
        ds ! i = SelectedDecision Fam_safe_reward ''reward_safe_to_claim'' a)) \<and>
    (is_selected (ds ! i) \<longleftrightarrow> \<not> selected \<and> claimable st policy ((c # cs) ! i) \<and>
      (\<forall>j < i. \<not> claimable st policy ((c # cs) ! j)))" if "i < length (c # cs)" for i
  proof (cases i)
    case 0
    then show ?thesis using sel act ds by auto
  next
    case (Suc k)
    then show ?thesis using Cons.IH [OF es] sel ds that by (auto simp: less_Suc_eq_0_disj)
  qed
  then show ?case using Cons.IH [OF es] ds by simp
qed simp

text \<open>
  C31: a reward plan claims at most one reward, the first safe one. The plan has one decision per
  candidate, in order; the one of candidate \<open>i\<close> is selected exactly when claims are enabled, the
  inventory is known to be safe, the candidate is completed, unclaimed, free of choice, cost and
  overflow and of a known kind, and no candidate before it is; and then the action claims it.
\<close>

theorem one_safe_claim:
  assumes "reward_plan sha new_id account st policy now = Inr p" "rs_candidates st = cs" "cs \<noteq> []"
  shows "length (pd_decisions p) = length cs \<and>
    (\<forall>i < length cs. (is_selected (pd_decisions p ! i) \<longrightarrow>
       (\<exists>a. reward_action (cs ! i) = Inr (Some a) \<and>
         pd_decisions p ! i = SelectedDecision Fam_safe_reward ''reward_safe_to_claim'' a)) \<and>
     (is_selected (pd_decisions p ! i) \<longleftrightarrow>
       claimable st policy (cs ! i) \<and> (\<forall>j < i. \<not> claimable st policy (cs ! j))))"
proof -
  obtain ds where ds: "reward_decisions cs st policy False = Inr ds"
    and p: "pd_decisions p = (if ds = [] then [SkippedDecision Fam_safe_reward ''no_reward_candidates'' None] else ds)"
    using assms by (auto simp: reward_plan_def build_plan_def result_simps Let_def split: if_splits)
  with reward_decisions_run [OF ds] assms(3) show ?thesis by auto
qed

section \<open>A plan is always built\<close>

lemma reward_action_total: "rc_identifier c \<noteq> [] \<Longrightarrow> \<exists>a. reward_action c = Inr a \<and>
    (\<forall>x. a = Some x \<longrightarrow> action_valid x \<and> action_family x = Fam_safe_reward)"
  by (auto simp: reward_action_def Let_def split: option.split)

lemma reward_decision_total:
  assumes "rc_identifier c \<noteq> []"
  shows "\<exists>d. reward_decision c st policy selected = Inr d \<and> decision_valid d \<and>
    decision_family d = Fam_safe_reward"
proof -
  obtain a where "reward_action c = Inr a"
    "\<And>x. a = Some x \<Longrightarrow> action_valid x \<and> action_family x = Fam_safe_reward"
    using reward_action_total [OF assms] by blast
  then show ?thesis
    by (auto simp: reward_decision_def skip_reward_def decision_valid_def reason_ok_def
        is_ascii_lower_def is_digit_def split: option.split)
qed

lemma reward_decisions_total:
  "list_all (\<lambda>c. rc_identifier c \<noteq> []) cs \<Longrightarrow> \<exists>ds. reward_decisions cs st policy selected = Inr ds \<and>
     (\<forall>d \<in> set ds. decision_valid d \<and> decision_family d = Fam_safe_reward)"
proof (induction cs arbitrary: selected)
  case (Cons c cs)
  obtain d where d: "reward_decision c st policy selected = Inr d" "decision_valid d"
    "decision_family d = Fam_safe_reward" using reward_decision_total Cons.prems by fastforce
  obtain ds where "reward_decisions cs st policy (selected \<or> is_selected d) = Inr ds"
    "\<forall>d \<in> set ds. decision_valid d \<and> decision_family d = Fam_safe_reward"
    using Cons by fastforce
  with d show ?case by auto
qed simp

lemma reward_projection_total: "projectable [(''candidates'', ''key'')] [] (reward_projection st)"
proof -
  have "projectable [(''candidates'', ''key'')] ''candidates'' (candidate_json c)" for c
    unfolding candidate_json_def by (rule projectable_obj) auto
  then show ?thesis
    unfolding reward_projection_def
    by (intro projectable_obj) (auto simp: sub_path_def array_field_def candidate_json_def key_field_def
        intro!: projectable_arr)
qed

text \<open>
  A reward plan is always built. For every reward state the game client can deliver
  (identifiers are not empty) and every stored policy, \<open>build\<close> returns a plan: no candidate, of
  whatever kind and with whatever identifier, makes the constructors or the fingerprint raise.
\<close>

theorem reward_plan_total:
  assumes "sha_hex sha" "1 \<le> policy_version policy"
    and "list_all (\<lambda>c. rc_identifier c \<noteq> []) (rs_candidates st)"
  shows "\<exists>p. reward_plan sha new_id account st policy now = Inr p \<and> pd_account_id p = account \<and>
    pd_expires_at p = now + minutes 5 \<and> pd_decisions p \<noteq> []"
proof -
  obtain ds where ds: "reward_decisions (rs_candidates st) st policy False = Inr ds"
    "\<forall>d \<in> set ds. decision_valid d \<and> decision_family d = Fam_safe_reward"
    using reward_decisions_total [OF assms(3)] by blast
  let ?ds = "if ds = [] then [SkippedDecision Fam_safe_reward ''no_reward_candidates'' None] else ds"
  obtain f where "canonical_fingerprint sha (family_str Fam_safe_reward) (reward_projection st)
      [(''candidates'', ''key'')] = Inr f"
    using fingerprint_total [OF reward_projection_total] by blast
  moreover have "decision_valid d \<and> decision_family d = Fam_safe_reward" if "d \<in> set ?ds" for d
    using that ds(2) by (auto simp: decision_valid_def reason_ok_def is_ascii_lower_def is_digit_def
        split: if_splits)
  ultimately obtain p where "build_plan sha new_id account (policy_version policy) Fam_safe_reward ?ds
      (reward_projection st) [(''candidates'', ''key'')] ''low'' now = Inr p"
    "pd_account_id p = account" "pd_decisions p = ?ds" "pd_expires_at p = now + minutes 5"
    using build_plan_total [OF assms(1) _ assms(2), of Fam_safe_reward "reward_projection st"
        "[(''candidates'', ''key'')]" f ?ds "''low''" new_id account now] by (metis (no_types, lifting) insertI1 list.distinct(1) list.simps(15))
  then show ?thesis by (auto simp: reward_plan_def ds(1) split: if_splits)
qed

section \<open>A sample state\<close>

definition sample_candidate :: "string \<Rightarrow> string \<Rightarrow> reward_candidate" where
  "sample_candidate kind i = \<lparr>rc_kind = kind, rc_identifier = i, rc_completed = True, rc_claimed = False,
     rc_choice_count = 0, rc_cost = 0, rc_would_overflow = False\<rparr>"

definition sample_rewards :: reward_state where
  "sample_rewards = \<lparr>rs_inventory_safety_available = True,
     rs_candidates = [sample_candidate ''daily'' ''many'', sample_candidate ''daily'' '' +2_0'',
       sample_candidate ''quest'' ''q1'']\<rparr>"

definition sample_sha :: "bytes \<Rightarrow> string" where
  "sample_sha b = replicate 64 CHR ''a''"

lemma sample_sha_hex: "sha_hex sample_sha"
  by (simp add: sha_hex_def sample_sha_def)

lemma sample_policy_version: "1 \<le> policy_version (with_version 1 default_policy)"
  by (simp add: with_version_def account_policy.defs)

lemma sample_identifiers: "list_all (\<lambda>c. rc_identifier c \<noteq> []) (rs_candidates sample_rewards)"
  by (simp add: sample_rewards_def sample_candidate_def)

theorem reward_plan_total_witness:
  "\<exists>p. reward_plan sample_sha 1 7 sample_rewards (with_version 1 default_policy) 0 = Inr p \<and>
     pd_account_id p = 7 \<and> pd_expires_at p = minutes 5"
  using reward_plan_total [OF sample_sha_hex sample_policy_version sample_identifiers, of 1 7 0]
  by auto

lemma sample_claimable:
  "map (claimable sample_rewards default_policy) (rs_candidates sample_rewards) = [False, True, True]"
proof -
  have "reward_action (sample_candidate ''daily'' ''many'') = Inr None"
    "reward_action (sample_candidate ''daily'' '' +2_0'') = Inr (Some (DailyClaimAction 20))"
    "reward_action (sample_candidate ''quest'' ''q1'') = Inr (Some (QuestClaimAction ''q1''))"
    by code_simp+
  then show ?thesis
    by (simp add: claimable_def sample_rewards_def default_policy_def)
      (simp add: sample_candidate_def)
qed

lemma sample_reward_run:
  "case reward_plan sample_sha 1 7 sample_rewards (with_version 1 default_policy) 0 of
     Inl e \<Rightarrow> False | Inr p \<Rightarrow> length (pd_decisions p) = 3"
  by code_simp

theorem one_safe_claim_witness:
  "\<exists>p. reward_plan sample_sha 1 7 sample_rewards (with_version 1 default_policy) 0 = Inr p \<and>
     map is_selected (pd_decisions p) = [False, True, False]"
proof -
  obtain p where p: "reward_plan sample_sha 1 7 sample_rewards (with_version 1 default_policy) 0 = Inr p"
    using sample_reward_run by (auto split: sum.splits)
  have "claimable sample_rewards (with_version 1 default_policy) = claimable sample_rewards default_policy"
    by (simp add: claimable_def with_version_def account_policy.defs fun_eq_iff)
  with one_safe_claim [OF p refl] sample_claimable p show ?thesis
    by (auto simp: sample_rewards_def list_eq_iff_nth_eq All_less_Suc less_Suc_eq)
qed

end
