(* ===== verification/Game_Client.thy ===== *)
theory Game_Client
  imports Schemas
begin

text \<open>
  The HTTP client of the game (\<open>game/client.py\<close>, \<open>game/registry.py\<close>): which requests an operation
  sends, how an answer is classified, and which exception the caller sees. The network is a
  parameter \<open>net\<close> that answers the last request of the requests sent so far; what the client sent
  is part of its state.
\<close>

section \<open>The registry\<close>

datatype operation =
    Op_login | Op_bootstrap | Op_catalog | Op_idle_summary | Op_view_sections | Op_idle_collect
  | Op_boss_preview | Op_boss_challenge | Op_boss_assist | Op_profession_settle
  | Op_profession_enqueue | Op_profession_supply_equip | Op_daily_claim | Op_quest_claim
  | Op_achievement_claim | Op_codex_claim | Op_mail_claim

fun operation_name :: "operation \<Rightarrow> string" where
  "operation_name Op_login = ''login''"
| "operation_name Op_bootstrap = ''bootstrap''"
| "operation_name Op_catalog = ''catalog''"
| "operation_name Op_idle_summary = ''idle_summary''"
| "operation_name Op_view_sections = ''view_sections''"
| "operation_name Op_idle_collect = ''idle_collect''"
| "operation_name Op_boss_preview = ''boss_preview''"
| "operation_name Op_boss_challenge = ''boss_challenge''"
| "operation_name Op_boss_assist = ''boss_assist''"
| "operation_name Op_profession_settle = ''profession_settle''"
| "operation_name Op_profession_enqueue = ''profession_enqueue''"
| "operation_name Op_profession_supply_equip = ''profession_supply_equip''"
| "operation_name Op_daily_claim = ''daily_claim''"
| "operation_name Op_quest_claim = ''quest_claim''"
| "operation_name Op_achievement_claim = ''achievement_claim''"
| "operation_name Op_codex_claim = ''codex_claim''"
| "operation_name Op_mail_claim = ''mail_claim''"

record endpoint_spec =
  ep_method :: string
  ep_path :: string
  ep_mutation :: bool

fun registry :: "operation \<Rightarrow> endpoint_spec" where
  "registry Op_login = \<lparr>ep_method = ''POST'', ep_path = ''/api/auth/login'', ep_mutation = True\<rparr>"
| "registry Op_bootstrap =
     \<lparr>ep_method = ''GET'', ep_path = ''/api/client/bootstrap'', ep_mutation = False\<rparr>"
| "registry Op_catalog =
     \<lparr>ep_method = ''GET'', ep_path = ''/api/client/catalog'', ep_mutation = False\<rparr>"
| "registry Op_idle_summary =
     \<lparr>ep_method = ''GET'', ep_path = ''/api/client/idle-summary'', ep_mutation = False\<rparr>"
| "registry Op_view_sections =
     \<lparr>ep_method = ''POST'', ep_path = ''/api/client/view-sections'', ep_mutation = False\<rparr>"
| "registry Op_idle_collect =
     \<lparr>ep_method = ''POST'', ep_path = ''/api/battle/idle-collect'', ep_mutation = True\<rparr>"
| "registry Op_boss_preview =
     \<lparr>ep_method = ''POST'', ep_path = ''/api/boss/preview'', ep_mutation = False\<rparr>"
| "registry Op_boss_challenge =
     \<lparr>ep_method = ''POST'', ep_path = ''/api/boss/challenge'', ep_mutation = True\<rparr>"
| "registry Op_boss_assist =
     \<lparr>ep_method = ''POST'', ep_path = ''/api/boss/assist'', ep_mutation = True\<rparr>"
| "registry Op_profession_settle =
     \<lparr>ep_method = ''POST'', ep_path = ''/api/professions/settle'', ep_mutation = True\<rparr>"
| "registry Op_profession_enqueue =
     \<lparr>ep_method = ''POST'', ep_path = ''/api/professions/queue/enqueue'', ep_mutation = True\<rparr>"
| "registry Op_profession_supply_equip =
     \<lparr>ep_method = ''POST'', ep_path = ''/api/professions/supply/equip'', ep_mutation = True\<rparr>"
| "registry Op_daily_claim =
     \<lparr>ep_method = ''POST'', ep_path = ''/api/daily/claim'', ep_mutation = True\<rparr>"
| "registry Op_quest_claim =
     \<lparr>ep_method = ''POST'', ep_path = ''/api/quests/claim'', ep_mutation = True\<rparr>"
| "registry Op_achievement_claim =
     \<lparr>ep_method = ''POST'', ep_path = ''/api/achievements/claim'', ep_mutation = True\<rparr>"
| "registry Op_codex_claim =
     \<lparr>ep_method = ''POST'', ep_path = ''/api/codex/claim'', ep_mutation = True\<rparr>"
| "registry Op_mail_claim =
     \<lparr>ep_method = ''POST'', ep_path = ''/api/mail/claim'', ep_mutation = True\<rparr>"

section \<open>The client version\<close>

definition numeric_part :: "string \<Rightarrow> bool" where
  "numeric_part s \<longleftrightarrow> s \<noteq> [] \<and> list_all is_digit s \<and> (hd s = CHR ''0'' \<longrightarrow> length s = 1)"

definition version_suffix :: "string \<Rightarrow> bool" where
  "version_suffix s \<longleftrightarrow> 1 \<le> length s \<and> length s \<le> 32 \<and>
     list_all (\<lambda>c. is_ascii_alnum c \<or> c = CHR ''.'' \<or> c = CHR ''-'') s"

text \<open>\<open>CLIENT_VERSION_PATTERN.fullmatch\<close>: three numbers, then an optional suffix after the first
  hyphen (a hyphen cannot occur in the numbers).\<close>

definition client_version_ok :: "string \<Rightarrow> bool" where
  "client_version_ok v \<longleftrightarrow>
     (case split_once CHR ''-'' v of
        None \<Rightarrow> length (split_all CHR ''.'' v) = 3 \<and> list_all numeric_part (split_all CHR ''.'' v)
      | Some (core, suffix) \<Rightarrow>
          length (split_all CHR ''.'' core) = 3 \<and> list_all numeric_part (split_all CHR ''.'' core) \<and>
          version_suffix suffix)"

definition client_version_init :: "string \<Rightarrow> (exn, string) result" where
  "client_version_init seed = (if client_version_ok seed then Inr seed else Inl ValueErr)"

text \<open>\<open>adopt\<close>: whether the candidate is news, and the version afterwards.\<close>

definition client_version_adopt :: "string \<Rightarrow> string \<Rightarrow> bool \<times> string" where
  "client_version_adopt candidate current =
     (if \<not> client_version_ok candidate then (False, current)
      else if candidate = current then (False, current)
      else (True, candidate))"

section \<open>Answers\<close>

record http_response =
  hr_status :: int
  hr_json :: "json option" \<comment> \<open>\<open>None\<close>: the body is not JSON\<close>
  hr_retry_after :: "string option"

datatype transport = Response http_response | TransportFailure

datatype failure_kind =
    F_ambiguous | F_unavailable | F_session_rejected | F_contract_changed
  | F_client_version_rejected | F_inventory_full | F_insufficient_resource | F_conflict
  | F_rate_limited | F_schema_mismatch | F_http_error

record failure =
  fl_kind :: failure_kind
  fl_metadata :: "metadata option"
  fl_code :: "string option"
  fl_retry_after :: "rat option"
  fl_required_version :: "string option"

definition failure_of :: "failure_kind \<Rightarrow> failure" where
  "failure_of k = \<lparr>fl_kind = k, fl_metadata = None, fl_code = None, fl_retry_after = None,
     fl_required_version = None\<rparr>"

definition stable_error_codes :: "string list" where
  "stable_error_codes = [''conflict'', ''insufficient_resource'', ''inventory_full'']"

definition get_key :: "json option \<Rightarrow> string \<Rightarrow> json option" where
  "get_key v k = (case v of Some (JObj kvs) \<Rightarrow> dict_get kvs k | _ \<Rightarrow> None)"

definition safe_error_code :: "http_response \<Rightarrow> string option" where
  "safe_error_code r =
     (case hr_json r of
        Some (JObj payload) \<Rightarrow>
          (let candidate = (case dict_get payload ''error'' of
               Some (JObj err) \<Rightarrow> dict_get err ''code''
             | _ \<Rightarrow> dict_get payload ''code'') in
           case candidate of
             Some (JStr c) \<Rightarrow> if c \<in> set stable_error_codes then Some c else None
           | _ \<Rightarrow> None)
      | _ \<Rightarrow> None)"

definition required_client_version :: "http_response \<Rightarrow> string option" where
  "required_client_version r =
     (case get_key (get_key (hr_json r) ''data'') ''minimumClientVersion'' of
        Some (JStr c) \<Rightarrow> if client_version_ok c then Some c else None
      | _ \<Rightarrow> None)"

text \<open>
  \<open>_parse_retry_after\<close>: the number the header denotes (\<open>num\<close>, Python's \<open>float\<close>) or the seconds until the
  date it denotes (\<open>date\<close>, relative to now), never negative.
\<close>

definition parse_retry_after ::
  "(string \<Rightarrow> rat option) \<Rightarrow> (string \<Rightarrow> rat option) \<Rightarrow> http_response \<Rightarrow> rat option" where
  "parse_retry_after num date r =
     (case hr_retry_after r of
        None \<Rightarrow> None
      | Some v \<Rightarrow> (case num v of
          Some q \<Rightarrow> Some (max 0 q)
        | None \<Rightarrow> map_option (max 0) (date v)))"

text \<open>\<open>_payload_for\<close>: \<open>None\<close> when the envelope has no \<open>data\<close> (a \<open>KeyError\<close>).\<close>

definition payload_for :: "bool \<Rightarrow> (string \<times> json) list \<Rightarrow> json option" where
  "payload_for reads_envelope envelope =
     (if reads_envelope then Some (JObj envelope)
      else case dict_get envelope ''data'' of
        Some (JObj dat) \<Rightarrow>
          (case (dict_get dat ''result'', dict_get dat ''statePatch'') of
             (Some res, Some _) \<Rightarrow> Some res | _ \<Rightarrow> Some (JObj dat))
      | v \<Rightarrow> v)"

record http_clock =
  hc_number :: "string \<Rightarrow> rat option"
  hc_date :: "string \<Rightarrow> rat option"

definition interpret_response ::
  "http_clock \<Rightarrow> bool \<Rightarrow> (json \<Rightarrow> 'a option) \<Rightarrow> http_response \<Rightarrow> failure + 'a" where
  "interpret_response hc reads_envelope model r =
     (let status = hr_status r; error_code = safe_error_code r;
          meta = Some (status, error_code) in
      if \<not> (200 \<le> status \<and> status < 300) then
        (if status = 401 \<or> status = 403 then Inl (failure_of F_session_rejected)
         else if status = 426 then
           Inl ((failure_of F_client_version_rejected)\<lparr>fl_metadata := meta,
             fl_required_version := required_client_version r\<rparr>)
         else if 500 \<le> status then Inl (failure_of F_unavailable)
         else if error_code = Some ''inventory_full'' then Inl (failure_of F_inventory_full)
         else if error_code = Some ''insufficient_resource'' then
           Inl ((failure_of F_insufficient_resource)\<lparr>fl_metadata := meta\<rparr>)
         else if status = 409 then Inl ((failure_of F_conflict)\<lparr>fl_code := error_code\<rparr>)
         else if status = 429 then
           Inl ((failure_of F_rate_limited)\<lparr>fl_retry_after :=
             parse_retry_after (hc_number hc) (hc_date hc) r\<rparr>)
         else Inl ((failure_of F_http_error)\<lparr>fl_metadata := meta\<rparr>))
      else
        (case hr_json r of
           Some (JObj envelope) \<Rightarrow>
             if dict_get envelope ''ok'' = Some (JBool False) then
               Inl ((failure_of F_conflict)\<lparr>fl_code := error_code\<rparr>)
             else (case Option.bind (payload_for reads_envelope envelope) model of
                 Some x \<Rightarrow> Inr x
               | None \<Rightarrow> Inl ((failure_of F_schema_mismatch)\<lparr>fl_metadata := Some (status, None)\<rparr>))
         | _ \<Rightarrow> Inl ((failure_of F_schema_mismatch)\<lparr>fl_metadata := Some (status, None)\<rparr>)))"

fun public_error :: "operation \<Rightarrow> failure \<Rightarrow> exn" where
  "public_error op f = (case fl_kind f of
     F_ambiguous \<Rightarrow> AmbiguousMutation (operation_name op)
   | F_unavailable \<Rightarrow> GameUnavailable (operation_name op)
   | F_session_rejected \<Rightarrow> SessionRejected
   | F_contract_changed \<Rightarrow> ContractChanged
   | F_client_version_rejected \<Rightarrow> ClientVersionRejected
   | F_inventory_full \<Rightarrow> InventoryFull
   | F_insufficient_resource \<Rightarrow> InsufficientResource (fl_metadata f)
   | F_conflict \<Rightarrow> GameConflict (fl_code f)
   | F_rate_limited \<Rightarrow> GameRateLimited (fl_retry_after f)
   | F_schema_mismatch \<Rightarrow> GameSchemaMismatch (operation_name op) (fl_metadata f)
   | F_http_error \<Rightarrow> GameHttpError (operation_name op) (fl_metadata f))"

section \<open>Requests\<close>

record http_request =
  rq_operation :: operation
  rq_method :: string
  rq_url :: string
  rq_headers :: "(string \<times> string) list"
  rq_json :: "json option"

record http_client =
  hc_base_url :: string
  hc_session_token :: "string option"

record client_state =
  cs_version :: string
  cs_sent :: "http_request list"

type_synonym network = "http_request list \<Rightarrow> transport"

definition request_for ::
  "http_client \<Rightarrow> string \<Rightarrow> operation \<Rightarrow> json option \<Rightarrow> http_request" where
  "request_for cl version op payload = \<lparr>rq_operation = op, rq_method = ep_method (registry op),
     rq_url = hc_base_url cl @ ep_path (registry op),
     rq_headers = [(''Accept'', ''application/json''), (''x-placegame-client-platform'', ''cli''),
       (''x-placegame-client-version'', version), (''x-placegame-response-state'', ''omit'')] @
       (case hc_session_token cl of
          Some token \<Rightarrow> if op \<noteq> Op_login then [(''Authorization'', ''Bearer '' @ token)] else []
        | None \<Rightarrow> []),
     rq_json = payload\<rparr>"

definition send_once ::
  "network \<Rightarrow> http_client \<Rightarrow> operation \<Rightarrow> json option \<Rightarrow> client_state \<Rightarrow> transport \<times> client_state" where
  "send_once net cl op payload st =
     (let st' = st\<lparr>cs_sent := cs_sent st @ [request_for cl (cs_version st) op payload]\<rparr> in
      (net (cs_sent st'), st'))"

text \<open>
  The loop of \<open>_attempt\<close>: \<open>k\<close> counts the attempts that are left after this one. The pauses between
  attempts do not change what is sent.
\<close>

fun attempt_loop ::
  "network \<Rightarrow> http_client \<Rightarrow> http_clock \<Rightarrow> operation \<Rightarrow> bool \<Rightarrow> (json \<Rightarrow> 'a option) \<Rightarrow> json option \<Rightarrow>
   nat \<Rightarrow> client_state \<Rightarrow> (failure + 'a) \<times> client_state" where
  "attempt_loop net cl hc op env model payload k st =
     (case send_once net cl op payload st of
        (TransportFailure, st') \<Rightarrow>
          if ep_mutation (registry op) then (Inl (failure_of F_ambiguous), st')
          else (case k of
              0 \<Rightarrow> (Inl (failure_of F_unavailable), st')
            | Suc k' \<Rightarrow> attempt_loop net cl hc op env model payload k' st')
      | (Response r, st') \<Rightarrow>
          (case interpret_response hc env model r of
             Inl f \<Rightarrow>
               if fl_kind f = F_unavailable \<and> ep_mutation (registry op)
               then (Inl (failure_of F_ambiguous), st') else (Inl f, st')
           | Inr x \<Rightarrow> (Inr x, st')))"

definition attempt ::
  "network \<Rightarrow> http_client \<Rightarrow> http_clock \<Rightarrow> operation \<Rightarrow> bool \<Rightarrow> (json \<Rightarrow> 'a option) \<Rightarrow> json option \<Rightarrow>
   client_state \<Rightarrow> (failure + 'a) \<times> client_state" where
  "attempt net cl hc op env model payload =
     attempt_loop net cl hc op env model payload (if ep_mutation (registry op) then 0 else 2)"

definition request_outcome ::
  "network \<Rightarrow> http_client \<Rightarrow> http_clock \<Rightarrow> operation \<Rightarrow> bool \<Rightarrow> (json \<Rightarrow> 'a option) \<Rightarrow> json option \<Rightarrow>
   client_state \<Rightarrow> (failure + 'a) \<times> client_state" where
  "request_outcome net cl hc op env model payload st =
     (case attempt net cl hc op env model payload st of
        (Inl f, st') \<Rightarrow>
          (case (fl_kind f, fl_required_version f) of
             (F_client_version_rejected, Some v) \<Rightarrow>
               (case client_version_adopt v (cs_version st') of
                  (True, version) \<Rightarrow>
                    attempt net cl hc op env model payload (st'\<lparr>cs_version := version\<rparr>)
                | (False, _) \<Rightarrow> (Inl f, st'))
           | _ \<Rightarrow> (Inl f, st'))
      | (Inr x, st') \<Rightarrow> (Inr x, st'))"

definition request ::
  "network \<Rightarrow> http_client \<Rightarrow> http_clock \<Rightarrow> operation \<Rightarrow> bool \<Rightarrow> (json \<Rightarrow> 'a option) \<Rightarrow> json option \<Rightarrow>
   (client_state, 'a) prog" where
  "request net cl hc op env model payload st =
     (case request_outcome net cl hc op env model payload st of
        (Inl f, st') \<Rightarrow> (Inl (public_error op f), st')
      | (Inr x, st') \<Rightarrow> (Inr x, st'))"

section \<open>The operations\<close>

record game_link =
  gl_net :: network
  gl_client :: http_client
  gl_clock :: http_clock

definition api_call ::
  "game_link \<Rightarrow> operation \<Rightarrow> bool \<Rightarrow> (json \<Rightarrow> 'a option) \<Rightarrow> json option \<Rightarrow> (client_state, 'a) prog" where
  "api_call gl = request (gl_net gl) (gl_client gl) (gl_clock gl)"

definition api_login :: "game_link \<Rightarrow> string \<Rightarrow> string \<Rightarrow> (client_state, login_result) prog" where
  "api_login gl username pass =
     (if username = [] \<or> pass = [] then raise ValueErr
      else api_call gl Op_login False parse_login
        (Some (JObj [(''username'', JStr username), (''password'', JStr pass)])))"

definition api_bootstrap :: "game_link \<Rightarrow> (client_state, bootstrap_state) prog" where
  "api_bootstrap gl = api_call gl Op_bootstrap True parse_bootstrap None"

definition api_catalog :: "game_link \<Rightarrow> (client_state, unit) prog" where
  "api_catalog gl = api_call gl Op_catalog False parse_catalog None"

definition api_idle_summary :: "game_link \<Rightarrow> (client_state, idle_summary) prog" where
  "api_idle_summary gl = api_call gl Op_idle_summary False parse_idle_summary None"

definition schema_mismatch_200 :: exn where
  "schema_mismatch_200 = GameSchemaMismatch ''view_sections'' (Some (200, None))"

definition api_view_sections ::
  "game_link \<Rightarrow> string list \<Rightarrow> (string \<times> string) list option \<Rightarrow> (client_state, view_sections) prog" where
  "api_view_sections gl sections etags =
     bnd (api_call gl Op_view_sections False parse_view_sections
       (Some (JObj ([(''sections'', JArr (map JStr sections))] @
         (case etags of None \<Rightarrow> []
          | Some es \<Rightarrow> [(''sectionEtags'', JObj (map (\<lambda>(k, v). (k, JStr v)) es))])))))
     (\<lambda>res. if ''bosses'' \<in> set sections \<and> vs_bosses res = None then raise schema_mismatch_200
       else ret res)"

text \<open>The four states read from one section; an absent state is a schema mismatch.\<close>

definition section_state ::
  "game_link \<Rightarrow> string \<Rightarrow> (view_sections \<Rightarrow> 'a option) \<Rightarrow> (client_state, 'a) prog" where
  "section_state gl sec get =
     bnd (api_view_sections gl [sec] None)
       (\<lambda>res. case get res of None \<Rightarrow> raise schema_mismatch_200 | Some x \<Rightarrow> ret x)"

definition api_boss_state :: "game_link \<Rightarrow> (client_state, boss_state) prog" where
  "api_boss_state gl = section_state gl ''bosses'' vs_boss_state"

definition api_world_boss_state :: "game_link \<Rightarrow> (client_state, world_boss_instance list) prog" where
  "api_world_boss_state gl = section_state gl ''bosses'' vs_world_boss_state"

definition api_profession_state :: "game_link \<Rightarrow> (client_state, profession_state) prog" where
  "api_profession_state gl = section_state gl ''professions'' vs_profession_state"

definition api_reward_state :: "game_link \<Rightarrow> (client_state, reward_state) prog" where
  "api_reward_state gl = section_state gl ''rewards'' vs_reward_state"

definition api_idle_collect :: "game_link \<Rightarrow> (client_state, idle_collect_result) prog" where
  "api_idle_collect gl = api_call gl Op_idle_collect False parse_idle_collect None"

record boss_request =
  br_boss_key :: string
  br_difficulty :: difficulty
  br_selected_skill_keys :: "string list"
  br_buff_key :: buff
  br_affix_key :: "string option"
  br_target_slot :: string
  br_use_material_boost :: bool

definition boss_request_valid :: "boss_request \<Rightarrow> bool" where
  "boss_request_valid b \<longleftrightarrow> br_boss_key b \<noteq> [] \<and> length (br_selected_skill_keys b) \<le> 3 \<and>
     br_target_slot b \<noteq> []"

text \<open>The dump leaves out what is \<open>None\<close>.\<close>

definition boss_request_json :: "boss_request \<Rightarrow> json" where
  "boss_request_json b = JObj
     ([(''bossKey'', JStr (br_boss_key b)),
       (''difficulty'', JStr (difficulty_str (br_difficulty b))),
       (''selectedSkillKeys'', JArr (map JStr (br_selected_skill_keys b))),
       (''buffKey'', JStr (buff_str (br_buff_key b)))] @
      (case br_affix_key b of None \<Rightarrow> [] | Some k \<Rightarrow> [(''affixKey'', JStr k)]) @
      [(''targetSlot'', JStr (br_target_slot b)),
       (''useMaterialBoost'', JBool (br_use_material_boost b))])"

definition api_boss_preview :: "game_link \<Rightarrow> boss_request \<Rightarrow> (client_state, boss_preview) prog" where
  "api_boss_preview gl b =
     api_call gl Op_boss_preview False parse_boss_preview (Some (boss_request_json b))"

definition api_boss_challenge :: "game_link \<Rightarrow> boss_request \<Rightarrow> (client_state, bool) prog" where
  "api_boss_challenge gl b =
     api_call gl Op_boss_challenge False parse_boss_challenge_result (Some (boss_request_json b))"

text \<open>A request of one non-empty text.\<close>

definition keyed_call ::
  "game_link \<Rightarrow> operation \<Rightarrow> (json \<Rightarrow> 'a option) \<Rightarrow> string \<Rightarrow> string \<Rightarrow> (client_state, 'a) prog" where
  "keyed_call gl op model key v =
     (if v = [] then raise ValueErr else api_call gl op False model (Some (JObj [(key, JStr v)])))"

definition api_boss_assist :: "game_link \<Rightarrow> string \<Rightarrow> (client_state, int \<times> int) prog" where
  "api_boss_assist gl boss_key =
     keyed_call gl Op_boss_assist parse_boss_assist_result ''bossKey'' boss_key"

definition api_profession_settle :: "game_link \<Rightarrow> (client_state, string \<times> int) prog" where
  "api_profession_settle gl =
     api_call gl Op_profession_settle False parse_profession_settle_result None"

definition api_profession_enqueue :: "game_link \<Rightarrow> string \<Rightarrow> int \<Rightarrow> (client_state, int) prog" where
  "api_profession_enqueue gl action_key n =
     (if action_key = [] \<or> n < 1 then raise ValueErr
      else api_call gl Op_profession_enqueue False parse_profession_queue_result
        (Some (JObj [(''actionKey'', JStr action_key), (''count'', JInt n)])))"

definition api_profession_supply_equip ::
  "game_link \<Rightarrow> string \<Rightarrow> string \<Rightarrow> (client_state, bool) prog" where
  "api_profession_supply_equip gl supply_type item_key =
     (if supply_type = [] \<or> item_key = [] then raise ValueErr
      else api_call gl Op_profession_supply_equip False parse_profession_supply_result
        (Some (JObj [(''supplyType'', JStr supply_type), (''itemKey'', JStr item_key)])))"

definition api_daily_claim :: "game_link \<Rightarrow> int \<Rightarrow> (client_state, bool) prog" where
  "api_daily_claim gl point =
     (if point < 0 then raise ValueErr
      else api_call gl Op_daily_claim False parse_reward_claim_result
        (Some (JObj [(''point'', JInt point)])))"

definition api_quest_claim :: "game_link \<Rightarrow> string \<Rightarrow> (client_state, bool) prog" where
  "api_quest_claim gl key = keyed_call gl Op_quest_claim parse_reward_claim_result ''questKey'' key"

definition api_achievement_claim :: "game_link \<Rightarrow> string \<Rightarrow> (client_state, bool) prog" where
  "api_achievement_claim gl key =
     keyed_call gl Op_achievement_claim parse_reward_claim_result ''achievementKey'' key"

definition api_codex_claim :: "game_link \<Rightarrow> string \<Rightarrow> (client_state, bool) prog" where
  "api_codex_claim gl key = keyed_call gl Op_codex_claim parse_reward_claim_result ''rewardKey'' key"

definition api_mail_claim :: "game_link \<Rightarrow> string \<Rightarrow> (client_state, bool) prog" where
  "api_mail_claim gl key = keyed_call gl Op_mail_claim parse_reward_claim_result ''mailId'' key"

section \<open>What is sent\<close>

lemmas send_defs = send_once_def request_for_def Let_def

lemma send_once_sent:
  "send_once net cl op payload st = (answer, st') \<Longrightarrow>
   cs_version st' = cs_version st \<and> cs_sent st' = cs_sent st @ [request_for cl (cs_version st) op payload] \<and>
   answer = net (cs_sent st')"
  by (auto simp: send_once_def Let_def)

text \<open>The classification of answers, read backwards.\<close>

lemma interpret_version_rejected:
  assumes "interpret_response hc env model r = Inl f" "fl_kind f = F_client_version_rejected"
  shows "hr_status r = 426 \<and> fl_required_version f = required_client_version r"
  using assms
  by (auto simp: interpret_response_def Let_def failure_of_def split: if_splits option.splits json.splits)

lemma interpret_unavailable:
  "(\<exists>f. interpret_response hc env model r = Inl f \<and> fl_kind f = F_unavailable) \<longleftrightarrow> 500 \<le> hr_status r"
  by (auto simp: interpret_response_def Let_def failure_of_def split: option.splits json.splits)

lemma interpret_not_ambiguous:
  "interpret_response hc env model r = Inl f \<Longrightarrow> fl_kind f \<noteq> F_ambiguous"
  by (auto simp: interpret_response_def Let_def failure_of_def
      split: if_splits option.splits json.splits)

text \<open>No answer, or an answer of the server that it failed: whether the mutation ran is unknown.\<close>

definition unknown_outcome :: "transport \<Rightarrow> bool" where
  "unknown_outcome t = (case t of TransportFailure \<Rightarrow> True | Response r \<Rightarrow> 500 \<le> hr_status r)"

lemma attempt_mutation:
  assumes "ep_mutation (registry op)" "attempt net cl hc op env model payload st = (out, st')"
  shows "cs_version st' = cs_version st \<and>
    cs_sent st' = cs_sent st @ [request_for cl (cs_version st) op payload] \<and>
    ((\<exists>f. out = Inl f \<and> fl_kind f = F_ambiguous) \<longleftrightarrow> unknown_outcome (net (cs_sent st'))) \<and>
    (\<forall>f. out = Inl f \<and> fl_kind f = F_client_version_rejected \<longrightarrow>
       (\<exists>r. net (cs_sent st') = Response r \<and> hr_status r = 426 \<and>
          fl_required_version f = required_client_version r))"
proof -
  obtain answer st1 where send: "send_once net cl op payload st = (answer, st1)" by force
  have sent: "cs_version st1 = cs_version st"
    "cs_sent st1 = cs_sent st @ [request_for cl (cs_version st) op payload]"
    and answer: "net (cs_sent st @ [request_for cl (cs_version st) op payload]) = answer"
    using send_once_sent [OF send] by auto
  note step = assms send sent answer
  show ?thesis
  proof (cases answer)
    case TransportFailure
    then show ?thesis using step by (auto simp: attempt_def failure_of_def unknown_outcome_def)
  next
    case (Response r)
    show ?thesis
    proof (cases "interpret_response hc env model r")
      case (Inl f)
      then show ?thesis
        using step Response interpret_unavailable [of hc env model r]
          interpret_not_ambiguous [OF Inl] interpret_version_rejected [OF Inl]
        by (auto simp: attempt_def unknown_outcome_def failure_of_def split: if_splits)
    next
      case (Inr x)
      then show ?thesis
        using step Response interpret_unavailable [of hc env model r]
        by (auto simp: attempt_def unknown_outcome_def)
    qed
  qed
qed

lemma adopt_iff:
  "client_version_adopt c v = (True, w) \<longleftrightarrow> client_version_ok c \<and> c \<noteq> v \<and> w = c"
  by (auto simp: client_version_adopt_def)

lemma adopt_not: "client_version_adopt c v = (False, w) \<Longrightarrow> w = v"
  by (auto simp: client_version_adopt_def split: if_splits)

lemma request_outcome_cases:
  assumes "attempt net cl hc op env model payload st = (out, st')"
  shows "(\<exists>f v w. out = Inl f \<and> fl_kind f = F_client_version_rejected \<and>
      fl_required_version f = Some v \<and> client_version_adopt v (cs_version st') = (True, w)) \<or>
    request_outcome net cl hc op env model payload st = (out, st')"
  using assms
  by (simp add: request_outcome_def split: sum.split failure_kind.split option.split prod.split
      bool.split)

text \<open>
  C8: a mutation is sent once. A request for a mutating operation sends exactly one HTTP
  request, or exactly two when the first was refused with 426 naming another well-formed client
  version, which is then the one in use: no transport failure, server error or rate limit is
  ever answered with a second attempt. The caller sees the error of an ambiguous mutation
  exactly when the last request sent got no answer or a 5xx.
\<close>

theorem mutation_sent_once:
  assumes "ep_mutation (registry op)"
    and "request net cl hc op env model payload st = (out, st')"
  shows "((\<exists>r. cs_sent st' = cs_sent st @ [r] \<and> cs_version st' = cs_version st) \<or>
     (\<exists>r1 r2 answer. cs_sent st' = cs_sent st @ [r1, r2] \<and> net (cs_sent st @ [r1]) = Response answer \<and>
        hr_status answer = 426 \<and> required_client_version answer = Some (cs_version st') \<and>
        cs_version st' \<noteq> cs_version st)) \<and>
    ((\<exists>s. out = Inl (AmbiguousMutation s)) \<longleftrightarrow> unknown_outcome (net (cs_sent st')))"
proof -
  obtain o1 st1 where a1: "attempt net cl hc op env model payload st = (o1, st1)" by force
  note once = attempt_mutation [OF assms(1) a1]
  have amb: "(\<exists>s. public_error op f = AmbiguousMutation s) \<longleftrightarrow> fl_kind f = F_ambiguous" for f
    by (cases "fl_kind f") auto
  consider (retry) f v w where "o1 = Inl f" "fl_kind f = F_client_version_rejected"
      "fl_required_version f = Some v" "client_version_adopt v (cs_version st1) = (True, w)"
    | (only) "request_outcome net cl hc op env model payload st = (o1, st1)"
    using request_outcome_cases [OF a1] by blast
  then show ?thesis
  proof cases
    case only
    then show ?thesis
      using once assms(2) amb by (auto simp: request_def split: sum.splits prod.splits)
  next
    case retry
    obtain o2 st2 where a2: "attempt net cl hc op env model payload (st1\<lparr>cs_version := w\<rparr>) = (o2, st2)"
      by force
    have w: "w = v" "w \<noteq> cs_version st1" using retry(4) by (auto simp: adopt_iff)
    have "request_outcome net cl hc op env model payload st = (o2, st2)"
      using a1 a2 retry by (simp add: request_outcome_def)
    moreover note attempt_mutation [OF assms(1) a2]
    moreover obtain r where "net (cs_sent st1) = Response r" "hr_status r = 426"
      "required_client_version r = Some v" using once retry by auto
    ultimately show ?thesis
      using once w assms(2) amb by (auto simp: request_def split: sum.splits prod.splits)
  qed
qed

definition sample_client :: http_client where
  "sample_client = \<lparr>hc_base_url = ''https://game.placegame.cn'', hc_session_token = Some ''t''\<rparr>"

definition sample_clock :: http_clock where
  "sample_clock = \<lparr>hc_number = (\<lambda>_. None), hc_date = (\<lambda>_. None)\<rparr>"

definition sample_state :: client_state where
  "sample_state = \<lparr>cs_version = ''0.2.48'', cs_sent = []\<rparr>"

text \<open>A game that first asks for another version and then does not answer.\<close>

definition upgrading_net :: network where
  "upgrading_net sent = (if length sent = 1 then Response \<lparr>hr_status = 426,
     hr_json = Some (JObj [(''data'', JObj [(''minimumClientVersion'', JStr ''0.3.0'')])]),
     hr_retry_after = None\<rparr> else TransportFailure)"

definition sample_run :: "(exn, idle_collect_result) result \<times> client_state" where
  "sample_run = request upgrading_net sample_client sample_clock Op_idle_collect False
     parse_idle_collect None sample_state"

lemma sample_run_sent: "length (cs_sent (snd sample_run)) = 2"
  by code_simp

theorem mutation_sent_once_witness:
  "\<exists>s. fst sample_run = Inl (AmbiguousMutation s)"
proof -
  have "(\<exists>s. fst sample_run = Inl (AmbiguousMutation s)) \<longleftrightarrow>
      unknown_outcome (upgrading_net (cs_sent (snd sample_run)))"
    using mutation_sent_once [of Op_idle_collect upgrading_net sample_client sample_clock False
        parse_idle_collect None sample_state "fst sample_run" "snd sample_run"]
    by (simp add: sample_run_def)
  moreover have "unknown_outcome (upgrading_net (cs_sent (snd sample_run)))"
    by (simp add: upgrading_net_def sample_run_sent unknown_outcome_def)
  ultimately show ?thesis by blast
qed

section \<open>Reads\<close>

lemma attempt_loop_sent:
  "attempt_loop net cl hc op env model payload k st = (out, st') \<Longrightarrow>
   cs_version st' = cs_version st \<and>
   (\<exists>n. n \<le> k \<and> cs_sent st' = cs_sent st @ replicate (Suc n) (request_for cl (cs_version st) op payload) \<and>
     (\<forall>i < n. net (cs_sent st @ replicate (Suc i) (request_for cl (cs_version st) op payload)) =
        TransportFailure))"
proof (induction k arbitrary: st)
  case 0
  obtain answer st1 where send: "send_once net cl op payload st = (answer, st1)" by force
  show ?case
    using 0 send send_once_sent [OF send]
    by (auto split: transport.splits sum.splits if_splits)
next
  case (Suc k)
  obtain answer st1 where send: "send_once net cl op payload st = (answer, st1)" by force
  let ?r = "request_for cl (cs_version st) op payload"
  have sent: "cs_version st1 = cs_version st" "cs_sent st1 = cs_sent st @ [?r]"
    "net (cs_sent st @ [?r]) = answer"
    using send_once_sent [OF send] by auto
  show ?case
  proof (cases "answer = TransportFailure \<and> \<not> ep_mutation (registry op)")
    case True
    then have "attempt_loop net cl hc op env model payload k st1 = (out, st')"
      using Suc.prems send by simp
    from Suc.IH [OF this] obtain n where n: "cs_version st' = cs_version st" "n \<le> k"
      "cs_sent st' = cs_sent st @ ?r # replicate (Suc n) ?r"
      "\<forall>i < n. net (cs_sent st @ ?r # replicate (Suc i) ?r) = TransportFailure"
      using sent by auto
    have "net (cs_sent st @ replicate (Suc i) ?r) = TransportFailure" if "i < Suc n" for i
      using that n(4) sent(3) True by (cases i) auto
    then show ?thesis using n by (intro conjI exI [of _ "Suc n"]) auto
  next
    case False
    then have "st' = st1"
      using Suc.prems send by (auto split: transport.splits sum.splits if_splits)
    then show ?thesis using sent by (intro conjI exI [of _ 0]) auto
  qed
qed

lemma attempt_sent:
  assumes "attempt net cl hc op env model payload st = (out, st')"
  shows "cs_version st' = cs_version st \<and>
    (\<exists>n \<le> 2. cs_sent st' = cs_sent st @ replicate (Suc n) (request_for cl (cs_version st) op payload))"
proof -
  obtain k :: nat where "k \<le> 2" "attempt_loop net cl hc op env model payload k st = (out, st')"
    using assms by (auto simp: attempt_def split: if_splits)
  with attempt_loop_sent [OF this(2)] show ?thesis by (meson order_trans)
qed

definition declared_version :: "http_request \<Rightarrow> string option" where
  "declared_version rq = map_of (rq_headers rq) ''x-placegame-client-version''"

lemma request_headers:
  "declared_version (request_for cl v op payload) = Some v"
  "(''Authorization'', t) \<in> set (rq_headers (request_for cl v op payload)) \<longleftrightarrow>
     op \<noteq> Op_login \<and> (\<exists>s. hc_session_token cl = Some s \<and> t = ''Bearer '' @ s)"
  by (auto simp: declared_version_def request_for_def split: option.splits)

text \<open>
  C34: every request is bounded and well formed. Whatever the network does, one call sends between
  one and six HTTP requests, all for the same operation and body; each declares a client version
  of the accepted shape, the shared version keeps that shape, and the session token is never
  attached to a login.
\<close>

theorem requests_bounded:
  assumes "client_version_ok (cs_version st)"
    and "request net cl hc op env model payload st = (out, st')"
  shows "client_version_ok (cs_version st') \<and>
    (\<exists>rs. cs_sent st' = cs_sent st @ rs \<and> 1 \<le> length rs \<and> length rs \<le> 6 \<and>
      (\<forall>r \<in> set rs. rq_operation r = op \<and> rq_json r = payload \<and>
         (\<exists>v. declared_version r = Some v \<and> client_version_ok v) \<and>
         (op = Op_login \<longrightarrow> (\<forall>t. (''Authorization'', t) \<notin> set (rq_headers r)))))"
proof -
  obtain o1 st1 where a1: "attempt net cl hc op env model payload st = (o1, st1)" by force
  note s1 = attempt_sent [OF a1]
  have shape: "rq_operation (request_for cl v op payload) = op"
    "rq_json (request_for cl v op payload) = payload" for v
    by (simp_all add: request_for_def)
  have run: "request_outcome net cl hc op env model payload st = (x, t) \<Longrightarrow> st' = t" for x t
    using assms(2) by (auto simp: request_def split: sum.splits)
  from request_outcome_cases [OF a1] show ?thesis
  proof
    assume "\<exists>f v w. o1 = Inl f \<and> fl_kind f = F_client_version_rejected \<and>
      fl_required_version f = Some v \<and> client_version_adopt v (cs_version st1) = (True, w)"
    then obtain f v w where f: "o1 = Inl f" "fl_kind f = F_client_version_rejected"
      "fl_required_version f = Some v" "client_version_adopt v (cs_version st1) = (True, w)" by blast
    obtain o2 st2 where a2: "attempt net cl hc op env model payload (st1\<lparr>cs_version := w\<rparr>) = (o2, st2)"
      by force
    have "st' = st2" using run [of o2 st2] a1 a2 f by (simp add: request_outcome_def)
    moreover have "client_version_ok w" using f(4) by (auto simp: adopt_iff)
    ultimately show ?thesis
      using s1 attempt_sent [OF a2] assms(1) by (auto simp: shape request_headers)
  next
    assume "request_outcome net cl hc op env model payload st = (o1, st1)"
    then show ?thesis using run s1 assms(1) by (auto simp: shape request_headers)
  qed
qed

theorem requests_bounded_witness:
  "client_version_ok (cs_version (snd sample_run))"
proof -
  have "client_version_ok (cs_version sample_state)" by code_simp
  with requests_bounded [of sample_state upgrading_net sample_client sample_clock Op_idle_collect
      False parse_idle_collect None "fst sample_run" "snd sample_run"]
  show ?thesis by (simp add: sample_run_def)
qed

section \<open>What an error discloses\<close>

text \<open>The name of the operation, the status code and one of three known codes, nothing else.\<close>

definition stable_code :: "string option \<Rightarrow> bool" where
  "stable_code c \<longleftrightarrow> (case c of None \<Rightarrow> True | Some s \<Rightarrow> s \<in> set stable_error_codes)"

fun discloses_only :: "operation \<Rightarrow> exn \<Rightarrow> bool" where
  "discloses_only op (AmbiguousMutation s) \<longleftrightarrow> s = operation_name op"
| "discloses_only op (GameUnavailable s) \<longleftrightarrow> s = operation_name op"
| "discloses_only op (GameSchemaMismatch s m) \<longleftrightarrow> s = operation_name op \<and>
     (case m of None \<Rightarrow> True | Some (n, c) \<Rightarrow> stable_code c)"
| "discloses_only op (GameHttpError s m) \<longleftrightarrow> s = operation_name op \<and>
     (case m of None \<Rightarrow> True | Some (n, c) \<Rightarrow> stable_code c)"
| "discloses_only op (InsufficientResource m) \<longleftrightarrow>
     (case m of None \<Rightarrow> True | Some (n, c) \<Rightarrow> stable_code c)"
| "discloses_only op (GameConflict c) \<longleftrightarrow> stable_code c"
| "discloses_only op (GameRateLimited q) \<longleftrightarrow> (case q of None \<Rightarrow> True | Some x \<Rightarrow> 0 \<le> x)"
| "discloses_only op e \<longleftrightarrow>
     e \<in> {SessionRejected, ContractChanged, ClientVersionRejected, InventoryFull}"

definition failure_safe :: "failure \<Rightarrow> bool" where
  "failure_safe f \<longleftrightarrow> stable_code (fl_code f) \<and>
     (case fl_metadata f of None \<Rightarrow> True | Some (n, c) \<Rightarrow> stable_code c) \<and>
     (case fl_retry_after f of None \<Rightarrow> True | Some x \<Rightarrow> 0 \<le> x)"

lemma safe_error_code_stable: "stable_code (safe_error_code r)"
  by (auto simp: safe_error_code_def stable_code_def Let_def
      split: option.splits json.splits if_splits)

lemma retry_after_nonneg: "parse_retry_after num date r = Some x \<Longrightarrow> 0 \<le> x"
  by (auto simp: parse_retry_after_def split: option.splits)

lemma failure_of_safe [simp]:
  "failure_safe (failure_of k)"
  "failure_safe ((failure_of k)\<lparr>fl_metadata := Some (n, c), fl_required_version := v\<rparr>) = stable_code c"
  "failure_safe ((failure_of k)\<lparr>fl_metadata := Some (n, c)\<rparr>) = stable_code c"
  "failure_safe ((failure_of k)\<lparr>fl_code := c\<rparr>) = stable_code c"
  "failure_safe ((failure_of k)\<lparr>fl_retry_after := parse_retry_after num date r\<rparr>)"
  using retry_after_nonneg
  by (auto simp: failure_safe_def failure_of_def stable_code_def split: option.split)

definition answer_safe :: "failure + 'a \<Rightarrow> bool" where
  "answer_safe m \<longleftrightarrow> (\<forall>f. m = Inl f \<longrightarrow> failure_safe f)"

lemma answer_safe_simps:
  "answer_safe (Inl f) = failure_safe f" "answer_safe (Inr x)"
  "answer_safe (if b then m else n) = (if b then answer_safe m else answer_safe n)"
  by (simp_all add: answer_safe_def)

lemma stable_code_simps:
  "stable_code None" "stable_code (safe_error_code r)" "stable_code (Some ''insufficient_resource'')"
  by (simp_all add: safe_error_code_stable) (simp_all add: stable_code_def stable_error_codes_def)

lemma interpret_safe:
  assumes "interpret_response hc env model r = Inl f"
  shows "failure_safe f"
proof -
  have "answer_safe (interpret_response hc env model r)"
    unfolding interpret_response_def Let_def
    by (simp add: answer_safe_simps stable_code_simps split: option.split json.split cong: if_weak_cong)
  with assms show ?thesis by (simp add: answer_safe_def)
qed

lemma attempt_loop_safe:
  "attempt_loop net cl hc op env model payload k st = (Inl f, st') \<Longrightarrow> failure_safe f"
proof (induction k arbitrary: st)
  case 0
  then show ?case
    by (auto dest: interpret_safe split: prod.splits transport.splits sum.splits if_splits)
next
  case (Suc k)
  then show ?case
    by (auto dest: interpret_safe split: prod.splits transport.splits sum.splits if_splits)
qed

lemma public_error_safe: "failure_safe f \<Longrightarrow> discloses_only op (public_error op f)"
  by (cases "fl_kind f") (auto simp: failure_safe_def)

lemma public_error_game: "is_game_error (public_error op f)"
  by (cases "fl_kind f") auto

text \<open>
  C35: no text of the server reaches an error. When a request fails, the exception is a
  \<open>GameError\<close> that carries at most the operation's own name, the status code, one of the three
  stable codes and a non-negative delay, whatever the response body said.
\<close>

theorem game_errors_disclose_nothing:
  assumes "request net cl hc op env model payload st = (Inl e, st')"
  shows "is_game_error e \<and> discloses_only op e"
proof -
  obtain f where f: "request_outcome net cl hc op env model payload st = (Inl f, st')"
    "e = public_error op f"
    using assms by (auto simp: request_def split: prod.splits sum.splits)
  obtain o1 st1 where a1: "attempt net cl hc op env model payload st = (o1, st1)" by force
  have safe: "attempt net cl hc op env model payload s = (Inl g, t) \<Longrightarrow> failure_safe g" for s t g
    unfolding attempt_def by (rule attempt_loop_safe)
  have "failure_safe f"
    using f(1) a1 safe
    by (auto simp: request_outcome_def split: sum.splits failure_kind.splits option.splits
        prod.splits bool.splits)
  then show ?thesis using f(2) public_error_safe public_error_game by blast
qed

theorem game_errors_disclose_nothing_witness:
  "discloses_only Op_idle_collect (AmbiguousMutation ''idle_collect'')"
proof -
  have "fst sample_run = Inl (AmbiguousMutation ''idle_collect'')" by code_simp
  then have "request upgrading_net sample_client sample_clock Op_idle_collect False
     parse_idle_collect None sample_state = (Inl (AmbiguousMutation ''idle_collect''), snd sample_run)"
    by (simp add: sample_run_def prod_eq_iff)
  from game_errors_disclose_nothing [OF this] show ?thesis by blast
qed

section \<open>The rate limiter\<close>

text \<open>
  Entering the limiter: the clock reads \<open>t\<close>, the sleep (if any) lasts until the clock reads
  \<open>t'\<close>, and the next admission is \<open>spacing\<close> later. The state is \<open>_next_allowed_at\<close>.
\<close>

definition limiter_delay :: "rat \<Rightarrow> rat \<Rightarrow> rat" where
  "limiter_delay next_allowed t = next_allowed - t"

definition limiter_enter :: "rat \<Rightarrow> rat \<Rightarrow> rat" where
  "limiter_enter spacing t' = t' + spacing"

text \<open>A run of the limiter: each entry as the two readings of a monotonic clock, the second after a
  sleep of at least the delay.\<close>

fun limiter_run :: "rat \<Rightarrow> rat \<Rightarrow> (rat \<times> rat) list \<Rightarrow> bool" where
  "limiter_run spacing next_allowed [] \<longleftrightarrow> True"
| "limiter_run spacing next_allowed ((t, t') # rest) \<longleftrightarrow>
     t \<le> t' \<and> (0 < limiter_delay next_allowed t \<longrightarrow> t + limiter_delay next_allowed t \<le> t') \<and>
     limiter_run spacing (limiter_enter spacing t') rest"

lemma limiter_run_spacing:
  "0 \<le> spacing \<Longrightarrow> limiter_run spacing n es \<Longrightarrow> i < j \<Longrightarrow> j < length es \<Longrightarrow>
   n \<le> snd (es ! 0) \<and> snd (es ! i) + spacing \<le> snd (es ! j)"
proof (induction es arbitrary: n i j)
  case Nil
  then show ?case by simp
next
  case (Cons e es)
  obtain t t' where e: "e = (t, t')" by force
  have first: "n \<le> t'" using Cons.prems(2) by (auto simp: e limiter_delay_def)
  have run: "limiter_run spacing (t' + spacing) es"
    using Cons.prems(2) by (simp add: e limiter_enter_def)
  obtain j' where j: "j = Suc j'" "j' < length es" using Cons.prems by (cases j) auto
  have head: "t' + spacing \<le> snd (es ! 0)"
    using run j by (cases es) (auto simp: limiter_delay_def)
  have "t' + spacing \<le> snd (es ! j')"
  proof (cases j')
    case 0
    then show ?thesis using head by simp
  next
    case (Suc m)
    then show ?thesis using Cons.IH [OF Cons.prems(1) run, of 0 j'] j Cons.prems(1) by simp
  qed
  then show ?case
    using Cons.IH [OF Cons.prems(1) run, of "i - 1" j'] Cons.prems j first e by (cases i) auto
qed



end
