(* ===== verification/Boss_Optimizer.thy ===== *)
theory Boss_Optimizer
  imports Policy Game_Client
begin

text \<open>
  Choosing a boss fight (\<open>boss_optimizer.py\<close>). The optimizer asks the game to preview fights and
  ranks the answers; it changes nothing. A program here has as its state the preview requests made
  so far, and the game is the function \<open>pv\<close> from them (the last one is the current one) to an
  answer or an error, so an answer may depend on the history.
\<close>

section \<open>Previews\<close>

type_synonym preview_game = "boss_request list \<Rightarrow> (exn, boss_preview) result"
type_synonym 'a preview_io = "(boss_request list, 'a) prog"

definition ask_preview :: "preview_game \<Rightarrow> boss_request \<Rightarrow> boss_preview preview_io" where
  "ask_preview pv r = (\<lambda>h. let h' = h @ [r] in (pv h', h'))"

record boss_candidate =
  cand_request :: boss_request
  cand_preview :: boss_preview

fun join_comma :: "string list \<Rightarrow> string" where
  "join_comma [] = []"
| "join_comma [s] = s"
| "join_comma (s # ss) = s @ '','' @ join_comma ss"

definition tie_key :: "boss_candidate \<Rightarrow> string \<times> string \<times> string" where
  "tie_key c = (let r = cand_request c in
     (join_comma (br_selected_skill_keys r), buff_str (br_buff_key r),
      case br_affix_key r of None \<Rightarrow> [] | Some k \<Rightarrow> k))"

text \<open>The ranking, best first.\<close>

definition rank_key :: "boss_candidate \<Rightarrow> int \<times> rat \<times> rat \<times> rat \<times> string \<times> string \<times> string" where
  "rank_key c = (let p = cand_preview c in
     (- (if predicted_win p then 1 else 0), - chance p, - player_hp_remaining_percent p,
      boss_hp_remaining_percent p, tie_key c))"

definition boss_eligible :: "boss_preview \<Rightarrow> 'p account_policy_scheme \<Rightarrow> bool" where
  "boss_eligible p policy \<longleftrightarrow> predicted_win p \<and> of_int (boss_min_chance policy) \<le> chance p"

definition target_slot :: "equipment_slot list \<Rightarrow> equipment_slot option" where
  "target_slot slots =
     (case filter slot_eligible slots of
        [] \<Rightarrow> None
      | s # ss \<Rightarrow> Some (foldl (\<lambda>best x. if (slot_score x, slot_key x) < (slot_score best, slot_key best)
          then x else best) s ss))"

section \<open>One boss at one difficulty\<close>

definition skill_choices :: "string list" where
  "skill_choices = [''output'', ''survival'', ''balanced'']"

definition buff_choices :: "buff list" where
  "buff_choices = [Buff_none, Buff_assault, Buff_guard, Buff_focus]"

definition baseline_requests :: "string \<Rightarrow> difficulty \<Rightarrow> string \<Rightarrow> boss_request list" where
  "baseline_requests boss d slot = concat (map (\<lambda>skill. map (\<lambda>b.
     \<lparr>br_boss_key = boss, br_difficulty = d, br_selected_skill_keys = [skill], br_buff_key = b,
      br_affix_key = None, br_target_slot = slot, br_use_material_boost = False\<rparr>) buff_choices)
     skill_choices)"

text \<open>Building a request validates it.\<close>

fun preview_all :: "preview_game \<Rightarrow> boss_request list \<Rightarrow> boss_candidate list preview_io" where
  "preview_all pv [] = ret []"
| "preview_all pv (r # rs) =
     andthen (check (boss_request_valid r) ValueErr) (
     bnd (ask_preview pv r) (\<lambda>p.
     bnd (preview_all pv rs) (\<lambda>cs. ret (\<lparr>cand_request = r, cand_preview = p\<rparr> # cs))))"

definition shortlist :: "boss_candidate list \<Rightarrow> boss_candidate list" where
  "shortlist cs = take 3 (sort_key rank_key cs)"

definition max_affix_previews :: nat where
  "max_affix_previews = 12"

definition top_affixes :: "boss_affix list \<Rightarrow> boss_affix list" where
  "top_affixes as = take 12 (sort_key (\<lambda>a. (- affix_multiplier a, affix_key a)) as)"

text \<open>The inner loop: one affix on the shortlisted configurations, \<open>n\<close> previews made so far.\<close>

fun try_candidates ::
  "preview_game \<Rightarrow> 'p account_policy_scheme \<Rightarrow> string \<Rightarrow> boss_candidate list \<Rightarrow> nat \<Rightarrow>
   boss_candidate option \<Rightarrow> (nat \<times> boss_candidate option) preview_io" where
  "try_candidates pv policy affix [] n final = ret (n, final)"
| "try_candidates pv policy affix (c # cs) n final =
     (if max_affix_previews \<le> n then ret (n, final)
      else let r = (cand_request c)\<lparr>br_affix_key := Some affix\<rparr> in
        bnd (ask_preview pv r) (\<lambda>p.
        if boss_eligible p policy
        then ret (Suc n, Some \<lparr>cand_request = r, cand_preview = p\<rparr>)
        else try_candidates pv policy affix cs (Suc n) final))"

fun try_affixes ::
  "preview_game \<Rightarrow> 'p account_policy_scheme \<Rightarrow> boss_candidate list \<Rightarrow> boss_affix list \<Rightarrow> nat \<Rightarrow>
   boss_candidate option \<Rightarrow> boss_candidate option preview_io" where
  "try_affixes pv policy cs [] n final = ret final"
| "try_affixes pv policy cs (a # as) n final =
     bnd (try_candidates pv policy (affix_key a) cs n final) (\<lambda>(n', final').
     if (case final' of None \<Rightarrow> False
         | Some c \<Rightarrow> br_affix_key (cand_request c) = Some (affix_key a))
     then ret final' else try_affixes pv policy cs as n' final')"

record boss_selection =
  sel_boss_key :: "string option"
  sel_difficulty :: "difficulty option"
  sel_preview :: "boss_preview option"
  sel_action :: "action option"
  sel_decision :: decision

definition blocked_selection :: "string \<Rightarrow> boss_selection" where
  "blocked_selection reason = \<lparr>sel_boss_key = None, sel_difficulty = None, sel_preview = None,
     sel_action = None, sel_decision = BlockedDecision Fam_personal_boss reason None\<rparr>"

definition use_material :: "difficulty \<Rightarrow> boss_state \<Rightarrow> 'p account_policy_scheme \<Rightarrow> bool" where
  "use_material d st policy \<longleftrightarrow> d \<in> {Hard, Nightmare} \<and> material_reserve policy < bs_material_balance st"

definition challenge_of ::
  "string \<Rightarrow> difficulty \<Rightarrow> string \<Rightarrow> bool \<Rightarrow> boss_candidate \<Rightarrow> action" where
  "challenge_of boss d slot boost c = (let r = cand_request c in BossChallengeAction
     \<lparr>bc_family = Fam_personal_boss, bc_boss_key = boss, bc_difficulty = d,
      bc_selected_skill_keys = br_selected_skill_keys r, bc_buff_key = br_buff_key r,
      bc_affix_key = br_affix_key r, bc_target_slot = slot, bc_use_material_boost = boost\<rparr>)"

definition for_entry ::
  "preview_game \<Rightarrow> boss_entry_state \<Rightarrow> difficulty \<Rightarrow> equipment_slot \<Rightarrow> boss_state \<Rightarrow>
   'p account_policy_scheme \<Rightarrow> boss_selection option preview_io" where
  "for_entry pv entry d slot st policy =
     bnd (preview_all pv (baseline_requests (be_key entry) d (slot_key slot))) (\<lambda>baseline.
     let short = shortlist baseline;
         eligible = filter (\<lambda>c. boss_eligible (cand_preview c) policy) short in
     bnd (try_affixes pv policy short (top_affixes (bs_affixes st)) 0
       (case eligible of [] \<Rightarrow> None | c # _ \<Rightarrow> Some c)) (\<lambda>final.
     case final of
       None \<Rightarrow> ret None
     | Some c \<Rightarrow>
         let act = challenge_of (be_key entry) d (slot_key slot) (use_material d st policy) c in
         if action_valid act then
           ret (Some \<lparr>sel_boss_key = Some (be_key entry), sel_difficulty = Some d,
             sel_preview = Some (cand_preview c), sel_action = Some act,
             sel_decision = SelectedDecision Fam_personal_boss ''boss_eligible'' act\<rparr>)
         else raise ValueErr))"

section \<open>The whole search\<close>

definition potion_blocks :: "potion_state \<Rightarrow> bool" where
  "potion_blocks p \<longleftrightarrow> potion_required_key p \<noteq> None \<and> potion_required_key p \<noteq> potion_active_key p"

text \<open>The fights the two loops visit, in their order.\<close>

definition entry_fights :: "boss_entry_state \<Rightarrow> (boss_entry_state \<times> difficulty) list" where
  "entry_fights e = (if be_blocked_reason e \<noteq> None then []
     else map (Pair e) (filter (\<lambda>d. d \<in> set (be_difficulty_options e)) [Nightmare, Hard, Normal]))"

definition fights :: "boss_entry_state list \<Rightarrow> (boss_entry_state \<times> difficulty) list" where
  "fights entries =
     concat (map entry_fights (sort_key (\<lambda>e. (- be_required_level e, be_key e)) entries))"

fun first_selection ::
  "preview_game \<Rightarrow> equipment_slot \<Rightarrow> boss_state \<Rightarrow> 'p account_policy_scheme \<Rightarrow>
   (boss_entry_state \<times> difficulty) list \<Rightarrow> boss_selection preview_io" where
  "first_selection pv slot st policy [] = ret (blocked_selection ''no_eligible_boss'')"
| "first_selection pv slot st policy ((e, d) # rest) =
     bnd (for_entry pv e d slot st policy) (\<lambda>found.
     case found of Some s \<Rightarrow> ret s | None \<Rightarrow> first_selection pv slot st policy rest)"

definition optimize ::
  "preview_game \<Rightarrow> boss_state \<Rightarrow> 'p account_policy_scheme \<Rightarrow> boss_selection preview_io" where
  "optimize pv st policy =
     (if potion_blocks (bs_potion st) then ret (blocked_selection ''combat_potion_switch_required'')
      else case target_slot (bs_equipment st) of
        None \<Rightarrow> ret (blocked_selection ''no_eligible_equipment'')
      | Some slot \<Rightarrow> first_selection pv slot st policy (fights (bs_entries st)))"

section \<open>The cost of a search\<close>

definition previews_at_most :: "nat \<Rightarrow> 'a preview_io \<Rightarrow> bool" where
  "previews_at_most k m \<longleftrightarrow> (\<forall>h. \<exists>more. snd (m h) = h @ more \<and> length more \<le> k)"

named_theorems preview_cost \<open>bounds on the number of previews\<close>

lemma previews_atI: "(\<And>h. \<exists>more. snd (m h) = h @ more \<and> length more \<le> k) \<Longrightarrow> previews_at_most k m"
  by (simp add: previews_at_most_def)

lemma previews_atD: "previews_at_most k m \<Longrightarrow> m h = (x, h') \<Longrightarrow> \<exists>more. h' = h @ more \<and> length more \<le> k"
  unfolding previews_at_most_def by (metis snd_conv)

lemma previews_basic [preview_cost]:
  "previews_at_most 0 (ret x)" "previews_at_most 0 (raise e)" "previews_at_most 0 (check b e)"
  "previews_at_most 1 (ask_preview pv r)"
  by (auto simp: previews_at_most_def ret_def raise_def check_def ask_preview_def Let_def)

lemma previews_weaken: "previews_at_most j m \<Longrightarrow> j \<le> k \<Longrightarrow> previews_at_most k m"
  unfolding previews_at_most_def by (metis order_trans)

lemma previews_bnd [preview_cost]:
  assumes "previews_at_most j m" "\<And>x. previews_at_most k (f x)"
  shows "previews_at_most (j + k) (bnd m f)"
proof (rule previews_atI)
  fix h
  obtain r h1 where m: "m h = (r, h1)" by force
  obtain p where p: "h1 = h @ p" "length p \<le> j" using previews_atD [OF assms(1) m] by blast
  show "\<exists>more. snd (bnd m f h) = h @ more \<and> length more \<le> j + k"
  proof (cases r)
    case (Inl e)
    then show ?thesis using m p by (auto simp: bnd_def)
  next
    case (Inr x)
    obtain q where "snd (f x h1) = h1 @ q" "length q \<le> k"
      using assms(2) [of x] by (auto simp: previews_at_most_def)
    then show ?thesis using m p Inr by (auto simp: bnd_def)
  qed
qed

lemma previews_andthen [preview_cost]:
  "previews_at_most j m \<Longrightarrow> previews_at_most k n \<Longrightarrow> previews_at_most (j + k) (andthen m n)"
  unfolding andthen_def by (intro preview_cost)

lemma preview_all_cost: "previews_at_most (length rs) (preview_all pv rs)"
proof (induction rs)
  case (Cons r rs)
  have "previews_at_most (0 + (1 + (length rs + 0))) (preview_all pv (r # rs))"
    unfolding preview_all.simps by (intro preview_cost Cons)
  then show ?case by simp
qed (simp add: preview_cost)

text \<open>The counter of the affix loop counts the previews, so the loop stops after twelve.\<close>

lemma try_candidates_cost:
  assumes "try_candidates pv policy affix cs n final h = (r, h')"
  shows "\<exists>more. h' = h @ more \<and> length more \<le> max_affix_previews - n \<and>
    (case r of Inl e \<Rightarrow> True | Inr (n', c) \<Rightarrow> n' = n + length more)"
  using assms
proof (induction cs arbitrary: n h)
  case Nil
  then show ?case by (auto simp: ret_def)
next
  case (Cons c cs)
  show ?case
  proof (cases "max_affix_previews \<le> n")
    case True
    then show ?thesis using Cons.prems by (auto simp: ret_def)
  next
    case False
    let ?r = "(cand_request c)\<lparr>br_affix_key := Some affix\<rparr>"
    show ?thesis
    proof (cases "pv (h @ [?r])")
      case (Inl e)
      then show ?thesis using Cons.prems False by (auto simp: bnd_def ask_preview_def Let_def)
    next
      case (Inr p)
      show ?thesis
      proof (cases "boss_eligible p policy")
        case True
        then show ?thesis using Cons.prems False Inr by (auto simp: bnd_def ask_preview_def Let_def ret_def)
      next
        case no: False
        then have "try_candidates pv policy affix cs (Suc n) final (h @ [?r]) = (r, h')"
          using Cons.prems False Inr by (simp add: bnd_def ask_preview_def Let_def)
        from Cons.IH [OF this] False show ?thesis by (fastforce split: sum.splits)
      qed
    qed
  qed
qed

lemma try_affixes_cost: "previews_at_most (max_affix_previews - n) (try_affixes pv policy cs as n final)"
proof (induction as arbitrary: n final)
  case Nil
  then show ?case using previews_weaken [OF previews_basic(1)] by simp
next
  case (Cons a as)
  show ?case
  proof (rule previews_atI)
    fix h
    obtain r h1 where run: "try_candidates pv policy (affix_key a) cs n final h = (r, h1)" by force
    obtain p where p: "h1 = h @ p" "length p \<le> max_affix_previews - n"
      "case r of Inl e \<Rightarrow> True | Inr (n', c) \<Rightarrow> n' = n + length p"
      using try_candidates_cost [OF run] by blast
    show "\<exists>more. snd (try_affixes pv policy cs (a # as) n final h) = h @ more \<and>
        length more \<le> max_affix_previews - n"
    proof (cases r)
      case (Inl e)
      then show ?thesis using run p by (simp add: bnd_def)
    next
      case (Inr z)
      then obtain final' where z: "r = Inr (n + length p, final')" using p(3) by (cases z) simp
      obtain q where "snd (try_affixes pv policy cs as (n + length p) final' h1) = h1 @ q"
        "length q \<le> max_affix_previews - (n + length p)"
        using Cons [of "n + length p" final'] by (auto simp: previews_at_most_def)
      then show ?thesis using run z p by (auto simp: bnd_def ret_def)
    qed
  qed
qed

lemma baseline_length: "length (baseline_requests boss d slot) = 12"
  by (simp add: baseline_requests_def skill_choices_def buff_choices_def)

lemma for_entry_cost: "previews_at_most 24 (for_entry pv e d slot st policy)"
proof -
  have "previews_at_most (12 + (12 + 0)) (for_entry pv e d slot st policy)"
    unfolding for_entry_def Let_def
    by (intro preview_cost preview_all_cost [of "baseline_requests (be_key e) d (slot_key slot)", unfolded baseline_length]
        try_affixes_cost [of 0, unfolded max_affix_previews_def, simplified])
      (auto simp: preview_cost split: option.split)
  then show ?thesis by simp
qed

lemma first_selection_cost: "previews_at_most (24 * length fs) (first_selection pv slot st policy fs)"
proof (induction fs)
  case (Cons f fs)
  obtain e d where f: "f = (e, d)" by force
  have "previews_at_most (24 + 24 * length fs) (first_selection pv slot st policy (f # fs))"
    unfolding f first_selection.simps
    by (intro previews_bnd for_entry_cost)
      (auto intro: Cons previews_weaken [OF previews_basic(1)] split: option.split)
  then show ?case by simp
qed (simp add: preview_cost)

lemma fights_length: "length (fights entries) \<le> 3 * length entries"
proof -
  have one: "length (entry_fights e) \<le> 3" for e by (simp add: entry_fights_def)
  have "length (concat (map entry_fights es)) \<le> 3 * length es" for es
  proof (induction es)
    case (Cons e es)
    then show ?case using one [of e] by simp
  qed simp
  then show ?thesis unfolding fights_def by (metis length_sort)
qed

text \<open>
  A search for a boss is bounded. Whatever the game answers, the optimizer makes at most 24
  previews for a boss at one difficulty (the twelve configurations and at most twelve with an
  affix) and at most 72 for every boss of the state.
\<close>

theorem boss_previews_bounded:
  "\<exists>more. snd (optimize pv st policy h) = h @ more \<and> length more \<le> 72 * length (bs_entries st)"
proof -
  have bound: "24 * length (fights (bs_entries st)) \<le> 72 * length (bs_entries st)"
    using fights_length [of "bs_entries st"] by simp
  have "previews_at_most (72 * length (bs_entries st)) (optimize pv st policy)"
    using previews_weaken [OF first_selection_cost bound] previews_weaken [OF previews_basic(1)]
    by (auto simp: optimize_def split: option.split)
  then show ?thesis by (simp add: previews_at_most_def)
qed

section \<open>What a selection rests on\<close>

text \<open>The game gave this preview for this request, at some point of the history.\<close>

definition answered :: "preview_game \<Rightarrow> boss_request list \<Rightarrow> boss_candidate \<Rightarrow> bool" where
  "answered pv h c \<longleftrightarrow> (\<exists>g ext. h = g @ cand_request c # ext \<and>
     pv (g @ [cand_request c]) = Inr (cand_preview c))"

lemma answered_append: "answered pv h c \<Longrightarrow> answered pv (h @ ext) c"
  unfolding answered_def by fastforce

lemma ask_preview_run:
  "ask_preview pv r h = (Inr p, h') \<Longrightarrow> h' = h @ [r] \<and> answered pv h' \<lparr>cand_request = r, cand_preview = p\<rparr>"
  by (auto simp: ask_preview_def Let_def answered_def)

lemma preview_all_run:
  assumes "preview_all pv rs h = (Inr cs, h')"
  shows "map cand_request cs = rs \<and> list_all (answered pv h') cs"
  using assms
proof (induction rs arbitrary: h cs)
  case Nil
  then show ?case by (simp add: ret_def)
next
  case (Cons r rs)
  then obtain p h1 ds where p: "ask_preview pv r h = (Inr p, h1)"
    and rest: "preview_all pv rs h1 = (Inr ds, h')" and cs: "cs = \<lparr>cand_request = r, cand_preview = p\<rparr> # ds"
    by (auto simp: andthen_def check_def raise_def ret_def elim!: bnd_cases split: if_splits)
  obtain ext where "h' = h1 @ ext" using previews_atD [OF preview_all_cost rest] by blast
  moreover note asked = ask_preview_run [OF p]
  moreover have "answered pv (h1 @ ext) \<lparr>cand_request = r, cand_preview = p\<rparr>"
    using asked answered_append by blast
  ultimately show ?case using Cons.IH [OF rest] cs by simp
qed

text \<open>A configuration of the shortlist, possibly with an affix, whose preview is good enough.\<close>

definition good_final ::
  "preview_game \<Rightarrow> 'p account_policy_scheme \<Rightarrow> boss_candidate list \<Rightarrow> boss_request list \<Rightarrow>
   boss_candidate \<Rightarrow> bool" where
  "good_final pv policy cs h c \<longleftrightarrow> answered pv h c \<and> boss_eligible (cand_preview c) policy \<and>
     (\<exists>x \<in> set cs. \<exists>a. cand_request c = (cand_request x)\<lparr>br_affix_key := a\<rparr>)"

lemma good_final_append: "good_final pv policy cs h c \<Longrightarrow> good_final pv policy cs (h @ ext) c"
  by (auto simp: good_final_def intro: answered_append)

lemma try_candidates_good:
  assumes "try_candidates pv policy affix cs n final h = (Inr (n', final'), h')" "set cs \<subseteq> set ds"
    and "\<forall>c. final = Some c \<longrightarrow> good_final pv policy ds h c" "final' = Some c"
  shows "good_final pv policy ds h' c"
  using assms
proof (induction cs arbitrary: n h)
  case Nil
  then show ?case by (simp add: ret_def)
next
  case (Cons x cs)
  show ?case
  proof (cases "max_affix_previews \<le> n")
    case True
    then show ?thesis using Cons.prems by (simp add: ret_def)
  next
    case False
    let ?r = "(cand_request x)\<lparr>br_affix_key := Some affix\<rparr>"
    obtain p h1 where p: "ask_preview pv ?r h = (Inr p, h1)"
      and rest: "(if boss_eligible p policy
        then ret (Suc n, Some \<lparr>cand_request = ?r, cand_preview = p\<rparr>)
        else try_candidates pv policy affix cs (Suc n) final) h1 = (Inr (n', final'), h')"
      using Cons.prems(1) False by (auto simp: Let_def elim!: bnd_cases)
    note asked = ask_preview_run [OF p]
    show ?thesis
    proof (cases "boss_eligible p policy")
      case True
      then show ?thesis
        using rest asked Cons.prems(2,4) unfolding good_final_def
        by (intro conjI bexI [of _ x] exI [of _ "Some affix"]) (auto simp: ret_def)
    next
      case no: False
      have "\<forall>c. final = Some c \<longrightarrow> good_final pv policy ds h1 c"
        using asked Cons.prems(3) good_final_append by blast
      then show ?thesis using Cons.IH [of "Suc n" h1] rest no Cons.prems(2,4) by simp
    qed
  qed
qed

lemma try_affixes_good:
  assumes "try_affixes pv policy ds as n final h = (Inr (Some c), h')"
    and "\<forall>c. final = Some c \<longrightarrow> good_final pv policy ds h c"
  shows "good_final pv policy ds h' c"
  using assms
proof (induction as arbitrary: n final h)
  case Nil
  then show ?case by (simp add: ret_def)
next
  case (Cons a as)
  then obtain n1 final1 h1 where run: "try_candidates pv policy (affix_key a) ds n final h = (Inr (n1, final1), h1)"
    and rest: "(if (case final1 of None \<Rightarrow> False | Some c \<Rightarrow> br_affix_key (cand_request c) = Some (affix_key a))
     then ret final1 else try_affixes pv policy ds as n1 final1) h1 = (Inr (Some c), h')"
    by (auto elim!: bnd_cases)
  have "\<forall>c. final1 = Some c \<longrightarrow> good_final pv policy ds h1 c"
    using try_candidates_good [OF run subset_refl Cons.prems(2)] by blast
  then show ?case using rest Cons.IH by (auto simp: ret_def split: if_splits)
qed

lemma set_shortlist: "set (shortlist cs) \<subseteq> set cs"
  unfolding shortlist_def by (metis set_sort set_take_subset)

lemma for_entry_run:
  assumes "for_entry pv e d slot st policy h = (Inr (Some s), h')"
  obtains c where "answered pv h' c" "boss_eligible (cand_preview c) policy"
    "br_boss_key (cand_request c) = be_key e" "br_difficulty (cand_request c) = d"
    "br_target_slot (cand_request c) = slot_key slot"
    "sel_preview s = Some (cand_preview c)"
    "sel_action s = Some (challenge_of (be_key e) d (slot_key slot) (use_material d st policy) c)"
proof -
  from assms obtain baseline h1 c where base: "preview_all pv
      (baseline_requests (be_key e) d (slot_key slot)) h = (Inr baseline, h1)"
    and loop: "try_affixes pv policy (shortlist baseline) (top_affixes (bs_affixes st)) 0
      (case filter (\<lambda>c. boss_eligible (cand_preview c) policy) (shortlist baseline) of
         [] \<Rightarrow> None | c # _ \<Rightarrow> Some c) h1 = (Inr (Some c), h')"
    and s: "sel_preview s = Some (cand_preview c)"
      "sel_action s = Some (challenge_of (be_key e) d (slot_key slot) (use_material d st policy) c)"
    by (auto simp: for_entry_def Let_def ret_def raise_def elim!: bnd_cases
        split: option.splits if_splits)
  note all = preview_all_run [OF base]
  have "good_final pv policy (shortlist baseline) h1 x"
    if "(case filter (\<lambda>c. boss_eligible (cand_preview c) policy) (shortlist baseline) of
         [] \<Rightarrow> None | c # _ \<Rightarrow> Some c) = Some x" for x
  proof -
    have "x \<in> set (filter (\<lambda>c. boss_eligible (cand_preview c) policy) (shortlist baseline))"
      using that by (cases "filter (\<lambda>c. boss_eligible (cand_preview c) policy) (shortlist baseline)") auto
    then have x: "x \<in> set (shortlist baseline)" "boss_eligible (cand_preview x) policy" by auto
    then have "answered pv h1 x" using all set_shortlist [of baseline] by (auto simp: list_all_iff)
    with x show ?thesis unfolding good_final_def
      by (intro conjI bexI [of _ x] exI [of _ "br_affix_key (cand_request x)"]) simp_all
  qed
  then have "good_final pv policy (shortlist baseline) h' c" using try_affixes_good [OF loop] by blast
  then obtain x a where c: "answered pv h' c" "boss_eligible (cand_preview c) policy"
    "x \<in> set baseline" "cand_request c = (cand_request x)\<lparr>br_affix_key := a\<rparr>"
    using set_shortlist [of baseline] by (auto simp: good_final_def)
  have "cand_request x \<in> set (baseline_requests (be_key e) d (slot_key slot))"
    using c(3) all by (metis image_eqI set_map)
  then show thesis using that c s by (auto simp: baseline_requests_def)
qed

lemma first_selection_run:
  assumes "first_selection pv slot st policy fs h = (Inr s, h')" "sel_action s \<noteq> None"
  obtains e d g where "(e, d) \<in> set fs" "for_entry pv e d slot st policy g = (Inr (Some s), h')"
  using assms
proof (induction fs arbitrary: h thesis)
  case Nil
  then show ?case by (auto simp: ret_def blocked_selection_def)
next
  case (Cons f fs)
  obtain e d where f: "f = (e, d)" by force
  from Cons.prems(2) obtain found h1 where found: "for_entry pv e d slot st policy h = (Inr found, h1)"
    and rest: "(case found of Some s \<Rightarrow> ret s | None \<Rightarrow> first_selection pv slot st policy fs) h1 = (Inr s, h')"
    by (auto simp: f elim!: bnd_cases)
  show ?case
  proof (cases found)
    case None
    then have "first_selection pv slot st policy fs h1 = (Inr s, h')" using rest by simp
    then show ?thesis
      by (rule Cons.IH [rotated]) (use Cons.prems(1,3) in \<open>auto simp: list.set_intros\<close>)
  next
    case (Some s')
    then show ?thesis using Cons.prems(1) [of e d h] found rest f by (simp add: ret_def)
  qed
qed

lemma set_fights: "(e, d) \<in> set (fights entries) \<Longrightarrow>
    e \<in> set entries \<and> be_blocked_reason e = None \<and> d \<in> set (be_difficulty_options e)"
  by (auto simp: fights_def entry_fights_def split: if_splits)

lemma fold_min:
  "slot_eligible s \<Longrightarrow> \<forall>x \<in> set ss. slot_eligible x \<Longrightarrow>
   (let m = foldl (\<lambda>best x. if (slot_score x, slot_key x) < (slot_score best, slot_key best)
      then x else best) s ss in
    m \<in> insert s (set ss) \<and> (\<forall>x \<in> insert s (set ss). slot_score m \<le> slot_score x))"
  by (induction ss arbitrary: s) (force simp: Let_def less_prod_def split: if_splits)+

lemma target_slot_Some:
  assumes "target_slot slots = Some slot"
  shows "slot \<in> set slots \<and> slot_eligible slot \<and>
    (\<forall>x \<in> set slots. slot_eligible x \<longrightarrow> slot_score slot \<le> slot_score x)"
proof -
  from assms obtain s ss where f: "filter slot_eligible slots = s # ss"
    and slot: "slot = foldl (\<lambda>best x. if (slot_score x, slot_key x) < (slot_score best, slot_key best)
        then x else best) s ss"
    by (auto simp: target_slot_def split: list.splits)
  have all: "set (filter slot_eligible slots) = insert s (set ss)" using f by simp
  then have "slot_eligible s" "\<forall>x \<in> set ss. slot_eligible x" by auto
  from fold_min [OF this] slot all show ?thesis by (auto simp: Let_def)
qed

text \<open>
  C30: a selected fight is one the game itself rated good enough. When the optimizer selects a
  challenge, its boss is an unblocked entry of the state at a difficulty the entry offers, its
  target is an eligible slot with the least score, materials are spent only above the reserve and
  not on a normal fight, and exactly this configuration (boss, difficulty, skills, buff, affix and
  slot) was previewed, with a predicted win and a chance of at least the policy's minimum.
\<close>

theorem boss_selection_sound:
  assumes "optimize pv st policy h = (Inr s, h')" "sel_action s = Some (BossChallengeAction b)"
  shows "\<exists>e \<in> set (bs_entries st). \<exists>slot \<in> set (bs_equipment st). \<exists>r p. r \<in> set h' \<and>
    be_key e = bc_boss_key b \<and> be_blocked_reason e = None \<and>
    bc_difficulty b \<in> set (be_difficulty_options e) \<and>
    slot_key slot = bc_target_slot b \<and> slot_eligible slot \<and>
    (\<forall>x \<in> set (bs_equipment st). slot_eligible x \<longrightarrow> slot_score slot \<le> slot_score x) \<and>
    (bc_use_material_boost b \<longrightarrow> bc_difficulty b \<noteq> Normal \<and> material_reserve policy < bs_material_balance st) \<and>
    br_boss_key r = bc_boss_key b \<and> br_difficulty r = bc_difficulty b \<and>
    br_selected_skill_keys r = bc_selected_skill_keys b \<and> br_buff_key r = bc_buff_key b \<and>
    br_affix_key r = bc_affix_key b \<and> br_target_slot r = bc_target_slot b \<and>
    (\<exists>g. pv (g @ [r]) = Inr p) \<and> sel_preview s = Some p \<and> predicted_win p \<and>
    of_int (boss_min_chance policy) \<le> chance p"
proof -
  have act: "sel_action s \<noteq> None" using assms(2) by simp
  with assms(1) obtain slot where slot: "target_slot (bs_equipment st) = Some slot"
    and run: "first_selection pv slot st policy (fights (bs_entries st)) h = (Inr s, h')"
    by (auto simp: optimize_def ret_def blocked_selection_def split: if_splits option.splits)
  obtain e d g where ed: "(e, d) \<in> set (fights (bs_entries st))"
    and entry: "for_entry pv e d slot st policy g = (Inr (Some s), h')"
    by (rule first_selection_run [OF run act])
  from entry show ?thesis
  proof (rule for_entry_run)
    fix c assume c: "answered pv h' c" "boss_eligible (cand_preview c) policy"
      "br_boss_key (cand_request c) = be_key e" "br_difficulty (cand_request c) = d"
      "br_target_slot (cand_request c) = slot_key slot" "sel_preview s = Some (cand_preview c)"
      "sel_action s = Some (challenge_of (be_key e) d (slot_key slot) (use_material d st policy) c)"
    from c(1) have in_h: "cand_request c \<in> set h'" "\<exists>g. pv (g @ [cand_request c]) = Inr (cand_preview c)"
      by (auto simp: answered_def)
    have b: "bc_boss_key b = be_key e" "bc_difficulty b = d" "bc_target_slot b = slot_key slot"
      "bc_selected_skill_keys b = br_selected_skill_keys (cand_request c)"
      "bc_buff_key b = br_buff_key (cand_request c)" "bc_affix_key b = br_affix_key (cand_request c)"
      "bc_use_material_boost b = use_material d st policy"
      using assms(2) c(7) by (auto simp: challenge_of_def Let_def)
    show ?thesis
      using set_fights [OF ed] target_slot_Some [OF slot] b c in_h
      by (intro bexI [of _ e] bexI [of _ slot] exI [of _ "cand_request c"] exI [of _ "cand_preview c"])
        (auto simp: boss_eligible_def use_material_def)
  qed
qed

section \<open>The shortlist loses nothing\<close>

text \<open>The reference: previews of all twelve configurations, the best of the eligible ones.\<close>

definition best_configuration ::
  "(boss_request \<Rightarrow> boss_preview) \<Rightarrow> 'p account_policy_scheme \<Rightarrow> boss_request list \<Rightarrow> boss_candidate option" where
  "best_configuration f policy rs =
     (case sort_key rank_key (filter (\<lambda>c. boss_eligible (cand_preview c) policy)
        (map (\<lambda>r. \<lparr>cand_request = r, cand_preview = f r\<rparr>) rs)) of
        [] \<Rightarrow> None | c # _ \<Rightarrow> Some c)"

text \<open>A better ranked configuration is eligible if a worse one is.\<close>

lemma rank_eligible:
  assumes "rank_key x \<le> rank_key y" "boss_eligible (cand_preview y) policy"
  shows "boss_eligible (cand_preview x) policy"
  using assms
  by (auto simp: rank_key_def boss_eligible_def Let_def less_eq_prod_def split: if_splits)

lemma head_of_take:
  assumes "0 < n" "sorted (map k ys)" "\<And>x y. k x \<le> k y \<Longrightarrow> P y \<Longrightarrow> P x"
  shows "(case filter P (take n ys) of [] \<Rightarrow> None | c # _ \<Rightarrow> Some c) =
    (case filter P ys of [] \<Rightarrow> None | c # _ \<Rightarrow> Some c)"
proof (cases ys)
  case (Cons y ys')
  obtain m where n: "n = Suc m" using assms(1) by (cases n) auto
  show ?thesis
  proof (cases "P y")
    case True
    then show ?thesis using Cons n by simp
  next
    case False
    then have "\<not> P z" if "z \<in> set ys" for z
      using that assms(2,3) Cons by auto
    then have "filter P ys = []" "filter P (take n ys) = []"
      using in_set_takeD [of _ n ys] by (auto simp: filter_empty_conv)
    then show ?thesis by simp
  qed
qed simp

lemma preview_all_deterministic:
  "list_all boss_request_valid rs \<Longrightarrow> preview_all (\<lambda>h. Inr (f (last h))) rs h =
     (Inr (map (\<lambda>r. \<lparr>cand_request = r, cand_preview = f r\<rparr>) rs), h @ rs)"
  by (induction rs arbitrary: h)
    (simp_all add: ret_def andthen_def bnd_def check_def ask_preview_def Let_def)

lemma baseline_valid: "boss \<noteq> [] \<Longrightarrow> slot \<noteq> [] \<Longrightarrow> list_all boss_request_valid (baseline_requests boss d slot)"
  by (simp add: baseline_requests_def skill_choices_def buff_choices_def boss_request_valid_def)

lemma challenge_valid:
  assumes "r \<in> set (baseline_requests boss d slot)" "boss \<noteq> []" "slot \<noteq> []" "cand_request c = r"
  shows "action_valid (challenge_of boss d slot boost c)"
  using assms by (auto simp: baseline_requests_def challenge_of_def Let_def)

text \<open>
  C11: ranking and shortlisting find the best configuration. For a game whose previews depend on
  the request alone and a state without affixes, the optimizer's choice for a boss at a difficulty
  is the one a brute-force search over all twelve configurations makes: none if no configuration
  is eligible, otherwise the first of the eligible ones in the order of the ranking, even though
  the optimizer keeps only the three best ranked before it asks which of them are eligible.
\<close>

theorem shortlist_is_exhaustive:
  assumes "be_key e \<noteq> []" "slot_key slot \<noteq> []" "bs_affixes st = []"
  shows "case best_configuration f policy (baseline_requests (be_key e) d (slot_key slot)) of
      None \<Rightarrow> fst (for_entry (\<lambda>h. Inr (f (last h))) e d slot st policy h) = Inr None
    | Some c \<Rightarrow> \<exists>s. fst (for_entry (\<lambda>h. Inr (f (last h))) e d slot st policy h) = Inr (Some s) \<and>
        sel_preview s = Some (cand_preview c) \<and>
        sel_action s = Some (challenge_of (be_key e) d (slot_key slot) (use_material d st policy) c)"
proof -
  let ?rs = "baseline_requests (be_key e) d (slot_key slot)"
  let ?cs = "map (\<lambda>r. \<lparr>cand_request = r, cand_preview = f r\<rparr>) ?rs"
  let ?P = "\<lambda>c. boss_eligible (cand_preview c) policy"
  have "(case filter ?P (shortlist ?cs) of [] \<Rightarrow> None | c # _ \<Rightarrow> Some c) =
      (case filter ?P (sort_key rank_key ?cs) of [] \<Rightarrow> None | c # _ \<Rightarrow> Some c)"
    unfolding shortlist_def by (rule head_of_take) (auto intro: rank_eligible)
  then have best: "(case filter ?P (shortlist ?cs) of [] \<Rightarrow> None | c # _ \<Rightarrow> Some c) =
      best_configuration f policy ?rs"
    by (simp add: best_configuration_def filter_sort)
  have from_set: "cand_request c \<in> set ?rs" if "best_configuration f policy ?rs = Some c" for c
  proof -
    have "c \<in> set (sort_key rank_key (filter ?P ?cs))"
      using that unfolding best_configuration_def
      by (cases "sort_key rank_key (filter ?P ?cs)") auto
    then show ?thesis by auto
  qed
  have affixes: "top_affixes (bs_affixes st) = []" using assms(3) by (simp add: top_affixes_def)
  show ?thesis
    using challenge_valid [OF from_set assms(1,2) refl]
    by (auto simp: for_entry_def bnd_def preview_all_deterministic [OF baseline_valid [OF assms(1,2)]]
        Let_def affixes best ret_def raise_def split: option.split)
qed

definition sample_entry :: boss_entry_state where
  "sample_entry = \<lparr>be_key = ''b1'', be_type = ''personal'', be_required_level = 3, be_attempts = Some 2,
     be_blocked_reason = None, be_refresh_key = None, be_difficulty_options = [Normal]\<rparr>"

definition sample_slot :: equipment_slot where
  "sample_slot = \<lparr>slot_key = ''weapon'', slot_score = 4, slot_eligible = True\<rparr>"

definition sample_state :: boss_state where
  "sample_state = \<lparr>bs_entries = [sample_entry], bs_free_attempts = 1, bs_material_balance = 0,
     bs_equipment = [sample_slot], bs_potion = \<lparr>potion_active_key = None, potion_required_key = None\<rparr>,
     bs_affixes = []\<rparr>"

text \<open>A game in which only the configurations with the guard buff win.\<close>

definition sample_previews :: "boss_request \<Rightarrow> boss_preview" where
  "sample_previews r = \<lparr>predicted_win = (br_buff_key r = Buff_guard), chance = 90,
     player_hp_remaining_percent = 50, boss_hp_remaining_percent = 0\<rparr>"

theorem shortlist_is_exhaustive_witness:
  "case best_configuration sample_previews default_policy (baseline_requests ''b1'' Normal ''weapon'') of
     None \<Rightarrow> fst (for_entry (\<lambda>h. Inr (sample_previews (last h))) sample_entry Normal sample_slot sample_state
       default_policy []) = Inr None
   | Some c \<Rightarrow> \<exists>s. fst (for_entry (\<lambda>h. Inr (sample_previews (last h))) sample_entry Normal sample_slot
       sample_state default_policy []) = Inr (Some s) \<and> sel_preview s = Some (cand_preview c)"
  using shortlist_is_exhaustive [where e = sample_entry and slot = sample_slot and st = sample_state
      and f = sample_previews and policy = default_policy and d = Normal and h = "[]"]
  by (auto simp: sample_entry_def sample_slot_def sample_state_def split: option.splits)

lemma sample_search:
  "case optimize (\<lambda>h. Inr (sample_previews (last h))) sample_state default_policy [] of
     (Inr s, h) \<Rightarrow> length h = 12 \<and> (case sel_action s of
        Some (BossChallengeAction b) \<Rightarrow> bc_buff_key b = Buff_guard | _ \<Rightarrow> False)
   | (Inl e, h) \<Rightarrow> False"
  by code_simp

theorem boss_selection_sound_witness:
  "\<exists>s h' b p. optimize (\<lambda>h. Inr (sample_previews (last h))) sample_state default_policy [] = (Inr s, h') \<and>
     sel_action s = Some (BossChallengeAction b) \<and> bc_buff_key b = Buff_guard \<and>
     sel_preview s = Some p \<and> predicted_win p \<and> 80 \<le> chance p"
proof -
  obtain s h' b where run: "optimize (\<lambda>h. Inr (sample_previews (last h))) sample_state default_policy [] = (Inr s, h')"
    and b: "sel_action s = Some (BossChallengeAction b)" "bc_buff_key b = Buff_guard"
    using sample_search by (auto split: prod.splits sum.splits option.splits action.splits)
  from boss_selection_sound [OF run b(1)] run b show ?thesis
    by (auto simp: default_policy_def)
qed

end
