(* ===== verification/Accounts.thy ===== *)
theory Accounts
  imports Policy Schemas
begin

text \<open>
  The account service (\<open>accounts/service.py\<close>): enrolment, credential changes, lifecycle, sessions,
  snapshots and guarded mutations of managed game accounts. An operation is a program over a
  \<open>world\<close>: the database, the calls made to the game so far and the readings taken of the clock
  and of the random source. The game, the clock, the random bytes, AES-GCM, SHA-256 and the policy
  provider are parameters, the record \<open>env\<close>; a game API object is the session token it was
  made with. One operation runs at a time, as the account lock sees to; \<open>env_raced\<close> is the one
  interference that lock does not exclude, an identity another transaction commits first.
\<close>

section \<open>The world\<close>

datatype game_call =
    Call_login string string
  | Call_bootstrap string
  | Call_idle_summary string
  | Call_idle_collect string
  | Call_operation string string \<comment> \<open>token and name of any other operation\<close>

text \<open>The local variables of a running \<open>mutate\<close> that its exception handler reads.\<close>

record mutate_locals =
  send_started :: bool
  validated_plan_id :: "uuid option"
  validated_account_id :: "uuid option"

record world =
  w_db :: database
  w_calls :: "game_call list"
  w_ticks :: nat
  w_nonces :: nat
  w_ids :: nat
  w_locals :: mutate_locals

record env =
  env_login :: "game_call list \<Rightarrow> (exn, login_result) result"
  env_bootstrap :: "game_call list \<Rightarrow> (exn, bootstrap_state) result"
  env_idle :: "game_call list \<Rightarrow> (exn, idle_summary) result"
  env_collect :: "game_call list \<Rightarrow> (exn, idle_collect_result) result"
  env_now :: "nat \<Rightarrow> instant"
  env_nonce :: "nat \<Rightarrow> bytes"
  env_id :: "nat \<Rightarrow> uuid"
  env_box :: aead
  env_sha :: "bytes \<Rightarrow> string"
  env_token_expiry :: "string \<Rightarrow> instant option"
  env_policy :: "uuid \<Rightarrow> database \<Rightarrow> (exn, versioned_policy) result"
  env_raced :: "string \<Rightarrow> game_call list \<Rightarrow> bool"

type_synonym 'a io = "(world, 'a) prog"

definition clock :: "env \<Rightarrow> instant io" where
  "clock env w = (Inr (env_now env (w_ticks w)), w\<lparr>w_ticks := Suc (w_ticks w)\<rparr>)"

definition fresh_nonce :: "env \<Rightarrow> bytes io" where
  "fresh_nonce env w = (Inr (env_nonce env (w_nonces w)), w\<lparr>w_nonces := Suc (w_nonces w)\<rparr>)"

definition fresh_id :: "env \<Rightarrow> uuid io" where
  "fresh_id env w = (Inr (env_id env (w_ids w)), w\<lparr>w_ids := Suc (w_ids w)\<rparr>)"

definition game_request ::
  "game_call \<Rightarrow> (game_call list \<Rightarrow> (exn, 'a) result) \<Rightarrow> 'a io" where
  "game_request c answer w =
     (let calls = w_calls w @ [c] in (answer calls, w\<lparr>w_calls := calls\<rparr>))"

definition game_login :: "env \<Rightarrow> string \<Rightarrow> string \<Rightarrow> login_result io" where
  "game_login env username pass = game_request (Call_login username pass) (env_login env)"

definition game_bootstrap :: "env \<Rightarrow> string \<Rightarrow> bootstrap_state io" where
  "game_bootstrap env api = game_request (Call_bootstrap api) (env_bootstrap env)"

definition game_idle_summary :: "env \<Rightarrow> string \<Rightarrow> idle_summary io" where
  "game_idle_summary env api = game_request (Call_idle_summary api) (env_idle env)"

definition game_idle_collect :: "env \<Rightarrow> string \<Rightarrow> idle_collect_result io" where
  "game_idle_collect env api = game_request (Call_idle_collect api) (env_collect env)"

definition on_db :: "(database \<Rightarrow> database) \<Rightarrow> unit io" where
  "on_db f = modify (\<lambda>w. w\<lparr>w_db := f (w_db w)\<rparr>)"

definition transaction :: "'a io \<Rightarrow> 'a io" where
  "transaction m = atomically w_db (\<lambda>d w. w\<lparr>w_db := d\<rparr>) m"

definition map_account :: "uuid \<Rightarrow> (game_account \<Rightarrow> game_account) \<Rightarrow> database \<Rightarrow> database" where
  "map_account a f d = (case get_account a d of None \<Rightarrow> d | Some r \<Rightarrow> put_account (f r) d)"

text \<open>Assigning attributes of the locked record, and reading it back.\<close>

definition update_account :: "uuid \<Rightarrow> (game_account \<Rightarrow> game_account) \<Rightarrow> unit io" where
  "update_account a f = on_db (map_account a f)"

definition require :: "uuid \<Rightarrow> game_account io" where
  "require a = (\<lambda>w. case get_account a (w_db w) of
     None \<Rightarrow> (Inl AccountNotFound, w) | Some r \<Rightarrow> (Inr r, w))"

abbreviation the_record :: "uuid \<Rightarrow> game_account io" where
  "the_record \<equiv> require"

section \<open>Results\<close>

record managed_account =
  ma_id :: uuid
  ma_label :: string
  ma_auth_mode :: string
  ma_enabled :: bool
  ma_paused_reason :: "string option"
  ma_session_expires_at :: "instant option"

record session_state =
  ss_account_id :: uuid
  ss_authenticated :: bool
  ss_refreshed :: bool
  ss_expires_at :: "instant option"
  ss_paused_reason :: "string option"

record removal_receipt =
  rr_account_id :: uuid
  rr_removed_at :: instant
  rr_disabled_job_count :: nat

record account_snapshot =
  as_account_id :: uuid
  as_enabled :: bool
  as_paused_reason :: "string option"
  as_authenticated :: bool
  as_session_expires_at :: "instant option"
  as_state :: json
  as_state_fingerprint :: string
  as_fetched_at :: instant
  as_expires_at :: instant

record locked_account =
  la_account_id :: uuid
  la_api :: string
  la_policy :: versioned_policy
  la_snapshot :: account_snapshot

record 'v mutation_outcome =
  mo_applied :: bool
  mo_reconciled :: bool
  mo_result :: "'v option"

record session_resolution =
  sr_state :: session_state
  sr_api :: "string option"
  sr_bootstrap_account_id :: "string option"

definition renewal_window :: int where
  "renewal_window = hours 24"

definition auth_failure_window :: int where
  "auth_failure_window = hours 1"

definition snapshot_ttl :: int where
  "snapshot_ttl = minutes 5"

definition managed :: "game_account \<Rightarrow> managed_account" where
  "managed r = \<lparr>ma_id = ga_id r, ma_label = ga_label r,
     ma_auth_mode = (if ga_auth_mode r = ''credentials'' then ''credentials'' else ''token_only''),
     ma_enabled = ga_enabled r, ma_paused_reason = ga_paused_reason r,
     ma_session_expires_at = ga_session_expires_at r\<rparr>"

section \<open>Shared steps\<close>

definition audit ::
  "actor \<Rightarrow> uuid option \<Rightarrow> string \<Rightarrow> json option \<Rightarrow> json option \<Rightarrow> json option \<Rightarrow> uuid option \<Rightarrow> unit io" where
  "audit who account action res bef aft plan =
     on_db (add_audit (actor_kind who @ '':'' @ actor_id who) (actor_kind who) account plan action
       res bef aft None)"

definition status :: "string \<Rightarrow> json option" where
  "status s = Some (JObj [(''status'', JStr s)])"

definition normalize_label :: "string \<Rightarrow> 'a io \<Rightarrow> (string \<Rightarrow> 'a io) \<Rightarrow> 'a io" where
  "normalize_label label bad good =
     (let s = strip label in if 1 \<le> length s \<and> length s \<le> 120 then good s else bad)"

definition reject_removed :: "game_account \<Rightarrow> unit io" where
  "reject_removed r = check (ga_paused_reason r \<noteq> Some ''removed'') AccountRemoved"

definition reject_removal_marker :: "game_account \<Rightarrow> unit io" where
  "reject_removal_marker r = andthen (reject_removed r)
     (check (ga_paused_reason r \<noteq> Some ''removing'') AccountPaused)"

definition require_mutable :: "game_account \<Rightarrow> unit io" where
  "require_mutable r = andthen (reject_removal_marker r) (andthen
     (check (ga_enabled r) AccountDisabled)
     (check (ga_paused_reason r = None \<or> ga_paused_reason r = Some []) AccountPaused))"

definition seal :: "env \<Rightarrow> uuid \<Rightarrow> string \<Rightarrow> string option \<Rightarrow> encrypted_secret option io" where
  "seal env a column v =
     (case v of None \<Rightarrow> ret None
      | Some s \<Rightarrow> bnd (fresh_nonce env) (\<lambda>n. ret (seal_secret (env_box env) n a column (Some s))))"

definition set_game_username :: "env \<Rightarrow> uuid \<Rightarrow> string option \<Rightarrow> unit io" where
  "set_game_username env a v = bnd (seal env a ''game_username'' v)
     (\<lambda>c. update_account a (\<lambda>r. r\<lparr>ga_game_username := c\<rparr>))"

definition set_password :: "env \<Rightarrow> uuid \<Rightarrow> string option \<Rightarrow> unit io" where
  "set_password env a v = bnd (seal env a ''password'' v)
     (\<lambda>c. update_account a (\<lambda>r. r\<lparr>ga_password := c\<rparr>))"

definition set_session_token :: "env \<Rightarrow> uuid \<Rightarrow> string option \<Rightarrow> unit io" where
  "set_session_token env a v = bnd (seal env a ''session_token'' v)
     (\<lambda>c. update_account a (\<lambda>r. r\<lparr>ga_session_token := c\<rparr>))"

definition get_game_username :: "env \<Rightarrow> game_account \<Rightarrow> string option io" where
  "get_game_username env r =
     lift_result (open_secret (env_box env) (ga_id r) ''game_username'' (ga_game_username r))"

definition get_password :: "env \<Rightarrow> game_account \<Rightarrow> string option io" where
  "get_password env r =
     lift_result (open_secret (env_box env) (ga_id r) ''password'' (ga_password r))"

definition get_session_token :: "env \<Rightarrow> game_account \<Rightarrow> string option io" where
  "get_session_token env r =
     lift_result (open_secret (env_box env) (ga_id r) ''session_token'' (ga_session_token r))"

text \<open>\<open>not value\<close> for an optional text.\<close>

definition missing :: "string option \<Rightarrow> bool" where
  "missing v \<longleftrightarrow> v = None \<or> v = Some []"

fun login_loop :: "env \<Rightarrow> string \<Rightarrow> string \<Rightarrow> nat \<Rightarrow> (string \<times> instant option \<times> string) io" where
  "login_loop env username pass 0 = raise AuthenticationRequired"
| "login_loop env username pass (Suc n) =
     handle
       (bnd (game_login env username pass) (\<lambda>login.
        bnd (game_bootstrap env (session_token login)) (\<lambda>boot.
        ret (session_token login, env_token_expiry env (session_token login),
             bootstrap_account_id boot))))
       (\<lambda>e. e = SessionRejected)
       (\<lambda>_. login_loop env username pass n)"

definition login_and_bootstrap ::
  "env \<Rightarrow> string \<Rightarrow> string \<Rightarrow> (string \<times> instant option \<times> string) io" where
  "login_and_bootstrap env username pass = login_loop env username pass 3"

section \<open>Identity\<close>

definition find_identity :: "string \<Rightarrow> database \<Rightarrow> game_account option" where
  "find_identity i d = find (\<lambda>r. game_account_id r = Some i) (accounts d)"

definition has_unresolved_identity :: "database \<Rightarrow> bool" where
  "has_unresolved_identity d = list_ex (\<lambda>r. game_account_id r = None) (accounts d)"

definition identity_mismatch :: "env \<Rightarrow> uuid \<Rightarrow> actor \<Rightarrow> unit io" where
  "identity_mismatch env a who =
     andthen (update_account a (\<lambda>r. r\<lparr>ga_enabled := False,
       ga_paused_reason := Some ''account_identity_mismatch''\<rparr>)) (
     bnd (clock env) (\<lambda>now.
     andthen (update_account a (\<lambda>r. r\<lparr>ga_last_error_at := Some now\<rparr>))
     (audit who (Some a) ''account.identity.mismatch''
       (Some (JObj [(''status'', JStr ''paused''), (''severity'', JStr ''critical'')]))
       None None None)))"

definition bind_or_match_identity :: "env \<Rightarrow> uuid \<Rightarrow> string option \<Rightarrow> actor \<Rightarrow> bool io" where
  "bind_or_match_identity env a bootstrap_id who =
     (case bootstrap_id of
        None \<Rightarrow> ret False
      | Some i \<Rightarrow>
          if i = [] then ret False
          else bnd (the_record a) (\<lambda>r.
            case game_account_id r of
              None \<Rightarrow>
                bnd (asks (\<lambda>w. find_identity i (w_db w))) (\<lambda>existing.
                if (case existing of None \<Rightarrow> False | Some x \<Rightarrow> ga_id x \<noteq> ga_id r)
                then andthen (identity_mismatch env a who) (ret False)
                else bnd (asks (\<lambda>w. env_raced env i (w_calls w))) (\<lambda>raced.
                  if raced then andthen (identity_mismatch env a who) (ret False)
                  else andthen (update_account a (\<lambda>r. r\<lparr>game_account_id := Some i\<rparr>)) (ret True)))
            | Some j \<Rightarrow>
                if j = i then ret True
                else andthen (identity_mismatch env a who) (ret False)))"

definition resolve_stored_identity :: "env \<Rightarrow> uuid \<Rightarrow> string io" where
  "resolve_stored_identity env a = bnd (the_record a) (\<lambda>r.
     if ga_auth_mode r = ''credentials'' then
       bnd (get_game_username env r) (\<lambda>username.
       bnd (get_password env r) (\<lambda>pass.
       if missing username \<or> missing pass then raise AuthenticationRequired
       else bnd (login_and_bootstrap env (the username) (the pass)) (\<lambda>(t, x, i). ret i)))
     else
       bnd (get_session_token env r) (\<lambda>token.
       if missing token then raise AuthenticationRequired
       else handle (bnd (game_bootstrap env (the token)) (\<lambda>b. ret (bootstrap_account_id b)))
         (\<lambda>e. e = SessionRejected) (\<lambda>_. raise AuthenticationRequired)))"

section \<open>Sessions\<close>

definition closed_session ::
  "uuid \<Rightarrow> instant option \<Rightarrow> string option \<Rightarrow> session_resolution" where
  "closed_session a expires paused = \<lparr>sr_state = \<lparr>ss_account_id = a, ss_authenticated = False,
     ss_refreshed = False, ss_expires_at = expires, ss_paused_reason = paused\<rparr>,
     sr_api = None, sr_bootstrap_account_id = None\<rparr>"

definition open_session ::
  "uuid \<Rightarrow> bool \<Rightarrow> instant option \<Rightarrow> string \<Rightarrow> string \<Rightarrow> session_resolution" where
  "open_session a refreshed expires api boot_id = \<lparr>sr_state = \<lparr>ss_account_id = a,
     ss_authenticated = True, ss_refreshed = refreshed, ss_expires_at = expires,
     ss_paused_reason = None\<rparr>, sr_api = Some api, sr_bootstrap_account_id = Some boot_id\<rparr>"

definition pause_for_refresh :: "env \<Rightarrow> uuid \<Rightarrow> actor \<Rightarrow> session_resolution io" where
  "pause_for_refresh env a who =
     andthen (update_account a (\<lambda>r. r\<lparr>ga_paused_reason := Some ''session_refresh_required''\<rparr>)) (
     bnd (clock env) (\<lambda>now.
     andthen (update_account a (\<lambda>r. r\<lparr>ga_last_error_at := Some now\<rparr>)) (
     andthen (audit who (Some a) ''account.session.refresh_required''
       (Some (JObj [(''status'', JStr ''paused''), (''severity'', JStr ''critical'')])) None None None) (
     bnd (the_record a) (\<lambda>r.
     ret (closed_session a (ga_session_expires_at r) (ga_paused_reason r)))))))"

definition count_failure :: "instant \<Rightarrow> game_account \<Rightarrow> game_account" where
  "count_failure now r =
     (let fresh = (case ga_auth_failure_window_started_at r of
            None \<Rightarrow> True | Some started \<Rightarrow> auth_failure_window \<le> now - started);
          r1 = (if fresh then r\<lparr>ga_auth_failure_window_started_at := Some now,
                  ga_auth_failure_count := 1\<rparr>
                else r\<lparr>ga_auth_failure_count := ga_auth_failure_count r + 1\<rparr>);
          r2 = r1\<lparr>ga_last_error_at := Some now\<rparr> in
      if 3 \<le> ga_auth_failure_count r2 then r2\<lparr>ga_paused_reason := Some ''authentication_required''\<rparr>
      else r2)"

definition record_auth_failure :: "env \<Rightarrow> uuid \<Rightarrow> actor \<Rightarrow> session_resolution io" where
  "record_auth_failure env a who =
     bnd (clock env) (\<lambda>now.
     andthen (update_account a (count_failure now)) (
     bnd (the_record a) (\<lambda>r.
     let paused = \<not> missing (ga_paused_reason r) in
     andthen (audit who (Some a) ''account.session.refresh_failed''
       (Some (JObj [(''status'', JStr (if paused then ''paused'' else ''failed'')),
          (''severity'', JStr (if paused then ''critical'' else ''warning''))])) None None None) (
     ret (closed_session a (ga_session_expires_at r) (ga_paused_reason r))))))"

definition bind_session ::
  "env \<Rightarrow> uuid \<Rightarrow> actor \<Rightarrow> instant \<Rightarrow> instant option \<Rightarrow> string \<Rightarrow> bootstrap_state \<Rightarrow> session_resolution io" where
  "bind_session env a who now expiry api boot =
     bnd (bind_or_match_identity env a (Some (bootstrap_account_id boot)) who) (\<lambda>ok.
     if \<not> ok then bnd (the_record a) (\<lambda>r. ret (closed_session a expiry (ga_paused_reason r)))
     else andthen (update_account a (\<lambda>r. r\<lparr>ga_last_success_at := Some now\<rparr>))
       (ret (open_session a False expiry api (bootstrap_account_id boot))))"

definition relogin :: "env \<Rightarrow> uuid \<Rightarrow> actor \<Rightarrow> instant \<Rightarrow> session_resolution io" where
  "relogin env a who now = bnd (the_record a) (\<lambda>r.
     bnd (get_game_username env r) (\<lambda>username.
     bnd (get_password env r) (\<lambda>pass.
     if missing username \<or> missing pass then raise AuthenticationRequired
     else bnd (login_and_bootstrap env (the username) (the pass)) (\<lambda>(token, expiry, boot_id).
       bnd (bind_or_match_identity env a (Some boot_id) who) (\<lambda>ok.
       if \<not> ok then bnd (the_record a) (\<lambda>r.
         ret (closed_session a (ga_session_expires_at r) (ga_paused_reason r)))
       else andthen (set_session_token env a (Some token)) (
         andthen (update_account a (\<lambda>r. r\<lparr>ga_session_expires_at := expiry,
           ga_auth_failure_count := 0, ga_auth_failure_window_started_at := None,
           ga_last_success_at := Some now\<rparr>))
         (ret (open_session a True expiry token boot_id))))))))"

definition ensure_active :: "env \<Rightarrow> uuid \<Rightarrow> actor \<Rightarrow> instant \<Rightarrow> session_resolution io" where
  "ensure_active env a who now = bnd (the_record a) (\<lambda>r.
     bnd (get_session_token env r) (\<lambda>token.
     let expiry = ga_session_expires_at r;
         needs_refresh = (token = None \<or>
           (case expiry of None \<Rightarrow> False | Some x \<Rightarrow> x \<le> now + renewal_window)) in
     if ga_auth_mode r = ''token_only'' then
       if needs_refresh then pause_for_refresh env a who
       else try_else (game_bootstrap env (the token)) (\<lambda>e. e = SessionRejected)
         (\<lambda>_. pause_for_refresh env a who) (bind_session env a who now expiry (the token))
     else if \<not> needs_refresh then
       try_else (game_bootstrap env (the token)) (\<lambda>e. e = SessionRejected)
         (\<lambda>_. relogin env a who now) (bind_session env a who now expiry (the token))
     else relogin env a who now))"

definition ensure_locked :: "env \<Rightarrow> uuid \<Rightarrow> actor \<Rightarrow> session_resolution io" where
  "ensure_locked env a who =
     bnd (clock env) (\<lambda>now.
     bnd (the_record a) (\<lambda>r.
     case ga_paused_reason r of
       Some p \<Rightarrow> ret (closed_session a (ga_session_expires_at r) (Some p))
     | None \<Rightarrow> handle (ensure_active env a who now) (\<lambda>e. e = AuthenticationRequired)
         (\<lambda>_. record_auth_failure env a who)))"

definition save_snapshot :: "env \<Rightarrow> uuid \<Rightarrow> session_resolution \<Rightarrow> bool \<Rightarrow> account_snapshot io" where
  "save_snapshot env a res authenticated =
     bnd (case (sr_bootstrap_account_id res, sr_api res) of
         (Some boot_id, Some api) \<Rightarrow>
           if authenticated then bnd (game_idle_summary env api) (\<lambda>idle.
             ret (JObj [(''accountId'', JStr boot_id),
               (''idle'', JObj [(''accumulatedSeconds'', JInt (accumulated_seconds idle)),
                 (''capacitySeconds'', case capacity_seconds idle of
                    None \<Rightarrow> JNull | Some c \<Rightarrow> JInt c)])]))
           else ret (JObj [])
       | _ \<Rightarrow> ret (JObj [])) (\<lambda>state.
     bnd (clock env) (\<lambda>fetched.
     let fingerprint = env_sha env (utf8 (dumps True state)) in
     andthen (on_db (\<lambda>d. d\<lparr>snapshots := snapshots d @ [\<lparr>snap_account_id = a, snap_state = state,
       snap_fingerprint = fingerprint, snap_fetched_at = fetched,
       snap_expires_at = fetched + snapshot_ttl\<rparr>]\<rparr>)) (
     bnd (the_record a) (\<lambda>r.
     ret \<lparr>as_account_id = a, as_enabled = ga_enabled r, as_paused_reason = ga_paused_reason r,
       as_authenticated = authenticated, as_session_expires_at = ga_session_expires_at r,
       as_state = state, as_state_fingerprint = fingerprint, as_fetched_at = fetched,
       as_expires_at = fetched + snapshot_ttl\<rparr>))))"

section \<open>Enrolment\<close>

definition new_account :: "uuid \<Rightarrow> string \<Rightarrow> string \<Rightarrow> string \<Rightarrow> game_account" where
  "new_account i label mode identity = \<lparr>ga_id = i, game_account_id = Some identity,
     ga_label = label, ga_game_username = None, ga_auth_mode = mode, ga_password = None,
     ga_session_token = None, ga_session_expires_at = None, ga_enabled = True,
     ga_paused_reason = None, ga_policy_version = 1, ga_last_success_at = None,
     ga_last_error_at = None, ga_auth_failure_count = 0,
     ga_auth_failure_window_started_at = None\<rparr>"

definition conflict_result :: "string \<Rightarrow> json option" where
  "conflict_result reason = Some (JObj [(''status'', JStr ''rejected''), (''reason'', JStr reason)])"

text \<open>The transaction both enrolments share: refuse, or insert the record and fill it in.\<close>

definition enrol ::
  "env \<Rightarrow> string \<Rightarrow> string \<Rightarrow> string \<Rightarrow> string \<Rightarrow> actor \<Rightarrow> (uuid \<Rightarrow> unit io) \<Rightarrow> managed_account io" where
  "enrol env label mode identity action who fill =
     bnd (transaction (
       bnd (asks w_db) (\<lambda>d.
       if has_unresolved_identity d then
         andthen (audit who None ''account.identity.conflict''
           (conflict_result ''unresolved_historical_identity'') None None None) (ret None)
       else case find_identity identity d of
         Some existing \<Rightarrow>
           andthen (audit who (Some (ga_id existing)) ''account.identity.conflict''
             (conflict_result ''already_managed'') None None None) (ret None)
       | None \<Rightarrow>
           bnd (fresh_id env) (\<lambda>i.
           bnd (asks (\<lambda>w. env_raced env identity (w_calls w))) (\<lambda>raced.
           if raced \<or> get_account i d \<noteq> None then raise OtherException
           else
             andthen (on_db (\<lambda>d. d\<lparr>accounts := accounts d @ [new_account i label mode identity]\<rparr>)) (
             andthen (fill i) (
             andthen (audit who (Some i) action
               (Some (JObj [(''status'', JStr ''succeeded''), (''bootstrap'', JBool True)])) None None None) (
             bnd (the_record i) (\<lambda>r. ret (Some (managed r)))))))))))
     (\<lambda>outcome. case outcome of None \<Rightarrow> raise AccountIdentityConflict | Some m \<Rightarrow> ret m)"

definition add_credentials :: "env \<Rightarrow> string \<Rightarrow> string \<Rightarrow> string \<Rightarrow> actor \<Rightarrow> managed_account io" where
  "add_credentials env label username pass who =
     normalize_label label (raise ValueErr) (\<lambda>normalized.
     bnd (login_and_bootstrap env username pass) (\<lambda>(token, expiry, boot_id).
     bnd (clock env) (\<lambda>now.
     if boot_id = [] then raise AuthenticationRequired
     else enrol env normalized ''credentials'' boot_id ''account.add_credentials'' who (\<lambda>i.
       andthen (set_game_username env i (Some username)) (
       andthen (set_password env i (Some pass)) (
       andthen (set_session_token env i (Some token))
       (update_account i (\<lambda>r. r\<lparr>ga_session_expires_at := expiry,
          ga_last_success_at := Some now\<rparr>))))))))"

definition add_token_only :: "env \<Rightarrow> string \<Rightarrow> string \<Rightarrow> actor \<Rightarrow> managed_account io" where
  "add_token_only env label token who =
     normalize_label label (raise ValueErr) (\<lambda>normalized.
     if token = [] then raise ValueErr
     else bnd (handle (game_bootstrap env token) (\<lambda>e. e = SessionRejected)
         (\<lambda>_. raise AuthenticationRequired)) (\<lambda>boot.
       if bootstrap_account_id boot = [] then raise AuthenticationRequired
       else bnd (clock env) (\<lambda>now.
         enrol env normalized ''token_only'' (bootstrap_account_id boot) ''account.add_token_only'' who
           (\<lambda>i. andthen (set_session_token env i (Some token))
             (update_account i (\<lambda>r. r\<lparr>ga_session_expires_at := env_token_expiry env token,
                ga_last_success_at := Some now\<rparr>))))))"

section \<open>Changing an account\<close>

text \<open>\<open>async with sessions.begin(): async with account_lock: record = require_for_update\<close>.\<close>

definition with_account :: "uuid \<Rightarrow> (game_account \<Rightarrow> 'a io) \<Rightarrow> 'a io" where
  "with_account a body = transaction (bnd (require a) body)"

definition update_label :: "env \<Rightarrow> uuid \<Rightarrow> string \<Rightarrow> actor \<Rightarrow> managed_account io" where
  "update_label env a label who = normalize_label label (raise ValueErr) (\<lambda>normalized.
     with_account a (\<lambda>r.
       andthen (reject_removal_marker r) (
       andthen (update_account a (\<lambda>r. r\<lparr>ga_label := normalized\<rparr>)) (
       andthen (audit who (Some a) ''account.label.update'' (status ''succeeded'')
         (Some (JObj [(''label'', JStr (ga_label r))]))
         (Some (JObj [(''label'', JStr normalized)])) None) (
       bnd (the_record a) (\<lambda>r. ret (managed r)))))))"

text \<open>
  The first part of both credential updates: an account without an identity is first bound to the
  identity its stored credentials lead to. The value is the pending error, if any.
\<close>

definition settle_identity :: "env \<Rightarrow> uuid \<Rightarrow> game_account \<Rightarrow> actor \<Rightarrow> exn option io" where
  "settle_identity env a r who =
     (if game_account_id r \<noteq> None then ret None
      else try_else (resolve_stored_identity env a) (\<lambda>e. e = AuthenticationRequired)
        (\<lambda>_. ret (Some AuthenticationRequired))
        (\<lambda>i. bnd (bind_or_match_identity env a (Some i) who) (\<lambda>ok.
          ret (if ok then None else Some AccountIdentityConflict))))"

definition reset_session :: "string \<Rightarrow> instant option \<Rightarrow> game_account \<Rightarrow> game_account" where
  "reset_session mode expiry r = r\<lparr>ga_auth_mode := mode, ga_session_expires_at := expiry,
     ga_paused_reason := None, ga_auth_failure_count := 0,
     ga_auth_failure_window_started_at := None\<rparr>"

text \<open>Raise the pending error after the transaction, or return the result.\<close>

definition raise_pending :: "(exn option \<times> 'a option) \<Rightarrow> 'a io" where
  "raise_pending p = (case p of
     (Some e, _) \<Rightarrow> raise e
   | (None, Some x) \<Rightarrow> ret x
   | (None, None) \<Rightarrow> raise OtherException)"

definition update_credentials ::
  "env \<Rightarrow> uuid \<Rightarrow> string option \<Rightarrow> string \<Rightarrow> actor \<Rightarrow> managed_account io" where
  "update_credentials env a username pass who =
     (if pass = [] then raise ValueErr
      else bnd (with_account a (\<lambda>r.
        andthen (reject_removal_marker r) (
        bnd (settle_identity env a r who) (\<lambda>pending.
        bnd (bnd (the_record a) (get_game_username env)) (\<lambda>current.
        let proposed = (if missing username then current else username) in
        bnd (if pending = None \<and> \<not> missing proposed then
               handle (bnd (login_and_bootstrap env (the proposed) pass) (\<lambda>v. ret (Some v)))
                 is_account_error (\<lambda>_. ret None)
             else ret None) (\<lambda>verified.
        bnd (case (pending, verified) of
            (Some e, _) \<Rightarrow> ret (Some e, None)
          | (None, None) \<Rightarrow> ret (Some AuthenticationRequired, None)
          | (None, Some (token, expiry, identity)) \<Rightarrow>
              bnd (bind_or_match_identity env a (Some identity) who) (\<lambda>ok.
              if \<not> ok then ret (Some AccountIdentityConflict, None)
              else
                andthen (set_game_username env a proposed) (
                andthen (set_password env a (Some pass)) (
                andthen (set_session_token env a (Some token)) (
                andthen (update_account a (reset_session ''credentials'' expiry)) (
                bnd (clock env) (\<lambda>now.
                andthen (update_account a (\<lambda>r. r\<lparr>ga_last_success_at := Some now\<rparr>)) (
                andthen (audit who (Some a) ''account.credentials.update'' (status ''succeeded'')
                  None None None) (
                bnd (the_record a) (\<lambda>r. ret (None, Some (managed r)))))))))))) (\<lambda>outcome.
        andthen (if fst outcome \<noteq> None then
            audit who (Some a) ''account.credentials.update'' (status ''rejected'') None None None
          else ret ()) (ret outcome))))))))
      raise_pending)"

definition update_token_only :: "env \<Rightarrow> uuid \<Rightarrow> string \<Rightarrow> actor \<Rightarrow> managed_account io" where
  "update_token_only env a token who =
     (if token = [] then raise ValueErr
      else bnd (with_account a (\<lambda>r.
        andthen (reject_removal_marker r) (
        bnd (settle_identity env a r who) (\<lambda>pending.
        bnd (if pending \<noteq> None then ret (pending, None)
             else try_else (game_bootstrap env token) (\<lambda>e. e = SessionRejected)
               (\<lambda>_. ret (Some AuthenticationRequired, None))
               (\<lambda>boot. ret (None, Some (bootstrap_account_id boot)))) (\<lambda>(pending, boot_id).
        bnd (if pending \<noteq> None then ret pending
             else bnd (bind_or_match_identity env a boot_id who) (\<lambda>ok.
               ret (if ok then None else Some AccountIdentityConflict))) (\<lambda>pending.
        if pending = None then
          andthen (set_game_username env a None) (
          andthen (set_password env a None) (
          andthen (set_session_token env a (Some token)) (
          andthen (update_account a (reset_session ''token_only'' (env_token_expiry env token))) (
          bnd (clock env) (\<lambda>now.
          andthen (update_account a (\<lambda>r. r\<lparr>ga_last_success_at := Some now\<rparr>)) (
          andthen (audit who (Some a) ''account.token.update''
            (Some (JObj [(''status'', JStr ''succeeded''), (''bootstrap'', JBool (\<not> missing boot_id))]))
            None None None) (
          bnd (the_record a) (\<lambda>r. ret (None, Some (managed r))))))))))
        else
          andthen (audit who (Some a) ''account.token.update'' (status ''rejected'') None None None)
            (ret (pending, None))))))))
      raise_pending)"

section \<open>Lifecycle\<close>

definition set_lifecycle :: "env \<Rightarrow> uuid \<Rightarrow> actor \<Rightarrow> string \<Rightarrow> bool \<Rightarrow> unit io" where
  "set_lifecycle env a who action on = with_account a (\<lambda>r.
     andthen (reject_removal_marker r) (
     andthen (update_account a (\<lambda>r. r\<lparr>ga_enabled := on\<rparr>))
     (audit who (Some a) (''account.'' @ action) (status (action @ ''d'')) None None None)))"

definition enable :: "env \<Rightarrow> uuid \<Rightarrow> actor \<Rightarrow> unit io" where
  "enable env a who = set_lifecycle env a who ''enable'' True"

definition disable :: "env \<Rightarrow> uuid \<Rightarrow> actor \<Rightarrow> unit io" where
  "disable env a who = set_lifecycle env a who ''disable'' False"

definition pause :: "env \<Rightarrow> uuid \<Rightarrow> string \<Rightarrow> actor \<Rightarrow> unit io" where
  "pause env a reason who =
     (if strip reason = [] then raise ValueErr
      else with_account a (\<lambda>r.
        andthen (reject_removal_marker r) (
        andthen (update_account a (\<lambda>r. r\<lparr>ga_paused_reason := Some (strip reason)\<rparr>))
        (audit who (Some a) ''account.pause'' (status ''paused'') None None None))))"

definition resume :: "env \<Rightarrow> uuid \<Rightarrow> actor \<Rightarrow> unit io" where
  "resume env a who = with_account a (\<lambda>r.
     andthen (reject_removed r) (
     andthen (check (ga_paused_reason r \<noteq> Some ''removing'') AccountPaused) (
     andthen (update_account a (\<lambda>r. r\<lparr>ga_paused_reason := None\<rparr>))
     (audit who (Some a) ''account.resume'' (status ''resumed'') None None None))))"

definition disable_jobs :: "uuid \<Rightarrow> database \<Rightarrow> database" where
  "disable_jobs a d = d\<lparr>jobs := map (\<lambda>j. if job_account_id j = a \<and> job_enabled j
     then j\<lparr>job_enabled := False\<rparr> else j) (jobs d)\<rparr>"

definition enabled_jobs :: "uuid \<Rightarrow> database \<Rightarrow> nat" where
  "enabled_jobs a d = length (filter (\<lambda>j. job_account_id j = a \<and> job_enabled j) (jobs d))"

definition begin_removal :: "env \<Rightarrow> uuid \<Rightarrow> removal_receipt option io" where
  "begin_removal env a = transaction (bnd (require a) (\<lambda>r.
     if ga_paused_reason r = Some ''removed'' then
       bnd (clock env) (\<lambda>now. ret (Some \<lparr>rr_account_id = a, rr_removed_at = now,
         rr_disabled_job_count = 0\<rparr>))
     else andthen (update_account a (\<lambda>r. r\<lparr>ga_enabled := False,
       ga_paused_reason := Some ''removing''\<rparr>)) (ret None)))"

definition complete_removal :: "env \<Rightarrow> uuid \<Rightarrow> actor \<Rightarrow> removal_receipt io" where
  "complete_removal env a who = with_account a (\<lambda>r.
     bnd (asks (\<lambda>w. enabled_jobs a (w_db w))) (\<lambda>n.
     andthen (on_db (disable_jobs a)) (
     andthen (update_account a (\<lambda>r. r\<lparr>ga_enabled := False, ga_paused_reason := Some ''removed''\<rparr>)) (
     andthen (set_game_username env a None) (
     andthen (set_password env a None) (
     andthen (set_session_token env a None) (
     andthen (update_account a (\<lambda>r. r\<lparr>ga_session_expires_at := None\<rparr>)) (
     andthen (audit who (Some a) ''account.remove''
       (Some (JObj [(''status'', JStr ''removed''), (''disabled_jobs'', JInt (int n))])) None None None) (
     bnd (clock env) (\<lambda>now.
     ret \<lparr>rr_account_id = a, rr_removed_at = now, rr_disabled_job_count = n\<rparr>))))))))))"

definition disable_drain_remove :: "env \<Rightarrow> uuid \<Rightarrow> actor \<Rightarrow> removal_receipt io" where
  "disable_drain_remove env a who = bnd (begin_removal env a) (\<lambda>early.
     case early of Some receipt \<Rightarrow> ret receipt | None \<Rightarrow> complete_removal env a who)"

section \<open>Reading accounts\<close>

definition account_get :: "uuid \<Rightarrow> managed_account io" where
  "account_get a = bnd (require a) (\<lambda>r. ret (managed r))"

definition account_list :: "managed_account list io" where
  "account_list = asks (\<lambda>w. map managed
     (sort_key (\<lambda>r. (ga_label r, unat (ga_id r))) (accounts (w_db w))))"

definition ensure_session :: "env \<Rightarrow> uuid \<Rightarrow> actor \<Rightarrow> session_state io" where
  "ensure_session env a who = with_account a (\<lambda>r.
     bnd (ensure_locked env a who) (\<lambda>res. ret (sr_state res)))"

definition snapshot :: "env \<Rightarrow> uuid \<Rightarrow> actor \<Rightarrow> account_snapshot io" where
  "snapshot env a who = with_account a (\<lambda>r.
     bnd (ensure_locked env a who) (\<lambda>res. save_snapshot env a res (sr_api res \<noteq> None)))"

definition policy_provider :: "env \<Rightarrow> uuid \<Rightarrow> versioned_policy io" where
  "policy_provider env a = (\<lambda>w. (env_policy env a (w_db w), w))"

text \<open>
  The context manager \<open>locked\<close>: the body runs inside the transaction that holds the lock; a
  session that could not be opened commits and is raised afterwards.
\<close>

definition locked :: "env \<Rightarrow> uuid \<Rightarrow> actor \<Rightarrow> (locked_account \<Rightarrow> 'a io) \<Rightarrow> 'a io" where
  "locked env a who body =
     bnd (with_account a (\<lambda>r.
       andthen (require_mutable r) (
       bnd (ensure_locked env a who) (\<lambda>res.
       case (sr_api res, sr_bootstrap_account_id res) of
         (Some api, Some boot_id) \<Rightarrow>
           bnd (save_snapshot env a res True) (\<lambda>snap.
           bnd (policy_provider env a) (\<lambda>policy.
           bnd (body \<lparr>la_account_id = a, la_api = api, la_policy = policy, la_snapshot = snap\<rparr>)
             (\<lambda>x. ret (Some x))))
       | _ \<Rightarrow> ret None))))
     (\<lambda>outcome. case outcome of None \<Rightarrow> raise AuthenticationRequired | Some x \<Rightarrow> ret x)"

section \<open>Mutations\<close>

definition set_locals :: "(mutate_locals \<Rightarrow> mutate_locals) \<Rightarrow> unit io" where
  "set_locals f = modify (\<lambda>w. w\<lparr>w_locals := f (w_locals w)\<rparr>)"

definition finish_plan :: "env \<Rightarrow> uuid \<Rightarrow> string \<Rightarrow> (string \<times> json) list \<Rightarrow> unit io" where
  "finish_plan env p st res = bnd (clock env) (\<lambda>now w.
     case plan_finish now p st res (w_db w) of
       Inl e \<Rightarrow> (Inl e, w) | Inr d \<Rightarrow> (Inr (), w\<lparr>w_db := d\<rparr>))"

definition finish_if_validated :: "env \<Rightarrow> string \<Rightarrow> (string \<times> json) list \<Rightarrow> unit io" where
  "finish_if_validated env st res = bnd (asks (\<lambda>w. validated_plan_id (w_locals w))) (\<lambda>v.
     case v of None \<Rightarrow> ret () | Some p \<Rightarrow> finish_plan env p st res)"

definition audit_mutation :: "actor \<Rightarrow> uuid option \<Rightarrow> json option \<Rightarrow> unit io" where
  "audit_mutation who account res = bnd (asks (\<lambda>w. validated_plan_id (w_locals w))) (\<lambda>v.
     audit who account ''account.mutate'' res None None v)"

text \<open>The operation was cancelled: its outcome is unknown. The value \<open>None\<close> stands for the pending
  cancellation.\<close>

definition cancel_mutation :: "env \<Rightarrow> actor \<Rightarrow> 'v mutation_outcome option io" where
  "cancel_mutation env who =
     andthen (finish_if_validated env ''reconciliation_required'' [(''status'', JStr ''cancelled'')]) (
     bnd (asks (\<lambda>w. validated_account_id (w_locals w))) (\<lambda>account.
     andthen (audit_mutation who account
       (Some (JObj [(''status'', JStr ''cancelled''), (''outcome'', JStr ''ambiguous'')])))
     (ret None)))"

definition succeed_mutation ::
  "env \<Rightarrow> uuid \<Rightarrow> actor \<Rightarrow> bool \<Rightarrow> 'v option \<Rightarrow> 'v mutation_outcome option io" where
  "succeed_mutation env a who reconciled v =
     bnd (clock env) (\<lambda>now.
     andthen (update_account a (\<lambda>r. r\<lparr>ga_last_success_at := Some now\<rparr>)) (
     andthen (finish_if_validated env ''executed''
       [(''status'', JStr ''succeeded''), (''reconciled'', JBool reconciled)]) (
     andthen (audit_mutation who (Some a)
       (Some (JObj [(''status'', JStr ''succeeded''), (''reconciled'', JBool reconciled)])))
     (ret (Some \<lparr>mo_applied = True, mo_reconciled = reconciled, mo_result = v\<rparr>)))))"

fun is_schema_mismatch :: "exn \<Rightarrow> bool" where
  "is_schema_mismatch (GameSchemaMismatch s m) = True"
| "is_schema_mismatch e = False"

fun is_conflict :: "exn \<Rightarrow> bool" where
  "is_conflict (GameConflict c) = True"
| "is_conflict e = False"

fun is_ambiguous :: "exn \<Rightarrow> bool" where
  "is_ambiguous (AmbiguousMutation s) = True"
| "is_ambiguous e = False"

text \<open>
  \<open>try m except CancelledError: cancel; except GameSchemaMismatch: raise; except p: raise
  ReconciliationRequired; else f\<close>.
\<close>

definition try_verify ::
  "env \<Rightarrow> actor \<Rightarrow> 'a io \<Rightarrow> (exn \<Rightarrow> bool) \<Rightarrow> ('a \<Rightarrow> 'v mutation_outcome option io) \<Rightarrow>
   'v mutation_outcome option io" where
  "try_verify env who m p f =
     try_else m (\<lambda>e. e = CancelledError \<or> \<not> is_schema_mismatch e \<and> p e)
       (\<lambda>e. if e = CancelledError then cancel_mutation env who else raise ReconciliationRequired) f"

type_synonym 'v verifier = "string \<Rightarrow> 'v option \<Rightarrow> bool io"

definition is_exception :: "exn \<Rightarrow> bool" where
  "is_exception e \<longleftrightarrow> instance_of e C_Exception"

text \<open>After the operation returned a value.\<close>

definition after_send ::
  "env \<Rightarrow> uuid \<Rightarrow> actor \<Rightarrow> 'v verifier option \<Rightarrow> string \<Rightarrow> 'v \<Rightarrow> 'v mutation_outcome option io" where
  "after_send env a who verify api v =
     try_verify env who (game_bootstrap env api) is_game_error (\<lambda>_.
       case verify of
         None \<Rightarrow> succeed_mutation env a who False (Some v)
       | Some check_it \<Rightarrow> try_verify env who (check_it api (Some v)) is_exception (\<lambda>ok.
           if ok then succeed_mutation env a who False (Some v) else raise ReconciliationRequired))"

text \<open>After the operation raised, by the class of the exception; \<open>again\<close> is the next round of the
  loop, if there is one.\<close>

definition after_error ::
  "env \<Rightarrow> uuid \<Rightarrow> actor \<Rightarrow> 'v verifier option \<Rightarrow> string \<Rightarrow> 'v mutation_outcome option io option \<Rightarrow>
   exn \<Rightarrow> 'v mutation_outcome option io" where
  "after_error env a who verify api again e =
     (if e = CancelledError then cancel_mutation env who
      else if is_conflict e then
        (case again of
           None \<Rightarrow> raise e
         | Some next_round \<Rightarrow> andthen (game_bootstrap env api) next_round)
      else if is_ambiguous e then
        (case verify of
           None \<Rightarrow> raise ReconciliationRequired
         | Some check_it \<Rightarrow>
             try_verify env who (andthen (game_bootstrap env api) (check_it api None)) is_exception (\<lambda>ok.
               if ok then succeed_mutation env a who True None else raise ReconciliationRequired))
      else if e = SessionRejected then
        andthen (finish_if_validated env ''failed'' [(''status'', JStr ''rejected'')])
          (raise AuthenticationRequired)
      else raise e)"

definition check_plan :: "env \<Rightarrow> uuid \<Rightarrow> uuid \<Rightarrow> int \<Rightarrow> unit io" where
  "check_plan env p a version = bnd (asks (\<lambda>w. get_plan p (w_db w))) (\<lambda>plan.
     case plan of
       None \<Rightarrow> raise PlanPreconditionFailed
     | Some row \<Rightarrow>
         if plan_account_id row \<noteq> a then raise PlanPreconditionFailed
         else bnd (clock env) (\<lambda>now.
           check (now < plan_expires_at row \<and>
             plan_execution_state row \<in> set [''pending'', ''confirmed''] \<and>
             (plan_confirmation_required row \<longrightarrow> plan_confirmed_at row \<noteq> None) \<and>
             plan_policy_version row = version) PlanPreconditionFailed))"

text \<open>The part of a round that involves the plan.\<close>

definition check_round ::
  "env \<Rightarrow> uuid \<Rightarrow> uuid option \<Rightarrow> (string \<Rightarrow> string io) option \<Rightarrow> string \<Rightarrow> int \<Rightarrow> unit io" where
  "check_round env a plan fingerprint api version =
     (case plan of
        None \<Rightarrow> ret ()
      | Some p \<Rightarrow>
          bnd (asks (\<lambda>w. get_plan p (w_db w))) (\<lambda>candidate.
          case candidate of
            None \<Rightarrow> raise PlanPreconditionFailed
          | Some row \<Rightarrow>
              if plan_account_id row \<noteq> a then raise PlanPreconditionFailed
              else andthen (set_locals (\<lambda>l. l\<lparr>validated_plan_id := Some p\<rparr>)) (
                andthen (check_plan env p a version) (
                case fingerprint of
                  None \<Rightarrow> raise PlanPreconditionFailed
                | Some resolve \<Rightarrow> bnd (resolve api) (\<lambda>f.
                    check (1 \<le> length f \<and> length f \<le> 128 \<and> f = plan_state_fingerprint row)
                      PlanPreconditionFailed)))))"

text \<open>A round of the loop; \<open>n\<close> counts the rounds after this one.\<close>

fun mutate_round ::
  "env \<Rightarrow> uuid \<Rightarrow> (string \<Rightarrow> 'v io) \<Rightarrow> actor \<Rightarrow> uuid option \<Rightarrow> (string \<Rightarrow> string io) option \<Rightarrow>
   'v verifier option \<Rightarrow> nat \<Rightarrow> 'v mutation_outcome option io" where
  "mutate_round env a operate who plan fingerprint verify n =
     andthen (set_locals (\<lambda>l. l\<lparr>send_started := False, validated_plan_id := None\<rparr>)) (
     bnd (require a) (\<lambda>r.
     andthen (set_locals (\<lambda>l. l\<lparr>validated_account_id := Some (ga_id r)\<rparr>)) (
     andthen (require_mutable r) (
     bnd (ensure_locked env a who) (\<lambda>res.
     case (sr_api res, sr_bootstrap_account_id res) of
       (Some api, Some boot_id) \<Rightarrow>
         andthen (save_snapshot env a res True) (
         bnd (policy_provider env a) (\<lambda>policy.
         andthen (check_round env a plan fingerprint api (policy_version policy)) (
         andthen (set_locals (\<lambda>l. l\<lparr>send_started := True\<rparr>)) (
         try_else (operate api) (\<lambda>_. True)
           (after_error env a who verify api
             (case n of 0 \<Rightarrow> None
              | Suc n' \<Rightarrow> Some (mutate_round env a operate who plan fingerprint verify n')))
           (after_send env a who verify api)))))
     | _ \<Rightarrow> raise AuthenticationRequired)))))"

definition plan_failed :: "exn \<Rightarrow> bool" where
  "plan_failed e \<longleftrightarrow> e = PlanPreconditionFailed \<or> is_conflict e"

text \<open>The outer \<open>except Exception\<close>: what is raised later, and what becomes of the plan.\<close>

definition fail_mutation :: "env \<Rightarrow> actor \<Rightarrow> exn \<Rightarrow> exn io" where
  "fail_mutation env who e =
     (let pending = (if is_account_error e \<or> is_game_error e then e else ReconciliationRequired) in
      bnd (asks w_locals) (\<lambda>locals.
      andthen (case validated_plan_id locals of
          None \<Rightarrow> ret ()
        | Some p \<Rightarrow>
            if plan_failed e \<or> send_started locals then
              bnd (asks (\<lambda>w. get_plan p (w_db w))) (\<lambda>candidate.
              if (case candidate of None \<Rightarrow> True
                  | Some row \<Rightarrow> plan_execution_state row \<notin> set terminal_states) then
                (if plan_failed e then finish_plan env p ''failed''
                   [(''status'', JStr ''failed''), (''error'', JStr (error_name pending))]
                 else finish_plan env p ''reconciliation_required'' [(''status'', JStr ''ambiguous'')])
              else ret ())
            else ret ()) (
      andthen (audit_mutation who (validated_account_id locals)
        (Some (JObj [(''status'', JStr ''failed''), (''error'', JStr (error_name pending))])))
      (ret pending))))"

definition initial_locals :: mutate_locals where
  "initial_locals = \<lparr>send_started = False, validated_plan_id = None, validated_account_id = None\<rparr>"

datatype 'v settled = Settled "'v mutation_outcome" | Cancelled | Pending_error exn

definition mutate ::
  "env \<Rightarrow> uuid \<Rightarrow> (string \<Rightarrow> 'v io) \<Rightarrow> actor \<Rightarrow> uuid option \<Rightarrow> (string \<Rightarrow> string io) option \<Rightarrow>
   'v verifier option \<Rightarrow> 'v mutation_outcome io" where
  "mutate env a operate who plan fingerprint verify =
     andthen (set_locals (\<lambda>_. initial_locals)) (
     bnd (transaction (
       handle (bnd (mutate_round env a operate who plan fingerprint verify 2)
           (\<lambda>v. ret (case v of None \<Rightarrow> Cancelled | Some m \<Rightarrow> Settled m)))
         is_exception
         (\<lambda>e. bnd (fail_mutation env who e) (\<lambda>pending. ret (Pending_error pending)))))
     (\<lambda>outcome. case outcome of
        Settled m \<Rightarrow> ret m
      | Cancelled \<Rightarrow> raise CancelledError
      | Pending_error e \<Rightarrow> raise e))"

end
