(* ===== verification/Idle.thy ===== *)
theory Idle
  imports Accounts
begin

text \<open>
  Collecting idle rewards (\<open>application/idle.py\<close>): the decision and its plan, the store of
  previews, the claim that lets one executor own a plan for two minutes, and the two use cases.
  They run over the \<open>world\<close> of the account service, whose lock they take; every transaction here
  is one of the source's. The advisory lock of \<open>IdleExecutionGuard\<close> is held by somebody else or
  not, an argument of \<open>execute\<close>.
\<close>

section \<open>Identifiers\<close>

definition identifier_ok :: "string \<Rightarrow> bool" where
  "identifier_ok s \<longleftrightarrow> 1 \<le> length s \<and> length s \<le> 128 \<and>
     list_all (\<lambda>c. is_ascii_alnum c \<or> c \<in> set ''_.:@-'') s"

definition require_identifier :: "string \<Rightarrow> unit io" where
  "require_identifier s = check (identifier_ok s) ValueErr"

text \<open>The value and the source of the actor in the audit log.\<close>

definition audit_actor :: "actor \<Rightarrow> (string \<times> string) io" where
  "audit_actor who =
     andthen (require_identifier (actor_kind who)) (
     andthen (require_identifier (actor_id who)) (
     let value = actor_kind who @ '':'' @ actor_id who in
     if 128 < length value then raise ValueErr else ret (value, actor_kind who)))"

text \<open>\<open>uuid4().hex\<close>.\<close>

definition uuid_hex :: "uuid \<Rightarrow> string" where
  "uuid_hex u = hex_digits 32 (unat u)"

text \<open>
  \<open>UUID(text)\<close>: the prefixes, braces and hyphens go, 32 hexadecimal digits remain. (Python's
  \<open>int(text, 16)\<close> would also read a sign, an underscore or white space among them.)
\<close>

fun remove_part :: "string \<Rightarrow> string \<Rightarrow> string" where
  "remove_part p [] = []"
| "remove_part p (c # cs) =
     (if p \<noteq> [] \<and> starts_with p (c # cs) then remove_part p (drop (length p) (c # cs))
      else c # remove_part p cs)"

definition is_hex :: "char \<Rightarrow> bool" where
  "is_hex c \<longleftrightarrow> is_digit c \<or> lower_char c \<in> set ''abcdef''"

definition strip_braces :: "string \<Rightarrow> string" where
  "strip_braces s = (let outer = (\<lambda>c. c \<in> set ''{}'') in
     rev (dropWhile outer (rev (dropWhile outer s))))"

definition uuid_of_text :: "string \<Rightarrow> uuid option" where
  "uuid_of_text s =
     (let h = filter (\<lambda>c. c \<noteq> CHR ''-'')
        (strip_braces (remove_part ''uuid:'' (remove_part ''urn:'' s))) in
      if length h = 32 \<and> list_all is_hex h
      then Some (word_of_nat (foldl (\<lambda>n c. 16 * n + hexval (lower_char c)) 0 h)) else None)"

section \<open>The decision\<close>

definition idle_threshold :: "'p account_policy_scheme \<Rightarrow> idle_summary \<Rightarrow> int" where
  "idle_threshold policy idle =
     (let configured = idle_threshold_minutes policy * 60 in
      case capacity_seconds idle of None \<Rightarrow> configured | Some c \<Rightarrow> min configured c)"

datatype idle_decision = Idle_collect | Idle_wait

fun idle_decision_str :: "idle_decision \<Rightarrow> string" where
  "idle_decision_str Idle_collect = ''collect''"
| "idle_decision_str Idle_wait = ''wait''"

definition idle_decision :: "idle_summary \<Rightarrow> 'p account_policy_scheme \<Rightarrow> idle_decision" where
  "idle_decision idle policy =
     (if idle_threshold policy idle \<le> accumulated_seconds idle then Idle_collect else Idle_wait)"

definition capacity_json :: "idle_summary \<Rightarrow> json" where
  "capacity_json idle = (case capacity_seconds idle of None \<Rightarrow> JNull | Some c \<Rightarrow> JInt c)"

definition idle_fingerprint ::
  "(bytes \<Rightarrow> string) \<Rightarrow> idle_summary \<Rightarrow> 'p account_policy_scheme \<Rightarrow> (exn, string) result" where
  "idle_fingerprint sha idle policy = canonical_fingerprint sha ''idle''
     (JObj [(''capacitySeconds'', capacity_json idle),
       (''eligible'', JBool (idle_decision idle policy = Idle_collect))]) []"

definition idle_draft ::
  "(bytes \<Rightarrow> string) \<Rightarrow> uuid \<Rightarrow> idle_summary \<Rightarrow> versioned_policy \<Rightarrow> instant \<Rightarrow>
   (exn, action_plan_draft option) result" where
  "idle_draft sha account idle policy now =
     (if idle_decision idle policy \<noteq> Idle_collect then Inr None
      else rbind (idle_fingerprint sha idle policy) (\<lambda>f.
        let draft = \<lparr>pd_account_id = account, pd_state_fingerprint = f,
              pd_policy_version = policy_version policy,
              pd_decisions = [SelectedDecision Fam_idle ''idle_threshold_reached'' IdleCollectAction],
              pd_estimated_costs = no_costs, pd_risk = ''low'', pd_expires_at = now + minutes 5,
              pd_confirmation_required = False, draft_family = Fam_idle\<rparr> in
        if draft_valid draft then Inr (Some draft) else Inl ValueErr))"

section \<open>Previews\<close>

definition preview_account ::
  "action_plan_draft option \<Rightarrow> (string \<times> json) list \<Rightarrow> (exn, uuid) result" where
  "preview_account draft preview =
     (case draft of
        Some p \<Rightarrow> Inr (pd_account_id p)
      | None \<Rightarrow> (case dict_get preview ''accountId'' of
          Some (JStr s) \<Rightarrow> (case uuid_of_text s of Some a \<Rightarrow> Inr a | None \<Rightarrow> Inl ValueErr)
        | _ \<Rightarrow> Inl ValueErr))"

text \<open>\<open>session.add(row)\<close> and the flush, which fails on a used key.\<close>

definition add_plan :: "env \<Rightarrow> action_plan_draft \<Rightarrow> uuid io" where
  "add_plan env draft = bnd (fresh_id env) (\<lambda>i.
     bnd (asks (\<lambda>w. get_plan i (w_db w))) (\<lambda>used.
     andthen (check (used = None) OtherException) (
     andthen (on_db (insert_plan (draft_row i draft))) (ret i))))"

definition preview_save ::
  "env \<Rightarrow> action_plan_draft option \<Rightarrow> actor \<Rightarrow> string \<Rightarrow> (string \<times> json) list \<Rightarrow> uuid option io" where
  "preview_save env draft who corr preview =
     andthen (require_identifier corr) (
     bnd (audit_actor who) (\<lambda>(value, source).
     transaction (
       bnd (case draft of None \<Rightarrow> ret None | Some p \<Rightarrow> bnd (add_plan env p) (\<lambda>i. ret (Some i))) (\<lambda>plan.
       bnd (lift_result (preview_account draft preview)) (\<lambda>account.
       andthen (on_db (add_audit value source (Some account) plan ''idle.preview''
         (Some (redact (JObj preview))) None None (Some corr)))
       (ret plan))))))"

record idle_preview =
  ip_account_id :: uuid
  ip_plan_id :: "uuid option"
  ip_decision :: idle_decision
  ip_accumulated_seconds :: int
  ip_capacity_seconds :: "int option"
  ip_threshold_seconds :: int
  ip_expires_at :: "instant option"
  ip_reason :: string
  ip_correlation_id :: string

definition idle_preview_valid :: "idle_preview \<Rightarrow> bool" where
  "idle_preview_valid p \<longleftrightarrow> 0 \<le> ip_accumulated_seconds p \<and>
     (case ip_capacity_seconds p of None \<Rightarrow> True | Some c \<Rightarrow> 0 < c) \<and> 0 < ip_threshold_seconds p"

definition idle_reason :: "idle_decision \<Rightarrow> string" where
  "idle_reason d = (if d = Idle_collect then ''idle_threshold_reached'' else ''idle_threshold_not_reached'')"

definition preview_payload ::
  "uuid \<Rightarrow> idle_summary \<Rightarrow> 'p account_policy_scheme \<Rightarrow> (string \<times> json) list" where
  "preview_payload account idle policy =
     [(''decision'', JStr (idle_decision_str (idle_decision idle policy))),
      (''accumulatedSeconds'', JInt (accumulated_seconds idle)),
      (''capacitySeconds'', capacity_json idle),
      (''thresholdSeconds'', JInt (idle_threshold policy idle)),
      (''reason'', JStr (idle_reason (idle_decision idle policy))),
      (''accountId'', JStr (uuid_str account))]"

text \<open>What runs under the account lock, and the whole preview.\<close>

definition preview_body ::
  "env \<Rightarrow> uuid \<Rightarrow> locked_account \<Rightarrow> (idle_summary \<times> versioned_policy \<times> action_plan_draft option) io" where
  "preview_body env account l =
     bnd (game_idle_summary env (la_api l)) (\<lambda>idle.
     bnd (clock env) (\<lambda>now.
     bnd (lift_result (idle_draft (env_sha env) account idle (la_policy l) now)) (\<lambda>draft.
     ret (idle, la_policy l, draft))))"

definition idle_plan_preview :: "env \<Rightarrow> uuid \<Rightarrow> actor \<Rightarrow> string \<Rightarrow> idle_preview io" where
  "idle_plan_preview env account who corr =
     andthen (require_identifier corr) (
     bnd (locked env account who (preview_body env account)) (\<lambda>(idle, policy, draft).
     bnd (preview_save env draft who corr (preview_payload account idle policy)) (\<lambda>plan.
     let p = \<lparr>ip_account_id = account, ip_plan_id = plan,
           ip_decision = idle_decision idle policy,
           ip_accumulated_seconds = accumulated_seconds idle,
           ip_capacity_seconds = capacity_seconds idle,
           ip_threshold_seconds = idle_threshold policy idle,
           ip_expires_at = map_option pd_expires_at draft,
           ip_reason = idle_reason (idle_decision idle policy), ip_correlation_id = corr\<rparr> in
     if idle_preview_valid p then ret p else raise ValueErr)))"

section \<open>Claims\<close>

record execution_claim =
  claim_owner :: string
  claim_plan :: action_plan
  claim_recovery :: bool

definition execution_lease :: int where
  "execution_lease = minutes 2"

definition claims_idle_collect :: "json \<Rightarrow> bool" where
  "claims_idle_collect v =
     (case v of
        JObj kvs \<Rightarrow>
          dict_get kvs ''family'' = Some (JStr ''idle'') \<and>
          dict_get kvs ''state'' = Some (JStr ''selected'') \<and>
          (case dict_get kvs ''action'' of
             Some (JObj act) \<Rightarrow> dict_eq act [(''family'', JStr ''idle''), (''kind'', JStr ''idle_collect'')]
           | _ \<Rightarrow> False)
      | _ \<Rightarrow> False)"

text \<open>
  \<open>_validate_fresh\<close> reads \<open>proposed_actions\<close> as a list of one decision. Indexing an object of one
  entry is the one error it does not turn into \<open>PlanPreconditionFailed\<close> (a \<open>KeyError\<close>).
\<close>

definition validate_fresh :: "action_plan \<Rightarrow> instant \<Rightarrow> (exn, unit) result" where
  "validate_fresh plan now =
     (if plan_execution_state plan \<notin> set [''pending'', ''confirmed''] \<or> plan_expires_at plan \<le> now
      then Inl PlanPreconditionFailed
      else if plan_risk plan \<noteq> ''low'' \<or> plan_confirmation_required plan then Inl PlanPreconditionFailed
      else case plan_proposed_actions plan of
        JArr [v] \<Rightarrow> if claims_idle_collect v then Inr () else Inl PlanPreconditionFailed
      | JObj [kv] \<Rightarrow> Inl OtherException
      | _ \<Rightarrow> Inl PlanPreconditionFailed)"

definition audit_claim ::
  "string \<Rightarrow> string \<Rightarrow> uuid \<Rightarrow> uuid \<Rightarrow> string \<Rightarrow> string \<Rightarrow> unit io" where
  "audit_claim value source account p corr st =
     on_db (add_audit value source (Some account) (Some p) ''idle.execute.claim''
       (Some (JObj [(''status'', JStr st)])) None None (Some corr))"

definition lease_row :: "string \<Rightarrow> instant \<Rightarrow> action_plan \<Rightarrow> action_plan" where
  "lease_row owner now row = row\<lparr>plan_execution_owner := Some owner,
     plan_execution_started_at := Some now,
     plan_execution_lease_expires_at := Some (now + execution_lease)\<rparr>"

definition claimed_row :: "string \<Rightarrow> instant \<Rightarrow> action_plan \<Rightarrow> action_plan" where
  "claimed_row owner now row = lease_row owner now (row\<lparr>plan_execution_state := ''executing'',
     plan_execution_attempt_count := plan_execution_attempt_count row + 1\<rparr>)"

definition lease_live :: "instant \<Rightarrow> action_plan \<Rightarrow> bool" where
  "lease_live now row \<longleftrightarrow>
     (case plan_execution_lease_expires_at row of None \<Rightarrow> False | Some x \<Rightarrow> now < x)"

definition account_plan :: "uuid \<Rightarrow> uuid \<Rightarrow> database \<Rightarrow> action_plan option" where
  "account_plan p account d =
     (case get_plan p d of
        None \<Rightarrow> None | Some row \<Rightarrow> if plan_account_id row = account then Some row else None)"

text \<open>The part of a claim that decides and writes the row.\<close>

definition claim_plan_row ::
  "instant \<Rightarrow> string \<Rightarrow> uuid \<Rightarrow> uuid \<Rightarrow> bool \<Rightarrow> database \<Rightarrow>
   (exn, execution_claim \<times> database) result" where
  "claim_plan_row now owner account p recovery d =
     (case account_plan p account d of
        None \<Rightarrow> Inl PlanPreconditionFailed
      | Some row \<Rightarrow>
          if plan_execution_state row = ''executing'' then
            (if lease_live now row then Inl PlanInProgress
             else if \<not> recovery then Inl PlanInProgress
             else let row' = lease_row owner now row in
               Inr (\<lparr>claim_owner = owner, claim_plan = row', claim_recovery = True\<rparr>, put_plan row' d))
          else rbind (validate_fresh row now) (\<lambda>_.
            let row' = claimed_row owner now row in
            Inr (\<lparr>claim_owner = owner, claim_plan = row', claim_recovery = False\<rparr>, put_plan row' d)))"

definition step_db :: "(database \<Rightarrow> (exn, 'a \<times> database) result) \<Rightarrow> 'a io" where
  "step_db f = (\<lambda>w. case f (w_db w) of
     Inl e \<Rightarrow> (Inl e, w) | Inr (x, d) \<Rightarrow> (Inr x, w\<lparr>w_db := d\<rparr>))"

definition claim ::
  "env \<Rightarrow> uuid \<Rightarrow> uuid \<Rightarrow> actor \<Rightarrow> string \<Rightarrow> bool \<Rightarrow> execution_claim io" where
  "claim env account p who corr recovery =
     andthen (require_identifier corr) (
     bnd (fresh_id env) (\<lambda>i.
     let owner = uuid_hex i in
     bnd (clock env) (\<lambda>now.
     bnd (audit_actor who) (\<lambda>(value, source).
     transaction (
       bnd (step_db (claim_plan_row now owner account p recovery)) (\<lambda>c.
       andthen (audit_claim value source account p corr
         (if claim_recovery c then ''recovery'' else ''claimed''))
       (ret c)))))))"

definition owned :: "uuid \<Rightarrow> uuid \<Rightarrow> string \<Rightarrow> bool io" where
  "owned account p owner = asks (\<lambda>w. case account_plan p account (w_db w) of
     None \<Rightarrow> False
   | Some row \<Rightarrow> plan_execution_state row = ''executing'' \<and> plan_execution_owner row = Some owner)"

definition owned_row :: "execution_claim \<Rightarrow> database \<Rightarrow> (exn, action_plan) result" where
  "owned_row c d =
     (case get_plan (plan_id (claim_plan c)) d of
        None \<Rightarrow> Inl PlanPreconditionFailed
      | Some row \<Rightarrow>
          if plan_execution_state row \<noteq> ''executing'' \<or> plan_execution_owner row \<noteq> Some (claim_owner c)
          then Inl PlanPreconditionFailed else Inr row)"

definition settled_row :: "instant \<Rightarrow> string \<Rightarrow> (string \<times> json) list \<Rightarrow> action_plan \<Rightarrow> action_plan" where
  "settled_row now st res row = row\<lparr>plan_execution_state := st,
     plan_execution_result := Some (redact (JObj res)), plan_executed_at := Some now\<rparr>"

definition claim_finish ::
  "env \<Rightarrow> execution_claim \<Rightarrow> string \<Rightarrow> actor \<Rightarrow> string \<Rightarrow> (string \<times> json) list \<Rightarrow> unit io" where
  "claim_finish env c st who corr res =
     bnd (audit_actor who) (\<lambda>(value, source).
     transaction (
       bnd (asks (\<lambda>w. owned_row c (w_db w))) (\<lambda>found.
       bnd (lift_result found) (\<lambda>row.
       bnd (clock env) (\<lambda>now.
       andthen (on_db (put_plan (settled_row now st res row))) (
       on_db (add_audit value source (Some (plan_account_id row)) (Some (plan_id row))
         ''idle.execute.finish'' (Some (redact (JObj res))) None None (Some corr))))))))"

section \<open>Execution\<close>

datatype idle_outcome = Precondition_failed | Reconciliation | Reconciled | Collected

record idle_execution =
  ie_account_id :: uuid
  ie_plan_id :: uuid
  ie_status :: string
  ie_applied :: bool
  ie_reconciled :: bool
  ie_collected :: bool
  ie_correlation_id :: string

definition execution_result ::
  "uuid \<Rightarrow> execution_claim \<Rightarrow> string \<Rightarrow> string \<Rightarrow> bool \<Rightarrow> bool \<Rightarrow> idle_execution" where
  "execution_result account c corr st applied reconciled =
     \<lparr>ie_account_id = account, ie_plan_id = plan_id (claim_plan c), ie_status = st,
      ie_applied = applied, ie_reconciled = reconciled, ie_collected = True, ie_correlation_id = corr\<rparr>"

definition executed_payload :: "bool \<Rightarrow> (string \<times> json) list" where
  "executed_payload reconciled =
     [(''status'', JStr ''executed''), (''reconciled'', JBool reconciled), (''collected'', JBool True)]"

definition require_reconciliation ::
  "env \<Rightarrow> execution_claim \<Rightarrow> actor \<Rightarrow> string \<Rightarrow> idle_execution io" where
  "require_reconciliation env c who corr =
     andthen (claim_finish env c ''reconciliation_required'' who corr
       [(''status'', JStr ''reconciliation_required'')])
     (raise IdleReconciliationRequired)"

text \<open>After a failed request: was the reward collected after all?\<close>

definition prove_collected ::
  "env \<Rightarrow> locked_account \<Rightarrow> execution_claim \<Rightarrow> idle_outcome io" where
  "prove_collected env l c =
     try_else (game_idle_summary env (la_api l)) is_exception
       (\<lambda>_. ret Reconciliation)
       (\<lambda>current. ret (if policy_version (la_policy l) = plan_policy_version (claim_plan c) \<and>
            idle_decision current (la_policy l) = Idle_wait then Reconciled else Reconciliation))"

text \<open>The precondition: the claim still stands, and the game and the policy are as previewed.\<close>

definition still_valid ::
  "env \<Rightarrow> uuid \<Rightarrow> execution_claim \<Rightarrow> locked_account \<Rightarrow> idle_summary \<Rightarrow> bool io" where
  "still_valid env account c l before =
     bnd (owned account (plan_id (claim_plan c)) (claim_owner c)) (\<lambda>mine.
     if \<not> mine \<or> policy_version (la_policy l) \<noteq> plan_policy_version (claim_plan c) then ret False
     else bnd (lift_result (idle_fingerprint (env_sha env) before (la_policy l))) (\<lambda>f.
       ret (f = plan_state_fingerprint (claim_plan c))))"

definition send_body ::
  "env \<Rightarrow> uuid \<Rightarrow> execution_claim \<Rightarrow> locked_account \<Rightarrow> idle_outcome io" where
  "send_body env account c l =
     bnd (game_idle_summary env (la_api l)) (\<lambda>before.
     bnd (still_valid env account c l before) (\<lambda>ok.
     if \<not> ok then ret Precondition_failed
     else try_else
       (bnd (game_idle_collect env (la_api l)) (\<lambda>response.
        bnd (game_idle_summary env (la_api l)) (\<lambda>later. ret (response, later)))) is_exception
       (\<lambda>_. prove_collected env l c)
       (\<lambda>(response, later). ret
          (if \<not> collected response \<or> accumulated_seconds before \<le> accumulated_seconds later
           then Reconciliation else Collected))))"

definition settle_sent ::
  "env \<Rightarrow> uuid \<Rightarrow> execution_claim \<Rightarrow> actor \<Rightarrow> string \<Rightarrow> idle_outcome \<Rightarrow> idle_execution io" where
  "settle_sent env account c who corr outcome =
     (case outcome of
        Precondition_failed \<Rightarrow>
          andthen (claim_finish env c ''failed'' who corr [(''status'', JStr ''precondition_failed'')])
            (raise PlanPreconditionFailed)
      | Reconciliation \<Rightarrow> require_reconciliation env c who corr
      | Reconciled \<Rightarrow>
          andthen (claim_finish env c ''executed'' who corr (executed_payload True))
            (ret (execution_result account c corr ''reconciled'' True True))
      | Collected \<Rightarrow>
          andthen (claim_finish env c ''executed'' who corr (executed_payload False))
            (ret (execution_result account c corr ''executed'' True False)))"

definition idle_send_once ::
  "env \<Rightarrow> uuid \<Rightarrow> execution_claim \<Rightarrow> actor \<Rightarrow> string \<Rightarrow> idle_execution io" where
  "idle_send_once env account c who corr =
     bnd (locked env account who (send_body env account c)) (settle_sent env account c who corr)"

definition recover_body ::
  "env \<Rightarrow> execution_claim \<Rightarrow> locked_account \<Rightarrow> bool io" where
  "recover_body env c l = bnd (game_idle_summary env (la_api l)) (\<lambda>current.
     ret (policy_version (la_policy l) = plan_policy_version (claim_plan c) \<and>
       idle_decision current (la_policy l) = Idle_wait))"

definition recover ::
  "env \<Rightarrow> uuid \<Rightarrow> execution_claim \<Rightarrow> actor \<Rightarrow> string \<Rightarrow> idle_execution io" where
  "recover env account c who corr =
     bnd (locked env account who (recover_body env c)) (\<lambda>proven.
     if \<not> proven then require_reconciliation env c who corr
     else andthen (claim_finish env c ''executed'' who corr (executed_payload True))
       (ret (execution_result account c corr ''reconciled'' False True)))"

definition idle_execute ::
  "env \<Rightarrow> bool \<Rightarrow> uuid \<Rightarrow> uuid \<Rightarrow> actor \<Rightarrow> string \<Rightarrow> bool \<Rightarrow> idle_execution io" where
  "idle_execute env busy account p who corr recovery =
     andthen (require_identifier corr) (
     andthen (check (\<not> busy) PlanInProgress) (
     bnd (claim env account p who corr recovery) (\<lambda>c.
     if claim_recovery c then recover env account c who corr
     else idle_send_once env account c who corr)))"

end
