(* ===== verification/Engine.thy ===== *)
theory Engine
  imports Rewards Boss_Optimizer Idle
begin

text \<open>
  The policy engine (\<open>policy/engine.py\<close>): for each family of actions one plan, from one reading of
  the game's state and the account's policy. A builder is a program over the preview requests it
  made (as in the boss optimizer); the answers of the readers are the record \<open>readings\<close>. Two
  parameters stand for what is not in the source: the offset of the zone Asia/Shanghai from UTC at
  an instant (the time zone database), and the decimal digits of a float (\<open>Decimal(str(value))\<close>) as
  a coefficient and an exponent of ten.
\<close>

section \<open>Local time\<close>

type_synonym zone = "instant \<Rightarrow> int" \<comment> \<open>UTC offset\<close>

definition day_minute :: "zone \<Rightarrow> instant \<Rightarrow> int" where
  "day_minute tz now = ((now + tz now) div minutes 1) mod 1440"

definition local_hour :: "zone \<Rightarrow> instant \<Rightarrow> int" where
  "local_hour tz now = day_minute tz now div 60"

definition local_minute :: "zone \<Rightarrow> instant \<Rightarrow> int" where
  "local_minute tz now = day_minute tz now mod 60"

definition world_window :: "zone \<Rightarrow> instant \<Rightarrow> bool" where
  "world_window tz now =
     (let t = (local_hour tz now, local_minute tz now) in
      (10, 0) \<le> t \<and> t < (11, 0) \<or> (16, 0) \<le> t \<and> t < (17, 0) \<or> (20, 0) \<le> t \<and> t < (21, 0))"

section \<open>Projections\<close>

type_synonym decimals = "rat \<Rightarrow> nat \<times> int"

text \<open>\<open>format(d.normalize(), "f")\<close> of a number that is not negative: no trailing zeros, no exponent.\<close>

fun strip_zeros :: "nat \<Rightarrow> int \<Rightarrow> nat \<times> int" where
  "strip_zeros c e = (if 0 < c \<and> c mod 10 = 0 then strip_zeros (c div 10) (e + 1) else (c, e))"

declare strip_zeros.simps [simp del]

definition decimal_text :: "decimals \<Rightarrow> rat \<Rightarrow> string" where
  "decimal_text dec value =
     (let (c, e) = (case dec value of (c, e) \<Rightarrow> strip_zeros c e) in
      if c = 0 then ''0''
      else if 0 \<le> e then show_nat (c * 10 ^ nat e)
      else let n = nat (- e); ds = show_nat c;
             padded = replicate (Suc n - length ds) CHR ''0'' @ ds in
        take (length padded - n) padded @ ''.'' @ drop (length padded - n) padded)"

definition opt_int :: "int option \<Rightarrow> json" where
  "opt_int v = (case v of None \<Rightarrow> JNull | Some i \<Rightarrow> JInt i)"

definition opt_str :: "string option \<Rightarrow> json" where
  "opt_str v = (case v of None \<Rightarrow> JNull | Some s \<Rightarrow> JStr s)"

definition entry_json :: "boss_entry_state \<Rightarrow> json" where
  "entry_json e = JObj [(''key'', JStr (be_key e)), (''type'', JStr (be_type e)),
     (''requiredLevel'', JInt (be_required_level e)), (''attempts'', opt_int (be_attempts e)),
     (''blockedReason'', opt_str (be_blocked_reason e)), (''refreshKey'', opt_str (be_refresh_key e)),
     (''difficultyOptions'', JArr (map (\<lambda>d. JStr (difficulty_str d)) (be_difficulty_options e)))]"

definition slot_json :: "equipment_slot \<Rightarrow> json" where
  "slot_json s = JObj [(''key'', JStr (slot_key s)), (''score'', JInt (slot_score s)),
     (''eligible'', JBool (slot_eligible s))]"

definition affix_json :: "decimals \<Rightarrow> boss_affix \<Rightarrow> json" where
  "affix_json dec a = JObj [(''key'', JStr (affix_key a)),
     (''multiplier'', JStr (decimal_text dec (affix_multiplier a)))]"

definition preview_json :: "decimals \<Rightarrow> boss_preview \<Rightarrow> json" where
  "preview_json dec p = JObj [(''predictedWin'', JBool (predicted_win p)),
     (''chance'', JStr (decimal_text dec (chance p))),
     (''playerHpRemainingPercent'', JStr (decimal_text dec (player_hp_remaining_percent p))),
     (''bossHpRemainingPercent'', JStr (decimal_text dec (boss_hp_remaining_percent p)))]"

definition selection_json :: "decimals \<Rightarrow> boss_challenge \<Rightarrow> boss_preview \<Rightarrow> json" where
  "selection_json dec b p = JObj [(''bossKey'', JStr (bc_boss_key b)),
     (''difficulty'', JStr (difficulty_str (bc_difficulty b))),
     (''skills'', JArr (map JStr (bc_selected_skill_keys b))),
     (''buffKey'', JStr (buff_str (bc_buff_key b))), (''affixKey'', opt_str (bc_affix_key b)),
     (''targetSlot'', JStr (bc_target_slot b)), (''materialBoost'', JBool (bc_use_material_boost b)),
     (''preview'', preview_json dec p)]"

definition boss_projection :: "decimals \<Rightarrow> boss_state \<Rightarrow> boss_selection option \<Rightarrow> json" where
  "boss_projection dec st selection = JObj (
     [(''entries'', JArr (map entry_json (bs_entries st))),
      (''freeAttempts'', JInt (bs_free_attempts st)),
      (''materialBalance'', JInt (bs_material_balance st)),
      (''equipment'', JArr (map slot_json (bs_equipment st))),
      (''potion'', JObj [(''activeKey'', opt_str (potion_active_key (bs_potion st))),
         (''requiredKey'', opt_str (potion_required_key (bs_potion st)))]),
      (''affixes'', JArr (map (affix_json dec) (bs_affixes st)))] @
     (case selection of
        Some s \<Rightarrow> (case (sel_action s, sel_preview s) of
            (Some (BossChallengeAction b), Some p) \<Rightarrow> [(''selection'', selection_json dec b p)]
          | _ \<Rightarrow> [])
      | None \<Rightarrow> []))"

definition world_projection :: "world_boss_instance list \<Rightarrow> json" where
  "world_projection instances = JObj [(''instances'', JArr (map (\<lambda>i. JObj
     [(''key'', JStr (wb_key i)), (''lifecycle'', JStr (wb_lifecycle i)),
      (''active'', JBool (wb_active i)), (''alive'', JBool (wb_alive i)),
      (''myAttemptCount'', JInt (wb_my_attempt_count i)),
      (''remainingAttemptCount'', JInt (wb_remaining_attempt_count i))]) instances))]"

definition int_dict :: "(string \<times> int) list \<Rightarrow> json" where
  "int_dict kvs = JObj (map (\<lambda>(k, i). (k, JInt i)) kvs)"

definition profession_projection :: "profession_state \<Rightarrow> json" where
  "profession_projection st = JObj
     [(''selectedProfessionKey'', JStr (ps_selected_profession_key st)),
      (''queue'', JArr (map (\<lambda>q. JObj [(''key'', JStr (pq_action_key q)),
         (''remainingSeconds'', JInt (pq_remaining_seconds q))]) (ps_queue st))),
      (''unlockProgress'', JInt (ps_unlock_progress st)),
      (''recipes'', JArr (map (\<lambda>r. JObj [(''key'', JStr (recipe_key r)),
         (''durationSeconds'', JInt (recipe_duration_seconds r)),
         (''outputKey'', JStr (recipe_output_key r)), (''outputCount'', JInt (recipe_output_count r)),
         (''requiredInputs'', int_dict (recipe_required_inputs r)),
         (''unlockMilestone'', JBool (recipe_unlock_milestone r))]) (ps_recipes st))),
      (''balances'', int_dict (ps_balances st)), (''recipeVersion'', JStr (ps_recipe_version st))]"

definition idle_projection :: "idle_summary \<Rightarrow> json" where
  "idle_projection idle = JObj [(''accumulatedSeconds'', JInt (accumulated_seconds idle)),
     (''capacitySeconds'', capacity_json idle)]"

text \<open>The resolver built from a reading of the idle summary.\<close>

definition idle_resolver ::
  "(bytes \<Rightarrow> string) \<Rightarrow> (exn, idle_summary) result \<Rightarrow> (exn, string) result" where
  "idle_resolver sha reading = rbind reading (\<lambda>idle.
     canonical_fingerprint sha ''idle'' (idle_projection idle) [])"

section \<open>Plans\<close>

record readings =
  rd_idle :: "(exn, idle_summary) result"
  rd_boss :: "(exn, boss_state) result"
  rd_world :: "(exn, world_boss_instance list) result"
  rd_profession :: "(exn, profession_state) result"
  rd_rewards :: "(exn, reward_state) result"

text \<open>What a builder is given: SHA-256, the zone, the decimals, a fresh identifier, the locked account
  (its identifier and policy) and the game.\<close>

record engine =
  en_sha :: "bytes \<Rightarrow> string"
  en_zone :: zone
  en_decimals :: decimals
  en_new_id :: uuid
  en_account :: uuid
  en_policy :: versioned_policy
  en_readings :: readings
  en_previews :: preview_game

definition keyed_arrays :: "(string \<times> string) list" where
  "keyed_arrays = map (\<lambda>k. (k, ''key'')) [''entries'', ''equipment'', ''affixes'', ''instances'',
     ''queue'', ''recipes'']"

definition engine_plan ::
  "engine \<Rightarrow> family \<Rightarrow> decision list \<Rightarrow> json \<Rightarrow> instant \<Rightarrow> string \<Rightarrow> (exn, typed_action_plan) result" where
  "engine_plan en fam decisions projection now risk =
     build_plan (en_sha en) (en_new_id en) (en_account en) (policy_version (en_policy en)) fam decisions
       projection keyed_arrays risk now"

definition build_idle_plan :: "engine \<Rightarrow> instant \<Rightarrow> (exn, typed_action_plan) result" where
  "build_idle_plan en now = rbind (rd_idle (en_readings en)) (\<lambda>idle.
     let collect = (idle_decision idle (en_policy en) = Idle_collect) in
     engine_plan en Fam_idle
       [if collect then SelectedDecision Fam_idle ''idle_threshold_reached'' IdleCollectAction
        else SkippedDecision Fam_idle ''idle_threshold_not_reached'' None]
       (JObj [(''capacitySeconds'', capacity_json idle), (''eligible'', JBool collect)]) now ''low'')"

definition build_personal_boss_plan :: "engine \<Rightarrow> instant \<Rightarrow> typed_action_plan preview_io" where
  "build_personal_boss_plan en now = bnd (lift_result (rd_boss (en_readings en))) (\<lambda>st.
     if bs_free_attempts st = 0 \<and> \<not> personal_paid_attempts (en_policy en) then
       lift_result (engine_plan en Fam_personal_boss
         [BlockedDecision Fam_personal_boss ''personal_free_attempts_exhausted'' None]
         (boss_projection (en_decimals en) st None) now ''low'')
     else let personal = st\<lparr>bs_entries := filter (\<lambda>e. be_type e = ''personal'') (bs_entries st)\<rparr> in
       if bs_entries personal = [] then raise (GameSchemaMismatch ''view_sections'' (Some (200, None)))
       else bnd (optimize (en_previews en) personal (en_policy en)) (\<lambda>sel.
         lift_result (engine_plan en Fam_personal_boss [sel_decision sel]
           (boss_projection (en_decimals en) personal (Some sel)) now ''high'')))"

definition ordinary_candidates :: "boss_state \<Rightarrow> boss_entry_state list" where
  "ordinary_candidates st = filter (\<lambda>e. be_type e \<in> set [''map'', ''world''] \<and>
     (case be_attempts e of None \<Rightarrow> False | Some n \<Rightarrow> 0 < n) \<and> be_blocked_reason e = None) (bs_entries st)"

definition ordinary_decision :: "boss_selection \<Rightarrow> decision" where
  "ordinary_decision sel =
     (case sel_action sel of
        Some (BossChallengeAction b) \<Rightarrow> SelectedDecision Fam_ordinary_boss ''ordinary_boss_eligible''
          (BossChallengeAction (b\<lparr>bc_family := Fam_ordinary_boss\<rparr>))
      | _ \<Rightarrow> (case sel_decision sel of
          BlockedDecision f reason a \<Rightarrow> BlockedDecision Fam_ordinary_boss reason None
        | d \<Rightarrow> d))"

definition build_ordinary_boss_plan :: "engine \<Rightarrow> instant \<Rightarrow> typed_action_plan preview_io" where
  "build_ordinary_boss_plan en now = bnd (lift_result (rd_boss (en_readings en))) (\<lambda>st.
     let candidates = ordinary_candidates st in
     if candidates = [] then
       lift_result (engine_plan en Fam_ordinary_boss
         [SkippedDecision Fam_ordinary_boss ''no_ordinary_boss_available'' None]
         (boss_projection (en_decimals en) st None) now ''low'')
     else bnd (optimize (en_previews en) (st\<lparr>bs_entries := candidates\<rparr>) (en_policy en)) (\<lambda>sel.
       lift_result (engine_plan en Fam_ordinary_boss [ordinary_decision sel]
         (boss_projection (en_decimals en) (st\<lparr>bs_entries := candidates\<rparr>) (Some sel)) now ''high'')))"

definition world_open :: "'p account_policy_scheme \<Rightarrow> world_boss_instance \<Rightarrow> bool" where
  "world_open policy i \<longleftrightarrow> wb_active i \<and> wb_alive i \<and> wb_my_attempt_count i < world_attempts policy \<and>
     0 < wb_remaining_attempt_count i"

definition world_decision ::
  "zone \<Rightarrow> 'p account_policy_scheme \<Rightarrow> instant \<Rightarrow> world_boss_instance list \<Rightarrow> (exn, decision) result" where
  "world_decision tz policy now instances =
     (if \<not> world_collaboration_enabled policy then
        Inr (SkippedDecision Fam_world_boss ''world_collaboration_disabled'' None)
      else if \<not> world_window tz now then Inr (SkippedDecision Fam_world_boss ''world_window_closed'' None)
      else case find (world_open policy) (sort_key wb_key instances) of
        None \<Rightarrow> Inr (SkippedDecision Fam_world_boss ''world_attempts_unavailable'' None)
      | Some i \<Rightarrow>
          if wb_key i = [] then Inl ValueErr
          else Inr (SelectedDecision Fam_world_boss ''world_assist_eligible'' (BossAssistAction (wb_key i))))"

definition build_world_boss_plan :: "engine \<Rightarrow> instant \<Rightarrow> (exn, typed_action_plan) result" where
  "build_world_boss_plan en now = rbind (rd_world (en_readings en)) (\<lambda>instances.
     rbind (world_decision (en_zone en) (en_policy en) now instances) (\<lambda>d.
     engine_plan en Fam_world_boss [d] (world_projection instances) now ''medium''))"

definition balance :: "profession_state \<Rightarrow> string \<Rightarrow> int" where
  "balance st k = (case map_of (ps_balances st) k of None \<Rightarrow> 0 | Some i \<Rightarrow> i)"

definition recipe_priorities ::
  "profession_state \<Rightarrow> 'p account_policy_scheme \<Rightarrow> (profession_recipe \<Rightarrow> bool) list" where
  "recipe_priorities st policy =
     [recipe_unlock_milestone,
      (\<lambda>r. recipe_output_key r = ''food'' \<and> balance st ''food'' < profession_food_target policy),
      (\<lambda>r. starts_with ''potion'' (recipe_output_key r) \<and>
         balance st (recipe_output_key r) < profession_potion_target policy),
      (\<lambda>r. list_all (\<lambda>(k, amount). amount \<le> balance st k) (recipe_required_inputs r))]"

definition choose_recipe ::
  "profession_state \<Rightarrow> 'p account_policy_scheme \<Rightarrow> profession_recipe option" where
  "choose_recipe st policy =
     (case concat (map (\<lambda>p. filter p (sort_key recipe_key (ps_recipes st))) (recipe_priorities st policy)) of
        [] \<Rightarrow> None | r # _ \<Rightarrow> Some r)"

definition queued_seconds :: "profession_state \<Rightarrow> int" where
  "queued_seconds st = sum_list (map pq_remaining_seconds (ps_queue st))"

definition profession_action ::
  "profession_state \<Rightarrow> 'p account_policy_scheme \<Rightarrow> (exn, action option) result" where
  "profession_action st policy =
     (let capacity = 5 - int (length (ps_queue st)) in
      if 2 \<le> length (ps_queue st) \<and> 6 * 3600 \<le> queued_seconds st then Inr None
      else if capacity \<le> 0 then Inr None
      else case choose_recipe st policy of
        None \<Rightarrow> Inr None
      | Some r \<Rightarrow>
          let horizon = profession_horizon_hours policy * 3600;
              count = min capacity (max 1
                ((max 0 (horizon - queued_seconds st) + recipe_duration_seconds r - 1) div
                   recipe_duration_seconds r));
              act = ProfessionEnqueueAction (recipe_key r) count in
          if action_valid act then Inr (Some act) else Inl ValueErr)"

definition profession_decision ::
  "zone \<Rightarrow> 'p account_policy_scheme \<Rightarrow> instant \<Rightarrow> profession_state \<Rightarrow> (exn, decision) result" where
  "profession_decision tz policy now st =
     (if local_minute tz now mod 5 = 0 then
        Inr (SelectedDecision Fam_profession ''profession_maintenance_due'' ProfessionSettleAction)
      else rbind (profession_action st policy) (\<lambda>a. Inr (case a of
        Some act \<Rightarrow> SelectedDecision Fam_profession ''profession_queue_refill'' act
      | None \<Rightarrow> SkippedDecision Fam_profession ''profession_queue_sufficient'' None)))"

definition build_profession_plan :: "engine \<Rightarrow> instant \<Rightarrow> (exn, typed_action_plan) result" where
  "build_profession_plan en now = rbind (rd_profession (en_readings en)) (\<lambda>st.
     rbind (profession_decision (en_zone en) (en_policy en) now st) (\<lambda>d.
     engine_plan en Fam_profession [d] (profession_projection st) now ''low''))"

definition safe_reward_plan :: "engine \<Rightarrow> instant \<Rightarrow> (exn, typed_action_plan) result" where
  "safe_reward_plan en now = rbind (rd_rewards (en_readings en)) (\<lambda>st.
     reward_plan (en_sha en) (en_new_id en) (en_account en) st (en_policy en) now)"

section \<open>World bosses\<close>

lemma day_minute_range: "0 \<le> day_minute tz now" "day_minute tz now < 1440"
  by (simp_all add: day_minute_def)

lemma world_window_hours: "world_window tz now \<longleftrightarrow> local_hour tz now \<in> {10, 16, 20}"
proof -
  have "0 \<le> local_minute tz now" "local_minute tz now < 60" by (simp_all add: local_minute_def)
  then show ?thesis by (auto simp: world_window_def Let_def less_prod_def less_eq_prod_def)
qed

lemma find_sorted:
  "find P (sort_key k xs) = Some x \<Longrightarrow> x \<in> set xs \<and> P x \<and> (\<forall>y \<in> set xs. P y \<longrightarrow> k x \<le> k y)"
proof -
  have *: "find P ys = Some x \<Longrightarrow> sorted (map k ys) \<Longrightarrow> x \<in> set ys \<and> P x \<and> (\<forall>y \<in> set ys. P y \<longrightarrow> k x \<le> k y)" for ys
    by (induction ys) (auto split: if_splits)
  assume "find P (sort_key k xs) = Some x"
  from * [OF this] show ?thesis by simp
qed

lemma engine_plan_decisions:
  "engine_plan en fam ds projection now risk = Inr p \<Longrightarrow> pd_decisions p = ds \<and>
     pd_expires_at p = now + minutes 5 \<and> pd_policy_version p = policy_version (en_policy en)"
  by (auto simp: engine_plan_def build_plan_def result_simps Let_def split: if_splits)

text \<open>
  C32: a world boss is only assisted when the policy, the clock and the boss allow it. A plan of the
  engine that assists a boss was made with collaboration enabled and in the local hours from 10,
  16 or 20 o'clock; the boss is in the state that was read, active, alive, with attempts left of
  the policy's and of the game's; and no other such boss comes before it in the order of keys.
\<close>

theorem world_assist_only_when_open:
  assumes "build_world_boss_plan en now = Inr p" "SelectedDecision f r (BossAssistAction k) \<in> set (pd_decisions p)"
  shows "world_collaboration_enabled (en_policy en) \<and> local_hour (en_zone en) now \<in> {10, 16, 20} \<and>
    (\<exists>instances. rd_world (en_readings en) = Inr instances \<and> (\<exists>i \<in> set instances. wb_key i = k \<and>
       wb_active i \<and> wb_alive i \<and> wb_my_attempt_count i < world_attempts (en_policy en) \<and>
       0 < wb_remaining_attempt_count i \<and>
       (\<forall>j \<in> set instances. world_open (en_policy en) j \<longrightarrow> k \<le> wb_key j)))"
proof -
  obtain instances d where read: "rd_world (en_readings en) = Inr instances"
    and d: "world_decision (en_zone en) (en_policy en) now instances = Inr d" and "pd_decisions p = [d]"
    using assms(1) by (auto simp: build_world_boss_plan_def result_simps dest!: engine_plan_decisions)
  then have sel: "d = SelectedDecision f r (BossAssistAction k)" using assms(2) by simp
  with d obtain i where "find (world_open (en_policy en)) (sort_key wb_key instances) = Some i"
    "wb_key i = k" "world_collaboration_enabled (en_policy en)" "world_window (en_zone en) now"
    by (auto simp: world_decision_def split: if_splits option.splits)
  with read find_sorted [OF this(1)] show ?thesis by (auto simp: world_window_hours world_open_def)
qed

section \<open>Professions\<close>

lemma choose_recipe_in:
  assumes "choose_recipe st policy = Some r"
  shows "r \<in> set (ps_recipes st)"
proof -
  have hd: "(case xs of [] \<Rightarrow> None | x # _ \<Rightarrow> Some x) = Some r \<Longrightarrow> r \<in> set xs" for xs
    by (cases xs) auto
  from hd [OF assms [unfolded choose_recipe_def]] show ?thesis by auto
qed

text \<open>Rounding up: \<open>n\<close> times \<open>d\<close> seconds cover \<open>x\<close> and \<open>n - 1\<close> times do not.\<close>

lemma ceil_div:
  assumes "0 < (d :: int)" "0 \<le> x"
  shows "x \<le> (x + d - 1) div d * d" "((x + d - 1) div d - 1) * d < x \<or> x = 0"
proof -
  have m: "(x + d - 1) div d * d + (x + d - 1) mod d = x + d - 1" by simp
  have r: "0 \<le> (x + d - 1) mod d" "(x + d - 1) mod d < d" using assms(1) by simp_all
  show "x \<le> (x + d - 1) div d * d" using m r by linarith
  have "((x + d - 1) div d - 1) * d = (x + d - 1) div d * d - d" by (simp add: algebra_simps)
  then show "((x + d - 1) div d - 1) * d < x \<or> x = 0" using m r assms(2) by linarith
qed

text \<open>
  C33: a profession queue is refilled just enough. An enqueue action is for a recipe of the state; it
  never makes the queue longer than five; it adds at least one round, fills the policy's horizon
  or the queue, and adds no second round that the horizon does not need.
\<close>

theorem profession_refill_bounds:
  assumes "profession_action st policy = Inr (Some (ProfessionEnqueueAction k n))"
    and "\<forall>r \<in> set (ps_recipes st). 1 \<le> recipe_duration_seconds r"
  shows "\<exists>r \<in> set (ps_recipes st). recipe_key r = k \<and> 1 \<le> n \<and>
    int (length (ps_queue st)) + n \<le> 5 \<and>
    (int (length (ps_queue st)) + n = 5 \<or>
     profession_horizon_hours policy * 3600 \<le> queued_seconds st + n * recipe_duration_seconds r) \<and>
    (1 < n \<longrightarrow> queued_seconds st + (n - 1) * recipe_duration_seconds r < profession_horizon_hours policy * 3600)"
proof -
  let ?cap = "5 - int (length (ps_queue st))"
  let ?need = "max 0 (profession_horizon_hours policy * 3600 - queued_seconds st)"
  from assms(1) obtain r where r: "choose_recipe st policy = Some r" "recipe_key r = k"
    and cap: "0 < ?cap"
    and n: "n = min ?cap (max 1 ((?need + recipe_duration_seconds r - 1) div recipe_duration_seconds r))"
    by (auto simp: profession_action_def Let_def split: if_splits option.splits)
  note mem = choose_recipe_in [OF r(1)]
  let ?d = "recipe_duration_seconds r"
  let ?m = "(?need + ?d - 1) div ?d"
  have d: "0 < ?d" using assms(2) mem by auto
  note ceil = ceil_div [OF d, of ?need]
  have "1 \<le> n" "n \<le> ?cap" using n cap by auto
  moreover have "n = ?cap \<or> ?need \<le> n * ?d"
  proof (cases "n = ?cap")
    case False
    then have "?m \<le> n" using n by auto
    then have "?m * ?d \<le> n * ?d" using d by (intro mult_right_mono) auto
    with ceil(1) show ?thesis by auto
  qed simp
  moreover have "queued_seconds st + (n - 1) * ?d < profession_horizon_hours policy * 3600" if "1 < n"
  proof -
    have "n \<le> ?m" using n that by auto
    then have le: "(n - 1) * ?d \<le> (?m - 1) * ?d" using d by (intro mult_right_mono) auto
    have "?need \<noteq> 0"
    proof
      assume "?need = 0"
      then have "?m = (?d - 1) div ?d" by simp
      also have "\<dots> = 0" using d by simp
      finally show False using \<open>n \<le> ?m\<close> that by simp
    qed
    moreover have "0 \<le> ?need" by simp
    ultimately have "(?m - 1) * ?d < ?need" using ceil(2) by blast
    with le have "(n - 1) * ?d < ?need" by linarith
    moreover have "0 \<le> (n - 1) * ?d" using that d by simp
    ultimately show ?thesis by linarith
  qed
  ultimately show ?thesis using mem r(2) by (intro bexI [of _ r]) auto
qed


section \<open>Plans are always built\<close>

lemma engine_plan_total:
  assumes "sha_hex (en_sha en)" "1 \<le> policy_version (en_policy en)" "projectable keyed_arrays [] projection"
    and "risk \<in> set [''low'', ''medium'', ''high'']" "decision_valid d" "decision_family d = fam"
  shows "\<exists>p. engine_plan en fam [d] projection now risk = Inr p"
proof -
  obtain f where "canonical_fingerprint (en_sha en) (family_str fam) projection keyed_arrays = Inr f"
    using fingerprint_total [OF assms(3)] by blast
  from build_plan_total [OF assms(1) this assms(2) _ assms(4), of "[d]" "en_new_id en" "en_account en" now]
  show ?thesis using assms(5,6) by (auto simp: engine_plan_def)
qed

lemma projectable_opt [simp]:
  "projectable keyed path (opt_int v)" "projectable keyed path (capacity_json idle)"
  by (simp_all add: opt_int_def capacity_json_def split: option.split)

lemma int_dict_projectable [simp]: "projectable keyed path (int_dict kvs)"
  unfolding int_dict_def by (rule projectable_obj) auto

text \<open>The elements of the arrays the engine projects are objects that start with their key.\<close>

lemma projectable_keyed_elements:
  assumes "\<And>v. v \<in> set vs \<Longrightarrow> \<exists>s kvs. v = JObj ((''key'', JStr s) # kvs)"
    and "\<And>v. v \<in> set vs \<Longrightarrow> projectable keyed_arrays path v"
  shows "projectable keyed_arrays path (JArr vs)"
proof (rule projectable_arr)
  fix f v
  assume f: "array_field keyed_arrays path = Some f" and v: "v \<in> set vs"
  then have "f = ''key''" by (auto simp: array_field_def keyed_arrays_def split: if_splits)
  then show "key_field f v \<noteq> None" using assms(1) [OF v] by (auto simp: key_field_def)
qed (rule assms(2))

lemma world_projectable: "projectable keyed_arrays [] (world_projection instances)"
  unfolding world_projection_def
  by (auto intro!: projectable_obj projectable_keyed_elements)

lemma profession_projectable: "projectable keyed_arrays [] (profession_projection st)"
  unfolding profession_projection_def
  by (auto intro!: projectable_obj projectable_keyed_elements)

lemmas decision_checks = decision_valid_def reason_ok_def is_ascii_lower_def is_digit_def

lemma world_decision_total:
  assumes "\<forall>i \<in> set instances. wb_key i \<noteq> []"
  shows "\<exists>d. world_decision tz policy now instances = Inr d \<and> decision_valid d \<and>
    decision_family d = Fam_world_boss"
proof (cases "find (world_open policy) (sort_key wb_key instances)")
  case None
  then show ?thesis by (simp add: world_decision_def decision_checks)
next
  case (Some i)
  then have "wb_key i \<noteq> []" using find_sorted [OF Some] assms by blast
  with Some show ?thesis by (simp add: world_decision_def decision_checks)
qed

lemma profession_action_total:
  assumes "\<forall>r \<in> set (ps_recipes st). recipe_key r \<noteq> []"
  shows "\<exists>a. profession_action st policy = Inr a \<and>
    (\<forall>act. a = Some act \<longrightarrow> action_valid act \<and> action_family act = Fam_profession)"
proof (cases "choose_recipe st policy")
  case (Some r)
  then have "recipe_key r \<noteq> []" using choose_recipe_in assms by blast
  with Some show ?thesis by (simp add: profession_action_def Let_def)
qed (simp add: profession_action_def Let_def)

lemma profession_decision_total:
  assumes "\<forall>r \<in> set (ps_recipes st). recipe_key r \<noteq> []"
  shows "\<exists>d. profession_decision tz policy now st = Inr d \<and> decision_valid d \<and>
    decision_family d = Fam_profession"
proof -
  obtain a where a: "profession_action st policy = Inr a"
    "\<And>act. a = Some act \<Longrightarrow> action_valid act \<and> action_family act = Fam_profession"
    using profession_action_total [OF assms] by blast
  then show ?thesis
    by (cases a) (simp_all add: profession_decision_def decision_checks)
qed

text \<open>
  The engine always builds its plans. Whenever the game answered with a well-formed state (keys
  are not empty), the idle, world boss and profession builders return a plan: neither the
  constructors of actions and plans nor the fingerprint raise, whatever the clock and the policy.
\<close>

theorem engine_plans_total:
  assumes "sha_hex (en_sha en)" "1 \<le> policy_version (en_policy en)"
    and "rd_idle (en_readings en) = Inr idle" "rd_world (en_readings en) = Inr instances"
    and "rd_profession (en_readings en) = Inr st"
    and "\<forall>i \<in> set instances. wb_key i \<noteq> []" "\<forall>r \<in> set (ps_recipes st). recipe_key r \<noteq> []"
  shows "(\<exists>p. build_idle_plan en now = Inr p) \<and> (\<exists>p. build_world_boss_plan en now = Inr p) \<and>
    (\<exists>p. build_profession_plan en now = Inr p)"
proof (intro conjI)
  show "\<exists>p. build_idle_plan en now = Inr p"
    unfolding build_idle_plan_def assms(3) rbind_simps Let_def
    by (rule engine_plan_total [OF assms(1,2)])
      (auto intro!: projectable_obj simp: decision_checks)
  obtain d where d: "world_decision (en_zone en) (en_policy en) now instances = Inr d"
    "decision_valid d" "decision_family d = Fam_world_boss"
    using world_decision_total [OF assms(6)] by blast
  show "\<exists>p. build_world_boss_plan en now = Inr p"
    unfolding build_world_boss_plan_def assms(4) rbind_simps d(1)
    by (rule engine_plan_total [OF assms(1,2) world_projectable _ d(2,3)]) simp
  obtain d' where d': "profession_decision (en_zone en) (en_policy en) now st = Inr d'"
    "decision_valid d'" "decision_family d' = Fam_profession"
    using profession_decision_total [OF assms(7)] by blast
  show "\<exists>p. build_profession_plan en now = Inr p"
    unfolding build_profession_plan_def assms(5) rbind_simps d'(1)
    by (rule engine_plan_total [OF assms(1,2) profession_projectable _ d'(2,3)]) simp
qed

section \<open>The idle resolver\<close>

text \<open>
  The engine's idle plan and its resolver never agree. The plan is fingerprinted with the
  capacity and the eligibility, as the application's own idle plans are, the resolver with the
  accumulated seconds and the capacity; so unless SHA-256 collides the fingerprint the resolver
  computes differs from the plan's, even for the reading the plan was made from.
\<close>

theorem idle_resolver_never_matches:
  assumes "build_idle_plan en now = Inr p" "rd_idle (en_readings en) = Inr idle"
    and "idle_resolver (en_sha en) (Inr idle') = Inr f"
    and "\<And>eligible d d'. fingerprint_document ''idle''
           (JObj [(''capacitySeconds'', capacity_json idle), (''eligible'', JBool eligible)]) keyed_arrays = Inr d \<Longrightarrow>
         fingerprint_document ''idle'' (idle_projection idle') [] = Inr d' \<Longrightarrow>
         en_sha en d = en_sha en d' \<Longrightarrow> d = d'"
  shows "f \<noteq> pd_state_fingerprint p \<and>
    idle_fingerprint (en_sha en) idle (en_policy en) = Inr (pd_state_fingerprint p)"
proof
  let ?e = "idle_decision idle (en_policy en) = Idle_collect"
  let ?p = "JObj [(''capacitySeconds'', capacity_json idle), (''eligible'', JBool ?e)]"
  have p: "canonical_fingerprint (en_sha en) ''idle'' ?p keyed_arrays = Inr (pd_state_fingerprint p)"
    using assms(1,2) by (auto simp: build_idle_plan_def engine_plan_def build_plan_def result_simps Let_def
        split: if_splits)
  then obtain d where d: "fingerprint_document ''idle'' ?p keyed_arrays = Inr d"
    "pd_state_fingerprint p = ''pgfp:v1:'' @ en_sha en d"
    by (auto simp: canonical_fingerprint_def result_simps)
  obtain d' where d': "fingerprint_document ''idle'' (idle_projection idle') [] = Inr d'"
    "f = ''pgfp:v1:'' @ en_sha en d'"
    using assms(3) by (auto simp: idle_resolver_def canonical_fingerprint_def result_simps)
  show "f \<noteq> pd_state_fingerprint p"
  proof
    assume "f = pd_state_fingerprint p"
    then have "d = d'" using d d' assms(4) by simp
    with d(1) have "fingerprint_document ''idle'' ?p keyed_arrays = Inr d'" by simp
    from fingerprint_document_inj [OF this d'(1)] show False
      by (auto simp: idle_projection_def capacity_json_def sub_path_def result_simps split: option.splits)
  qed
  have "fingerprint_document ''idle'' ?p [] = fingerprint_document ''idle'' ?p keyed_arrays"
    by (simp add: fingerprint_document_def sub_path_def capacity_json_def split: option.split)
  with p show "idle_fingerprint (en_sha en) idle (en_policy en) = Inr (pd_state_fingerprint p)"
    by (simp add: idle_fingerprint_def canonical_fingerprint_def)
qed

section \<open>A sample engine\<close>

text \<open>SHA-256 cannot be evaluated here; this digest tells the two idle documents apart.\<close>

definition sample_digest :: "bytes \<Rightarrow> string" where
  "sample_digest d = replicate 64 (if CHR ''b'' \<in> set d then CHR ''b'' else CHR ''a'')"

definition sample_idle :: idle_summary where
  "sample_idle = \<lparr>valid_seconds = 9, capacity_seconds = Some 9\<rparr>"

definition sample_instances :: "world_boss_instance list" where
  "sample_instances =
     [\<lparr>wb_key = ''w2'', wb_lifecycle = ''open'', wb_active = True, wb_alive = True,
       wb_my_attempt_count = 0, wb_remaining_attempt_count = 1\<rparr>,
      \<lparr>wb_key = ''w1'', wb_lifecycle = ''open'', wb_active = True, wb_alive = True,
       wb_my_attempt_count = 1, wb_remaining_attempt_count = 2\<rparr>]"

definition sample_professions :: profession_state where
  "sample_professions = \<lparr>ps_selected_profession_key = ''cook'', ps_queue = [], ps_unlock_progress = 0,
     ps_recipes = [\<lparr>recipe_key = ''bread'', recipe_duration_seconds = 14400, recipe_output_key = ''food'',
       recipe_output_count = 1, recipe_required_inputs = [], recipe_unlock_milestone = False\<rparr>],
     ps_balances = [], ps_recipe_version = ''1''\<rparr>"

definition sample_engine :: engine where
  "sample_engine = \<lparr>en_sha = sample_digest, en_zone = (\<lambda>_. hours 8), en_decimals = (\<lambda>_. (0, 0)),
     en_new_id = 1, en_account = 7, en_policy = with_version 1 default_policy,
     en_readings = \<lparr>rd_idle = Inr sample_idle, rd_boss = Inr sample_state, rd_world = Inr sample_instances,
       rd_profession = Inr sample_professions, rd_rewards = Inr sample_rewards\<rparr>,
     en_previews = (\<lambda>h. Inr (sample_previews (last h)))\<rparr>"

lemma sample_engine_checks:
  "sha_hex (en_sha sample_engine)" "1 \<le> policy_version (en_policy sample_engine)"
  "rd_idle (en_readings sample_engine) = Inr sample_idle"
  "rd_world (en_readings sample_engine) = Inr sample_instances"
  "rd_profession (en_readings sample_engine) = Inr sample_professions"
  by (simp_all add: sample_engine_def sha_hex_def sample_digest_def sample_policy_version)

theorem engine_plans_total_witness:
  "\<exists>p q r. build_idle_plan sample_engine (hours 2) = Inr p \<and>
     build_world_boss_plan sample_engine (hours 2) = Inr q \<and>
     build_profession_plan sample_engine (hours 2) = Inr r"
  using engine_plans_total [OF sample_engine_checks, of "hours 2"]
  by (auto simp: sample_instances_def sample_professions_def)

lemma sample_world_run:
  "case build_world_boss_plan sample_engine (hours 2) of
     Inl e \<Rightarrow> False
   | Inr p \<Rightarrow> pd_decisions p =
       [SelectedDecision Fam_world_boss ''world_assist_eligible'' (BossAssistAction ''w1'')]"
  by code_simp

theorem world_assist_only_when_open_witness:
  "local_hour (\<lambda>_. hours 8) (hours 2) = 10 \<and> world_attempts default_policy = 3"
proof -
  obtain p where "build_world_boss_plan sample_engine (hours 2) = Inr p" and
    "pd_decisions p = [SelectedDecision Fam_world_boss ''world_assist_eligible'' (BossAssistAction ''w1'')]"
    using sample_world_run by (auto split: sum.splits)
  from world_assist_only_when_open [OF this(1)] this(2)
  have "local_hour (en_zone sample_engine) (hours 2) \<in> {10, 16, 20}" by simp
  then show ?thesis by code_simp
qed

theorem profession_refill_bounds_witness:
  "profession_action sample_professions default_policy = Inr (Some (ProfessionEnqueueAction ''bread'' 3)) \<and>
   queued_seconds sample_professions + 2 * 14400 < profession_horizon_hours default_policy * 3600"
proof -
  have run: "profession_action sample_professions default_policy =
      Inr (Some (ProfessionEnqueueAction ''bread'' 3))" by code_simp
  from profession_refill_bounds [OF this] show ?thesis
    by (auto simp: run) (simp_all add: sample_professions_def)
qed

lemma sample_documents:
  "fingerprint_document ''idle'' (idle_projection sample_idle) [] = Inr d' \<Longrightarrow> CHR ''b'' \<notin> set d'"
  "fingerprint_document ''idle''
     (JObj [(''capacitySeconds'', capacity_json sample_idle), (''eligible'', JBool e)]) keyed_arrays = Inr d \<Longrightarrow>
   CHR ''b'' \<in> set d"
proof -
  have "case fingerprint_document ''idle'' (idle_projection sample_idle) [] of
      Inl e \<Rightarrow> False | Inr d \<Rightarrow> CHR ''b'' \<notin> set d" by code_simp
  then show "fingerprint_document ''idle'' (idle_projection sample_idle) [] = Inr d' \<Longrightarrow> CHR ''b'' \<notin> set d'"
    by simp
  have "list_all (\<lambda>e. case fingerprint_document ''idle''
     (JObj [(''capacitySeconds'', capacity_json sample_idle), (''eligible'', JBool e)]) keyed_arrays of
      Inl e \<Rightarrow> False | Inr d \<Rightarrow> CHR ''b'' \<in> set d) [True, False]" by code_simp
  then show "fingerprint_document ''idle''
     (JObj [(''capacitySeconds'', capacity_json sample_idle), (''eligible'', JBool e)]) keyed_arrays = Inr d \<Longrightarrow>
   CHR ''b'' \<in> set d" by (cases e) simp_all
qed

theorem idle_resolver_never_matches_witness:
  "\<exists>p f. build_idle_plan sample_engine 0 = Inr p \<and>
     idle_resolver sample_digest (rd_idle (en_readings sample_engine)) = Inr f \<and> f \<noteq> pd_state_fingerprint p"
proof -
  have "case build_idle_plan sample_engine 0 of Inl e \<Rightarrow> False | Inr p \<Rightarrow> True" by code_simp
  then obtain p where p: "build_idle_plan sample_engine 0 = Inr p" by (auto split: sum.splits)
  have "case idle_resolver sample_digest (Inr sample_idle) of Inl e \<Rightarrow> False | Inr p \<Rightarrow> True" by code_simp
  then obtain f where f: "idle_resolver sample_digest (Inr sample_idle) = Inr f" by (auto split: sum.splits)
  have sha: "en_sha sample_engine = sample_digest" by (simp add: sample_engine_def)
  have "f \<noteq> pd_state_fingerprint p"
    by (rule idle_resolver_never_matches [OF p sample_engine_checks(3), unfolded sha, OF f, THEN conjunct1])
      (use sample_documents in \<open>auto simp: sample_digest_def split: if_splits\<close>)
  with p f show ?thesis by (simp add: sample_engine_checks(3))
qed

end
