(* ===== verification/Deploy.thy ===== *)
theory Deploy
  imports Effects
begin

text \<open>
  The deployer (\<open>deploy/placegame_deploy.py\<close>): it switches the installation to an image given by
  its digest, and back when the image does not become healthy. The state is what it reads and
  writes of the disk, the commands it ran, the probes it made and the pauses in between. The
  outcome of a command, of a probe and of a write is a parameter, a function of those made so far;
  a write goes to a temporary file that replaces the target, so it happens as a whole or not.
\<close>

section \<open>Digests and the state on disk\<close>

definition image_repository :: string where
  "image_repository = ''ghcr.io/fengzaixing401/placegame-mcp''"

definition digest_ok :: "string \<Rightarrow> bool" where
  "digest_ok s \<longleftrightarrow> take 7 s = ''sha256:'' \<and> length s = 71 \<and>
     list_all (\<lambda>c. is_digit c \<or> c \<in> set ''abcdef'') (drop 7 s)"

definition validate_digest :: "string \<Rightarrow> (exn, string) result" where
  "validate_digest s = (if digest_ok s then Inr s else Inl ValueErr)"

text \<open>The files under the installation root, by their content.\<close>

record release =
  rl_current :: "string option"
  rl_candidate :: "string option"
  rl_previous :: "string option"
  rl_commands :: "string list list"
  rl_probes :: "string list"
  rl_writes :: nat
  rl_pauses :: nat

record deployer =
  dp_root :: string
  dp_run :: "string list list \<Rightarrow> exn option"
  dp_probe :: "string list \<Rightarrow> bool"
  dp_disk :: "nat \<Rightarrow> exn option"
  dp_attempts :: nat

definition deployer_init ::
  "string \<Rightarrow> (string list list \<Rightarrow> exn option) \<Rightarrow> (string list \<Rightarrow> bool) \<Rightarrow> (nat \<Rightarrow> exn option) \<Rightarrow> int \<Rightarrow>
   (exn, deployer) result" where
  "deployer_init base run probe disk attempts =
     (if \<not> (1 \<le> attempts \<and> attempts \<le> 30) then Inl ValueErr
      else Inr \<lparr>dp_root = base, dp_run = run, dp_probe = probe, dp_disk = disk, dp_attempts = nat attempts\<rparr>)"

text \<open>\<open>str.splitlines\<close> on ASCII text.\<close>

definition line_end :: "char \<Rightarrow> bool" where
  "line_end c \<longleftrightarrow> c \<in> {CHR 0x0A, CHR 0x0B, CHR 0x0C, CHR 0x0D, CHR 0x1C, CHR 0x1D, CHR 0x1E}"

fun text_lines :: "string \<Rightarrow> string \<Rightarrow> string list" where
  "text_lines acc [] = (if acc = [] then [] else [rev acc])"
| "text_lines acc (c # cs) = (if line_end c then rev acc # text_lines [] cs else text_lines (c # acc) cs)"

definition parse_current :: "string \<Rightarrow> (exn, string) result" where
  "parse_current bytes =
     (if \<not> list_all is_ascii bytes then Inl ValueErr
      else
        let text = universal_newlines bytes; lines = text_lines [] text in
        if text = [] \<or> last text \<noteq> CHR 0x0A \<or> length lines \<noteq> 1 then Inl ValueErr
        else
          let assignment = hd lines in
          if \<not> starts_with ''PLACEGAME_IMAGE='' assignment then Inl ValueErr
          else
            let img = drop 16 assignment in
            if \<not> starts_with (image_repository @ ''@'') img then Inl ValueErr
            else (case split_once CHR ''@'' img of
                None \<Rightarrow> Inl ValueErr
              | Some (repo, digest) \<Rightarrow> rbind (validate_digest digest) (\<lambda>d. Inr img)))"

definition read_current :: "release \<Rightarrow> (exn, string option) result" where
  "read_current s = (case rl_current s of
     None \<Rightarrow> Inr None
   | Some text \<Rightarrow> rbind (parse_current text) (\<lambda>img. Inr (Some img)))"

section \<open>Deploying\<close>

type_synonym 'a deployment = "(release, 'a) prog"

definition compose_command :: "deployer \<Rightarrow> string \<Rightarrow> string list \<Rightarrow> string list" where
  "compose_command dp env_file args =
     [''docker'', ''compose'', ''--project-name'', ''placegame-mcp'', ''--project-directory'', dp_root dp,
      ''--env-file'', dp_root dp @ env_file, ''--file'', dp_root dp @ ''/deploy/compose.yaml''] @ args"

definition candidate_file :: string where
  "candidate_file = ''/state/candidate.env''"

definition current_file :: string where
  "current_file = ''/current.env''"

text \<open>
  The environment of a command: that of the process without the variables that would steer
  Compose or Docker elsewhere, and with the local Docker socket. \<open>run_command\<close> runs a command in
  it; how it ends is the parameter \<open>dp_run\<close>.
\<close>

definition compose_control_env :: "string list" where
  "compose_control_env = [''PLACEGAME_IMAGE'', ''COMPOSE_FILE'', ''COMPOSE_PROJECT_NAME'',
     ''COMPOSE_PROJECT_DIRECTORY'', ''COMPOSE_PROFILES'', ''COMPOSE_ENV_FILES'', ''COMPOSE_PATH_SEPARATOR'',
     ''DOCKER_CONTEXT'', ''DOCKER_TLS_VERIFY'', ''DOCKER_CERT_PATH'', ''DOCKER_DEFAULT_PLATFORM'']"

definition command_env :: "(string \<rightharpoonup> string) \<Rightarrow> (string \<rightharpoonup> string)" where
  "command_env environ =
     (\<lambda>k. if k \<in> set compose_control_env then None else environ k)(''DOCKER_HOST'' \<mapsto> ''unix:///var/run/docker.sock'')"

text \<open>What the caller's environment says of the image, the project or the Docker host has no effect.\<close>

lemma command_env_isolated:
  assumes "\<And>k. k \<notin> set (''DOCKER_HOST'' # compose_control_env) \<Longrightarrow> e k = e' k"
  shows "command_env e = command_env e'"
  using assms by (auto simp: command_env_def fun_eq_iff)

definition run_command :: "deployer \<Rightarrow> string list \<Rightarrow> unit deployment" where
  "run_command dp argv = (\<lambda>s. let cs = rl_commands s @ [argv] in
     (case dp_run dp cs of None \<Rightarrow> Inr () | Some e \<Rightarrow> Inl e, s\<lparr>rl_commands := cs\<rparr>))"

definition write_file :: "deployer \<Rightarrow> (release \<Rightarrow> release) \<Rightarrow> unit deployment" where
  "write_file dp f = (\<lambda>s. let t = s\<lparr>rl_writes := Suc (rl_writes s)\<rparr> in
     (case dp_disk dp (rl_writes s) of None \<Rightarrow> (Inr (), f t) | Some e \<Rightarrow> (Inl e, t)))"

definition health_probe :: "deployer \<Rightarrow> string \<Rightarrow> bool deployment" where
  "health_probe dp url = (\<lambda>s. let ps = rl_probes s @ [url] in (Inr (dp_probe dp ps), s\<lparr>rl_probes := ps\<rparr>))"

definition live_url :: string where
  "live_url = ''http://127.0.0.1:18080/health/live''"

definition ready_url :: string where
  "ready_url = ''http://127.0.0.1:18080/health/ready''"

text \<open>\<open>if prior\<close>: neither absent nor empty.\<close>

definition given :: "string option \<Rightarrow> string option" where
  "given v = (if v = Some [] then None else v)"

text \<open>The candidate's file becomes the current one.\<close>

definition promote :: "deployer \<Rightarrow> string option \<Rightarrow> unit deployment" where
  "promote dp prior =
     andthen (case given prior of
         None \<Rightarrow> ret ()
       | Some img \<Rightarrow> write_file dp (\<lambda>s. s\<lparr>rl_previous := Some (img @ [CHR 0x0A])\<rparr>))
     (write_file dp (\<lambda>s. s\<lparr>rl_current := rl_candidate s, rl_candidate := None\<rparr>))"

text \<open>The loop of attempts; \<open>n\<close> are left.\<close>

fun await_health :: "deployer \<Rightarrow> string option \<Rightarrow> nat \<Rightarrow> unit deployment" where
  "await_health dp prior 0 = raise RuntimeErr"
| "await_health dp prior (Suc n) =
     bnd (health_probe dp live_url) (\<lambda>live.
     bnd (health_probe dp ready_url) (\<lambda>ready.
     if live \<and> ready then promote dp prior
     else andthen (if n = 0 then ret () else modify (\<lambda>s. s\<lparr>rl_pauses := Suc (rl_pauses s)\<rparr>))
       (await_health dp prior n)))"

definition is_exc :: "exn \<Rightarrow> bool" where
  "is_exc e \<longleftrightarrow> instance_of e C_Exception"

text \<open>A step of the way back: its failure is logged and no more.\<close>

definition best_effort :: "unit deployment \<Rightarrow> unit deployment" where
  "best_effort m = handle m is_exc (\<lambda>e. ret ())"

definition roll_back :: "deployer \<Rightarrow> string option \<Rightarrow> unit deployment" where
  "roll_back dp prior =
     (if given prior \<noteq> None then
        andthen (best_effort (run_command dp (compose_command dp current_file [''pull'', ''app''])))
          (best_effort (run_command dp (compose_command dp current_file [''up'', ''-d'', ''--no-deps'', ''app''])))
      else best_effort (run_command dp (compose_command dp candidate_file [''stop'', ''app''])))"

definition deploy :: "deployer \<Rightarrow> string \<Rightarrow> unit deployment" where
  "deploy dp digest =
     bnd (lift_result (validate_digest digest)) (\<lambda>d.
     let img = image_repository @ ''@'' @ d in
     bnd (\<lambda>s. (read_current s, s)) (\<lambda>prior.
     andthen (write_file dp (\<lambda>s. s\<lparr>rl_candidate := Some (''PLACEGAME_IMAGE='' @ img @ [CHR 0x0A])\<rparr>)) (
     andthen (run_command dp (compose_command dp candidate_file [''pull'', ''app'', ''migrate''])) (
     andthen (run_command dp (compose_command dp candidate_file [''up'', ''-d'', ''postgres''])) (
     andthen (run_command dp (compose_command dp candidate_file [''--profile'', ''tools'', ''run'', ''--rm'', ''migrate''])) (
     handle
       (andthen (run_command dp (compose_command dp candidate_file [''up'', ''-d'', ''--no-deps'', ''app'']))
         (await_health dp prior (dp_attempts dp)))
       is_exc (\<lambda>e. andthen (roll_back dp prior) (raise e))))))))"

section \<open>What a deployment leaves behind\<close>

definition release_line :: "string \<Rightarrow> string" where
  "release_line digest = ''PLACEGAME_IMAGE='' @ image_repository @ ''@'' @ digest @ [CHR 0x0A]"

text \<open>The former image's record, if there is a former image.\<close>

definition previous_release :: "string option \<Rightarrow> string option \<Rightarrow> string option" where
  "previous_release prior old = (case given prior of None \<Rightarrow> old | Some i \<Rightarrow> Some (i @ [CHR 0x0A]))"

text \<open>Healthy: the two probes of the last attempt both succeeded.\<close>

definition healthy_at_last :: "deployer \<Rightarrow> string list \<Rightarrow> bool" where
  "healthy_at_last dp probes \<longleftrightarrow>
     (\<exists>ps. probes = ps @ [live_url, ready_url] \<and> dp_probe dp (ps @ [live_url]) \<and> dp_probe dp (ps @ [live_url, ready_url]))"

definition forward_commands :: "deployer \<Rightarrow> string list list" where
  "forward_commands dp = map (compose_command dp candidate_file)
     [[''pull'', ''app'', ''migrate''], [''up'', ''-d'', ''postgres''],
      [''--profile'', ''tools'', ''run'', ''--rm'', ''migrate''], [''up'', ''-d'', ''--no-deps'', ''app'']]"

definition backward_commands :: "deployer \<Rightarrow> string option \<Rightarrow> string list list" where
  "backward_commands dp prior =
     (if given prior \<noteq> None then map (compose_command dp current_file)
        [[''pull'', ''app''], [''up'', ''-d'', ''--no-deps'', ''app'']]
      else [compose_command dp candidate_file [''stop'', ''app'']])"

lemma run_command_run:
  "run_command dp argv s = (x, t) \<Longrightarrow> t = s\<lparr>rl_commands := rl_commands s @ [argv]\<rparr>"
  by (simp add: run_command_def Let_def)

lemma promote_run:
  assumes "promote dp prior s = (x, t)"
  shows "rl_commands t = rl_commands s \<and> rl_probes t = rl_probes s \<and>
    (case x of
       Inr u \<Rightarrow> rl_current t = rl_candidate s \<and>
         rl_previous t = previous_release prior (rl_previous s)
     | Inl e \<Rightarrow> rl_current t = rl_current s)"
  using assms
  by (auto simp: promote_def previous_release_def andthen_eval write_file_def ret_def Let_def split: option.splits)

lemma await_health_run:
  "await_health dp prior n s = (x, t) \<Longrightarrow>
   rl_commands t = rl_commands s \<and> length (rl_probes t) \<le> length (rl_probes s) + 2 * n \<and>
   (case x of
      Inr u \<Rightarrow> healthy_at_last dp (rl_probes t) \<and> rl_current t = rl_candidate s \<and>
        rl_previous t = previous_release prior (rl_previous s)
    | Inl e \<Rightarrow> rl_current t = rl_current s)"
proof (induction n arbitrary: s)
  case 0
  then show ?case by (auto simp: raise_def)
next
  case (Suc n)
  let ?ps = "rl_probes s @ [live_url, ready_url]"
  let ?u = "s\<lparr>rl_probes := ?ps\<rparr>"
  show ?case
  proof (cases "dp_probe dp (rl_probes s @ [live_url]) \<and> dp_probe dp ?ps")
    case True
    then have "promote dp prior ?u = (x, t)" using Suc.prems by (simp add: bnd_eval health_probe_def Let_def)
    from promote_run [OF this] True show ?thesis by (auto simp: healthy_at_last_def split: sum.splits)
  next
    case False
    then have "await_health dp prior n (?u\<lparr>rl_pauses := (if n = 0 then rl_pauses s else Suc (rl_pauses s))\<rparr>) = (x, t)"
      using Suc.prems by (cases "n = 0") (auto simp: bnd_eval health_probe_def Let_def andthen_eval ret_def modify_def)
    from Suc.IH [OF this] show ?thesis by (auto split: sum.splits)
  qed
qed

lemma roll_back_run:
  assumes "roll_back dp prior s = (x, t)"
  shows "rl_current t = rl_current s \<and> rl_probes t = rl_probes s \<and>
    (\<exists>cs. rl_commands t = rl_commands s @ cs \<and> length cs \<le> 2 \<and> (x = Inr () \<longrightarrow> cs = backward_commands dp prior))"
  using assms
  by (auto simp: roll_back_def best_effort_def handle_def andthen_eval run_command_def ret_def backward_commands_def
      Let_def split: option.splits if_splits)

text \<open>The part under \<open>try\<close>, with its roll-back.\<close>

definition switch :: "deployer \<Rightarrow> string option \<Rightarrow> unit deployment" where
  "switch dp prior = handle
     (andthen (run_command dp (compose_command dp candidate_file [''up'', ''-d'', ''--no-deps'', ''app'']))
       (await_health dp prior (dp_attempts dp)))
     is_exc (\<lambda>e. andthen (roll_back dp prior) (raise e))"

lemma switch_run:
  assumes "switch dp prior s = (x, t)"
  shows "length (rl_probes t) \<le> length (rl_probes s) + 2 * dp_attempts dp \<and>
    (\<exists>cs. rl_commands t = rl_commands s @ compose_command dp candidate_file [''up'', ''-d'', ''--no-deps'', ''app''] # cs \<and>
      length cs \<le> 2 \<and>
      (case x of
         Inr u \<Rightarrow> cs = [] \<and> healthy_at_last dp (rl_probes t) \<and> rl_current t = rl_candidate s \<and>
           rl_previous t = previous_release prior (rl_previous s)
       | Inl e \<Rightarrow> rl_current t = rl_current s \<and>
           (is_exc e \<longrightarrow> cs = backward_commands dp prior)))"
proof -
  let ?up = "compose_command dp candidate_file [''up'', ''-d'', ''--no-deps'', ''app'']"
  let ?m = "andthen (run_command dp ?up) (await_health dp prior (dp_attempts dp))"
  obtain y u where m: "?m s = (y, u)" by fastforce
  have u: "rl_commands u = rl_commands s @ [?up]" "length (rl_probes u) \<le> length (rl_probes s) + 2 * dp_attempts dp"
    "case y of Inr z \<Rightarrow> healthy_at_last dp (rl_probes u) \<and> rl_current u = rl_candidate s \<and>
        rl_previous u = previous_release prior (rl_previous s)
      | Inl e \<Rightarrow> rl_current u = rl_current s"
    using m unfolding andthen_def
    by (auto elim!: bnd_cases dest!: run_command_run await_health_run split: sum.splits)
  show ?thesis
  proof (cases "\<exists>e. y = Inl e \<and> is_exc e")
    case True
    then obtain e where e: "y = Inl e" "is_exc e" by blast
    obtain z v where undone: "roll_back dp prior u = (z, v)" by fastforce
    have t: "t = v" and x: "x = (case z of Inl e' \<Rightarrow> Inl e' | Inr w \<Rightarrow> Inl e)"
      using assms m e undone by (auto simp: switch_def handle_def andthen_eval raise_def split: sum.splits)
    have escape: "z = Inl e' \<Longrightarrow> \<not> is_exc e'" for e'
      using undone
      by (auto simp: roll_back_def best_effort_def handle_def andthen_eval ret_def run_command_def Let_def
          split: option.splits if_splits)
    from roll_back_run [OF undone] u e escape show ?thesis unfolding t x by (auto split: sum.splits)
  next
    case False
    then have "x = y" "t = u" using assms m by (auto simp: switch_def handle_def split: sum.splits)
    with u False show ?thesis by (auto split: sum.splits)
  qed
qed

text \<open>
  C15: the installation changes its image only for a healthy one. A deployment that returns was given
  a digest, ran the four commands, found both probes good in the last of its attempts, and left
  the new image as the current one with the former as the previous. A deployment that raises
  leaves the current image what it was; if it got as far as starting the new one, it then asked
  for the former image again, or stopped the app when there was none. Either way it runs at
  most six commands and makes two probes for each of at most the attempts allowed.
\<close>

theorem deploy_switches_when_healthy:
  assumes "deploy dp digest s = (x, t)"
  shows "length (rl_probes t) \<le> length (rl_probes s) + 2 * dp_attempts dp \<and>
    (\<exists>cs. rl_commands t = rl_commands s @ cs \<and> length cs \<le> 6 \<and>
      (case x of
         Inr u \<Rightarrow> digest_ok digest \<and> cs = forward_commands dp \<and> healthy_at_last dp (rl_probes t) \<and>
           rl_current t = Some (release_line digest) \<and>
           (\<exists>prior. read_current s = Inr prior \<and>
             rl_previous t = previous_release prior (rl_previous s))
       | Inl e \<Rightarrow> rl_current t = rl_current s \<and>
           (4 \<le> length cs \<and> is_exc e \<longrightarrow>
              (\<exists>prior. read_current s = Inr prior \<and> cs = forward_commands dp @ backward_commands dp prior))))"
proof -
  let ?cmd = "\<lambda>args. run_command dp (compose_command dp candidate_file args)"
  let ?pulls = "[compose_command dp candidate_file [''pull'', ''app'', ''migrate''],
    compose_command dp candidate_file [''up'', ''-d'', ''postgres''],
    compose_command dp candidate_file [''--profile'', ''tools'', ''run'', ''--rm'', ''migrate'']]"
  show ?thesis
  proof (cases "digest_ok digest \<and> (\<exists>prior. read_current s = Inr prior)")
    case False
    then show ?thesis using assms
      by (auto simp: deploy_def bnd_eval lift_result_def validate_digest_def split: sum.splits if_splits)
  next
    case True
    then obtain prior where ok: "digest_ok digest" "read_current s = Inr prior" by blast
    have run: "andthen (write_file dp (\<lambda>s. s\<lparr>rl_candidate := Some (release_line digest)\<rparr>)) (
        andthen (?cmd [''pull'', ''app'', ''migrate'']) (andthen (?cmd [''up'', ''-d'', ''postgres'']) (
        andthen (?cmd [''--profile'', ''tools'', ''run'', ''--rm'', ''migrate'']) (switch dp prior)))) s = (x, t)"
      using assms ok
      by (simp add: deploy_def bnd_eval lift_result_def validate_digest_def switch_def release_line_def Let_def)
    then consider
        (early) e cs where "x = Inl e" "rl_current t = rl_current s" "rl_probes t = rl_probes s"
          "rl_commands t = rl_commands s @ cs" "length cs \<le> 3"
      | (late) u where "switch dp prior u = (x, t)" "rl_current u = rl_current s" "rl_previous u = rl_previous s"
          "rl_probes u = rl_probes s" "rl_candidate u = Some (release_line digest)" "rl_commands u = rl_commands s @ ?pulls"
      by (auto simp: andthen_eval write_file_def run_command_def Let_def split: option.splits)
    then show ?thesis
    proof cases
      case early
      then show ?thesis by auto
    next
      case late
      from switch_run [OF late(1)] late ok show ?thesis
        by (auto simp: forward_commands_def split: sum.splits)
    qed
  qed
qed

section \<open>The state file\<close>

lemma text_lines_count: "length (text_lines acc (xs @ [CHR 0x0A])) = Suc (length (filter line_end xs))"
  by (induction acc xs rule: text_lines.induct) (auto simp: line_end_def)

lemma text_lines_one: "list_all (\<lambda>c. \<not> line_end c) xs \<Longrightarrow> text_lines acc (xs @ [CHR 0x0A]) = [rev acc @ xs]"
  by (induction acc xs rule: text_lines.induct) (auto simp: line_end_def)

lemma single_line:
  assumes "text \<noteq> []" "last text = CHR 0x0A" "length (text_lines [] text) = 1"
  shows "text = hd (text_lines [] text) @ [CHR 0x0A]"
proof -
  obtain xs where xs: "text = xs @ [CHR 0x0A]" using assms(1,2) by (metis append_butlast_last_id)
  then have "list_all (\<lambda>c. \<not> line_end c) xs"
    using assms(3) text_lines_count [of "[]" xs] by (simp add: list_all_iff filter_empty_conv)
  from text_lines_one [OF this, of "[]"] xs show ?thesis by simp
qed

text \<open>The characters of a state file are printing ASCII.\<close>

definition printing :: "char \<Rightarrow> bool" where
  "printing c \<longleftrightarrow> 32 \<le> (of_char c :: nat) \<and> (of_char c :: nat) < 127"

lemma printing_facts: "printing c \<Longrightarrow> \<not> line_end c \<and> is_ascii c \<and> c \<noteq> CHR 0x0D"
  by (auto simp: printing_def line_end_def is_ascii_def)

lemma digest_printing: "digest_ok d \<Longrightarrow> list_all printing d"
proof -
  assume ok: "digest_ok d"
  have "printing c" if "is_digit c \<or> c \<in> set ''abcdef''" for c
    using that by (auto simp: printing_def is_digit_def)
  then have "list_all printing (drop 7 d)"
    using ok by (auto simp: digest_ok_def list_all_iff)
  moreover have "list_all printing (take 7 d)" using ok by (simp add: digest_ok_def printing_def)
  ultimately show ?thesis by (metis append_take_drop_id list_all_append)
qed

lemma image_printing: "list_all printing (''PLACEGAME_IMAGE='' @ image_repository @ ''@'')"
  by (simp add: image_repository_def printing_def)

lemma parse_release_line:
  assumes "digest_ok d"
  shows "parse_current (release_line d) = Inr (image_repository @ ''@'' @ d)"
proof -
  let ?line = "''PLACEGAME_IMAGE='' @ image_repository @ ''@'' @ d"
  have line: "release_line d = ?line @ [CHR 0x0A]" by (simp add: release_line_def)
  have all_printing: "list_all printing ?line" using image_printing digest_printing [OF assms] by simp
  have "list_all is_ascii ?line" "list_all (\<lambda>c. \<not> line_end c) ?line" "CHR 0x0D \<notin> set ?line"
    using all_printing printing_facts by (fastforce simp: list_all_iff)+
  then have "list_all is_ascii (release_line d)" "universal_newlines (release_line d) = release_line d"
    "text_lines [] (release_line d) = [?line]"
    using text_lines_one [of ?line "[]"] universal_newlines_id [of "release_line d"]
    by (simp_all only: line) (simp_all add: is_ascii_def)
  moreover have "starts_with ''PLACEGAME_IMAGE='' ?line" "drop 16 ?line = image_repository @ ''@'' @ d"
    by (simp_all add: starts_with_iff)
  moreover have "split_once CHR ''@'' (image_repository @ ''@'' @ d) = Some (image_repository, d)"
    using split_once_append [of "CHR ''@''" image_repository d] by (simp add: image_repository_def)
  moreover have "starts_with (image_repository @ ''@'') (image_repository @ ''@'' @ d)"
    unfolding starts_with_iff by (rule exI [of _ d]) simp
  ultimately show ?thesis
    using assms by (simp add: parse_current_def Let_def validate_digest_def) (simp add: line)
qed

lemma parse_current_only:
  assumes "parse_current bytes = Inr img"
  shows "\<exists>d. digest_ok d \<and> img = image_repository @ ''@'' @ d \<and> universal_newlines bytes = release_line d"
proof -
  let ?text = "universal_newlines bytes"
  let ?line = "hd (text_lines [] ?text)"
  from assms obtain repo d where one: "?text \<noteq> []" "last ?text = CHR 0x0A" "length (text_lines [] ?text) = 1"
    and start: "starts_with ''PLACEGAME_IMAGE='' ?line" and img: "img = drop 16 ?line"
    and repo: "starts_with (image_repository @ ''@'') img" "split_once CHR ''@'' img = Some (repo, d)" "digest_ok d"
    by (auto simp: parse_current_def Let_def validate_digest_def split: if_splits option.splits)
  obtain rest where rest: "img = image_repository @ CHR ''@'' # rest" using repo(1) by (auto simp: starts_with_iff)
  have "split_once CHR ''@'' img = Some (image_repository, rest)"
    unfolding rest by (rule split_once_append) (simp add: image_repository_def)
  with repo(2) have d: "rest = d" by simp
  have "?line = ''PLACEGAME_IMAGE='' @ img" using start img by (auto simp: starts_with_iff)
  with single_line [OF one] rest d repo(3) show ?thesis by (auto simp: release_line_def)
qed

text \<open>
  What a deployment writes as the current state the next one reads back. A state file holds
  exactly one assignment of the repository's image with a valid digest: every such file is read
  as that image, whatever else is in the file is refused, and after a deployment that returned
  the image read is the one that was deployed.
\<close>

theorem release_state_roundtrip:
  assumes "digest_ok d"
  shows "parse_current (release_line d) = Inr (image_repository @ ''@'' @ d) \<and>
    (\<forall>bytes img. parse_current bytes = Inr img \<longrightarrow>
       (\<exists>d'. digest_ok d' \<and> img = image_repository @ ''@'' @ d' \<and> universal_newlines bytes = release_line d')) \<and>
    (\<forall>s t. rl_current t = Some (release_line d) \<longrightarrow> read_current t = Inr (Some (image_repository @ ''@'' @ d)))"
  using parse_release_line [OF assms] parse_current_only by (auto simp: read_current_def)

section \<open>Samples\<close>

definition sample_digest :: string where
  "sample_digest = ''sha256:'' @ replicate 64 CHR ''a''"

lemma sample_digest_ok: "digest_ok sample_digest"
  by (simp add: digest_ok_def sample_digest_def list_all_iff)

text \<open>Nothing fails, and the app is ready at the second attempt.\<close>

definition sample_deployer :: deployer where
  "sample_deployer = \<lparr>dp_root = ''/opt'', dp_run = (\<lambda>cs. None), dp_probe = (\<lambda>ps. length ps \<noteq> 2),
     dp_disk = (\<lambda>n. None), dp_attempts = 3\<rparr>"

definition sample_release :: release where
  "sample_release = \<lparr>rl_current = None, rl_candidate = None, rl_previous = None, rl_commands = [], rl_probes = [],
     rl_writes = 0, rl_pauses = 0\<rparr>"

lemma sample_deployment: "fst (deploy sample_deployer sample_digest sample_release) = Inr ()"
  by (simp add: deploy_def bnd_eval lift_result_def validate_digest_def sample_digest_ok read_current_def
      sample_release_def andthen_eval write_file_def run_command_def handle_def sample_deployer_def Let_def
      numeral_3_eq_3 health_probe_def promote_def given_def ret_def modify_def)

theorem deploy_switches_when_healthy_witness:
  "rl_current (snd (deploy sample_deployer sample_digest sample_release)) = Some (release_line sample_digest) \<and>
   healthy_at_last sample_deployer (rl_probes (snd (deploy sample_deployer sample_digest sample_release)))"
proof -
  obtain t where run: "deploy sample_deployer sample_digest sample_release = (Inr (), t)"
    using sample_deployment by (metis prod.collapse)
  from deploy_switches_when_healthy [OF run] run show ?thesis by auto
qed

theorem release_state_roundtrip_witness:
  "parse_current (release_line sample_digest) = Inr (image_repository @ ''@'' @ sample_digest)"
  using release_state_roundtrip [OF sample_digest_ok] by blast

end
