(* ===== verification/Migrations.thy ===== *)
theory Migrations
  imports Prelude
begin

text \<open>
  The schema: the migrations (\<open>migrations/versions\<close>) as lists of operations, what such an operation
  does to a schema in PostgreSQL and when it fails, and the schema the models declare
  (\<open>models.py\<close>). A default the program sets in Python is not part of a schema. A trigger function is
  given by the condition under which it raises.
\<close>

section \<open>Schemas\<close>

datatype column_type =
    T_uuid | T_string nat | T_bytea | T_timestamptz | T_boolean | T_integer | T_text | T_jsonb

record column_def =
  cl_name :: string
  cl_type :: column_type
  cl_null :: bool

datatype table_constraint =
    Primary_key "string list"
  | Foreign_key string string string
  | Unique_on "string option" "string list"
  | Check_that string string

record table_def =
  tb_name :: string
  tb_columns :: "column_def list"
  tb_constraints :: "table_constraint list"

record index_def =
  ix_name :: string
  ix_table :: string
  ix_columns :: "string list"

text \<open>
  The three forms of trigger functions: they raise when a column of a row would be lowered, always,
  or when the row is younger than some days. \<open>guard_raises\<close> is their meaning at a time, for the old
  and the new values of a row.
\<close>

datatype row_guard = Lowers string | Always | Younger_than string int

fun guard_raises :: "row_guard \<Rightarrow> int \<Rightarrow> (string \<Rightarrow> int) \<Rightarrow> (string \<Rightarrow> int) \<Rightarrow> bool" where
  "guard_raises (Lowers c) now old_row new_row \<longleftrightarrow> new_row c < old_row c"
| "guard_raises Always now old_row new_row \<longleftrightarrow> True"
| "guard_raises (Younger_than c days) now old_row new_row \<longleftrightarrow> now - days * 86400000000 < old_row c"

datatype trigger_event = Before_update "string option" | Before_delete

text \<open>A trigger by its name, event, table and function; a seeded row by its table and key.\<close>

record schema =
  sm_tables :: "table_def list"
  sm_indexes :: "index_def list"
  sm_functions :: "(string \<times> row_guard) list"
  sm_triggers :: "(string \<times> string \<times> string \<times> trigger_event) list"
  sm_rows :: "(string \<times> string) list"

definition empty_schema :: schema where
  "empty_schema = \<lparr>sm_tables = [], sm_indexes = [], sm_functions = [], sm_triggers = [], sm_rows = []\<rparr>"

definition col :: "string \<Rightarrow> column_type \<Rightarrow> bool \<Rightarrow> column_def" where
  "col n t null = \<lparr>cl_name = n, cl_type = t, cl_null = null\<rparr>"

definition table_of :: "string \<Rightarrow> column_def list \<Rightarrow> table_constraint list \<Rightarrow> table_def" where
  "table_of n cs ks = \<lparr>tb_name = n, tb_columns = cs, tb_constraints = ks\<rparr>"

definition index_of :: "string \<Rightarrow> string \<Rightarrow> string list \<Rightarrow> index_def" where
  "index_of n t cs = \<lparr>ix_name = n, ix_table = t, ix_columns = cs\<rparr>"

definition quoted :: "string \<Rightarrow> string" where
  "quoted s = CHR 0x27 # s @ [CHR 0x27]"

section \<open>Operations\<close>

datatype migration_op =
    Create_table table_def
  | Drop_table string
  | Add_column string column_def "string option"
  | Drop_default string string
  | Drop_column string string
  | Create_unique string string "string list"
  | Drop_constraint string string
  | Create_index string string "string list"
  | Drop_index string string
  | Create_function string row_guard
  | Drop_function string
  | Create_trigger string trigger_event string string
  | Drop_trigger string string
  | Insert_row string string

definition find_table :: "string \<Rightarrow> schema \<Rightarrow> table_def option" where
  "find_table n s = find (\<lambda>t. tb_name t = n) (sm_tables s)"

definition put_table :: "table_def \<Rightarrow> schema \<Rightarrow> schema" where
  "put_table t s = s\<lparr>sm_tables := map (\<lambda>u. if tb_name u = tb_name t then t else u) (sm_tables s)\<rparr>"

definition has_columns :: "string list \<Rightarrow> table_def \<Rightarrow> bool" where
  "has_columns cs t \<longleftrightarrow> list_all (\<lambda>c. c \<in> set (map cl_name (tb_columns t))) cs"

fun constraint_columns :: "table_constraint \<Rightarrow> string list" where
  "constraint_columns (Primary_key cs) = cs"
| "constraint_columns (Foreign_key c target on_delete) = [c]"
| "constraint_columns (Unique_on n cs) = cs"
| "constraint_columns (Check_that n e) = []"

text \<open>The table a foreign key points to.\<close>

fun target_table :: "table_constraint \<Rightarrow> string option" where
  "target_table (Foreign_key c target on_delete) = Some (takeWhile (\<lambda>x. x \<noteq> CHR ''.'') target)"
| "target_table k = None"

fun constraint_name :: "table_constraint \<Rightarrow> string option" where
  "constraint_name (Unique_on n cs) = n"
| "constraint_name (Check_that n e) = Some n"
| "constraint_name k = None"

definition referenced :: "string \<Rightarrow> schema \<Rightarrow> bool" where
  "referenced n s \<longleftrightarrow> list_ex (\<lambda>t. tb_name t \<noteq> n \<and> list_ex (\<lambda>k. target_table k = Some n) (tb_constraints t)) (sm_tables s)"

definition column_used :: "string \<Rightarrow> string \<Rightarrow> schema \<Rightarrow> bool" where
  "column_used n c s \<longleftrightarrow>
     list_ex (\<lambda>t. tb_name t = n \<and> list_ex (\<lambda>k. c \<in> set (constraint_columns k)) (tb_constraints t)) (sm_tables s) \<or>
     list_ex (\<lambda>i. ix_table i = n \<and> c \<in> set (ix_columns i)) (sm_indexes s)"

text \<open>
  What an operation makes of a schema; \<open>None\<close> when it fails. A column is added to a table that may
  have rows, so it must be nullable or have a default; a column that a constraint or index mentions is not
  dropped, which no migration tries.
\<close>

fun perform_op :: "migration_op \<Rightarrow> schema \<Rightarrow> schema option" where
  "perform_op (Create_table t) s =
     (if find_table (tb_name t) s = None \<and>
        list_all (\<lambda>k. has_columns (constraint_columns k) t \<and>
          (case target_table k of None \<Rightarrow> True | Some n \<Rightarrow> n = tb_name t \<or> find_table n s \<noteq> None)) (tb_constraints t)
      then Some (s\<lparr>sm_tables := sm_tables s @ [t]\<rparr>) else None)"
| "perform_op (Drop_table n) s =
     (if find_table n s = None \<or> referenced n s then None
      else Some (s\<lparr>sm_tables := filter (\<lambda>t. tb_name t \<noteq> n) (sm_tables s),
        sm_indexes := filter (\<lambda>i. ix_table i \<noteq> n) (sm_indexes s),
        sm_triggers := filter (\<lambda>(g, t, f, v). t \<noteq> n) (sm_triggers s),
        sm_rows := filter (\<lambda>(t, k). t \<noteq> n) (sm_rows s)\<rparr>))"
| "perform_op (Add_column n c given_default) s =
     (case find_table n s of
        None \<Rightarrow> None
      | Some t \<Rightarrow>
          if has_columns [cl_name c] t \<or> \<not> cl_null c \<and> given_default = None then None
          else Some (put_table (t\<lparr>tb_columns := tb_columns t @ [c]\<rparr>) s))"
| "perform_op (Drop_default n c) s =
     (case find_table n s of None \<Rightarrow> None | Some t \<Rightarrow> if has_columns [c] t then Some s else None)"
| "perform_op (Drop_column n c) s =
     (case find_table n s of
        None \<Rightarrow> None
      | Some t \<Rightarrow>
          if \<not> has_columns [c] t \<or> column_used n c s then None
          else Some (put_table (t\<lparr>tb_columns := filter (\<lambda>x. cl_name x \<noteq> c) (tb_columns t)\<rparr>) s))"
| "perform_op (Create_unique k n cs) s =
     (case find_table n s of
        None \<Rightarrow> None
      | Some t \<Rightarrow>
          if \<not> has_columns cs t \<or> Some k \<in> set (map constraint_name (tb_constraints t)) then None
          else Some (put_table (t\<lparr>tb_constraints := tb_constraints t @ [Unique_on (Some k) cs]\<rparr>) s))"
| "perform_op (Drop_constraint k n) s =
     (case find_table n s of
        None \<Rightarrow> None
      | Some t \<Rightarrow>
          if Some k \<notin> set (map constraint_name (tb_constraints t)) then None
          else Some (put_table (t\<lparr>tb_constraints := filter (\<lambda>x. constraint_name x \<noteq> Some k) (tb_constraints t)\<rparr>) s))"
| "perform_op (Create_index i n cs) s =
     (case find_table n s of
        None \<Rightarrow> None
      | Some t \<Rightarrow>
          if \<not> has_columns cs t \<or> i \<in> set (map ix_name (sm_indexes s)) then None
          else Some (s\<lparr>sm_indexes := sm_indexes s @ [index_of i n cs]\<rparr>))"
| "perform_op (Drop_index i n) s =
     (if i \<notin> set (map ix_name (sm_indexes s)) then None
      else Some (s\<lparr>sm_indexes := filter (\<lambda>x. ix_name x \<noteq> i) (sm_indexes s)\<rparr>))"
| "perform_op (Create_function f b) s =
     (if f \<in> set (map fst (sm_functions s)) then None else Some (s\<lparr>sm_functions := sm_functions s @ [(f, b)]\<rparr>))"
| "perform_op (Drop_function f) s =
     (if f \<notin> set (map fst (sm_functions s)) \<or> list_ex (\<lambda>(g, t, h, v). h = f) (sm_triggers s) then None
      else Some (s\<lparr>sm_functions := filter (\<lambda>(h, b). h \<noteq> f) (sm_functions s)\<rparr>))"
| "perform_op (Create_trigger g v n f) s =
     (if find_table n s = None \<or> f \<notin> set (map fst (sm_functions s)) \<or>
         list_ex (\<lambda>(h, t, x, v). h = g \<and> t = n) (sm_triggers s) then None
      else Some (s\<lparr>sm_triggers := sm_triggers s @ [(g, n, f, v)]\<rparr>))"
| "perform_op (Drop_trigger g n) s =
     (if \<not> list_ex (\<lambda>(h, t, x, v). h = g \<and> t = n) (sm_triggers s) then None
      else Some (s\<lparr>sm_triggers := filter (\<lambda>(h, t, x, v). \<not> (h = g \<and> t = n)) (sm_triggers s)\<rparr>))"
| "perform_op (Insert_row n k) s =
     (if find_table n s = None \<or> (n, k) \<in> set (sm_rows s) then None else Some (s\<lparr>sm_rows := sm_rows s @ [(n, k)]\<rparr>))"

fun run_ops :: "migration_op list \<Rightarrow> schema \<Rightarrow> schema option" where
  "run_ops [] s = Some s"
| "run_ops (m # ms) s = (case perform_op m s of None \<Rightarrow> None | Some t \<Rightarrow> run_ops ms t)"

section \<open>The migrations\<close>

definition upgrade_001_tables :: "migration_op list" where
  "upgrade_001_tables = [
   Create_table (table_of ''game_accounts''
     [col ''id'' T_uuid False, col ''label'' (T_string 120) False, col ''game_username'' T_bytea True,
      col ''auth_mode'' (T_string 32) False, col ''password'' T_bytea True,
      col ''session_token'' T_bytea True, col ''session_expires_at'' T_timestamptz True,
      col ''enabled'' T_boolean False, col ''paused_reason'' T_text True,
      col ''policy_version'' T_integer False, col ''created_at'' T_timestamptz False,
      col ''updated_at'' T_timestamptz False, col ''last_success_at'' T_timestamptz True,
      col ''last_error_at'' T_timestamptz True, col ''auth_failure_count'' T_integer False,
      col ''auth_failure_window_started_at'' T_timestamptz True]
     [Primary_key [''id''], Check_that ''ck_game_accounts_policy_version'' ''policy_version >= 1'']),
   Create_table (table_of ''account_policies''
     [col ''account_id'' T_uuid False, col ''policy'' T_jsonb False,
      col ''policy_version'' T_integer False, col ''created_at'' T_timestamptz False,
      col ''updated_at'' T_timestamptz False]
     [Foreign_key ''account_id'' ''game_accounts.id'' ''CASCADE'', Primary_key [''account_id''],
      Check_that ''ck_account_policies_policy_object'' (''jsonb_typeof(policy) = '' @ quoted ''object'')]),
   Create_index ''ix_account_policies_policy_version'' ''account_policies'' [''policy_version''],
   Create_table (table_of ''account_snapshots''
     [col ''id'' T_uuid False, col ''account_id'' T_uuid False, col ''sanitized_state'' T_jsonb False,
      col ''state_fingerprint'' (T_string 128) False, col ''fetched_at'' T_timestamptz False,
      col ''expires_at'' T_timestamptz False]
     [Primary_key [''id''], Foreign_key ''account_id'' ''game_accounts.id'' ''CASCADE'',
      Check_that ''ck_account_snapshots_snapshot_expiry'' (''expires_at = fetched_at + INTERVAL '' @ quoted ''5 minutes'')]),
   Create_index ''ix_account_snapshots_expires_at'' ''account_snapshots'' [''expires_at''],
   Create_table (table_of ''jobs''
     [col ''id'' T_uuid False, col ''account_id'' T_uuid False, col ''kind'' (T_string 64) False,
      col ''schedule'' (T_string 128) False, col ''timezone'' (T_string 64) False,
      col ''enabled'' T_boolean False, col ''next_run_at'' T_timestamptz True,
      col ''misfire_policy'' (T_string 32) False, col ''created_at'' T_timestamptz False,
      col ''updated_at'' T_timestamptz False]
     [Primary_key [''id''], Foreign_key ''account_id'' ''game_accounts.id'' ''CASCADE'']),
   Create_index ''ix_jobs_due'' ''jobs'' [''enabled'', ''next_run_at''],
   Create_table (table_of ''job_runs''
     [col ''id'' T_uuid False, col ''job_id'' T_uuid False, col ''account_id'' T_uuid False,
      col ''idempotency_key'' (T_string 128) False, col ''dispatched_at'' T_timestamptz False,
      col ''lease_owner'' (T_string 128) True, col ''lease_expires_at'' T_timestamptz True,
      col ''attempt'' T_integer False, col ''result'' T_jsonb True, col ''retry_count'' T_integer False,
      col ''next_retry_at'' T_timestamptz True, col ''completed_at'' T_timestamptz True]
     [Primary_key [''id''], Foreign_key ''job_id'' ''jobs.id'' ''CASCADE'',
      Foreign_key ''account_id'' ''game_accounts.id'' ''CASCADE'',
      Unique_on (Some ''uq_job_runs_account_idempotency'') [''account_id'', ''idempotency_key'']]),
   Create_index ''ix_job_runs_lease_retry'' ''job_runs'' [''lease_expires_at'', ''next_retry_at''],
   Create_table (table_of ''action_plans''
     [col ''id'' T_uuid False, col ''account_id'' T_uuid False,
      col ''state_fingerprint'' (T_string 128) False, col ''policy_version'' T_integer False,
      col ''proposed_actions'' T_jsonb False, col ''estimated_costs'' T_jsonb False,
      col ''risk'' (T_string 32) False, col ''expires_at'' T_timestamptz False,
      col ''confirmation_required'' T_boolean False, col ''confirmed_at'' T_timestamptz True,
      col ''confirmed_by'' (T_string 128) True, col ''execution_state'' (T_string 32) False,
      col ''executed_at'' T_timestamptz True, col ''execution_result'' T_jsonb True,
      col ''created_at'' T_timestamptz False]
     [Primary_key [''id''], Foreign_key ''account_id'' ''game_accounts.id'' ''CASCADE'']),
   Create_index ''ix_action_plans_expires_at'' ''action_plans'' [''expires_at''],
   Create_table (table_of ''mcp_tokens''
     [col ''id'' T_uuid False, col ''prefix'' (T_string 16) False, col ''digest'' (T_string 64) False,
      col ''scopes'' T_jsonb False, col ''account_allowlist'' T_jsonb False,
      col ''expires_at'' T_timestamptz False, col ''last_used_at'' T_timestamptz True,
      col ''revoked_at'' T_timestamptz True, col ''created_at'' T_timestamptz False]
     [Primary_key [''id''], Unique_on None [''digest'']]),
   Create_index ''ix_mcp_tokens_expires_at'' ''mcp_tokens'' [''expires_at''],
   Create_table (table_of ''audit_events''
     [col ''id'' T_uuid False, col ''actor'' (T_string 128) False, col ''source'' (T_string 64) False,
      col ''account_id'' T_uuid True, col ''plan_id'' T_uuid True, col ''action'' (T_string 128) False,
      col ''costs'' T_jsonb True, col ''result'' T_jsonb True,
      col ''correlation_id'' (T_string 128) True, col ''before'' T_jsonb True,
      col ''after'' T_jsonb True, col ''created_at'' T_timestamptz False]
     [Primary_key [''id''], Foreign_key ''account_id'' ''game_accounts.id'' ''RESTRICT'',
      Foreign_key ''plan_id'' ''action_plans.id'' ''RESTRICT'']),
   Create_index ''ix_audit_events_retention'' ''audit_events'' [''created_at''],
   Create_table (table_of ''scheduler_leases''
     [col ''name'' (T_string 64) False, col ''owner'' (T_string 128) True,
      col ''lease_expires_at'' T_timestamptz True, col ''updated_at'' T_timestamptz False]
     [Primary_key [''name''], Check_that ''ck_scheduler_leases_default_name'' (''name = '' @ quoted ''default'')])]"

definition upgrade_001_guards :: "migration_op list" where
  "upgrade_001_guards = [
   Insert_row ''scheduler_leases'' ''default'',
   Create_function ''prevent_game_account_policy_version_decrease'' (Lowers ''policy_version''),
   Create_trigger ''game_accounts_policy_version_monotonic'' (Before_update (Some ''policy_version'')) ''game_accounts''
     ''prevent_game_account_policy_version_decrease'',
   Create_function ''prevent_audit_event_update'' Always,
   Create_trigger ''audit_events_immutable'' (Before_update None) ''audit_events'' ''prevent_audit_event_update'',
   Create_function ''enforce_audit_event_retention'' (Younger_than ''created_at'' 90),
   Create_trigger ''audit_events_retention'' Before_delete ''audit_events'' ''enforce_audit_event_retention'']"

definition upgrade_001 :: "migration_op list" where
  "upgrade_001 = upgrade_001_tables @ upgrade_001_guards"

definition downgrade_001 :: "migration_op list" where
  "downgrade_001 = [
   Drop_table ''scheduler_leases'',
   Drop_trigger ''audit_events_immutable'' ''audit_events'',
   Drop_trigger ''audit_events_retention'' ''audit_events'',
   Drop_function ''prevent_audit_event_update'',
   Drop_function ''enforce_audit_event_retention'',
   Drop_index ''ix_audit_events_retention'' ''audit_events'',
   Drop_table ''audit_events'',
   Drop_index ''ix_mcp_tokens_expires_at'' ''mcp_tokens'',
   Drop_table ''mcp_tokens'',
   Drop_index ''ix_action_plans_expires_at'' ''action_plans'',
   Drop_table ''action_plans'',
   Drop_index ''ix_job_runs_lease_retry'' ''job_runs'',
   Drop_table ''job_runs'',
   Drop_index ''ix_jobs_due'' ''jobs'',
   Drop_table ''jobs'',
   Drop_index ''ix_account_snapshots_expires_at'' ''account_snapshots'',
   Drop_table ''account_snapshots'',
   Drop_index ''ix_account_policies_policy_version'' ''account_policies'',
   Drop_table ''account_policies'',
   Drop_trigger ''game_accounts_policy_version_monotonic'' ''game_accounts'',
   Drop_function ''prevent_game_account_policy_version_decrease'',
   Drop_table ''game_accounts'']"

definition upgrade_002 :: "migration_op list" where
  "upgrade_002 = [
   Add_column ''game_accounts'' (col ''game_account_id'' (T_string 128) True) None,
   Create_unique ''uq_game_accounts_game_account_id'' ''game_accounts'' [''game_account_id'']]"

definition downgrade_002 :: "migration_op list" where
  "downgrade_002 = [
   Drop_constraint ''uq_game_accounts_game_account_id'' ''game_accounts'',
   Drop_column ''game_accounts'' ''game_account_id'']"

definition upgrade_003 :: "migration_op list" where
  "upgrade_003 = [
   Add_column ''action_plans'' (col ''execution_owner'' (T_string 128) True) None,
   Add_column ''action_plans'' (col ''execution_started_at'' T_timestamptz True) None,
   Add_column ''action_plans'' (col ''execution_lease_expires_at'' T_timestamptz True) None,
   Add_column ''action_plans'' (col ''execution_attempt_count'' T_integer False) (Some ''0''),
   Drop_default ''action_plans'' ''execution_attempt_count'']"

definition downgrade_003 :: "migration_op list" where
  "downgrade_003 = [
   Drop_column ''action_plans'' ''execution_attempt_count'',
   Drop_column ''action_plans'' ''execution_lease_expires_at'',
   Drop_column ''action_plans'' ''execution_started_at'',
   Drop_column ''action_plans'' ''execution_owner'']"

definition upgrade_004 :: "migration_op list" where
  "upgrade_004 = [
   Create_table (table_of ''admin_credentials''
     [col ''id'' T_integer False, col ''password_hash'' T_text False,
      col ''created_at'' T_timestamptz False, col ''updated_at'' T_timestamptz False]
     [Check_that ''ck_admin_credentials_singleton'' ''id = 1'', Primary_key [''id'']]),
   Create_table (table_of ''admin_sessions''
     [col ''id'' T_uuid False, col ''token_digest'' (T_string 64) False,
      col ''created_at'' T_timestamptz False, col ''absolute_expires_at'' T_timestamptz False,
      col ''last_seen_at'' T_timestamptz False]
     [Primary_key [''id''], Unique_on (Some ''uq_admin_sessions_token_digest'') [''token_digest'']]),
   Create_index ''ix_admin_sessions_absolute_expires_at'' ''admin_sessions'' [''absolute_expires_at'']]"

definition downgrade_004 :: "migration_op list" where
  "downgrade_004 = [
   Drop_index ''ix_admin_sessions_absolute_expires_at'' ''admin_sessions'',
   Drop_table ''admin_sessions'',
   Drop_table ''admin_credentials'']"


record migration =
  mg_revision :: string
  mg_parent :: "string option"
  mg_upgrade :: "migration_op list"
  mg_downgrade :: "migration_op list"

definition migrations :: "migration list" where
  "migrations = [
     \<lparr>mg_revision = ''001_core'', mg_parent = None, mg_upgrade = upgrade_001, mg_downgrade = downgrade_001\<rparr>,
     \<lparr>mg_revision = ''002_game_account_identity'', mg_parent = Some ''001_core'',
       mg_upgrade = upgrade_002, mg_downgrade = downgrade_002\<rparr>,
     \<lparr>mg_revision = ''003_action_plan_execution_claim'', mg_parent = Some ''002_game_account_identity'',
       mg_upgrade = upgrade_003, mg_downgrade = downgrade_003\<rparr>,
     \<lparr>mg_revision = ''004_admin_sessions'', mg_parent = Some ''003_action_plan_execution_claim'',
       mg_upgrade = upgrade_004, mg_downgrade = downgrade_004\<rparr>]"

text \<open>Alembic follows the revisions from the base, each to the one whose parent it is.\<close>

fun revisions_from :: "nat \<Rightarrow> string option \<Rightarrow> migration list" where
  "revisions_from 0 r = []"
| "revisions_from (Suc n) r = (case find (\<lambda>m. mg_parent m = r) migrations of
     None \<Rightarrow> [] | Some m \<Rightarrow> m # revisions_from n (Some (mg_revision m)))"

definition history :: "migration list" where
  "history = revisions_from (length migrations) None"

text \<open>The schema after the first \<open>k\<close> revisions.\<close>

definition schema_at :: "nat \<Rightarrow> schema option" where
  "schema_at k = run_ops (concat (map mg_upgrade (take k history))) empty_schema"

section \<open>What the models declare\<close>

definition declared_game_accounts :: table_def where
  "declared_game_accounts = table_of ''game_accounts''
     [col ''id'' T_uuid False, col ''game_account_id'' (T_string 128) True,
      col ''label'' (T_string 120) False, col ''game_username'' T_bytea True,
      col ''auth_mode'' (T_string 32) False, col ''password'' T_bytea True,
      col ''session_token'' T_bytea True, col ''session_expires_at'' T_timestamptz True,
      col ''enabled'' T_boolean False, col ''paused_reason'' T_text True,
      col ''policy_version'' T_integer False, col ''created_at'' T_timestamptz False,
      col ''updated_at'' T_timestamptz False, col ''last_success_at'' T_timestamptz True,
      col ''last_error_at'' T_timestamptz True, col ''auth_failure_count'' T_integer False,
      col ''auth_failure_window_started_at'' T_timestamptz True]
     [Primary_key [''id''], Check_that ''ck_game_accounts_policy_version'' ''policy_version >= 1'',
      Unique_on (Some ''uq_game_accounts_game_account_id'') [''game_account_id'']]"

definition declared_account_policies :: table_def where
  "declared_account_policies = table_of ''account_policies''
     [col ''account_id'' T_uuid False, col ''policy'' T_jsonb False,
      col ''policy_version'' T_integer False, col ''created_at'' T_timestamptz False,
      col ''updated_at'' T_timestamptz False]
     [Primary_key [''account_id''], Foreign_key ''account_id'' ''game_accounts.id'' ''CASCADE'',
      Check_that ''ck_account_policies_policy_object'' (''jsonb_typeof(policy) = '' @ quoted ''object'')]"

definition declared_account_snapshots :: table_def where
  "declared_account_snapshots = table_of ''account_snapshots''
     [col ''id'' T_uuid False, col ''account_id'' T_uuid False, col ''sanitized_state'' T_jsonb False,
      col ''state_fingerprint'' (T_string 128) False, col ''fetched_at'' T_timestamptz False,
      col ''expires_at'' T_timestamptz False]
     [Primary_key [''id''], Foreign_key ''account_id'' ''game_accounts.id'' ''CASCADE'',
      Check_that ''ck_account_snapshots_snapshot_expiry'' (''expires_at = fetched_at + INTERVAL '' @ quoted ''5 minutes'')]"

definition declared_jobs :: table_def where
  "declared_jobs = table_of ''jobs''
     [col ''id'' T_uuid False, col ''account_id'' T_uuid False, col ''kind'' (T_string 64) False,
      col ''schedule'' (T_string 128) False, col ''timezone'' (T_string 64) False,
      col ''enabled'' T_boolean False, col ''next_run_at'' T_timestamptz True,
      col ''misfire_policy'' (T_string 32) False, col ''created_at'' T_timestamptz False,
      col ''updated_at'' T_timestamptz False]
     [Primary_key [''id''], Foreign_key ''account_id'' ''game_accounts.id'' ''CASCADE'']"

definition declared_job_runs :: table_def where
  "declared_job_runs = table_of ''job_runs''
     [col ''id'' T_uuid False, col ''job_id'' T_uuid False, col ''account_id'' T_uuid False,
      col ''idempotency_key'' (T_string 128) False, col ''dispatched_at'' T_timestamptz False,
      col ''lease_owner'' (T_string 128) True, col ''lease_expires_at'' T_timestamptz True,
      col ''attempt'' T_integer False, col ''result'' T_jsonb True, col ''retry_count'' T_integer False,
      col ''next_retry_at'' T_timestamptz True, col ''completed_at'' T_timestamptz True]
     [Primary_key [''id''], Foreign_key ''job_id'' ''jobs.id'' ''CASCADE'',
      Foreign_key ''account_id'' ''game_accounts.id'' ''CASCADE'',
      Unique_on (Some ''uq_job_runs_account_idempotency'') [''account_id'', ''idempotency_key'']]"

definition declared_action_plans :: table_def where
  "declared_action_plans = table_of ''action_plans''
     [col ''id'' T_uuid False, col ''account_id'' T_uuid False,
      col ''state_fingerprint'' (T_string 128) False, col ''policy_version'' T_integer False,
      col ''proposed_actions'' T_jsonb False, col ''estimated_costs'' T_jsonb False,
      col ''risk'' (T_string 32) False, col ''expires_at'' T_timestamptz False,
      col ''confirmation_required'' T_boolean False, col ''confirmed_at'' T_timestamptz True,
      col ''confirmed_by'' (T_string 128) True, col ''execution_state'' (T_string 32) False,
      col ''executed_at'' T_timestamptz True, col ''execution_result'' T_jsonb True,
      col ''execution_owner'' (T_string 128) True, col ''execution_started_at'' T_timestamptz True,
      col ''execution_lease_expires_at'' T_timestamptz True,
      col ''execution_attempt_count'' T_integer False, col ''created_at'' T_timestamptz False]
     [Primary_key [''id''], Foreign_key ''account_id'' ''game_accounts.id'' ''CASCADE'']"

definition declared_mcp_tokens :: table_def where
  "declared_mcp_tokens = table_of ''mcp_tokens''
     [col ''id'' T_uuid False, col ''prefix'' (T_string 16) False, col ''digest'' (T_string 64) False,
      col ''scopes'' T_jsonb False, col ''account_allowlist'' T_jsonb False,
      col ''expires_at'' T_timestamptz False, col ''last_used_at'' T_timestamptz True,
      col ''revoked_at'' T_timestamptz True, col ''created_at'' T_timestamptz False]
     [Primary_key [''id''], Unique_on None [''digest'']]"

definition declared_admin_credentials :: table_def where
  "declared_admin_credentials = table_of ''admin_credentials''
     [col ''id'' T_integer False, col ''password_hash'' T_text False,
      col ''created_at'' T_timestamptz False, col ''updated_at'' T_timestamptz False]
     [Primary_key [''id''], Check_that ''ck_admin_credentials_singleton'' ''id = 1'']"

definition declared_admin_sessions :: table_def where
  "declared_admin_sessions = table_of ''admin_sessions''
     [col ''id'' T_uuid False, col ''token_digest'' (T_string 64) False,
      col ''created_at'' T_timestamptz False, col ''absolute_expires_at'' T_timestamptz False,
      col ''last_seen_at'' T_timestamptz False]
     [Primary_key [''id''], Unique_on (Some ''uq_admin_sessions_token_digest'') [''token_digest'']]"

definition declared_audit_events :: table_def where
  "declared_audit_events = table_of ''audit_events''
     [col ''id'' T_uuid False, col ''actor'' (T_string 128) False, col ''source'' (T_string 64) False,
      col ''account_id'' T_uuid True, col ''plan_id'' T_uuid True, col ''action'' (T_string 128) False,
      col ''costs'' T_jsonb True, col ''result'' T_jsonb True,
      col ''correlation_id'' (T_string 128) True, col ''before'' T_jsonb True,
      col ''after'' T_jsonb True, col ''created_at'' T_timestamptz False]
     [Primary_key [''id''], Foreign_key ''account_id'' ''game_accounts.id'' ''RESTRICT'',
      Foreign_key ''plan_id'' ''action_plans.id'' ''RESTRICT'']"

definition declared_scheduler_leases :: table_def where
  "declared_scheduler_leases = table_of ''scheduler_leases''
     [col ''name'' (T_string 64) False, col ''owner'' (T_string 128) True,
      col ''lease_expires_at'' T_timestamptz True, col ''updated_at'' T_timestamptz False]
     [Primary_key [''name''], Check_that ''ck_scheduler_leases_default_name'' (''name = '' @ quoted ''default'')]"

definition declared_schema :: schema where
  "declared_schema = \<lparr>sm_tables = [declared_game_accounts, declared_account_policies,
       declared_account_snapshots, declared_jobs, declared_job_runs, declared_action_plans, declared_mcp_tokens,
       declared_admin_credentials, declared_admin_sessions, declared_audit_events, declared_scheduler_leases],
     sm_indexes = [
       index_of ''ix_account_policies_policy_version'' ''account_policies'' [''policy_version''],
       index_of ''ix_account_snapshots_expires_at'' ''account_snapshots'' [''expires_at''],
       index_of ''ix_action_plans_expires_at'' ''action_plans'' [''expires_at''],
       index_of ''ix_jobs_due'' ''jobs'' [''enabled'', ''next_run_at''],
       index_of ''ix_job_runs_lease_retry'' ''job_runs'' [''lease_expires_at'', ''next_retry_at''],
       index_of ''ix_mcp_tokens_expires_at'' ''mcp_tokens'' [''expires_at''],
       index_of ''ix_admin_sessions_absolute_expires_at'' ''admin_sessions'' [''absolute_expires_at''],
       index_of ''ix_audit_events_retention'' ''audit_events'' [''created_at'']],
     sm_functions = [], sm_triggers = [], sm_rows = []\<rparr>"

section \<open>The migrations build what the models declare\<close>

text \<open>Equality up to the order of columns, constraints, tables and indexes.\<close>

definition same_elements :: "'a list \<Rightarrow> 'a list \<Rightarrow> bool" where
  "same_elements xs ys \<longleftrightarrow> length xs = length ys \<and> distinct xs \<and> list_all (\<lambda>x. x \<in> set ys) xs"

definition same_table :: "table_def \<Rightarrow> table_def \<Rightarrow> bool" where
  "same_table t u \<longleftrightarrow> tb_name t = tb_name u \<and> same_elements (tb_columns t) (tb_columns u) \<and>
     same_elements (tb_constraints t) (tb_constraints u)"

definition matches :: "schema \<Rightarrow> schema \<Rightarrow> bool" where
  "matches s m \<longleftrightarrow> length (sm_tables s) = length (sm_tables m) \<and>
     list_all (\<lambda>t. case find_table (tb_name t) m of None \<Rightarrow> False | Some u \<Rightarrow> same_table t u) (sm_tables s) \<and>
     distinct (map tb_name (sm_tables s)) \<and> same_elements (sm_indexes s) (sm_indexes m)"

lemma history_is_linear: "history = migrations"
  by code_simp

lemma built_schema: "case schema_at 4 of None \<Rightarrow> False | Some s \<Rightarrow> matches s declared_schema"
  by code_simp


lemma downgrades:
  "Option.bind (schema_at 1) (run_ops downgrade_001) = schema_at 0"
  "Option.bind (schema_at 2) (run_ops downgrade_002) = schema_at 1"
  "Option.bind (schema_at 3) (run_ops downgrade_003) = schema_at 2"
  "Option.bind (schema_at 4) (run_ops downgrade_004) = schema_at 3"
  by code_simp+

text \<open>Every downgrade takes back its upgrade, the triggers, functions and seeded rows included.\<close>

theorem migrations_reversible:
  assumes "k < length migrations"
  shows "Option.bind (schema_at (Suc k)) (run_ops (mg_downgrade (history ! k))) = schema_at k"
proof -
  from assms consider "k = 0" | "k = 1" | "k = 2" | "k = 3" by (auto simp: migrations_def less_Suc_eq)
  then show ?thesis
    by cases (simp_all add: history_is_linear migrations_def downgrades [simplified] flip: numeral_2_eq_2)
qed

section \<open>What any migration keeps\<close>

text \<open>
  No dangling name: a constraint speaks of columns of its table and of an existing table, an index and
  a trigger of existing columns, tables and functions. Whatever operations succeed, this stays so.
\<close>

definition table_ok :: "schema \<Rightarrow> table_def \<Rightarrow> bool" where
  "table_ok s t \<longleftrightarrow> (\<forall>k \<in> set (tb_constraints t). has_columns (constraint_columns k) t \<and>
     (\<forall>n. target_table k = Some n \<longrightarrow> n \<in> tb_name ` set (sm_tables s)))"

definition schema_ok :: "schema \<Rightarrow> bool" where
  "schema_ok s \<longleftrightarrow> distinct (map tb_name (sm_tables s)) \<and> (\<forall>t \<in> set (sm_tables s). table_ok s t) \<and>
     (\<forall>i \<in> set (sm_indexes s). \<exists>t \<in> set (sm_tables s). tb_name t = ix_table i \<and> has_columns (ix_columns i) t) \<and>
     (\<forall>(g, n, f, v) \<in> set (sm_triggers s). n \<in> tb_name ` set (sm_tables s) \<and> f \<in> fst ` set (sm_functions s))"

lemma find_table_Some: "find_table n s = Some t \<Longrightarrow> t \<in> set (sm_tables s) \<and> tb_name t = n"
  by (auto simp: find_table_def find_Some_iff)

lemma find_table_None: "find_table n s = None \<longleftrightarrow> n \<notin> tb_name ` set (sm_tables s)"
  by (auto simp: find_table_def find_None_iff)

lemma put_table_names [simp]: "map tb_name (sm_tables (put_table t s)) = map tb_name (sm_tables s)"
  by (simp add: put_table_def comp_def if_distrib cong: if_cong)

lemma put_table_name_set [simp]: "tb_name ` set (sm_tables (put_table t s)) = tb_name ` set (sm_tables s)"
  by (metis put_table_names set_map)

lemma put_table_rest [simp]:
  "sm_indexes (put_table t s) = sm_indexes s" "sm_triggers (put_table t s) = sm_triggers s"
  "sm_functions (put_table t s) = sm_functions s"
  by (simp_all add: put_table_def)

lemma in_put_table: "u \<in> set (sm_tables (put_table t s)) \<Longrightarrow>
  u = t \<or> u \<in> set (sm_tables s) \<and> tb_name u \<noteq> tb_name t"
  by (auto simp: put_table_def split: if_splits)

text \<open>A table is replaced by one of its name that is sound itself and keeps the columns indexes use.\<close>

lemma schema_ok_put:
  assumes "schema_ok s" "t \<in> set (sm_tables s)" "tb_name u = tb_name t" "table_ok s u"
    and "\<And>i. i \<in> set (sm_indexes s) \<Longrightarrow> ix_table i = tb_name t \<Longrightarrow> has_columns (ix_columns i) t \<Longrightarrow>
      has_columns (ix_columns i) u"
  shows "schema_ok (put_table u s)"
proof -
  have there: "u \<in> set (sm_tables (put_table u s))" using assms(2,3) by (auto simp: put_table_def image_iff)
  have ok: "table_ok (put_table u s) v" if "v \<in> set (sm_tables (put_table u s))" for v
    using in_put_table [OF that] assms(1,4) by (auto simp: schema_ok_def table_ok_def)
  have "\<exists>v \<in> set (sm_tables (put_table u s)). tb_name v = ix_table i \<and> has_columns (ix_columns i) v"
    if i: "i \<in> set (sm_indexes s)" for i
  proof -
    from i assms(1) obtain v where v: "v \<in> set (sm_tables s)" "tb_name v = ix_table i" "has_columns (ix_columns i) v"
      by (auto simp: schema_ok_def)
    show ?thesis
    proof (cases "tb_name v = tb_name u")
      case True
      then have "v = t" using assms(1,2,3) v(1) by (simp add: schema_ok_def) (metis distinct_map inj_onD)
      with v assms(5) [OF i] True assms(3) there show ?thesis by auto
    next
      case False
      then have "v \<in> set (sm_tables (put_table u s))" using v(1) by (auto simp: put_table_def image_iff)
      with v show ?thesis by blast
    qed
  qed
  with ok assms(1) show ?thesis by (simp add: schema_ok_def)
qed

lemma perform_op_ok:
  assumes "schema_ok s" "perform_op m s = Some t"
  shows "schema_ok t"
proof (cases m)
  case (Create_table u)
  with assms have t: "t = s\<lparr>sm_tables := sm_tables s @ [u]\<rparr>" "tb_name u \<notin> tb_name ` set (sm_tables s)"
    and u: "\<forall>k \<in> set (tb_constraints u). has_columns (constraint_columns k) u \<and>
      (\<forall>n. target_table k = Some n \<longrightarrow> n = tb_name u \<or> n \<in> tb_name ` set (sm_tables s))"
    by (auto simp: find_table_None list_all_iff split: if_splits option.splits)
  then have "table_ok t u" by (auto simp: table_ok_def)
  moreover have "table_ok t v" if "table_ok s v" for v using that t by (auto simp: table_ok_def)
  ultimately show ?thesis using assms(1) t by (auto simp: schema_ok_def)
next
  case (Drop_table n)
  with assms have t: "t = s\<lparr>sm_tables := filter (\<lambda>t. tb_name t \<noteq> n) (sm_tables s),
        sm_indexes := filter (\<lambda>i. ix_table i \<noteq> n) (sm_indexes s),
        sm_triggers := filter (\<lambda>(g, t, f, v). t \<noteq> n) (sm_triggers s),
        sm_rows := filter (\<lambda>(t, k). t \<noteq> n) (sm_rows s)\<rparr>"
    and free: "\<forall>u \<in> set (sm_tables s). tb_name u \<noteq> n \<longrightarrow> (\<forall>k \<in> set (tb_constraints u). target_table k \<noteq> Some n)"
    by (auto simp: referenced_def list_ex_iff split: if_splits)
  have "table_ok t u" if "u \<in> set (sm_tables s)" "tb_name u \<noteq> n" for u
    using that assms(1) free t by (auto simp: schema_ok_def table_ok_def) blast
  moreover have "distinct (map tb_name (filter (\<lambda>t. tb_name t \<noteq> n) (sm_tables s)))"
    using assms(1) by (auto simp: schema_ok_def distinct_map intro: inj_on_subset)
  moreover have "\<exists>u \<in> set (sm_tables t). tb_name u = ix_table i \<and> has_columns (ix_columns i) u"
    if "i \<in> set (sm_indexes t)" for i
  proof -
    from that t assms(1) obtain u where "u \<in> set (sm_tables s)" "tb_name u = ix_table i" "has_columns (ix_columns i) u"
      "ix_table i \<noteq> n" by (auto simp: schema_ok_def)
    with t show ?thesis by auto
  qed
  moreover have "f \<in> fst ` set (sm_functions t) \<and> k \<in> tb_name ` set (sm_tables t)"
    if "(g, k, f, v) \<in> set (sm_triggers t)" for g k f v
    using that t assms(1) by (fastforce simp: schema_ok_def image_iff)
  ultimately show ?thesis using t by (auto simp: schema_ok_def)
next
  case (Add_column n c d)
  with assms obtain u where u: "find_table n s = Some u" "t = put_table (u\<lparr>tb_columns := tb_columns u @ [c]\<rparr>) s"
    by (auto split: option.splits if_splits)
  have cols: "has_columns cs (u\<lparr>tb_columns := tb_columns u @ [c]\<rparr>)" if "has_columns cs u" for cs
    using that by (auto simp: has_columns_def list_all_iff)
  from find_table_Some [OF u(1)] assms(1) show ?thesis unfolding u(2)
    by (intro schema_ok_put [where t = u]) (auto simp: schema_ok_def table_ok_def cols)
next
  case (Drop_column n c)
  with assms obtain u where u: "find_table n s = Some u" "\<not> column_used n c s"
      "t = put_table (u\<lparr>tb_columns := filter (\<lambda>x. cl_name x \<noteq> c) (tb_columns u)\<rparr>) s"
    by (auto split: option.splits if_splits)
  let ?u = "u\<lparr>tb_columns := filter (\<lambda>x. cl_name x \<noteq> c) (tb_columns u)\<rparr>"
  have cols: "has_columns cs ?u" if "has_columns cs u" "c \<notin> set cs" for cs
    using that by (fastforce simp: has_columns_def list_all_iff image_iff)
  note here = find_table_Some [OF u(1)]
  have "c \<notin> set (constraint_columns k)" if "k \<in> set (tb_constraints u)" for k
    using that u(2) here by (auto simp: column_used_def list_ex_iff)
  then have "table_ok s ?u" using here assms(1) by (auto simp: schema_ok_def table_ok_def cols)
  moreover have "c \<notin> set (ix_columns i)" if "i \<in> set (sm_indexes s)" "ix_table i = n" for i
    using that u(2) by (auto simp: column_used_def list_ex_iff)
  ultimately show ?thesis using here assms(1) unfolding u(3)
    by (intro schema_ok_put [where t = u]) (auto simp: cols)
next
  case (Create_unique k n cs)
  with assms obtain u where u: "find_table n s = Some u" "has_columns cs u"
      "t = put_table (u\<lparr>tb_constraints := tb_constraints u @ [Unique_on (Some k) cs]\<rparr>) s"
    by (auto split: option.splits if_splits)
  from find_table_Some [OF u(1)] assms(1) u(2) show ?thesis unfolding u(3)
    by (intro schema_ok_put [where t = u]) (auto simp: schema_ok_def table_ok_def has_columns_def)
next
  case (Drop_constraint k n)
  with assms obtain u where u: "find_table n s = Some u"
      "t = put_table (u\<lparr>tb_constraints := filter (\<lambda>x. constraint_name x \<noteq> Some k) (tb_constraints u)\<rparr>) s"
    by (auto split: option.splits if_splits)
  from find_table_Some [OF u(1)] assms(1) show ?thesis unfolding u(2)
    by (intro schema_ok_put [where t = u]) (auto simp: schema_ok_def table_ok_def has_columns_def)
next
  case (Create_index i n cs)
  with assms obtain u where u: "find_table n s = Some u" "has_columns cs u"
      "t = s\<lparr>sm_indexes := sm_indexes s @ [index_of i n cs]\<rparr>"
    by (auto split: option.splits if_splits)
  from find_table_Some [OF u(1)] assms(1) u(2) show ?thesis
    by (auto simp: u(3) schema_ok_def table_ok_def index_of_def)
next
  case (Drop_function f)
  with assms have t: "t = s\<lparr>sm_functions := filter (\<lambda>(h, b). h \<noteq> f) (sm_functions s)\<rparr>"
    and free: "\<And>g n h v. (g, n, h, v) \<in> set (sm_triggers s) \<Longrightarrow> h \<noteq> f"
    by (auto simp: list_ex_iff split: if_splits)
  have "h \<in> fst ` set (sm_functions t)" if "(g, n, h, v) \<in> set (sm_triggers s)" for g n h v
  proof -
    from that assms(1) obtain b where "(h, b) \<in> set (sm_functions s)" by (auto simp: schema_ok_def)
    with free [OF that] t show ?thesis by (auto simp: image_iff)
  qed
  with assms(1) t show ?thesis by (auto simp: schema_ok_def table_ok_def)
next
  case (Create_trigger g v n f)
  with assms have "t = s\<lparr>sm_triggers := sm_triggers s @ [(g, n, f, v)]\<rparr>" "n \<in> tb_name ` set (sm_tables s)"
    "f \<in> fst ` set (sm_functions s)"
    by (simp_all add: find_table_None split: if_splits)
  with assms(1) show ?thesis by (simp add: schema_ok_def table_ok_def)
qed (use assms in \<open>auto simp: schema_ok_def table_ok_def split: if_splits option.splits\<close>)

theorem migrations_keep_schema_ok: "run_ops ms s = Some t \<Longrightarrow> schema_ok s \<Longrightarrow> schema_ok t"
  by (induction ms arbitrary: s) (auto split: option.splits dest: perform_op_ok)

theorem migrations_keep_schema_ok_witness: "schema_ok (the (run_ops upgrade_001 empty_schema))"
proof -
  have "run_ops upgrade_001 empty_schema \<noteq> None" by code_simp
  then obtain t where "run_ops upgrade_001 empty_schema = Some t" by blast
  moreover have "schema_ok empty_schema" by (simp add: schema_ok_def empty_schema_def)
  ultimately show ?thesis using migrations_keep_schema_ok by fastforce
qed

end
