(* ===== verification/Timestamps.thy ===== *)
theory Timestamps
  imports Prelude
begin

text \<open>
  The text of a UTC \<open>datetime\<close> at the resolution of a second, \<open>isoformat\<close> of the standard library:
  the proleptic Gregorian calendar by cycles of 400, 100, 4 and 1 years, as \<open>datetime\<close> computes it,
  and two-digit fields. Two instants in the range of \<open>datetime\<close> have one text exactly when they lie in
  one second.
\<close>

section \<open>The calendar\<close>

text \<open>Days are counted from 0001-01-01; the day 1970-01-01 is number 719162.\<close>

definition year_day :: "int \<Rightarrow> int \<times> int" where
  "year_day n =
     (let n400 = n div 146097; a = n mod 146097;
          n100 = min 3 (a div 36524); b = a - 36524 * n100;
          n4 = b div 1461; c = b mod 1461;
          n1 = min 3 (c div 365) in
      (400 * n400 + 100 * n100 + 4 * n4 + n1 + 1, c - 365 * n1))"

definition is_leap :: "int \<Rightarrow> bool" where
  "is_leap y \<longleftrightarrow> y mod 4 = 0 \<and> (y mod 100 \<noteq> 0 \<or> y mod 400 = 0)"

definition month_lengths :: "int \<Rightarrow> int list" where
  "month_lengths y = [31, if is_leap y then 29 else 28, 31, 30, 31, 30, 31, 31, 30, 31, 30, 31]"

fun month_day :: "nat \<Rightarrow> int list \<Rightarrow> int \<Rightarrow> nat \<times> int" where
  "month_day m [] n = (m, n + 1)"
| "month_day m (k # ks) n = (if n < k then (m, n + 1) else month_day (Suc m) ks (n - k))"

definition iso_second :: "instant \<Rightarrow> string" where
  "iso_second t =
     (let s = t div 1000000; day = s div 86400 + 719162; r = s mod 86400;
          (y, n) = year_day day; (m, d) = month_day 1 (month_lengths y) n in
      pad_digits 4 (nat y) @ ''-'' @ pad_digits 2 m @ ''-'' @ pad_digits 2 (nat d) @ ''T'' @
      pad_digits 2 (nat (r div 3600)) @ '':'' @ pad_digits 2 (nat (r div 60 mod 60)) @ '':'' @
      pad_digits 2 (nat (r mod 60)) @ ''+00:00'')"

text \<open>The range of \<open>datetime\<close>: the years 1 to 9999.\<close>

definition datetime_range :: "instant \<Rightarrow> bool" where
  "datetime_range t \<longleftrightarrow> 0 \<le> t div 86400000000 + 719162 \<and> t div 86400000000 + 719162 < 3652059"

lemma iso_second_sample: "iso_second 1709210096123456 = ''2024-02-29T12:34:56+00:00''"
  by code_simp

section \<open>One text per second\<close>

lemma year_day_inverse:
  assumes "year_day n = (y, k)"
  shows "n = 365 * (y - 1) + (y - 1) div 4 - (y - 1) div 100 + (y - 1) div 400 + k \<and> 0 \<le> k \<and> k < 366"
proof -
  define a where "a = n mod 146097"
  define h where "h = min 3 (a div 36524)"
  define b where "b = a - 36524 * h"
  define q where "q = b div 1461"
  define c where "c = b mod 1461"
  define i where "i = min 3 (c div 365)"
  have a: "0 \<le> a" "a < 146097" by (simp_all add: a_def)
  then have h: "0 \<le> h" "h \<le> 3" by (simp_all add: h_def)
  have b: "0 \<le> b" "b < 36525" using a unfolding b_def h_def by (auto simp: min_def)
  then have q: "0 \<le> q" "q < 25" by (simp_all add: q_def)
  have c: "0 \<le> c" "c < 1461" by (simp_all add: c_def)
  then have i: "0 \<le> i" "i \<le> 3" by (simp_all add: i_def)
  have k: "k = c - 365 * i" "y - 1 = 400 * (n div 146097) + 100 * h + 4 * q + i"
    using assms by (auto simp: year_day_def Let_def a_def h_def b_def q_def c_def i_def)
  have "0 \<le> k" "k < 366" using c unfolding k i_def by (auto simp: min_def)
  moreover have "(y - 1) div 4 = 100 * (n div 146097) + 25 * h + q" using k(2) i by simp
  moreover have "(y - 1) div 100 = 4 * (n div 146097) + h" using k(2) i q by simp
  moreover have "(y - 1) div 400 = n div 146097" using k(2) i q h by simp
  moreover have "n = 146097 * (n div 146097) + a" by (simp add: a_def)
  moreover have "a = 36524 * h + b" by (simp add: b_def)
  moreover have "b = 1461 * q + c" by (simp add: q_def c_def)
  ultimately show ?thesis using k by auto
qed

lemma month_day_inverse:
  "month_day m ks n = (m', d) \<Longrightarrow> 0 \<le> n \<Longrightarrow>
   m \<le> m' \<and> m' \<le> m + length ks \<and> 1 \<le> d \<and> n = sum_list (take (m' - m) ks) + d - 1"
proof (induction m ks n rule: month_day.induct)
  case (2 m k ks n)
  show ?case
  proof (cases "n < k")
    case False
    then have "Suc m \<le> m' \<and> m' \<le> Suc m + length ks \<and> 1 \<le> d \<and>
        n - k = sum_list (take (m' - Suc m) ks) + d - 1"
      using 2 by auto
    moreover from this have "m' - m = Suc (m' - Suc m)" by arith
    ultimately show ?thesis by simp
  qed (use 2 in auto)
qed auto

lemma month_day_bound:
  "month_day m ks n = (m', d) \<Longrightarrow> list_all (\<lambda>k. k \<le> 31) ks \<Longrightarrow> n < sum_list ks + 31 \<Longrightarrow> d \<le> 31"
  by (induction m ks n rule: month_day.induct) (auto split: if_splits)

lemma month_lengths_facts:
  "list_all (\<lambda>k. k \<le> 31) (month_lengths y)" "365 \<le> sum_list (month_lengths y)" "length (month_lengths y) = 12"
  by (simp_all add: month_lengths_def)

lemma year_range:
  assumes "year_day n = (y, k)" "0 \<le> n" "n < 3652059"
  shows "1 \<le> y \<and> y < 10000"
proof -
  define a where "a = n mod 146097"
  define h where "h = min 3 (a div 36524)"
  define b where "b = a - 36524 * h"
  define q where "q = b div 1461"
  define c where "c = b mod 1461"
  define i where "i = min 3 (c div 365)"
  have y: "y = 400 * (n div 146097) + 100 * h + 4 * q + i + 1"
    using assms(1) by (auto simp: year_day_def Let_def a_def h_def b_def q_def c_def i_def)
  have a: "0 \<le> a" "a < 146097" "n = 146097 * (n div 146097) + a" by (simp_all add: a_def)
  have h: "0 \<le> h" "h \<le> 3" using a by (simp_all add: h_def)
  have b: "0 \<le> b" "b < 36525" using a unfolding b_def h_def by (auto simp: min_def)
  have q: "0 \<le> q" "q \<le> 24" using b by (simp_all add: q_def)
  have c: "0 \<le> c" "c < 1461" "b = 1461 * q + c" by (simp_all add: c_def q_def)
  have i: "0 \<le> i" "i \<le> 3" "365 * i \<le> c" using c by (auto simp: i_def min_def)
  have n: "0 \<le> n div 146097" "n div 146097 \<le> 24" using assms(2,3) by simp_all
  have "y < 10000"
  proof (cases "n div 146097 = 24 \<and> h = 3 \<and> q = 24")
    case True
    then have "365 * i \<le> 1094" using assms(3) a(3) c(3) i(3) b_def by linarith
    then show ?thesis using y True by linarith
  next
    case False
    then have "n div 146097 \<le> 23 \<or> h \<le> 2 \<or> q \<le> 23" using n h q by linarith
    then show ?thesis using y n h q i by linarith
  qed
  moreover have "1 \<le> y" using y n h q i by linarith
  ultimately show ?thesis by simp
qed

lemma seconds_of_day:
  assumes "(r :: int) div 3600 = s div 3600" "r div 60 mod 60 = s div 60 mod 60" "r mod 60 = s mod 60"
  shows "r = s"
proof -
  have "r div 60 div 60 = s div 60 div 60" using assms(1) by (simp add: zdiv_zmult2_eq [symmetric])
  with assms(2) have "r div 60 = s div 60" by (metis div_mult_mod_eq)
  with assms(3) show ?thesis by (metis div_mult_mod_eq)
qed

lemma pad_int_inj:
  "pad_digits k (nat a) = pad_digits k (nat b) \<Longrightarrow> 0 \<le> a \<Longrightarrow> 0 \<le> b \<Longrightarrow> a < 10 ^ k \<Longrightarrow> b < 10 ^ k \<Longrightarrow> a = b"
  by (subst (asm) pad_digits_inj) (simp_all add: nat_less_iff)

lemma fields_of_day:
  assumes "0 \<le> (r :: int)" "r < 86400"
  shows "0 \<le> r div 3600" "r div 3600 < 10 ^ 2" "0 \<le> r div 60 mod 60" "r div 60 mod 60 < 10 ^ 2"
    "0 \<le> r mod 60" "r mod 60 < 10 ^ 2"
proof -
  have "r = r div 3600 * 3600 + r mod 3600" "0 \<le> r mod 3600" by simp_all
  then show "r div 3600 < 10 ^ 2" using assms(2) unfolding power2_eq_square by linarith
  have "r div 60 mod 60 < 60" "r mod 60 < 60" by (rule pos_mod_bound, simp)+
  then show "r div 60 mod 60 < 10 ^ 2" "r mod 60 < 10 ^ 2" by simp_all
qed (use assms in \<open>simp_all add: pos_imp_zdiv_nonneg_iff\<close>)

lemma same_day_second:
  assumes "0 \<le> r" "r < 86400" "0 \<le> s" "s < 86400"
    and "pad_digits 2 (nat (r div 3600)) = pad_digits 2 (nat (s div 3600))"
    and "pad_digits 2 (nat (r div 60 mod 60)) = pad_digits 2 (nat (s div 60 mod 60))"
    and "pad_digits 2 (nat (r mod 60)) = pad_digits 2 (nat (s mod 60))"
  shows "r = s"
proof -
  note r = fields_of_day [OF assms(1,2)] and s = fields_of_day [OF assms(3,4)]
  show ?thesis
    by (rule seconds_of_day) (rule pad_int_inj [OF assms(5) r(1) s(1) r(2) s(2)]
      pad_int_inj [OF assms(6) r(3) s(3) r(4) s(4)] pad_int_inj [OF assms(7) r(5) s(5) r(6) s(6)])+
qed

theorem iso_second_inj:
  assumes "datetime_range t" "datetime_range u"
  shows "iso_second t = iso_second u \<longleftrightarrow> t div 1000000 = u div 1000000"
proof
  assume eq: "iso_second t = iso_second u"
  have fields: "\<exists>y n m d. year_day (s div 86400 + 719162) = (y, n) \<and> month_day 1 (month_lengths y) n = (m, d) \<and>
      s div 86400 + 719162 = 365 * (y - 1) + (y - 1) div 4 - (y - 1) div 100 + (y - 1) div 400 + n \<and>
      1 \<le> y \<and> y < 10000 \<and> m < 100 \<and> 1 \<le> d \<and> d \<le> 31 \<and>
      n = sum_list (take (m - 1) (month_lengths y)) + d - 1"
    if "datetime_range v" "s = v div 1000000" for v s
  proof -
    have s: "s div 86400 = v div 86400000000" using that(2) by (simp add: zdiv_zmult2_eq [symmetric])
    obtain y n where yn: "year_day (s div 86400 + 719162) = (y, n)" by fastforce
    obtain m d where md: "month_day 1 (month_lengths y) n = (m, d)" by fastforce
    note inv = year_day_inverse [OF yn]
    have "1 \<le> y \<and> y < 10000" using year_range [OF yn] that(1) s by (simp add: datetime_range_def)
    moreover have "d \<le> 31" using month_day_bound [OF md month_lengths_facts(1)] inv month_lengths_facts(2) [of y] by linarith
    ultimately show ?thesis using inv yn md month_day_inverse [OF md] month_lengths_facts(3) [of y] by auto
  qed
  obtain y n m d where t: "year_day (t div 1000000 div 86400 + 719162) = (y, n)"
    "month_day 1 (month_lengths y) n = (m, d)"
    "t div 1000000 div 86400 + 719162 = 365 * (y - 1) + (y - 1) div 4 - (y - 1) div 100 + (y - 1) div 400 + n"
    "1 \<le> y" "y < 10000" "m < 100" "1 \<le> d" "d \<le> 31" "n = sum_list (take (m - 1) (month_lengths y)) + d - 1"
    using fields [OF assms(1) refl] by blast
  obtain y' n' m' d' where u: "year_day (u div 1000000 div 86400 + 719162) = (y', n')"
    "month_day 1 (month_lengths y') n' = (m', d')"
    "u div 1000000 div 86400 + 719162 = 365 * (y' - 1) + (y' - 1) div 4 - (y' - 1) div 100 + (y' - 1) div 400 + n'"
    "1 \<le> y'" "y' < 10000" "m' < 100" "1 \<le> d'" "d' \<le> 31" "n' = sum_list (take (m' - 1) (month_lengths y')) + d' - 1"
    using fields [OF assms(2) refl] by blast
  let ?r = "\<lambda>v :: int. v div 1000000 mod 86400"
  have parts: "pad_digits 4 (nat y) = pad_digits 4 (nat y')" "pad_digits 2 m = pad_digits 2 m'"
    "pad_digits 2 (nat d) = pad_digits 2 (nat d')"
    "pad_digits 2 (nat (?r t div 3600)) = pad_digits 2 (nat (?r u div 3600))"
    "pad_digits 2 (nat (?r t div 60 mod 60)) = pad_digits 2 (nat (?r u div 60 mod 60))"
    "pad_digits 2 (nat (?r t mod 60)) = pad_digits 2 (nat (?r u mod 60))"
    using eq unfolding iso_second_def Let_def t(1) u(1) prod.case t(2) u(2) by simp_all
  have small: "0 \<le> ?r v" "?r v < 86400" for v :: int by simp_all
  have "y = y'" by (rule pad_int_inj [OF parts(1)]) (use t(4,5) u(4,5) in simp_all)
  moreover have "m = m'" using parts(2) t(6) u(6) by (simp add: pad_digits_inj)
  moreover have "d = d'" by (rule pad_int_inj [OF parts(3)]) (use t(7,8) u(7,8) in simp_all)
  moreover have "?r t = ?r u" by (rule same_day_second [OF small small parts(4,5,6)])
  ultimately have "t div 1000000 div 86400 = u div 1000000 div 86400" "?r t = ?r u" using t(3,9) u(3,9) by auto
  then show "t div 1000000 = u div 1000000" by (metis div_mult_mod_eq)
qed (simp add: iso_second_def)

end
