(* ===== verification/Scheduler.thy ===== *)
theory Scheduler
  imports Timestamps Idle
begin

text \<open>
  The scheduler of idle previews (\<open>scheduler.py\<close>): the store that elects one worker at a time and
  records each account's slots, the tick that ties it to the preview use case, and the loop of
  ticks. A store operation is one transaction, a function of the database; the identifiers a
  transaction draws, and the rows another transaction holds locked (\<open>skip_locked\<close>), are arguments.
  The dispatches of a tick run one after the other, the order a semaphore of one admits.
\<close>

section \<open>Slots\<close>

definition job_kind_idle :: string where
  "job_kind_idle = ''idle_preview''"

definition job_timezone_name :: string where
  "job_timezone_name = ''Asia/Shanghai''"

definition job_misfire_defer :: string where
  "job_misfire_defer = ''defer''"

definition run_key :: "uuid \<Rightarrow> instant \<Rightarrow> string" where
  "run_key account scheduled_for = ''idle_preview:'' @ uuid_str account @ '':'' @ iso_second scheduled_for"

record claimed_run =
  cr_run_id :: uuid
  cr_job_id :: uuid
  cr_account_id :: uuid
  cr_scheduled_for :: instant
  cr_idempotency_key :: string

section \<open>The lease\<close>

definition lease_refuses :: "string \<Rightarrow> instant \<Rightarrow> scheduler_lease \<Rightarrow> bool" where
  "lease_refuses worker now l \<longleftrightarrow>
     (case lease_owner l of None \<Rightarrow> False | Some own \<Rightarrow> own \<noteq> worker) \<and>
     (case lease_expires_at l of None \<Rightarrow> False | Some e \<Rightarrow> now < e)"

definition acquire_lease :: "string \<Rightarrow> instant \<Rightarrow> int \<Rightarrow> database \<Rightarrow> bool \<times> database" where
  "acquire_lease worker now lease d =
     (let l = (case sched_lease d of
            None \<Rightarrow> \<lparr>lease_owner = None, lease_expires_at = None\<rparr> | Some l \<Rightarrow> l) in
      if lease_refuses worker now l then (False, d\<lparr>sched_lease := Some l\<rparr>)
      else (True, d\<lparr>sched_lease :=
        Some \<lparr>lease_owner = Some worker, lease_expires_at = Some (now + seconds lease)\<rparr>\<rparr>))"

definition release_lease :: "string \<Rightarrow> database \<Rightarrow> database" where
  "release_lease worker d =
     (case sched_lease d of
        None \<Rightarrow> d
      | Some l \<Rightarrow>
          if lease_owner l \<noteq> Some worker then d
          else d\<lparr>sched_lease := Some \<lparr>lease_owner = None, lease_expires_at = None\<rparr>\<rparr>)"

section \<open>Jobs\<close>

definition idle_job :: "uuid \<Rightarrow> job \<Rightarrow> bool" where
  "idle_job account j \<longleftrightarrow> job_kind j = job_kind_idle \<and> job_account_id j = account"

text \<open>The oldest idle preview job of an account; younger ones are disabled.\<close>

definition current_job :: "uuid \<Rightarrow> database \<Rightarrow> job option" where
  "current_job account d =
     (case sort_key job_created_at (filter (idle_job account) (jobs d)) of [] \<Rightarrow> None | j # _ \<Rightarrow> Some j)"

definition disable_duplicates :: "uuid list \<Rightarrow> database \<Rightarrow> database" where
  "disable_duplicates known d = d\<lparr>jobs := map (\<lambda>j.
     if job_kind j = job_kind_idle \<and> job_account_id j \<in> set known \<and>
        map_option job_id (current_job (job_account_id j) d) \<noteq> Some (job_id j)
     then j\<lparr>job_enabled := False\<rparr> else j) (jobs d)\<rparr>"

definition account_eligible :: "managed_account \<Rightarrow> bool" where
  "account_eligible a \<longleftrightarrow> ma_enabled a \<and> ma_paused_reason a = None"

definition interval_schedule :: "int \<Rightarrow> string" where
  "interval_schedule interval = ''interval:'' @ show_int interval"

definition new_job :: "uuid \<Rightarrow> uuid \<Rightarrow> instant \<Rightarrow> int \<Rightarrow> job" where
  "new_job new account now interval = \<lparr>job_id = new, job_account_id = account, job_kind = job_kind_idle,
     job_schedule = interval_schedule interval, job_timezone = job_timezone_name, job_enabled = True,
     job_next_run_at = Some now, job_misfire_policy = job_misfire_defer, job_created_at = now\<rparr>"

definition refresh_job :: "instant \<Rightarrow> int \<Rightarrow> job \<Rightarrow> job" where
  "refresh_job now interval j = j\<lparr>job_schedule := interval_schedule interval,
     job_timezone := job_timezone_name, job_misfire_policy := job_misfire_defer, job_enabled := True,
     job_next_run_at := Some (case job_next_run_at j of None \<Rightarrow> now | Some t \<Rightarrow> t)\<rparr>"

definition put_job :: "job \<Rightarrow> database \<Rightarrow> database" where
  "put_job j d = d\<lparr>jobs := replace_row job_id j (jobs d)\<rparr>"

definition ensure_job :: "instant \<Rightarrow> int \<Rightarrow> uuid \<Rightarrow> managed_account \<Rightarrow> database \<Rightarrow> database" where
  "ensure_job now interval new a d =
     (case current_job (ma_id a) d of
        None \<Rightarrow>
          if account_eligible a then d\<lparr>jobs := jobs d @ [new_job new (ma_id a) now interval]\<rparr> else d
      | Some j \<Rightarrow>
          if account_eligible a then put_job (refresh_job now interval j) d
          else put_job (j\<lparr>job_enabled := False\<rparr>) d)"

fun ensure_each ::
  "instant \<Rightarrow> int \<Rightarrow> (nat \<Rightarrow> uuid) \<Rightarrow> nat \<Rightarrow> managed_account list \<Rightarrow> database \<Rightarrow> database" where
  "ensure_each now interval new n [] d = d"
| "ensure_each now interval new n (a # as) d =
     ensure_each now interval new (Suc n) as (ensure_job now interval (new n) a d)"

definition ensure_jobs ::
  "(nat \<Rightarrow> uuid) \<Rightarrow> managed_account list \<Rightarrow> instant \<Rightarrow> int \<Rightarrow> database \<Rightarrow> database" where
  "ensure_jobs new known now interval d =
     (if known = [] then d
      else ensure_each now interval new 0 known (disable_duplicates (map ma_id known) d))"

section \<open>Runs\<close>

definition job_due :: "instant \<Rightarrow> uuid list \<Rightarrow> job \<Rightarrow> bool" where
  "job_due now account_ids j \<longleftrightarrow> job_kind j = job_kind_idle \<and> job_enabled j \<and>
     job_account_id j \<in> set account_ids \<and>
     (case job_next_run_at j of None \<Rightarrow> False | Some t \<Rightarrow> t \<le> now)"

definition slot_run :: "uuid \<Rightarrow> string \<Rightarrow> database \<Rightarrow> job_run option" where
  "slot_run account key d =
     lookup (\<lambda>r. (run_account_id r, run_idempotency_key r)) (account, key) (job_runs d)"

definition put_run :: "job_run \<Rightarrow> database \<Rightarrow> database" where
  "put_run r d = d\<lparr>job_runs := replace_row run_id r (job_runs d)\<rparr>"

definition new_run :: "uuid \<Rightarrow> job \<Rightarrow> string \<Rightarrow> instant \<Rightarrow> string \<Rightarrow> int \<Rightarrow> job_run" where
  "new_run new j key now worker lease = \<lparr>run_id = new, run_job_id = job_id j,
     run_account_id = job_account_id j, run_idempotency_key = key, run_dispatched_at = now,
     run_lease_owner = Some worker, run_lease_expires_at = Some (now + seconds lease), run_attempt = 1,
     run_result = None, run_retry_count = 0, run_next_retry_at = None, run_completed_at = None\<rparr>"

definition run_leased :: "instant \<Rightarrow> job_run \<Rightarrow> bool" where
  "run_leased now r \<longleftrightarrow> (case run_lease_expires_at r of None \<Rightarrow> False | Some e \<Rightarrow> now < e)"

definition retaken :: "instant \<Rightarrow> string \<Rightarrow> int \<Rightarrow> job_run \<Rightarrow> job_run" where
  "retaken now worker lease r = r\<lparr>run_lease_owner := Some worker,
     run_lease_expires_at := Some (now + seconds lease), run_attempt := run_attempt r + 1\<rparr>"

definition claim_slot ::
  "uuid \<Rightarrow> job \<Rightarrow> instant \<Rightarrow> instant \<Rightarrow> string \<Rightarrow> int \<Rightarrow> database \<Rightarrow> claimed_run option \<times> database" where
  "claim_slot new j slot now worker lease d =
     (let key = run_key (job_account_id j) slot;
          claimed = (\<lambda>r. Some \<lparr>cr_run_id = run_id r, cr_job_id = job_id j,
            cr_account_id = job_account_id j, cr_scheduled_for = slot, cr_idempotency_key = key\<rparr>) in
      case slot_run (job_account_id j) key d of
        None \<Rightarrow>
          let r = new_run new j key now worker lease in
          (claimed r, d\<lparr>job_runs := job_runs d @ [r]\<rparr>)
      | Some r \<Rightarrow>
          if run_completed_at r \<noteq> None then (None, d)
          else if run_leased now r then (None, d)
          else (claimed r, put_run (retaken now worker lease r) d))"

fun claim_each ::
  "(nat \<Rightarrow> uuid) \<Rightarrow> nat \<Rightarrow> job list \<Rightarrow> instant \<Rightarrow> string \<Rightarrow> int \<Rightarrow> database \<Rightarrow> claimed_run list \<times> database" where
  "claim_each new n [] now worker lease d = ([], d)"
| "claim_each new n (j # js) now worker lease d =
     (case job_next_run_at j of
        None \<Rightarrow> claim_each new (Suc n) js now worker lease d
      | Some slot \<Rightarrow>
          let (c, e) = claim_slot (new n) j slot now worker lease d;
              (cs, u) = claim_each new (Suc n) js now worker lease e in
          (case c of None \<Rightarrow> cs | Some x \<Rightarrow> x # cs, u))"

definition due_jobs :: "(uuid \<Rightarrow> bool) \<Rightarrow> instant \<Rightarrow> uuid list \<Rightarrow> database \<Rightarrow> job list" where
  "due_jobs busy now account_ids d =
     sort_key job_account_id (filter (\<lambda>j. job_due now account_ids j \<and> \<not> busy (job_id j)) (jobs d))"

definition claim_due ::
  "(nat \<Rightarrow> uuid) \<Rightarrow> (uuid \<Rightarrow> bool) \<Rightarrow> instant \<Rightarrow> string \<Rightarrow> int \<Rightarrow> uuid list \<Rightarrow> database \<Rightarrow>
   claimed_run list \<times> database" where
  "claim_due new busy now worker lease account_ids d =
     (if account_ids = [] then ([], d)
      else claim_each new 0 (due_jobs busy now account_ids d) now worker lease d)"

definition get_run :: "uuid \<Rightarrow> database \<Rightarrow> job_run option" where
  "get_run i d = lookup run_id i (job_runs d)"

definition get_job :: "uuid \<Rightarrow> database \<Rightarrow> job option" where
  "get_job i d = lookup job_id i (jobs d)"

definition finish_run :: "claimed_run \<Rightarrow> instant \<Rightarrow> instant \<Rightarrow> json \<Rightarrow> database \<Rightarrow> database" where
  "finish_run c completed_at next_run_at result d =
     (case get_run (cr_run_id c) d of
        None \<Rightarrow> d
      | Some r \<Rightarrow>
          if run_completed_at r \<noteq> None then d
          else
            let e = put_run (r\<lparr>run_result := Some result, run_completed_at := Some completed_at,
                  run_lease_owner := None, run_lease_expires_at := None\<rparr>) d in
            (case get_job (cr_job_id c) d of
               None \<Rightarrow> e
             | Some j \<Rightarrow> put_job (j\<lparr>job_next_run_at := Some next_run_at\<rparr>) e))"

section \<open>Ticks\<close>

text \<open>
  The configuration of a scheduler, and what it meets outside the source: the job rows other
  transactions hold locked, and the error, if any, the storage raises when a run is finished.
\<close>

record scheduler =
  sc_worker :: string
  sc_interval :: int
  sc_lease :: int
  sc_concurrency :: int
  sc_busy :: "uuid \<Rightarrow> bool"
  sc_fault :: "uuid \<Rightarrow> exn option"

definition scheduler_init ::
  "string \<Rightarrow> int \<Rightarrow> int \<Rightarrow> int \<Rightarrow> (uuid \<Rightarrow> bool) \<Rightarrow> (uuid \<Rightarrow> exn option) \<Rightarrow> (exn, scheduler) result" where
  "scheduler_init worker interval lease concurrency busy fault =
     (if worker = [] \<or> 128 < length worker then Inl ValueErr
      else if interval \<le> 0 then Inl ValueErr
      else if lease \<le> 0 then Inl ValueErr
      else if concurrency \<le> 0 then Inl ValueErr
      else Inr \<lparr>sc_worker = worker, sc_interval = interval, sc_lease = lease,
        sc_concurrency = concurrency, sc_busy = busy, sc_fault = fault\<rparr>)"

definition store :: "(database \<Rightarrow> 'a \<times> database) \<Rightarrow> 'a io" where
  "store f = (\<lambda>w. case f (w_db w) of (x, d) \<Rightarrow> (Inr x, w\<lparr>w_db := d\<rparr>))"

text \<open>\<open>uuid4()\<close> drawn for each of \<open>n\<close> rows.\<close>

definition fresh_ids :: "env \<Rightarrow> nat \<Rightarrow> (nat \<Rightarrow> uuid) io" where
  "fresh_ids env n = (\<lambda>w. (Inr (\<lambda>k. env_id env (w_ids w + k)), w\<lparr>w_ids := w_ids w + n\<rparr>))"

text \<open>\<open>try: m finally: n\<close>.\<close>

definition finally_do :: "('s, 'a) prog \<Rightarrow> ('s, unit) prog \<Rightarrow> ('s, 'a) prog" where
  "finally_do m n = (\<lambda>s. case m s of (r, t) \<Rightarrow> (case n t of (Inl e, u) \<Rightarrow> (Inl e, u) | (Inr _, u) \<Rightarrow> (r, u)))"

definition failed_result :: "exn \<Rightarrow> string \<Rightarrow> json" where
  "failed_result e corr = JObj [(''status'', JStr ''failed''), (''error'', JStr (error_code e)),
     (''correlation_id'', JStr corr)]"

definition succeeded_result :: "idle_preview \<Rightarrow> string \<Rightarrow> json" where
  "succeeded_result p corr = JObj [(''status'', JStr ''succeeded''),
     (''decision'', JStr (idle_decision_str (ip_decision p))),
     (''plan_id'', case ip_plan_id p of None \<Rightarrow> JNull | Some i \<Rightarrow> JStr (uuid_str i)),
     (''correlation_id'', JStr corr)]"

definition scheduler_actor :: "scheduler \<Rightarrow> actor" where
  "scheduler_actor sc = \<lparr>actor_kind = ''scheduler'', actor_id = sc_worker sc, actor_scopes = {}\<rparr>"

definition run_preview :: "env \<Rightarrow> scheduler \<Rightarrow> claimed_run \<Rightarrow> string \<Rightarrow> json io" where
  "run_preview env sc c corr = try_else
     (idle_plan_preview env (cr_account_id c) (scheduler_actor sc) corr)
     is_exception (\<lambda>e. ret (failed_result e corr)) (\<lambda>p. ret (succeeded_result p corr))"

definition record_run :: "env \<Rightarrow> scheduler \<Rightarrow> claimed_run \<Rightarrow> instant \<Rightarrow> json \<Rightarrow> unit io" where
  "record_run env sc c now result = handle
     (bnd (clock env) (\<lambda>completed.
        case sc_fault sc (cr_run_id c) of
          Some e \<Rightarrow> raise e
        | None \<Rightarrow> on_db (finish_run c completed (now + seconds (sc_interval sc)) result)))
     is_exception (\<lambda>e. ret ())"

definition dispatch :: "env \<Rightarrow> scheduler \<Rightarrow> instant \<Rightarrow> claimed_run \<Rightarrow> unit io" where
  "dispatch env sc now c = bnd (fresh_id env) (\<lambda>i.
     bnd (run_preview env sc c (uuid_hex i)) (record_run env sc c now))"

fun dispatch_all :: "env \<Rightarrow> scheduler \<Rightarrow> instant \<Rightarrow> claimed_run list \<Rightarrow> unit io" where
  "dispatch_all env sc now [] = ret ()"
| "dispatch_all env sc now (c # cs) = andthen (dispatch env sc now c) (dispatch_all env sc now cs)"

definition tick_body :: "env \<Rightarrow> scheduler \<Rightarrow> instant \<Rightarrow> nat io" where
  "tick_body env sc now = bnd account_list (\<lambda>known.
     bnd (fresh_ids env (length known)) (\<lambda>new.
     andthen (on_db (ensure_jobs new known now (sc_interval sc)))
     (bnd (asks (\<lambda>w. length (jobs (w_db w)))) (\<lambda>n.
      bnd (fresh_ids env n) (\<lambda>new_runs.
      bnd (store (claim_due new_runs (sc_busy sc) now (sc_worker sc) (sc_lease sc)
        (map ma_id (filter account_eligible known)))) (\<lambda>claimed.
      if claimed = [] then ret 0
      else andthen (dispatch_all env sc now claimed) (ret (length claimed))))))))"

definition tick :: "env \<Rightarrow> scheduler \<Rightarrow> bool \<Rightarrow> instant option \<Rightarrow> nat io" where
  "tick env sc is_closed now =
     (if is_closed then ret 0
      else bnd (case now of None \<Rightarrow> clock env | Some t \<Rightarrow> ret t) (\<lambda>current.
        bnd (store (acquire_lease (sc_worker sc) current (sc_lease sc))) (\<lambda>acquired.
        if \<not> acquired then ret 0
        else finally_do (tick_body env sc current) (on_db (release_lease (sc_worker sc))))))"

text \<open>
  \<open>run\<close>: the loop of ticks. \<open>signal k\<close> tells what the \<open>k\<close>-th test of \<open>_closed\<close> and \<open>stop\<close> sees;
  there are two in a round, before the tick and after it. Waiting changes nothing but the time.
\<close>

partial_function (option) run_loop ::
  "env \<Rightarrow> scheduler \<Rightarrow> (nat \<Rightarrow> bool) \<Rightarrow> nat \<Rightarrow> world \<Rightarrow> ((exn, unit) result \<times> world) option" where
  "run_loop env sc signal k w =
     (if signal k then Some (Inr (), w)
      else case tick env sc False None w of (r, t) \<Rightarrow>
        (if (case r of Inl e \<Rightarrow> \<not> is_exception e | Inr n \<Rightarrow> False)
         then Some (case r of Inl e \<Rightarrow> Inl e | Inr n \<Rightarrow> Inr (), t)
         else if signal (Suc k) then Some (Inr (), t)
         else run_loop env sc signal (Suc (Suc k)) t))"

end
