(* ===== verification/Plan_Lifecycle.thy ===== *)
theory Plan_Lifecycle
  imports Idle
begin

text \<open>
  The life of an action plan under every writer of the table: the plan store
  (\<open>policy/plans.py\<close>), the preview store and the execution claims (\<open>application/idle.py\<close>). One
  transaction is one step of \<open>plan_step\<close>; any interleaving of the services is a sequence of steps.
  The steps refine a machine of six states (\<open>lifecycle\<close>), and what matters of a row is shown on
  \<open>row_step\<close>, the change one step can make to one row.
\<close>

section \<open>The abstract life of a plan\<close>

fun lifecycle :: "plan_state \<Rightarrow> plan_state \<Rightarrow> bool" where
  "lifecycle Pending t = (t \<noteq> Pending)"
| "lifecycle Confirmed t = (t \<notin> {Pending, Confirmed})"
| "lifecycle Executing t = (t \<in> {Executed, Failed, Reconciliation_required})"
| "lifecycle Executed t = False"
| "lifecycle Failed t = False"
| "lifecycle Reconciliation_required t = False"

lemma lifecycle_trans: "lifecycle x y \<Longrightarrow> lifecycle y z \<Longrightarrow> lifecycle x z"
  by (cases x; cases y) auto

lemma lifecycle_irrefl: "\<not> lifecycle x x"
  by (cases x) auto

section \<open>What a step does to one row\<close>

definition claim_payloads :: "(string \<times> json) list list" where
  "claim_payloads = [[(''status'', JStr ''precondition_failed'')],
     [(''status'', JStr ''reconciliation_required'')], executed_payload True, executed_payload False]"

inductive row_step :: "pydantic \<Rightarrow> instant \<Rightarrow> action_plan \<Rightarrow> action_plan \<Rightarrow> bool" for px horizon where
  row_same: "row_step px horizon row row"
| row_confirm: "plan_execution_state row = ''pending'' \<Longrightarrow> typed px (confirm_row now who row) = Inr t \<Longrightarrow>
    row_step px horizon row (confirm_row now who row)"
| row_mark: "plan_execution_state row \<in> set [''pending'', ''confirmed''] \<Longrightarrow>
    row_step px horizon row (row\<lparr>plan_execution_state := ''executing''\<rparr>)"
| row_finish: "plan_execution_state row \<in> set [''pending'', ''confirmed'', ''executing''] \<Longrightarrow>
    st \<in> set terminal_states \<Longrightarrow> row_step px horizon row (finish_row now st res row)"
| row_claim: "validate_fresh row now = Inr () \<Longrightarrow> now < horizon \<Longrightarrow>
    row_step px horizon row (claimed_row owner now row)"
| row_take_over: "plan_execution_state row = ''executing'' \<Longrightarrow> \<not> lease_live now row \<Longrightarrow> now < horizon \<Longrightarrow>
    row_step px horizon row (lease_row owner now row)"
| row_settle: "plan_execution_state row = ''executing'' \<Longrightarrow> st \<in> set terminal_states \<Longrightarrow>
    res \<in> set claim_payloads \<Longrightarrow> row_step px horizon row (settled_row now st res row)"

lemmas row_update_defs = confirm_row_def finish_row_def claimed_row_def lease_row_def settled_row_def

text \<open>What a plan was made for: the columns no step writes.\<close>

definition plan_terms :: "action_plan \<Rightarrow> uuid \<times> uuid \<times> string \<times> int \<times> json \<times> json \<times> string \<times> instant \<times> bool" where
  "plan_terms row = (plan_id row, plan_account_id row, plan_state_fingerprint row,
     plan_policy_version row, plan_proposed_actions row, plan_estimated_costs row, plan_risk row,
     plan_expires_at row, plan_confirmation_required row)"

lemma row_step_terms: "row_step px horizon row row' \<Longrightarrow> plan_terms row' = plan_terms row"
  by (induction rule: row_step.induct) (simp_all add: plan_terms_def row_update_defs)

lemma row_step_id: "row_step px horizon row row' \<Longrightarrow> plan_id row' = plan_id row"
  using row_step_terms by (simp add: plan_terms_def)

lemma validate_fresh_state:
  "validate_fresh row now = Inr () \<Longrightarrow> plan_execution_state row \<in> set [''pending'', ''confirmed'']"
  by (auto simp: validate_fresh_def split: if_splits)

section \<open>The steps of the database\<close>

inductive plan_step :: "pydantic \<Rightarrow> instant \<Rightarrow> database \<Rightarrow> database \<Rightarrow> bool" for px horizon where
  plan_step_create: "get_plan i d = None \<Longrightarrow> draft_valid draft \<Longrightarrow> plan_create px i draft d = Inr (t, d') \<Longrightarrow>
    plan_step px horizon d d'"
| plan_step_preview: "get_plan i d = None \<Longrightarrow> draft_valid draft \<Longrightarrow>
    plans d' = plans d @ [draft_row i draft] \<Longrightarrow> plan_step px horizon d d'"
| plan_step_confirm: "plan_confirm px now now' p a who d = Inr (t, d') \<Longrightarrow> plan_step px horizon d d'"
| plan_step_mark: "plan_mark_executing now p expected d = Inr d' \<Longrightarrow> plan_step px horizon d d'"
| plan_step_finish: "plan_finish now p st res d = Inr d' \<Longrightarrow> plan_step px horizon d d'"
| plan_step_claim: "claim_plan_row now owner a p recovery d = Inr (c, d') \<Longrightarrow> now < horizon \<Longrightarrow>
    plan_step px horizon d d'"
| plan_step_settle: "owned_row c d = Inr row \<Longrightarrow> st \<in> set terminal_states \<Longrightarrow> res \<in> set claim_payloads \<Longrightarrow>
    plan_step px horizon d (put_plan (settled_row now st res row) d)"
| plan_step_other: "plans d' = plans d \<Longrightarrow> plan_step px horizon d d'"

lemma account_plan_Some:
  "account_plan p a d = Some row \<longleftrightarrow> get_plan p d = Some row \<and> plan_account_id row = a"
  by (auto simp: account_plan_def split: option.splits)

lemma plans_put: "plans (put_plan r d) = replace_row plan_id r (plans d)"
  by (simp add: put_plan_def)

lemma claim_plan_row_cases:
  assumes "claim_plan_row now owner a p recovery d = Inr (c, d')"
  obtains (take_over) row where "get_plan p d = Some row" "plan_id row = p" "plan_account_id row = a"
      "recovery" "plan_execution_state row = ''executing''" "\<not> lease_live now row"
      "c = \<lparr>claim_owner = owner, claim_plan = lease_row owner now row, claim_recovery = True\<rparr>"
      "d' = put_plan (lease_row owner now row) d"
    | (fresh) row where "get_plan p d = Some row" "plan_id row = p" "plan_account_id row = a"
      "validate_fresh row now = Inr ()"
      "c = \<lparr>claim_owner = owner, claim_plan = claimed_row owner now row, claim_recovery = False\<rparr>"
      "d' = put_plan (claimed_row owner now row) d"
  using assms
  by (fastforce simp: claim_plan_row_def account_plan_Some result_simps Let_def
      dest: get_plan_id split: option.splits if_splits)

text \<open>A step that writes rows in place writes one, as \<open>row_step\<close> allows.\<close>

lemma plan_step_cases:
  assumes "plan_step px horizon d d'"
  obtains (grow) i draft where "get_plan i d = None" "draft_valid draft"
      "plans d' = plans d @ [draft_row i draft]"
    | (update) p row row' where "get_plan p d = Some row" "row_step px horizon row row'"
      "plans d' = replace_row plan_id row' (plans d)"
    | (same) "plans d' = plans d"
  using assms
proof cases
  case (plan_step_create i draft t)
  then show ?thesis using grow by (auto simp: plan_create_def result_simps Let_def insert_plan_def)
next
  case (plan_step_preview i draft)
  then show ?thesis using grow by (simp add: insert_plan_def)
next
  case (plan_step_confirm now now' p a who t)
  then obtain row where row: "get_plan p d = Some row" "plan_execution_state row = ''pending''"
    "typed px (confirm_row now' who row) = Inr t" "d' = put_plan (confirm_row now' who row) d"
    by (auto simp: plan_confirm_def result_simps split: option.splits if_splits)
  show ?thesis by (rule update [OF row(1) row_confirm [OF row(2,3)]]) (simp add: row(4) plans_put)
next
  case (plan_step_mark now p expected)
  then obtain row where row: "get_plan p d = Some row"
    "plan_execution_state row \<in> set [''pending'', ''confirmed'']"
    "d' = put_plan (row\<lparr>plan_execution_state := ''executing''\<rparr>) d"
    by (auto simp: plan_mark_executing_def split: option.splits if_splits)
  show ?thesis by (rule update [OF row(1) row_mark [OF row(2)]]) (simp add: row(3) plans_put)
next
  case (plan_step_finish now p st res)
  then obtain row where row: "get_plan p d = Some row" "st \<in> set terminal_states"
    "plan_execution_state row \<in> set [''pending'', ''confirmed'', ''executing'']"
    "d' = put_plan (finish_row now st res row) d"
    by (auto simp: plan_finish_def split: option.splits if_splits)
  show ?thesis by (rule update [OF row(1) row_finish [OF row(3,2)]]) (simp add: row(4) plans_put)
next
  case (plan_step_claim now owner a p recovery c)
  from plan_step_claim(1) show ?thesis
  proof (cases rule: claim_plan_row_cases)
    case (take_over row)
    show ?thesis
      by (rule update [OF take_over(1) row_take_over [OF take_over(5,6) plan_step_claim(2)]])
        (simp add: take_over(8) plans_put)
  next
    case (fresh row)
    show ?thesis
      by (rule update [OF fresh(1) row_claim [OF fresh(4) plan_step_claim(2)]])
        (simp add: fresh(6) plans_put)
  qed
next
  case (plan_step_settle c row st res now)
  then have row: "get_plan (plan_id (claim_plan c)) d = Some row" "plan_execution_state row = ''executing''"
    by (auto simp: owned_row_def split: option.splits if_splits)
  show ?thesis
    by (rule update [OF row(1) row_settle [OF row(2) plan_step_settle(3,4)]])
      (simp add: plan_step_settle(1) plans_put)
next
  case plan_step_other
  then show ?thesis using same by simp
qed

lemma plan_step_row:
  assumes "plan_step px horizon d d'" "get_plan p d = Some row"
  obtains row' where "get_plan p d' = Some row'" "row_step px horizon row row'"
  using assms(1)
proof (cases rule: plan_step_cases)
  case grow
  then show ?thesis using that assms(2) row_same by (simp add: get_plan_def table_simps)
next
  case (update q r r')
  have id: "plan_id r' = q" using update(1) row_step_id [OF update(2)] get_plan_id by force
  show ?thesis
  proof (cases "p = q")
    case True
    then have "get_plan p d' = Some r'" "r = row"
      using update(1,3) assms(2) id by (simp_all add: get_plan_def table_simps)
    then show ?thesis using that update(2) by simp
  next
    case False
    then have "get_plan p d' = Some row"
      using update(3) assms(2) id by (simp add: get_plan_def table_simps)
    then show ?thesis using that row_same by simp
  qed
next
  case same
  then show ?thesis using that assms(2) row_same by (simp add: get_plan_def)
qed

lemma plan_steps_row:
  assumes "steps (plan_step px horizon) d d'" "get_plan p d = Some row"
  obtains row' where "get_plan p d' = Some row'" "steps (row_step px horizon) row row'"
  using assms
proof (induction arbitrary: thesis rule: steps.induct)
  case (steps_refl d)
  show ?case by (rule steps_refl(1) [OF steps_refl(2) steps.steps_refl])
next
  case (steps_step d d' d'')
  obtain row' where row': "get_plan p d' = Some row'" "steps (row_step px horizon) row row'"
    by (rule steps_step.IH [OF _ steps_step.prems(2)])
  obtain row'' where row'': "get_plan p d'' = Some row''" "row_step px horizon row' row''"
    by (rule plan_step_row [OF steps_step.hyps(2) row'(1)])
  show ?case by (rule steps_step.prems(1) [OF row''(1) steps.steps_step [OF row'(2) row''(2)]])
qed

section \<open>Every plan stays readable\<close>

definition readable :: "pydantic \<Rightarrow> action_plan \<Rightarrow> bool" where
  "readable px row \<longleftrightarrow> (\<exists>t. typed px row = Inr t)"

text \<open>What makes a row readable, column by column.\<close>

definition terms_readable :: "pydantic \<Rightarrow> action_plan \<Rightarrow> bool" where
  "terms_readable px row \<longleftrightarrow> fingerprint_ok (plan_state_fingerprint row) \<and> 1 \<le> plan_policy_version row \<and>
     plan_risk row \<in> set [''low'', ''medium'', ''high''] \<and>
     (case parse_decisions px (plan_proposed_actions row) of None \<Rightarrow> False
      | Some ds \<Rightarrow> ds \<noteq> [] \<and> list_all decision_valid ds \<and>
          list_all (\<lambda>d. decision_family d = decision_family (hd ds)) ds) \<and>
     (case parse_costs px (plan_estimated_costs row) of None \<Rightarrow> False | Some c \<Rightarrow> costs_valid c)"

definition result_readable :: "json option \<Rightarrow> bool" where
  "result_readable v \<longleftrightarrow> (case parse_result v of None \<Rightarrow> False | Some None \<Rightarrow> True
     | Some (Some kvs) \<Rightarrow> list_all (\<lambda>(k, v). result_value v) kvs \<and> result_fits kvs)"

lemma readable_iff:
  "readable px row \<longleftrightarrow> terms_readable px row \<and> result_readable (plan_execution_result row) \<and>
     map_of plan_states (plan_execution_state row) \<noteq> None \<and>
     (plan_confirmed_at row = None) = (plan_confirmed_by row = None) \<and>
     (plan_execution_state row = ''confirmed'' \<longrightarrow> plan_confirmed_at row \<noteq> None) \<and>
     0 \<le> plan_execution_attempt_count row"
proof -
  have confirmed: "map_of plan_states s = Some st \<Longrightarrow> (st = Confirmed) = (s = ''confirmed'')" for s st
    by (cases st) (auto dest: plan_states_str)
  show ?thesis
    by (auto simp: readable_def typed_def typed_plan_valid_def details_valid_def Let_def
        terms_readable_def result_readable_def confirmed split: option.splits)
qed

lemma terms_readable_cong: "plan_terms row' = plan_terms row \<Longrightarrow> terms_readable px row' = terms_readable px row"
  by (simp add: plan_terms_def terms_readable_def)

lemma plan_states_known:
  "map_of plan_states ''executing'' = Some Executing" "map_of plan_states ''confirmed'' = Some Confirmed"
  "st \<in> set terminal_states \<Longrightarrow> map_of plan_states st \<noteq> None \<and> st \<noteq> ''confirmed''"
  by (auto simp: plan_states_def terminal_states_def)

lemma result_readable_finish: "result_readable (Some (JObj (safe_result [] res)))"
  using safe_result_bounds [of "[]" res]
  by (auto simp: result_readable_def result_fits_def)

lemma result_readable_claim: "res \<in> set claim_payloads \<Longrightarrow> result_readable (Some (redact (JObj res)))"
  by (auto simp: claim_payloads_def executed_payload_def result_readable_def result_fits_def
      is_sensitive_key_def sensitive_key_parts_def max_redacted_string_length_def lower_def lower_char_def)

lemma row_step_readable:
  assumes "row_step px horizon row row'" "readable px row"
  shows "readable px row'"
proof -
  have "terms_readable px row'"
    using assms terms_readable_cong [OF row_step_terms [OF assms(1)]] by (simp add: readable_iff)
  with assms show ?thesis
    by (induction rule: row_step.induct)
      (auto simp: readable_iff row_update_defs plan_states_known result_readable_finish
        result_readable_claim simp del: redact.simps)
qed

lemma draft_row_readable: "pydantic_ok px \<Longrightarrow> draft_valid draft \<Longrightarrow> readable px (draft_row i draft)"
  using typed_draft_row by (auto simp: readable_def)

definition plans_readable :: "pydantic \<Rightarrow> database \<Rightarrow> bool" where
  "plans_readable px d \<longleftrightarrow> list_all (readable px) (plans d)"

lemma get_plan_set: "get_plan p d = Some row \<Longrightarrow> row \<in> set (plans d)"
  by (auto simp: get_plan_def dest: lookup_Some)

lemma plan_step_readable:
  assumes "pydantic_ok px" "plan_step px horizon d d'" "plans_readable px d"
  shows "plans_readable px d'"
  using assms(2)
proof (cases rule: plan_step_cases)
  case (grow i draft)
  then show ?thesis using assms draft_row_readable by (simp add: plans_readable_def)
next
  case (update p row row')
  have "readable px row'"
    using update(2) assms(3) get_plan_set [OF update(1)] row_step_readable
    by (auto simp: plans_readable_def list_all_iff)
  then show ?thesis using assms(3) update(3) set_replace [of plan_id row' "plans d"]
    by (auto simp: plans_readable_def list_all_iff)
next
  case same
  then show ?thesis using assms(3) by (simp add: plans_readable_def)
qed

text \<open>Under an assumption on pydantic that \<open>strict_pydantic\<close> meets, so the machine is one per \<open>px\<close>.\<close>

definition ok_step :: "pydantic \<Rightarrow> instant \<Rightarrow> database \<Rightarrow> database \<Rightarrow> bool" where
  "ok_step px horizon d d' \<longleftrightarrow> pydantic_ok px \<and> plan_step px horizon d d'"

interpretation plan_reader: invariant_machine "\<lambda>d. plans d = []" "ok_step px horizon" "plans_readable px"
  for px horizon
proof
  show "plans d = [] \<Longrightarrow> plans_readable px d" for d by (simp add: plans_readable_def)
qed (auto simp: ok_step_def intro: plan_step_readable)

lemma steps_ok: "pydantic_ok px \<Longrightarrow> steps (plan_step px horizon) d d' \<Longrightarrow> steps (ok_step px horizon) d d'"
  by (rotate_tac, induction rule: steps.induct) (auto simp: ok_step_def intro: steps.intros)

text \<open>
  C21: the plan store can read back every plan the program ever writes. Starting from a table
  whose rows it can read (an empty one, say), no interleaving of creations, previews,
  confirmations, claims, take-overs and finishes, by the account service or by an executor, leaves
  a row for which \<open>get_for_update\<close> fails on validation.
\<close>

theorem plans_stay_readable:
  assumes "pydantic_ok px" "steps (plan_step px horizon) d d'" "plans_readable px d"
    and "get_plan p d' = Some row"
  shows "\<exists>t. plan_get_for_update px p (plan_account_id row) d' = Inr t"
proof -
  have "readable px row"
    using plan_reader.steps_keep [OF steps_ok [OF assms(1,2)] assms(3)] get_plan_set [OF assms(4)]
    by (auto simp: plans_readable_def list_all_iff)
  with assms(4) show ?thesis by (simp add: plan_get_for_update_def readable_def)
qed

section \<open>The steps refine the life cycle\<close>

definition state_of :: "action_plan \<Rightarrow> plan_state option" where
  "state_of row = map_of plan_states (plan_execution_state row)"

lemma state_of_str: "state_of row = Some s \<Longrightarrow> plan_execution_state row = plan_state_str s"
  by (simp add: state_of_def plan_states_str)

lemma row_step_lifecycle:
  assumes "row_step px horizon row row'" "state_of row = Some s"
  shows "\<exists>s'. state_of row' = Some s' \<and> (s' = s \<or> lifecycle s s')"
  using assms
  by (induction rule: row_step.induct)
    (cases s; force simp: state_of_def row_update_defs plan_states_def terminal_states_def
      dest!: validate_fresh_state split: if_splits)+

lemma row_steps_lifecycle:
  assumes "steps (row_step px horizon) row row'" "state_of row = Some s"
  shows "plan_terms row' = plan_terms row \<and> (\<exists>s'. state_of row' = Some s' \<and> (s' = s \<or> lifecycle s s'))"
  using assms
proof (induction rule: steps.induct)
  case (steps_step row row' row'')
  then obtain s' where s': "state_of row' = Some s'" "s' = s \<or> lifecycle s s'" by blast
  obtain s'' where "state_of row'' = Some s''" "s'' = s' \<or> lifecycle s' s''"
    using row_step_lifecycle [OF steps_step.hyps(2) s'(1)] by blast
  then show ?case using s' steps_step lifecycle_trans row_step_terms [OF steps_step.hyps(2)] by metis
qed simp

text \<open>
  C4: every history of the plan table refines the six-state life cycle. Whatever the services do
  in whatever order, a plan is never deleted, what it was made for (account, fingerprint, policy
  version, actions, costs, risk, expiry and whether it must be confirmed) never changes, and its
  state only moves forward: from pending to confirmed or executing, from confirmed to executing,
  from any of these to a terminal state, never back.
\<close>

theorem plan_history_refines_lifecycle:
  assumes "steps (plan_step px horizon) d d'" "get_plan p d = Some row" "state_of row = Some s"
  shows "\<exists>row' s'. get_plan p d' = Some row' \<and> plan_terms row' = plan_terms row \<and>
    state_of row' = Some s' \<and> (s' = s \<or> lifecycle s s')"
  by (rule plan_steps_row [OF assms(1,2)]) (use row_steps_lifecycle [OF _ assms(3)] in blast)

section \<open>Terminal plans and live leases\<close>

definition terminal_row :: "action_plan \<Rightarrow> bool" where
  "terminal_row row \<longleftrightarrow> plan_execution_state row \<in> set terminal_states"

lemma terminal_row_step: "row_step px horizon row row' \<Longrightarrow> terminal_row row \<Longrightarrow> row' = row"
  by (induction rule: row_step.induct)
    (auto simp: terminal_row_def terminal_states_def dest!: validate_fresh_state)

text \<open>A lease that runs until the horizon belongs to its owner until the plan is settled.\<close>

definition leased_to :: "string \<Rightarrow> instant \<Rightarrow> action_plan \<Rightarrow> bool" where
  "leased_to owner horizon row \<longleftrightarrow> plan_execution_owner row = Some owner \<and> (terminal_row row \<or>
     plan_execution_state row = ''executing'' \<and> plan_execution_lease_expires_at row = Some horizon)"

lemma leased_step:
  assumes "leased_to owner horizon row" "row_step px horizon row row'"
  shows "leased_to owner horizon row'"
  using assms(2,1)
proof (induction rule: row_step.induct)
  case (row_claim row now)
  then show ?case by (auto simp: leased_to_def terminal_row_def terminal_states_def dest!: validate_fresh_state)
qed (auto simp: leased_to_def terminal_row_def row_update_defs terminal_states_def lease_live_def)

interpretation terminal: stable_property "row_step px horizon" "\<lambda>r. terminal_row r \<and> r = row"
  for px horizon row
  by unfold_locales (use terminal_row_step in blast)

interpretation leased: stable_property "row_step px horizon" "leased_to owner horizon"
  for px horizon owner
  by unfold_locales (rule leased_step)

text \<open>
  A settled plan is settled for good. Once a plan is executed, failed or awaiting
  reconciliation, no later operation of any service changes any column of its row.
\<close>

theorem settled_plan_is_final:
  assumes "get_plan p d = Some row" "terminal_row row" "steps (plan_step px horizon) d d'"
  shows "get_plan p d' = Some row"
proof (rule plan_steps_row [OF assms(3,1)])
  fix row' assume "get_plan p d' = Some row'" "steps (row_step px horizon) row row'"
  then show ?thesis using terminal.stable_steps [of px horizon row row' row] assms(2) by simp
qed

text \<open>
  C17: a claim is exclusive while its lease lives. When a claim succeeded at time \<open>now\<close>, then
  whatever happens next, as long as every further claim reads a time before \<open>now\<close> plus two
  minutes, the plan is still owned by that claim: it is executing under the same lease, or it has
  been settled, and no other executor was let in.
\<close>

theorem live_claim_is_exclusive:
  assumes "claim_plan_row now owner a p recovery d = Inr (c, d1)"
    and "steps (plan_step px (now + execution_lease)) d1 d2"
  shows "\<exists>row. get_plan p d2 = Some row \<and> plan_execution_owner row = Some owner \<and>
    (terminal_row row \<or> plan_execution_state row = ''executing'' \<and>
      plan_execution_lease_expires_at row = Some (now + execution_lease))"
proof -
  obtain row where row: "get_plan p d1 = Some row" "leased_to owner (now + execution_lease) row"
    using assms(1)
    by (cases rule: claim_plan_row_cases)
      (auto simp: table_simps leased_to_def claimed_row_def lease_row_def)
  show ?thesis
  proof (rule plan_steps_row [OF assms(2) row(1)])
    fix row' assume "get_plan p d2 = Some row'" "steps (row_step px (now + execution_lease)) row row'"
    then show ?thesis using leased.stable_steps [OF _ row(2)] by (auto simp: leased_to_def)
  qed
qed

section \<open>A sample plan\<close>

definition sample_idle_draft :: action_plan_draft where
  "sample_idle_draft = \<lparr>pd_account_id = 7, pd_state_fingerprint = ''pgfp:v1:'' @ replicate 64 CHR ''a'',
     pd_policy_version = 1,
     pd_decisions = [SelectedDecision Fam_idle ''idle_threshold_reached'' IdleCollectAction],
     pd_estimated_costs = no_costs, pd_risk = ''low'', pd_expires_at = 300,
     pd_confirmation_required = False, draft_family = Fam_idle\<rparr>"

definition sample_idle_row :: action_plan where
  "sample_idle_row = draft_row 9 sample_idle_draft"

definition sample_plan_db :: database where
  "sample_plan_db = insert_plan sample_idle_row empty_database"

lemma sample_idle_draft_valid: "draft_valid sample_idle_draft"
  by (simp add: draft_valid_def details_valid_def sample_idle_draft_def fingerprint_ok_def
      decision_valid_def reason_ok_def is_ascii_lower_def is_digit_def no_costs_def costs_valid_def
      list_all_iff)

lemma sample_plan_row: "get_plan 9 sample_plan_db = Some sample_idle_row"
  by (simp add: sample_plan_db_def insert_plan_def get_plan_def empty_database_def table_simps
      sample_idle_row_def draft_row_def)

lemma sample_fresh: "validate_fresh sample_idle_row 1 = Inr ()"
  by (simp add: validate_fresh_def sample_idle_row_def draft_row_def sample_idle_draft_def
      decision_json_def action_json_def claims_idle_collect_def dict_get_def dict_eq_def)

lemma sample_claim:
  "claim_plan_row 1 ''o'' 7 9 False sample_plan_db = Inr
     (\<lparr>claim_owner = ''o'', claim_plan = claimed_row ''o'' 1 sample_idle_row, claim_recovery = False\<rparr>,
      put_plan (claimed_row ''o'' 1 sample_idle_row) sample_plan_db)"
proof -
  have "plan_execution_state sample_idle_row \<noteq> ''executing''" "plan_account_id sample_idle_row = 7"
    by (simp_all add: sample_idle_row_def draft_row_def sample_idle_draft_def)
  then show ?thesis
    by (simp add: claim_plan_row_def account_plan_def sample_plan_row sample_fresh Let_def)
qed

lemma sample_claim_steps:
  "1 < h \<Longrightarrow> steps (plan_step px h) sample_plan_db (put_plan (claimed_row ''o'' 1 sample_idle_row) sample_plan_db)"
  by (rule steps_step [OF steps_refl [of _ sample_plan_db]]) (rule plan_step_claim [OF sample_claim])

lemma sample_claimed_row:
  "get_plan 9 (put_plan (claimed_row ''o'' 1 sample_idle_row) sample_plan_db) =
     Some (claimed_row ''o'' 1 sample_idle_row)"
  by (simp add: table_simps sample_plan_row claimed_row_def lease_row_def)
    (simp add: sample_idle_row_def draft_row_def)

theorem plans_stay_readable_witness:
  "\<exists>t. plan_get_for_update strict_pydantic 9 7
     (put_plan (claimed_row ''o'' 1 sample_idle_row) sample_plan_db) = Inr t"
proof -
  have "plans_readable strict_pydantic sample_plan_db"
    using draft_row_readable [OF strict_pydantic_ok sample_idle_draft_valid]
    by (simp add: plans_readable_def sample_plan_db_def insert_plan_def empty_database_def
        sample_idle_row_def)
  from plans_stay_readable [OF strict_pydantic_ok sample_claim_steps [of 2] this sample_claimed_row]
  show ?thesis by (simp add: claimed_row_def lease_row_def sample_idle_row_def draft_row_def
        sample_idle_draft_def)
qed

lemma sample_state: "state_of sample_idle_row = Some Pending"
  by (simp add: state_of_def sample_idle_row_def draft_row_def plan_states_def)

theorem plan_history_refines_lifecycle_witness:
  "\<exists>row. get_plan 9 (put_plan (claimed_row ''o'' 1 sample_idle_row) sample_plan_db) = Some row \<and>
     plan_terms row = plan_terms sample_idle_row"
  using plan_history_refines_lifecycle
    [OF sample_claim_steps [of 2 strict_pydantic] sample_plan_row sample_state] by auto

theorem settled_plan_is_final_witness:
  "get_plan 9 (put_plan (finish_row 5 ''failed'' [] sample_idle_row) sample_plan_db) =
     Some (finish_row 5 ''failed'' [] sample_idle_row)"
proof (rule settled_plan_is_final [OF _ _ steps_refl])
  show "get_plan 9 (put_plan (finish_row 5 ''failed'' [] sample_idle_row) sample_plan_db) =
      Some (finish_row 5 ''failed'' [] sample_idle_row)"
    by (simp add: table_simps sample_plan_row finish_row_def)
      (simp add: sample_idle_row_def draft_row_def)
  show "terminal_row (finish_row 5 ''failed'' [] sample_idle_row)"
    by (simp add: terminal_row_def finish_row_def terminal_states_def)
qed

theorem live_claim_is_exclusive_witness:
  "\<exists>row. get_plan 9 (put_plan (claimed_row ''o'' 1 sample_idle_row) sample_plan_db) = Some row \<and>
     plan_execution_owner row = Some ''o''"
  using live_claim_is_exclusive [OF sample_claim steps_refl] by blast

end
