(* ===== verification/Account_Frame.thy ===== *)
theory Account_Frame
  imports Accounts
begin

text \<open>
  What the account service's programs leave alone. The steps a session, an identity check or a
  snapshot is made of are few: readings of the clock and the random source, calls to the game,
  edits of the locked record, audit and snapshot rows. The locale \<open>session_frame\<close> states what a
  predicate on the world must tolerate of them and concludes that every such program keeps it; it
  is interpreted on the facts the properties need.
\<close>

section \<open>Edits of the locked record\<close>

definition removal_marker :: "string option \<Rightarrow> bool" where
  "removal_marker p \<longleftrightarrow> p = Some ''removed'' \<or> p = Some ''removing''"

definition gentle :: "(game_account \<Rightarrow> game_account) \<Rightarrow> bool" where
  "gentle f \<longleftrightarrow> (\<forall>r. ga_id (f r) = ga_id r \<and> game_account_id (f r) = game_account_id r \<and>
     ga_policy_version (f r) = ga_policy_version r \<and>
     (removal_marker (ga_paused_reason (f r)) \<longrightarrow> ga_paused_reason (f r) = ga_paused_reason r))"

lemma gentle_edits [simp]:
  "gentle (\<lambda>r. r\<lparr>ga_label := l\<rparr>)"
  "gentle (\<lambda>r. r\<lparr>ga_enabled := b\<rparr>)"
  "gentle (\<lambda>r. r\<lparr>ga_game_username := c\<rparr>)"
  "gentle (\<lambda>r. r\<lparr>ga_password := c\<rparr>)"
  "gentle (\<lambda>r. r\<lparr>ga_session_token := c\<rparr>)"
  "gentle (\<lambda>r. r\<lparr>ga_session_expires_at := x\<rparr>)"
  "gentle (\<lambda>r. r\<lparr>ga_last_success_at := x\<rparr>)"
  "gentle (\<lambda>r. r\<lparr>ga_last_error_at := x\<rparr>)"
  "gentle (\<lambda>r. r\<lparr>ga_paused_reason := None\<rparr>)"
  "gentle (\<lambda>r. r\<lparr>ga_paused_reason := Some ''session_refresh_required''\<rparr>)"
  "gentle (\<lambda>r. r\<lparr>ga_enabled := False, ga_paused_reason := Some ''account_identity_mismatch''\<rparr>)"
  "gentle (\<lambda>r. r\<lparr>ga_session_expires_at := x, ga_last_success_at := y\<rparr>)"
  "gentle (\<lambda>r. r\<lparr>ga_session_expires_at := x, ga_auth_failure_count := n,
     ga_auth_failure_window_started_at := z, ga_last_success_at := y\<rparr>)"
  "gentle (reset_session mode x)"
  "gentle (count_failure now)"
  by (auto simp: gentle_def removal_marker_def reset_session_def count_failure_def Let_def)

lemma gentle_id [simp]: "gentle f \<Longrightarrow> ga_id (f r) = ga_id r"
  "gentle f \<Longrightarrow> game_account_id (f r) = game_account_id r"
  by (simp_all add: gentle_def)

lemma get_map_account [table_simps]:
  "(\<And>r. ga_id (f r) = ga_id r) \<Longrightarrow>
   get_account b (map_account a f d) =
     (if b = a then map_option f (get_account a d) else get_account b d)"
  by (auto simp: map_account_def table_simps get_account_id split: option.splits)

lemma plans_map_account [simp]:
  "plans (map_account a f d) = plans d" "jobs (map_account a f d) = jobs d"
  "audits (map_account a f d) = audits d"
  by (simp_all add: map_account_def split: option.splits)

lemma andthen_on_db: "andthen (on_db f) m w = m (w\<lparr>w_db := f (w_db w)\<rparr>)"
  by (simp add: andthen_eval on_db_def modify_def)

lemma andthen_update:
  "andthen (update_account a f) m w = m (w\<lparr>w_db := map_account a f (w_db w)\<rparr>)"
  by (simp add: update_account_def andthen_on_db)

lemma transaction_cases:
  assumes "transaction m w = (x, t)"
  obtains (ok) y where "m w = (Inr y, t)" "x = Inr y"
    | (err) e u where "m w = (Inl e, u)" "x = Inl e" "t = u\<lparr>w_db := w_db w\<rparr>"
  using assms unfolding transaction_def by (auto elim!: atomically_cases)

section \<open>Facts about the tables\<close>

text \<open>What only concerns the tables is kept by every step that does not write them.\<close>

definition on_tables :: "(database \<Rightarrow> bool) \<Rightarrow> world \<Rightarrow> bool" where
  "on_tables Q w \<longleftrightarrow> Q (w_db w)"

lemma on_tables_reads:
  "keeps (on_tables Q) (clock env)" "keeps (on_tables Q) (fresh_nonce env)"
  "keeps (on_tables Q) (game_request c answer)" "keeps (on_tables Q) (set_locals f)"
  "keeps (on_tables Q) (reject_removal_marker r)" "keeps (on_tables Q) (reject_removed r)"
  "keeps (on_tables Q) (require b)" "keeps (on_tables Q) (seal env a column v)"
  by (auto simp: keeps_def on_tables_def clock_def fresh_nonce_def game_request_def Let_def
      set_locals_def modify_def reject_removal_marker_def reject_removed_def andthen_eval check_def
      ret_def raise_def require_def seal_def bnd_eval split: option.split)

lemma on_tables_write: "(\<And>d. Q d \<Longrightarrow> Q (f d)) \<Longrightarrow> keeps (on_tables Q) (on_db f)"
  by (simp add: keeps_def on_tables_def on_db_def modify_def)

lemma on_tables_transaction: "keeps (on_tables Q) m \<Longrightarrow> keeps (on_tables Q) (transaction m)"
  unfolding transaction_def by (rule keeps_atomically) (simp_all add: on_tables_def)

lemma on_tables_audit:
  "(\<And>d v src ac pl nm x y z corr. Q d \<Longrightarrow> Q (add_audit v src ac pl nm x y z corr d)) \<Longrightarrow>
   keeps (on_tables Q) (audit who b action x y z p)"
  unfolding audit_def by (rule on_tables_write)

lemmas on_tables_keeps = keeps_intros on_tables_reads on_tables_transaction on_tables_audit

section \<open>The frame\<close>

definition is_collect :: "game_call \<Rightarrow> bool" where
  "is_collect c \<longleftrightarrow> (case c of Call_idle_collect _ \<Rightarrow> True | _ \<Rightarrow> False)"

lemma is_collect_simps [simp]:
  "is_collect (Call_idle_collect t)" "\<not> is_collect (Call_login u p)"
  "\<not> is_collect (Call_bootstrap t)" "\<not> is_collect (Call_idle_summary t)"
  "\<not> is_collect (Call_operation t n)"
  by (simp_all add: is_collect_def)

locale session_frame =
  fixes P :: "world \<Rightarrow> bool" and a :: uuid
  assumes tick: "P w \<Longrightarrow> P (w\<lparr>w_ticks := n\<rparr>)"
    and nonce: "P w \<Longrightarrow> P (w\<lparr>w_nonces := n\<rparr>)"
    and call: "P w \<Longrightarrow> \<not> is_collect c \<Longrightarrow> P (w\<lparr>w_calls := w_calls w @ [c]\<rparr>)"
    and edit: "P w \<Longrightarrow> gentle f \<Longrightarrow> P (w\<lparr>w_db := map_account a f (w_db w)\<rparr>)"
    and bind: "P w \<Longrightarrow> get_account a (w_db w) = Some r \<Longrightarrow> game_account_id r = None \<Longrightarrow>
      (\<forall>x. find_identity i (w_db w) = Some x \<longrightarrow> ga_id x = a) \<Longrightarrow>
      P (w\<lparr>w_db := map_account a (\<lambda>r. r\<lparr>game_account_id := Some i\<rparr>) (w_db w)\<rparr>)"
    and log: "P w \<Longrightarrow> P (w\<lparr>w_db := add_audit v src ac pl nm x y z corr (w_db w)\<rparr>)"
    and snap: "P w \<Longrightarrow> P (w\<lparr>w_db := w_db w\<lparr>snapshots := rows\<rparr>\<rparr>)"
    and rollback: "P s \<Longrightarrow> P w \<Longrightarrow> P (w\<lparr>w_db := w_db s\<rparr>)"
begin

lemma keeps_clock: "keeps P (clock env)"
  by (rule keepsI) (simp add: clock_def tick)

lemma keeps_nonce: "keeps P (fresh_nonce env)"
  by (rule keepsI) (simp add: fresh_nonce_def nonce)

lemma keeps_request: "\<not> is_collect c \<Longrightarrow> keeps P (game_request c answer)"
  by (rule keepsI) (simp add: game_request_def Let_def call)

lemma keeps_game:
  "keeps P (game_login env u p)" "keeps P (game_bootstrap env t)" "keeps P (game_idle_summary env t)"
  by (simp_all add: game_login_def game_bootstrap_def game_idle_summary_def keeps_request)

lemma keeps_edit: "gentle f \<Longrightarrow> keeps P (update_account a f)"
  unfolding update_account_def on_db_def by (rule keeps_modify) (simp add: edit)

lemma keeps_audit: "keeps P (audit who b action x y z p)"
  unfolding audit_def on_db_def by (rule keeps_modify) (simp add: log)

lemma keeps_require: "keeps P (require b)"
  by (rule keepsI) (simp add: require_def split: option.split)

lemma keeps_transaction: "keeps P m \<Longrightarrow> keeps P (transaction m)"
  unfolding transaction_def by (rule keeps_atomically) (auto intro: rollback)

lemma keeps_policy: "keeps P (policy_provider env b)"
  by (rule keepsI) (simp add: policy_provider_def)

lemmas keeps_steps = keeps_intros keeps_clock keeps_nonce keeps_game keeps_edit keeps_audit
  keeps_require keeps_policy

lemma keeps_seal: "keeps P (seal env a column v)"
  unfolding seal_def by (intro keeps_steps)

lemma keeps_setters:
  "keeps P (set_game_username env a v)" "keeps P (set_password env a v)"
  "keeps P (set_session_token env a v)"
  unfolding set_game_username_def set_password_def set_session_token_def
  by (intro keeps_steps keeps_seal gentle_edits)+

lemma keeps_getters:
  "keeps P (get_game_username env r)" "keeps P (get_password env r)"
  "keeps P (get_session_token env r)"
  by (simp_all add: get_game_username_def get_password_def get_session_token_def keeps_intros)

lemma keeps_login: "keeps P (login_and_bootstrap env u p)"
proof -
  have "keeps P (login_loop env u p n)" for n
  proof (induction n)
    case 0
    show ?case by (simp add: keeps_intros)
  next
    case (Suc n)
    show ?case unfolding login_loop.simps
      by (rule keeps_handle) (rule keeps_bnd keeps_game keeps_basic Suc)+
  qed
  then show ?thesis by (simp add: login_and_bootstrap_def)
qed

lemma keeps_mismatch: "keeps P (identity_mismatch env a who)"
  unfolding identity_mismatch_def by (intro keeps_steps gentle_edits)

lemma keeps_bind: "keeps P (bind_or_match_identity env a i who)"
proof (rule keepsI)
  fix w assume P: "P w"
  have "keeps P (andthen (identity_mismatch env a who) (ret False))"
    by (intro keeps_intros keeps_mismatch)
  with P have mis: "P (snd (andthen (identity_mismatch env a who) (ret False) w))"
    by (simp add: keeps_def)
  show "P (snd (bind_or_match_identity env a i who w))"
  proof (cases "get_account a (w_db w)")
    case None
    then show ?thesis using P
      by (simp add: bind_or_match_identity_def prog_simps require_def split: option.split)
  next
    case (Some r)
    then have id: "ga_id r = a" by (rule get_account_id)
    show ?thesis
    proof (cases i)
      case None
      then show ?thesis using P by (simp add: bind_or_match_identity_def prog_simps)
    next
      case i: (Some j)
      show ?thesis
        using P Some mis id bind [OF P Some, of j]
        by (auto simp: bind_or_match_identity_def i bnd_eval require_def asks_def ret_def
            andthen_update split: option.split)
    qed
  qed
qed

lemma keeps_resolve: "keeps P (resolve_stored_identity env a)"
  unfolding resolve_stored_identity_def by (intro keeps_steps keeps_getters keeps_login)

lemma keeps_pause: "keeps P (pause_for_refresh env a who)"
  unfolding pause_for_refresh_def by (intro keeps_steps gentle_edits)

lemma keeps_failure: "keeps P (record_auth_failure env a who)"
  unfolding record_auth_failure_def by (intro keeps_steps gentle_edits)

lemma keeps_bind_session: "keeps P (bind_session env a who now x api boot)"
  unfolding bind_session_def by (intro keeps_steps keeps_bind gentle_edits)

lemma keeps_relogin: "keeps P (relogin env a who now)"
  unfolding relogin_def
  by (intro keeps_steps keeps_bind keeps_getters keeps_login keeps_setters gentle_edits)

lemma keeps_ensure_active: "keeps P (ensure_active env a who now)"
  unfolding ensure_active_def
  by (intro keeps_steps keeps_getters keeps_pause keeps_bind_session keeps_relogin)

lemma keeps_ensure_locked: "keeps P (ensure_locked env a who)"
  unfolding ensure_locked_def by (intro keeps_steps keeps_ensure_active keeps_failure)

lemma keeps_snapshot: "keeps P (save_snapshot env a res b)"
proof -
  have row: "keeps P (on_db (\<lambda>d. d\<lparr>snapshots := snapshots d @ [x]\<rparr>))" for x
    unfolding on_db_def by (rule keeps_modify) (rule snap)
  show ?thesis unfolding save_snapshot_def by (intro keeps_steps row)
qed

lemma keeps_settle: "keeps P (settle_identity env a r who)"
  unfolding settle_identity_def by (intro keeps_steps keeps_resolve keeps_bind)

lemma keeps_marker: "keeps P (reject_removal_marker r)" "keeps P (reject_removed r)"
  "keeps P (require_mutable r)"
  by (simp_all add: reject_removal_marker_def reject_removed_def require_mutable_def keeps_intros)

lemma keeps_pending: "keeps P (raise_pending p)"
  unfolding raise_pending_def by (intro keeps_intros)

lemma keeps_update_label: "keeps P (update_label env a label who)"
  unfolding update_label_def normalize_label_def with_account_def
  by (intro keeps_transaction keeps_steps keeps_marker gentle_edits)

lemma keeps_update_credentials: "keeps P (update_credentials env a u p who)"
  unfolding update_credentials_def with_account_def
  by (intro keeps_transaction keeps_steps keeps_marker keeps_settle keeps_getters keeps_login
      keeps_bind keeps_setters keeps_pending gentle_edits)

lemma keeps_update_token_only: "keeps P (update_token_only env a t who)"
  unfolding update_token_only_def with_account_def
  by (intro keeps_transaction keeps_steps keeps_marker keeps_settle keeps_bind keeps_setters
      keeps_pending gentle_edits)

lemma keeps_lifecycle: "keeps P (set_lifecycle env a who action b)" "keeps P (resume env a who)"
  unfolding set_lifecycle_def resume_def with_account_def
  by (intro keeps_transaction keeps_steps keeps_marker gentle_edits)+

lemma keeps_ensure_session: "keeps P (ensure_session env a who)"
  unfolding ensure_session_def with_account_def
  by (intro keeps_transaction keeps_steps keeps_ensure_locked)

lemma keeps_snapshot_op: "keeps P (snapshot env a who)"
  unfolding snapshot_def with_account_def
  by (intro keeps_transaction keeps_steps keeps_ensure_locked keeps_snapshot)

lemma keeps_locked: "(\<And>l. keeps P (body l)) \<Longrightarrow> keeps P (locked env a who body)"
  unfolding locked_def with_account_def
  by (intro keeps_transaction keeps_steps keeps_marker keeps_ensure_locked keeps_snapshot)

end

section \<open>The frame of a mutation\<close>

locale mutation_frame = session_frame +
  assumes locals: "P w \<Longrightarrow> P (w\<lparr>w_locals := l\<rparr>)"
    and finish: "P w \<Longrightarrow> plan_finish now p st res (w_db w) = Inr d \<Longrightarrow> P (w\<lparr>w_db := d\<rparr>)"
begin

lemma keeps_locals: "keeps P (set_locals f)"
  unfolding set_locals_def by (rule keeps_modify) (simp add: locals)

lemma keeps_finish_plan: "keeps P (finish_plan env p st res)"
proof -
  have "keeps P (\<lambda>w. case plan_finish now p st res (w_db w) of
      Inl e \<Rightarrow> (Inl e, w) | Inr d \<Rightarrow> (Inr (), w\<lparr>w_db := d\<rparr>))" for now
    by (rule keepsI) (simp add: finish split: sum.split)
  then show ?thesis unfolding finish_plan_def by (intro keeps_bnd keeps_clock)
qed

lemma keeps_finish_if_validated: "keeps P (finish_if_validated env st res)"
  unfolding finish_if_validated_def by (intro keeps_intros keeps_finish_plan)

lemma keeps_audit_mutation: "keeps P (audit_mutation who b res)"
  unfolding audit_mutation_def by (intro keeps_intros keeps_audit)

lemma keeps_cancel: "keeps P (cancel_mutation env who)"
  unfolding cancel_mutation_def
  by (intro keeps_intros keeps_finish_if_validated keeps_audit_mutation)

lemma keeps_succeed: "keeps P (succeed_mutation env a who b v)"
  unfolding succeed_mutation_def
  by (intro keeps_steps keeps_finish_if_validated keeps_audit_mutation gentle_edits)

lemma keeps_try_verify:
  "keeps P m \<Longrightarrow> (\<And>x. keeps P (f x)) \<Longrightarrow> keeps P (try_verify env who m p f)"
  unfolding try_verify_def by (intro keeps_intros keeps_cancel)

lemma keeps_check_plan: "keeps P (check_plan env p b version)"
  unfolding check_plan_def by (intro keeps_steps)

lemma keeps_fail: "keeps P (fail_mutation env who e)"
  unfolding fail_mutation_def Let_def
  by (intro keeps_intros keeps_finish_plan keeps_audit_mutation)

lemma keeps_after_send:
  assumes "\<And>g t v. verify = Some g \<Longrightarrow> keeps P (g t v)"
  shows "keeps P (after_send env a who verify api v)"
  unfolding after_send_def
  by (intro keeps_try_verify keeps_game keeps_option keeps_succeed keeps_if keeps_basic assms)

lemma keeps_after_error:
  assumes "\<And>g t v. verify = Some g \<Longrightarrow> keeps P (g t v)" "\<And>m. again = Some m \<Longrightarrow> keeps P m"
  shows "keeps P (after_error env a who verify api again e)"
  unfolding after_error_def
  by (intro keeps_if keeps_cancel keeps_option keeps_basic keeps_andthen keeps_game assms
      keeps_try_verify keeps_succeed keeps_finish_if_validated)

lemma keeps_check_round:
  assumes "\<And>f t. fingerprint = Some f \<Longrightarrow> keeps P (f t)"
  shows "keeps P (check_round env a plan fingerprint api version)"
  unfolding check_round_def
  by (intro keeps_option keeps_basic keeps_bnd keeps_if keeps_andthen keeps_locals keeps_check_plan
      assms)

lemma keeps_mutate_round:
  assumes "\<And>t. keeps P (operate t)" "\<And>f t. fingerprint = Some f \<Longrightarrow> keeps P (f t)"
    "\<And>g t v. verify = Some g \<Longrightarrow> keeps P (g t v)"
  shows "keeps P (mutate_round env a operate who plan fingerprint verify n)"
proof (induction n)
  case 0
  show ?case
    unfolding mutate_round.simps [of _ _ _ _ _ _ _ 0]
    by (intro keeps_andthen keeps_locals keeps_bnd keeps_require keeps_marker keeps_ensure_locked
        keeps_prod keeps_option keeps_snapshot keeps_policy keeps_check_round keeps_try_else assms
        keeps_after_error keeps_after_send keeps_basic) simp_all
next
  case (Suc n)
  have "keeps P m" if "(case Suc n of 0 \<Rightarrow> None
      | Suc n' \<Rightarrow> Some (mutate_round env a operate who plan fingerprint verify n')) = Some m" for m
    using that Suc.IH by simp
  then show ?case
    unfolding mutate_round.simps [of _ _ _ _ _ _ _ "Suc n"]
    by (intro keeps_andthen keeps_locals keeps_bnd keeps_require keeps_marker keeps_ensure_locked
        keeps_prod keeps_option keeps_snapshot keeps_policy keeps_check_round keeps_try_else assms
        keeps_after_error keeps_after_send keeps_basic)
qed

lemma keeps_mutate:
  assumes "\<And>t. keeps P (operate t)" "\<And>f t. fingerprint = Some f \<Longrightarrow> keeps P (f t)"
    "\<And>g t v. verify = Some g \<Longrightarrow> keeps P (g t v)"
  shows "keeps P (mutate env a operate who plan fingerprint verify)"
proof -
  have settled: "keeps P (case x of Settled m \<Rightarrow> ret m | Cancelled \<Rightarrow> raise CancelledError
      | Pending_error e \<Rightarrow> raise e)" for x :: "'c settled"
    by (cases x) (simp_all add: keeps_basic)
  show ?thesis
    unfolding mutate_def
    by (intro keeps_andthen keeps_locals keeps_bnd keeps_transaction keeps_handle keeps_basic
        keeps_fail settled keeps_mutate_round assms)
qed

end

section \<open>The facts it is used for\<close>

lemma get_account_frame [simp]:
  "get_account b (add_audit v src ac pl nm x y z corr d) = get_account b d"
  "get_account b (d\<lparr>snapshots := rows\<rparr>) = get_account b d"
  "get_account b (put_plan q d) = get_account b d"
  by (simp_all add: get_account_def add_audit_def)

lemma plan_finish_frame:
  "plan_finish now p st res d = Inr d' \<Longrightarrow> accounts d' = accounts d \<and> get_account b d' = get_account b d"
  by (auto simp: plan_finish_def get_account_def split: option.splits if_splits)

text \<open>The row of any other account.\<close>

interpretation other_row: mutation_frame "\<lambda>w. a \<noteq> b \<longrightarrow> get_account b (w_db w) = Some r" a
  for a b r
  by unfold_locales (auto simp: get_map_account plan_finish_frame)

text \<open>A bound identity.\<close>

definition bound_to :: "uuid \<Rightarrow> string \<Rightarrow> world \<Rightarrow> bool" where
  "bound_to b i w \<longleftrightarrow> (\<exists>r. get_account b (w_db w) = Some r \<and> game_account_id r = Some i)"

interpretation bound_identity: mutation_frame "bound_to b i" a for a b i
  by unfold_locales (auto simp: bound_to_def get_map_account plan_finish_frame)

text \<open>The number of collections the game was asked for.\<close>

definition collects :: "world \<Rightarrow> nat" where
  "collects w = length (filter is_collect (w_calls w))"

interpretation collect_count: mutation_frame "\<lambda>w. collects w = n" a for a n
  by unfold_locales (auto simp: collects_def)

text \<open>The plans, as long as no mutation runs.\<close>

interpretation plan_table: session_frame "\<lambda>w. plans (w_db w) = ps" a for a ps
  by unfold_locales (auto simp: add_audit_def)

end
