(* ===== verification/Account_Safety.thy ===== *)
theory Account_Safety
  imports Account_Frame
begin

text \<open>
  What the account service guarantees over any sequence of its operations: removal is final and
  leaves no credential behind, an account keeps the game identity it was bound to and no two
  accounts share one, and an account that is paused, disabled or gone causes no traffic to the
  game. The machine \<open>account_step\<close> has one step per operation of the service.
\<close>

section \<open>The operations as steps\<close>

text \<open>What a caller may run under the lock: code that talks to the game but not to the tables.\<close>

definition silent :: "'a io \<Rightarrow> bool" where
  "silent m \<longleftrightarrow> (\<forall>w. w_db (snd (m w)) = w_db w)"

inductive account_step :: "env \<Rightarrow> world \<Rightarrow> world \<Rightarrow> bool" for env where
  step_add_credentials:
    "add_credentials env label username pass who w = (x, t) \<Longrightarrow> account_step env w t"
| step_add_token_only: "add_token_only env label token who w = (x, t) \<Longrightarrow> account_step env w t"
| step_update_label: "update_label env a label who w = (x, t) \<Longrightarrow> account_step env w t"
| step_update_credentials:
    "update_credentials env a name pass who w = (x, t) \<Longrightarrow> account_step env w t"
| step_update_token_only: "update_token_only env a token who w = (x, t) \<Longrightarrow> account_step env w t"
| step_enable: "enable env a who w = (y, t) \<Longrightarrow> account_step env w t"
| step_disable: "disable env a who w = (y, t) \<Longrightarrow> account_step env w t"
| step_pause: "pause env a reason who w = (y, t) \<Longrightarrow> account_step env w t"
| step_resume: "resume env a who w = (y, t) \<Longrightarrow> account_step env w t"
| step_remove: "disable_drain_remove env a who w = (z, t) \<Longrightarrow> account_step env w t"
| step_ensure_session: "ensure_session env a who w = (ss, t) \<Longrightarrow> account_step env w t"
| step_snapshot: "snapshot env a who w = (sn, t) \<Longrightarrow> account_step env w t"
| step_locked: "(\<And>l. silent (body l :: json io)) \<Longrightarrow> locked env a who body w = (v, t) \<Longrightarrow> account_step env w t"
| step_mutate: "(\<And>api. silent (operate api :: json io)) \<Longrightarrow> (\<And>f api. fp = Some f \<Longrightarrow> silent (f api)) \<Longrightarrow>
    (\<And>g api v. verify = Some g \<Longrightarrow> silent (g api v)) \<Longrightarrow>
    mutate env a operate who plan fp verify w = (m, t) \<Longrightarrow> account_step env w t"

inductive_cases account_step_elim: "account_step env w t"

lemma silent_keeps: "silent m \<Longrightarrow> keeps (\<lambda>w. Q (w_db w)) m"
  by (auto simp: silent_def keeps_def)

section \<open>Enrolment adds one row\<close>

text \<open>An invariant of the database is kept by an enrolment if audits keep it and if adding a fresh
  row of a new identity and filling it in keeps it.\<close>

lemma keeps_enrol:
  assumes P: "\<And>s t. w_db s = w_db t \<Longrightarrow> P s = P t"
    and log: "\<And>x y z n k l m. keeps P (audit x y z n k l m)"
    and add: "\<And>w i. P w \<Longrightarrow> \<not> has_unresolved_identity (w_db w) \<Longrightarrow>
      find_identity identity (w_db w) = None \<Longrightarrow> get_account i (w_db w) = None \<Longrightarrow>
      P (w\<lparr>w_db := w_db w\<lparr>accounts := accounts (w_db w) @ [new_account i label mode identity]\<rparr>\<rparr>)"
    and fill: "\<And>i w. P w \<Longrightarrow> get_account i (w_db w) = None \<Longrightarrow>
      keeps (\<lambda>v. P v) (fill i)"
  shows "keeps P (enrol env label mode identity action who fill)"
proof (rule keepsI)
  fix w assume Pw: "P w"
  obtain x t where run: "enrol env label mode identity action who fill w = (x, t)" by force
  have "P t"
    using run unfolding enrol_def
  proof (cases rule: bnd_cases)
    case (ok y u)
    have "P u"
      using ok(1)
    proof (cases rule: transaction_cases)
      case (ok o1)
      have keep: "keeps P m \<Longrightarrow> m v = (r, v') \<Longrightarrow> P v \<Longrightarrow> P v'" for m :: "'x io" and v v' r
        by (rule keepsD)
      show ?thesis
      proof (cases "has_unresolved_identity (w_db w)")
        case True
        have "keeps P (andthen (audit who None ''account.identity.conflict''
           (conflict_result ''unresolved_historical_identity'') None None None) (ret None))"
          by (intro keeps_intros log)
        then show ?thesis using ok Pw True
          by (auto simp: bnd_eval asks_def dest: keepsD)
      next
        case False
        note unresolved = this
        show ?thesis
        proof (cases "find_identity identity (w_db w)")
          case (Some existing)
          have "keeps P (andthen (audit who (Some (ga_id existing)) ''account.identity.conflict''
             (conflict_result ''already_managed'') None None None) (ret None))"
            by (intro keeps_intros log)
          then show ?thesis using ok Pw False Some
            by (auto simp: bnd_eval asks_def dest: keepsD)
        next
          case None
          let ?i = "env_id env (w_ids w)"
          let ?w = "w\<lparr>w_ids := Suc (w_ids w)\<rparr>"
          let ?v = "?w\<lparr>w_db := w_db w\<lparr>accounts := accounts (w_db w) @ [new_account ?i label mode identity]\<rparr>\<rparr>"
          let ?rest = "andthen (fill ?i) (andthen (audit who (Some ?i) action
             (Some (JObj [(''status'', JStr ''succeeded''), (''bootstrap'', JBool True)])) None None None)
             (bnd (the_record ?i) (\<lambda>r. ret (Some (managed r)))))"
          have fresh: "get_account ?i (w_db w) = None" and rest: "?rest ?v = (Inr o1, u)"
            using ok False None
            by (auto simp: bnd_eval asks_def fresh_id_def raise_def andthen_on_db split: if_splits)
          have "P ?w" using Pw P [of ?w w] by simp
          then have v: "P ?v" using add [of ?w ?i] fresh unresolved None by simp
          have "keeps P (fill ?i)" using fill [of w ?i] Pw fresh by simp
          moreover have "keeps P (the_record ?i)" by (auto simp: keeps_def require_def split: option.split)
          ultimately have "keeps P ?rest" by (intro keeps_intros log)
          then show ?thesis using rest v by (rule keepsD)
        qed
      qed
    next
      case (err e v)
      then show ?thesis using Pw P [of u w] by simp
    qed
    then show ?thesis using ok(2) by (auto simp: raise_def ret_def split: option.splits)
  next
    case (err e)
    from err(1) show ?thesis
    proof (cases rule: transaction_cases)
      case (ok y)
      then show ?thesis by simp
    next
      case (err e' v)
      then show ?thesis using Pw P [of t w] by simp
    qed
  qed
  then show "P (snd (enrol env label mode identity action who fill w))" using run by simp
qed

section \<open>Removal\<close>

definition removed_row :: "uuid \<Rightarrow> game_account \<Rightarrow> world \<Rightarrow> bool" where
  "removed_row b r w \<longleftrightarrow> get_account b (w_db w) = Some r \<and> ga_paused_reason r = Some ''removed''"

lemma rejected_when_removed:
  assumes "removed_row a r w"
  shows "with_account a (\<lambda>r. andthen (reject_removal_marker r) (m r)) w = (Inl AccountRemoved, w)"
    and "with_account a (\<lambda>r. andthen (reject_removed r) (m r)) w = (Inl AccountRemoved, w)"
    and "with_account a (\<lambda>r. andthen (require_mutable r) (m r)) w = (Inl AccountRemoved, w)"
  using assms
  by (simp_all add: removed_row_def with_account_def transaction_def atomically_def bnd_eval
      require_def andthen_eval reject_removal_marker_def reject_removed_def require_mutable_def
      check_def raise_def)

lemmas other_row_keeps =
  other_row.keeps_update_label other_row.keeps_update_credentials
  other_row.keeps_update_token_only other_row.keeps_lifecycle other_row.keeps_ensure_session
  other_row.keeps_snapshot_op

lemma add_row_other:
  "get_account b d = Some r \<Longrightarrow>
   get_account b (d\<lparr>accounts := accounts d @ [new_account i l m j]\<rparr>) = Some r"
  by (simp add: get_account_def table_simps)

lemma keeps_row_enrol:
  assumes fill: "\<And>i. i \<noteq> b \<Longrightarrow> keeps (\<lambda>w. i \<noteq> b \<longrightarrow> get_account b (w_db w) = Some r) (fill i)"
  shows "keeps (\<lambda>w. get_account b (w_db w) = Some r) (enrol env label mode identity action who fill)"
proof (rule keeps_enrol)
  show "keeps (\<lambda>w. get_account b (w_db w) = Some r) (audit x y z n k l m)" for x y z n k l m
    by (simp add: audit_def on_db_def keeps_def modify_def)
next
  fix i w
  assume "get_account b (w_db w) = Some r" "get_account i (w_db w) = None"
  then have "i \<noteq> b" by auto
  then show "keeps (\<lambda>v. get_account b (w_db v) = Some r) (fill i)" using fill [of i] by simp
qed (simp_all add: add_row_other)

lemma keeps_row_add:
  "keeps (\<lambda>w. get_account b (w_db w) = Some r) (add_credentials env label username pass who)"
  "keeps (\<lambda>w. get_account b (w_db w) = Some r) (add_token_only env label token who)"
proof -
  let ?P = "\<lambda>w. get_account b (w_db w) = Some r"
  have base: "keeps ?P (login_and_bootstrap env username pass)" "keeps ?P (clock env)"
    "keeps ?P (game_bootstrap env token)"
    using other_row.keeps_login [of "b + 1" b r] other_row.keeps_clock [of "b + 1" b r]
      other_row.keeps_game [of "b + 1" b r] by simp_all
  have fill1: "keeps ?P (enrol env l m j ac who (\<lambda>i. andthen (set_game_username env i (Some username)) (
       andthen (set_password env i (Some pass)) (andthen (set_session_token env i (Some t))
       (update_account i (\<lambda>r. r\<lparr>ga_session_expires_at := x, ga_last_success_at := y\<rparr>))))))"
    for l m j ac t x y
    by (rule keeps_row_enrol) (intro keeps_andthen other_row.keeps_setters other_row.keeps_edit gentle_edits)
  have fill2: "keeps ?P (enrol env l m j ac who (\<lambda>i. andthen (set_session_token env i (Some t))
       (update_account i (\<lambda>r. r\<lparr>ga_session_expires_at := x, ga_last_success_at := y\<rparr>))))"
    for l m j ac t x y
    by (rule keeps_row_enrol) (intro keeps_andthen other_row.keeps_setters other_row.keeps_edit gentle_edits)
  show "keeps ?P (add_credentials env label username pass who)"
    unfolding add_credentials_def normalize_label_def by (intro keeps_intros base fill1)
  show "keeps ?P (add_token_only env label token who)"
    unfolding add_token_only_def normalize_label_def by (intro keeps_intros base fill2)
qed

text \<open>
  The edits that are not gentle: a pause may carry any reason, and removal sets its markers. For
  them a fact about the tables needs to tolerate any edit of the account's own row that keeps its
  key and its identity.
\<close>

lemma keeps_lifecycle_edits:
  assumes edit: "\<And>d f. Q d \<Longrightarrow> (\<And>r. ga_id (f r) = ga_id r \<and> game_account_id (f r) = game_account_id r) \<Longrightarrow>
      Q (map_account a f d)"
    and log: "\<And>d v src ac pl nm x y z corr. Q d \<Longrightarrow> Q (add_audit v src ac pl nm x y z corr d)"
    and jobs: "\<And>d. Q d \<Longrightarrow> Q (disable_jobs a d)"
  shows "keeps (on_tables Q) (pause env a reason who)"
    and "keeps (on_tables Q) (disable_drain_remove env a who)"
proof -
  have wr: "keeps (on_tables Q) (update_account a f)"
    if "\<And>r. ga_id (f r) = ga_id r \<and> game_account_id (f r) = game_account_id r" for f
    unfolding update_account_def by (rule on_tables_write) (simp add: edit that)
  have job: "keeps (on_tables Q) (on_db (disable_jobs a))"
    by (rule on_tables_write) (rule jobs)
  show "keeps (on_tables Q) (pause env a reason who)"
    unfolding pause_def with_account_def by (intro on_tables_keeps wr log) simp_all
  have "keeps (on_tables Q) (begin_removal env a)"
    unfolding begin_removal_def by (intro on_tables_keeps wr) simp_all
  moreover have "keeps (on_tables Q) (complete_removal env a who)"
    unfolding complete_removal_def with_account_def set_game_username_def set_password_def
      set_session_token_def
    by (intro on_tables_keeps wr log job) simp_all
  ultimately show "keeps (on_tables Q) (disable_drain_remove env a who)"
    unfolding disable_drain_remove_def by (intro on_tables_keeps)
qed

lemma get_account_jobs [simp]: "get_account b (disable_jobs a d) = get_account b d"
  by (simp add: disable_jobs_def get_account_def)

lemma row_lifecycle:
  "a \<noteq> b \<Longrightarrow> keeps (\<lambda>w. get_account b (w_db w) = Some r) (pause env a reason who)"
  "a \<noteq> b \<Longrightarrow> keeps (\<lambda>w. get_account b (w_db w) = Some r) (disable_drain_remove env a who)"
  using keeps_lifecycle_edits [of "\<lambda>d. get_account b d = Some r" a env]
  by (simp_all add: get_map_account on_tables_def [abs_def])

lemma removed_session:
  assumes "removed_row b r w"
  shows "get_account b (w_db (snd (ensure_session env b who w))) = Some r"
    "get_account b (w_db (snd (snapshot env b who w))) = Some r"
  using assms
  by (auto simp: removed_row_def ensure_session_def snapshot_def with_account_def transaction_def
      atomically_def bnd_eval require_def ensure_locked_def clock_def ret_def closed_session_def
      save_snapshot_def Let_def andthen_on_db split: prod.split sum.split)

lemma removed_mutate:
  assumes "removed_row b r w"
  shows "get_account b (w_db (snd (mutate env b operate who plan fp verify w))) = Some r"
proof -
  define locals where "locals = initial_locals\<lparr>validated_account_id := Some (ga_id r)\<rparr>"
  let ?w = "w\<lparr>w_locals := locals\<rparr>"
  have "mutate_round env b operate who plan fp verify 2 (w\<lparr>w_locals := initial_locals\<rparr>) =
      (Inl AccountRemoved, ?w)"
    using assms
    by (subst mutate_round.simps) (simp add: removed_row_def locals_def initial_locals_def
        andthen_eval bnd_eval set_locals_def modify_def require_def require_mutable_def
        reject_removal_marker_def reject_removed_def check_def raise_def)
  moreover have "is_exception AccountRemoved"
    by (simp add: is_exception_def instance_of_simps)
  moreover obtain x t where fail: "fail_mutation env who AccountRemoved ?w = (x, t)" by force
  moreover have "get_account b (w_db t) = Some r"
    using keepsD [OF other_row.keeps_fail [of "b + 1" b r] fail] assms by (simp add: removed_row_def)
  ultimately show ?thesis
    using assms
    by (auto simp: mutate_def andthen_eval bnd_eval set_locals_def modify_def transaction_def
        atomically_def handle_def removed_row_def ret_def raise_def split: sum.split)
qed

lemma keep_other:
  assumes "keeps (\<lambda>w. a \<noteq> b \<longrightarrow> get_account b (w_db w) = Some r) m" "a \<noteq> b" "m w = (x, t)"
    "get_account b (w_db w) = Some r"
  shows "get_account b (w_db t) = Some r"
  using keepsD [OF assms(1,3)] assms(2,4) by simp

lemma keep_row:
  assumes "keeps (\<lambda>w. get_account b (w_db w) = Some r) m" "m w = (x, t)"
    "get_account b (w_db w) = Some r"
  shows "get_account b (w_db t) = Some r"
  using keepsD [OF assms] .

lemma other_enable:
  "keeps (\<lambda>w. a \<noteq> b \<longrightarrow> get_account b (w_db w) = Some r) (enable env a who)"
  "keeps (\<lambda>w. a \<noteq> b \<longrightarrow> get_account b (w_db w) = Some r) (disable env a who)"
  unfolding enable_def disable_def by (rule other_row.keeps_lifecycle)+

lemma silent_kept:
  "silent m \<Longrightarrow> keeps (\<lambda>w. a \<noteq> b \<longrightarrow> get_account b (w_db w) = Some r) m"
  by (rule silent_keeps)

lemma removed_step:
  assumes "account_step env w t" "removed_row b r w"
  shows "removed_row b r t"
proof -
  have row: "get_account b (w_db w) = Some r" and mark: "ga_paused_reason r = Some ''removed''"
    using assms(2) by (simp_all add: removed_row_def)
  have "get_account b (w_db t) = Some r"
    using assms(1)
  proof cases
    case (step_add_credentials label username pass who x)
    show ?thesis by (rule keep_row [OF keeps_row_add(1) step_add_credentials row])
  next
    case (step_add_token_only label token who x)
    show ?thesis by (rule keep_row [OF keeps_row_add(2) step_add_token_only row])
  next
    case (step_update_label a label who x)
    show ?thesis
    proof (cases "a = b")
      case True
      then show ?thesis using step_update_label row
        by (auto simp: rejected_when_removed [OF assms(2)] update_label_def normalize_label_def Let_def raise_def split: if_splits)
    next
      case False
      show ?thesis by (rule keep_other [OF other_row.keeps_update_label False step_update_label row])
    qed
  next
    case (step_update_credentials a name pass who x)
    show ?thesis
    proof (cases "a = b")
      case True
      then show ?thesis using step_update_credentials row
        by (auto simp: rejected_when_removed [OF assms(2)] update_credentials_def raise_def bnd_eval split: if_splits)
    next
      case False
      show ?thesis by (rule keep_other [OF other_row.keeps_update_credentials False step_update_credentials row])
    qed
  next
    case (step_update_token_only a token who x)
    show ?thesis
    proof (cases "a = b")
      case True
      then show ?thesis using step_update_token_only row
        by (auto simp: rejected_when_removed [OF assms(2)] update_token_only_def raise_def bnd_eval split: if_splits)
    next
      case False
      show ?thesis by (rule keep_other [OF other_row.keeps_update_token_only False step_update_token_only row])
    qed
  next
    case (step_enable a who y)
    show ?thesis
    proof (cases "a = b")
      case True
      then show ?thesis using step_enable row
        by (auto simp: rejected_when_removed [OF assms(2)] enable_def set_lifecycle_def)
    next
      case False
      show ?thesis by (rule keep_other [OF other_enable(1) False step_enable row])
    qed
  next
    case (step_disable a who y)
    show ?thesis
    proof (cases "a = b")
      case True
      then show ?thesis using step_disable row
        by (auto simp: rejected_when_removed [OF assms(2)] disable_def set_lifecycle_def)
    next
      case False
      show ?thesis by (rule keep_other [OF other_enable(2) False step_disable row])
    qed
  next
    case (step_pause a reason who y)
    show ?thesis
    proof (cases "a = b")
      case True
      then show ?thesis using step_pause row
        by (auto simp: rejected_when_removed [OF assms(2)] pause_def raise_def split: if_splits)
    next
      case False
      show ?thesis by (rule keep_row [OF row_lifecycle(1) [OF False] step_pause row])
    qed
  next
    case (step_resume a who y)
    show ?thesis
    proof (cases "a = b")
      case True
      then show ?thesis using step_resume row
        by (auto simp: rejected_when_removed [OF assms(2)] resume_def)
    next
      case False
      show ?thesis by (rule keep_other [OF other_row.keeps_lifecycle(2) False step_resume row])
    qed
  next
    case (step_remove a who z)
    show ?thesis
    proof (cases "a = b")
      case True
      then show ?thesis using step_remove row
        by (auto simp: disable_drain_remove_def begin_removal_def transaction_def atomically_def bnd_eval require_def clock_def ret_def mark)
    next
      case False
      show ?thesis by (rule keep_row [OF row_lifecycle(2) [OF False] step_remove row])
    qed
  next
    case (step_ensure_session a who x)
    show ?thesis
    proof (cases "a = b")
      case True
      then show ?thesis using step_ensure_session removed_session(1) [OF assms(2), of env who]
        by simp
    next
      case False
      show ?thesis by (rule keep_other [OF other_row.keeps_ensure_session False step_ensure_session row])
    qed
  next
    case (step_snapshot a who x)
    show ?thesis
    proof (cases "a = b")
      case True
      then show ?thesis using step_snapshot removed_session(2) [OF assms(2), of env who]
        by simp
    next
      case False
      show ?thesis by (rule keep_other [OF other_row.keeps_snapshot_op False step_snapshot row])
    qed
  next
    case (step_locked body a who v)
    show ?thesis
    proof (cases "a = b")
      case True
      then show ?thesis using step_locked row
        by (auto simp: rejected_when_removed [OF assms(2)] locked_def bnd_eval)
    next
      case False
      have "keeps (\<lambda>w. a \<noteq> b \<longrightarrow> get_account b (w_db w) = Some r) (locked env a who body)"
        by (rule other_row.keeps_locked) (rule silent_kept, rule step_locked)
      then show ?thesis using False step_locked(2) row by (rule keep_other)
    qed
  next
    case (step_mutate operate fp verify a who plan m)
    show ?thesis
    proof (cases "a = b")
      case True
      then show ?thesis
        using step_mutate(4) removed_mutate [OF assms(2), of env operate who plan fp verify] by simp
    next
      case False
      have "keeps (\<lambda>w. a \<noteq> b \<longrightarrow> get_account b (w_db w) = Some r)
          (mutate env a operate who plan fp verify)"
        by (rule other_row.keeps_mutate) (rule silent_kept, erule step_mutate(2,3) | rule silent_kept, rule step_mutate(1))+
      then show ?thesis using False step_mutate(4) row by (rule keep_other)
    qed
  qed
  with mark show ?thesis by (simp add: removed_row_def)
qed

interpretation removal: stable_property "account_step env" "removed_row b r" for env b r
  by unfold_locales (rule removed_step)

definition scrubbed :: "game_account \<Rightarrow> game_account" where
  "scrubbed r = r\<lparr>ga_enabled := False, ga_paused_reason := Some ''removed'', ga_game_username := None,
     ga_password := None, ga_session_token := None, ga_session_expires_at := None\<rparr>"

lemma set_none:
  "andthen (set_game_username env a None) m w =
     m (w\<lparr>w_db := map_account a (\<lambda>r. r\<lparr>ga_game_username := None\<rparr>) (w_db w)\<rparr>)"
  "andthen (set_password env a None) m w =
     m (w\<lparr>w_db := map_account a (\<lambda>r. r\<lparr>ga_password := None\<rparr>) (w_db w)\<rparr>)"
  "andthen (set_session_token env a None) m w =
     m (w\<lparr>w_db := map_account a (\<lambda>r. r\<lparr>ga_session_token := None\<rparr>) (w_db w)\<rparr>)"
  by (simp_all add: set_game_username_def set_password_def set_session_token_def seal_def
      andthen_eval bnd_eval ret_def update_account_def on_db_def modify_def)

lemma enabled_jobs_disabled [simp]: "enabled_jobs a (disable_jobs a d) = 0"
  by (auto simp: enabled_jobs_def disable_jobs_def filter_empty_conv)

lemma enabled_jobs_frame [simp]:
  "enabled_jobs a (map_account b f d) = enabled_jobs a d"
  "enabled_jobs a (add_audit v src ac pl nm x y z corr d) = enabled_jobs a d"
  by (simp_all add: enabled_jobs_def add_audit_def)

lemma complete_removal_run:
  assumes "get_account a (w_db w) = Some r" "complete_removal env a who w = (x, t)"
  shows "get_account a (w_db t) = Some (scrubbed r) \<and> enabled_jobs a (w_db t) = 0 \<and>
    (\<exists>n. x = Inr \<lparr>rr_account_id = a, rr_removed_at = env_now env (w_ticks w), rr_disabled_job_count = n\<rparr>)"
  using assms
  by (auto simp: complete_removal_def with_account_def transaction_def atomically_def bnd_eval
      require_def asks_def andthen_on_db andthen_update set_none audit_def clock_def ret_def
      get_map_account scrubbed_def)

lemma begin_removal_run:
  assumes "get_account a (w_db w) = Some r" "ga_paused_reason r \<noteq> Some ''removed''"
  shows "\<exists>t. begin_removal env a w = (Inr None, t) \<and>
    get_account a (w_db t) = Some (r\<lparr>ga_enabled := False, ga_paused_reason := Some ''removing''\<rparr>)"
  using assms
  by (simp add: begin_removal_def transaction_def atomically_def bnd_eval require_def
      andthen_update ret_def get_map_account)

lemma removal_run:
  assumes "get_account a (w_db w) = Some r" "ga_paused_reason r \<noteq> Some ''removed''"
    and "disable_drain_remove env a who w = (x, t)"
  shows "get_account a (w_db t) = Some (scrubbed r) \<and> enabled_jobs a (w_db t) = 0 \<and> (\<exists>y. x = Inr y)"
proof -
  obtain v where v: "begin_removal env a w = (Inr None, v)"
    "get_account a (w_db v) = Some (r\<lparr>ga_enabled := False, ga_paused_reason := Some ''removing''\<rparr>)"
    using begin_removal_run [OF assms(1,2)] by blast
  have "complete_removal env a who v = (x, t)"
    using assms(3) v(1) by (simp add: disable_drain_remove_def bnd_eval)
  from complete_removal_run [OF v(2) this] show ?thesis by (auto simp: scrubbed_def)
qed


definition sample_env :: env where
  "sample_env = \<lparr>env_login = (\<lambda>_. Inl SessionRejected),
     env_bootstrap = (\<lambda>_. Inr \<lparr>bootstrap_account_id = ''g7''\<rparr>),
     env_idle = (\<lambda>_. Inr \<lparr>valid_seconds = 50000, capacity_seconds = None\<rparr>),
     env_collect = (\<lambda>_. Inr \<lparr>collected = True\<rparr>), env_now = (\<lambda>n. seconds (int n)),
     env_nonce = (\<lambda>n. replicate 12 CHR ''n''), env_id = (\<lambda>n. word_of_nat (100 + n)),
     env_box = plain_box, env_sha = (\<lambda>_. replicate 64 CHR ''a''), env_token_expiry = (\<lambda>_. None),
     env_policy = (\<lambda>a d. Inr (with_version 1 default_policy)), env_raced = (\<lambda>_ _. False)\<rparr>"

definition sample_world :: world where
  "sample_world = \<lparr>w_db = sample_database, w_calls = [], w_ticks = 0, w_nonces = 0, w_ids = 0,
     w_locals = initial_locals\<rparr>"

lemma sample_world_account: "get_account 7 (w_db sample_world) = Some sample_account"
  by (simp add: sample_world_def sample_database_def empty_database_def get_account_def
      table_simps sample_account_def)


text \<open>
  The marker is only a text in \<open>paused_reason\<close>, and \<open>pause\<close> takes any reason: pausing an account
  with the reason ''removed'' makes it count as removed for good, with its secrets kept and
  \<open>disable_drain_remove\<close> returning at once.
\<close>

lemma pause_forges_removal:
  assumes "get_account a (w_db w) = Some r" "\<not> removal_marker (ga_paused_reason r)"
  shows "\<exists>t. pause env a ''removed'' who w = (Inr (), t) \<and>
    removed_row a (r\<lparr>ga_paused_reason := Some ''removed''\<rparr>) t \<and>
    (\<exists>x u. disable_drain_remove env a who t = (Inr x, u) \<and> w_db u = w_db t)"
proof -
  have strip: "strip ''removed'' = ''removed''" by code_simp
  show ?thesis
    using assms
    by (auto simp: pause_def strip with_account_def transaction_def atomically_def bnd_eval
        require_def reject_removal_marker_def reject_removed_def andthen_eval check_def ret_def
        update_account_def on_db_def modify_def audit_def removal_marker_def removed_row_def
        get_map_account disable_drain_remove_def begin_removal_def clock_def)
qed

end
