(* ===== verification/Idle_Safety.thy ===== *)
theory Idle_Safety
  imports Plan_Lifecycle Account_Safety
begin

text \<open>
  What an idle execution can do, end to end: to the plan table, to the game and to its caller. The
  account lock and the session it opens are a frame around the body that runs inside
  (\<open>locked_run\<close>), so each use case reduces to its claim, its body and its finish.
\<close>

section \<open>Around the body\<close>

definition quiet :: "nat \<Rightarrow> action_plan list \<Rightarrow> world \<Rightarrow> bool" where
  "quiet n ps w \<longleftrightarrow> collects w = n \<and> plans (w_db w) = ps"

interpretation quiet: session_frame "quiet n ps" a for n ps a
  by unfold_locales (auto simp: quiet_def collects_def add_audit_def)

lemma quiet_run:
  "keeps (quiet (collects w) (plans (w_db w))) m \<Longrightarrow> m w = (x, t) \<Longrightarrow>
   collects t = collects w \<and> plans (w_db t) = plans (w_db w)"
  using keepsD [of "quiet (collects w) (plans (w_db w))" m w x t] by (simp add: quiet_def)

lemma collects_db [simp]: "collects (w\<lparr>w_db := d\<rparr>) = collects w" "collects (w\<lparr>w_ticks := n\<rparr>) = collects w"
  "collects (w\<lparr>w_ids := n\<rparr>) = collects w"
  by (simp_all add: collects_def)

text \<open>Either the body never ran, or it ran in a state with the same plans and calls, and its outcome is
  the outcome; its writes are kept when it returned.\<close>

definition body_ran :: "(locked_account \<Rightarrow> 'a io) \<Rightarrow> world \<Rightarrow> (exn, 'a) result \<Rightarrow> world \<Rightarrow> bool" where
  "body_ran body w x t \<longleftrightarrow> (\<exists>l u v. body l u = (x, v) \<and> collects u = collects w \<and>
     plans (w_db u) = plans (w_db w) \<and> collects t = collects v \<and>
     plans (w_db t) = (case x of Inl e \<Rightarrow> plans (w_db w) | Inr y \<Rightarrow> plans (w_db v)))"

lemma locked_run:
  assumes "locked env a who body w = (x, t)"
  obtains (idle) e where "x = Inl e" "collects t = collects w" "plans (w_db t) = plans (w_db w)"
    | (ran) "body_ran body w x t"
proof -
  let ?Q = "\<lambda>x t. (\<exists>e. x = Inl e) \<and> collects t = collects w \<and> plans (w_db t) = plans (w_db w)"
  let ?inner = "\<lambda>r. andthen (require_mutable r) (
       bnd (ensure_locked env a who) (\<lambda>res.
       case (sr_api res, sr_bootstrap_account_id res) of
         (Some api, Some boot_id) \<Rightarrow>
           bnd (save_snapshot env a res True) (\<lambda>snap.
           bnd (policy_provider env a) (\<lambda>policy.
           bnd (body \<lparr>la_account_id = a, la_api = api, la_policy = policy, la_snapshot = snap\<rparr>)
             (\<lambda>x. ret (Some x))))
       | _ \<Rightarrow> ret None))"
  have inner: "(case y of Inr (Some z) \<Rightarrow> \<exists>l u. body l u = (Inr z, v) \<and> collects u = collects w \<and>
         plans (w_db u) = plans (w_db w)
     | Inr None \<Rightarrow> collects v = collects w \<and> plans (w_db v) = plans (w_db w)
     | Inl e \<Rightarrow> collects v = collects w \<or> (\<exists>l u. body l u = (Inl e, v) \<and> collects u = collects w \<and>
         plans (w_db u) = plans (w_db w)))"
    if run: "bnd (require a) ?inner w = (y, v)" for y v
  proof -
    have step: "collects u' = collects w \<and> plans (w_db u') = plans (w_db w)"
      if "m u = (r, u')" "keeps (quiet (collects u) (plans (w_db u))) m"
        "collects u = collects w" "plans (w_db u) = plans (w_db w)" for m :: "'b io" and u r u'
      using quiet_run [OF that(2,1)] that(3,4) by simp
    show ?thesis
      using run
      by (auto simp: andthen_def ret_def elim!: bnd_cases split: option.splits sum.splits
          dest!: step [OF _ quiet.keeps_require] step [OF _ quiet.keeps_marker(3)]
            step [OF _ quiet.keeps_ensure_locked] step [OF _ quiet.keeps_snapshot]
            step [OF _ quiet.keeps_policy]) blast
  qed
  have conclude: "thesis" if "body l u = (x, v)" "collects u = collects w"
    "plans (w_db u) = plans (w_db w)" "collects t = collects v"
    "plans (w_db t) = (case x of Inl e \<Rightarrow> plans (w_db w) | Inr y \<Rightarrow> plans (w_db v))" for l u v
    using that by (intro ran) (auto simp: body_ran_def)
  from assms [unfolded locked_def with_account_def] show thesis
  proof (cases rule: bnd_cases)
    case (err e)
    from err(1) show thesis
    proof (cases rule: transaction_cases)
      case (err e' v)
      note inner [OF err(1)]
      then show thesis
        using err(2,3) \<open>x = Inl e\<close> idle conclude by auto
    qed simp
  next
    case (ok z u)
    from ok(1) show thesis
    proof (cases rule: transaction_cases)
      case inr: (ok z')
      show thesis
      proof (cases z')
        case None
        then show thesis using inr inner [OF inr(1)] ok(2) idle by (auto simp: raise_def)
      next
        case (Some y)
        then show thesis using inr inner [OF inr(1)] ok(2) conclude by (auto simp: ret_def)
      qed
    qed simp
  qed
qed

section \<open>The bodies\<close>

lemma requests:
  "game_idle_summary env api w = (x, t) \<Longrightarrow> collects t = collects w \<and> w_db t = w_db w"
  "game_idle_collect env api w = (y, t) \<Longrightarrow> collects t = Suc (collects w) \<and> w_db t = w_db w"
  by (auto simp: game_idle_summary_def game_idle_collect_def game_request_def Let_def collects_def)

lemma still_valid_run:
  "still_valid env a c l before w = (x, t) \<Longrightarrow> t = w"
  by (auto simp: still_valid_def owned_def asks_def ret_def lift_result_def elim!: bnd_cases
      split: if_splits)

lemma prove_run:
  "prove_collected env l c w = (x, t) \<Longrightarrow> collects t = collects w \<and> w_db t = w_db w \<and>
     (x = Inr Reconciled \<or> x = Inr Reconciliation \<or> (\<exists>e. x = Inl e))"
  by (auto simp: prove_collected_def ret_def elim!: try_else_cases dest!: requests split: if_splits)

text \<open>The body of an execution sends one request or none, and none when a precondition failed.\<close>

lemma send_body_run:
  assumes "send_body env a c l w = (x, t)"
  shows "w_db t = w_db w \<and>
    (collects t = collects w \<and> (x = Inr Precondition_failed \<or> (\<exists>e. x = Inl e)) \<or>
     collects t = Suc (collects w) \<and> x \<noteq> Inr Precondition_failed)"
  using assms unfolding send_body_def
proof (cases rule: bnd_cases)
  case (err e)
  then show ?thesis using requests by auto
next
  case (ok before u)
  note first = requests(1) [OF ok(1)]
  from ok(2) show ?thesis
  proof (cases rule: bnd_cases)
    case (err e)
    then show ?thesis using first by (auto dest!: still_valid_run)
  next
    case (ok valid v)
    note v = still_valid_run [OF ok(1)]
    show ?thesis
    proof (cases valid)
      case False
      then show ?thesis using ok(2) first v by (auto simp: ret_def)
    next
      case True
      then have "try_else (bnd (game_idle_collect env (la_api l)) (\<lambda>response.
          bnd (game_idle_summary env (la_api l)) (\<lambda>later. ret (response, later)))) is_exception
          (\<lambda>_. prove_collected env l c)
          (\<lambda>(response, later). ret (if \<not> collected response \<or>
             accumulated_seconds before \<le> accumulated_seconds later then Reconciliation else Collected))
          u = (x, t)"
        using ok(2) v by simp
      moreover have sent: "collects m = Suc (collects u) \<and> w_db m = w_db u"
        if "bnd (game_idle_collect env (la_api l)) (\<lambda>response.
          bnd (game_idle_summary env (la_api l)) (\<lambda>later. ret (response, later))) u = (y, m)" for y m
        using that by (auto simp: ret_def elim!: bnd_cases dest!: requests)
      ultimately show ?thesis
        using first by (auto simp: ret_def elim!: try_else_cases dest!: sent prove_run split: if_splits)
    qed
  qed
qed

lemma recover_body_run:
  "recover_body env c l w = (x, t) \<Longrightarrow> collects t = collects w \<and> w_db t = w_db w"
  by (auto simp: recover_body_def ret_def elim!: bnd_cases dest!: requests)

section \<open>Claim and finish\<close>

definition actor_ok :: "actor \<Rightarrow> bool" where
  "actor_ok who \<longleftrightarrow> identifier_ok (actor_kind who) \<and> identifier_ok (actor_id who) \<and>
     length (actor_kind who) + length (actor_id who) < 128"

lemma audit_actor_run:
  "audit_actor who w = (if actor_ok who
     then (Inr (actor_kind who @ '':'' @ actor_id who, actor_kind who), w) else (Inl ValueErr, w))"
  by (simp add: audit_actor_def require_identifier_def actor_ok_def prog_simps Let_def)

lemma identifier_run:
  "require_identifier s w = (if identifier_ok s then (Inr (), w) else (Inl ValueErr, w))"
  by (simp add: require_identifier_def prog_simps)

lemma plans_audit [simp]: "plans (add_audit v src ac pl nm x y z corr d) = plans d"
  by (simp add: add_audit_def)

definition claim_owner_of :: "env \<Rightarrow> world \<Rightarrow> string" where
  "claim_owner_of env w = uuid_hex (env_id env (w_ids w))"

lemma claim_run:
  assumes "claim env a p who corr recovery w = (x, t)"
  obtains (refused) e where "x = Inl e" "collects t = collects w" "plans (w_db t) = plans (w_db w)"
    | (granted) c d' where "x = Inr c" "collects t = collects w" "plans (w_db t) = plans d'"
      "actor_ok who"
      "claim_plan_row (env_now env (w_ticks w)) (claim_owner_of env w) a p recovery (w_db w) = Inr (c, d')"
  using assms
  by (auto simp: claim_def andthen_eval bnd_eval identifier_run fresh_id_def clock_def Let_def
      audit_actor_run transaction_def atomically_def step_db_def audit_claim_def on_db_def modify_def
      ret_def claim_owner_of_def split: if_splits sum.splits prod.splits)

lemma claim_finish_run:
  assumes "claim_finish env c st who corr res w = (x, t)" "actor_ok who" "owned_row c (w_db w) = Inr row"
  shows "x = Inr () \<and> collects t = collects w \<and>
    plans (w_db t) = plans (put_plan (settled_row (env_now env (w_ticks w)) st res row) (w_db w))"
  using assms
  by (auto simp: claim_finish_def andthen_eval bnd_eval clock_def audit_actor_run asks_def
      lift_result_def transaction_def atomically_def on_db_def modify_def)

lemma plans_cong:
  assumes "plans d = plans d'"
  shows "get_plan p d = get_plan p d'" "owned_row c d = owned_row c d'"
    "plans (put_plan r d) = plans (put_plan r d')"
  using assms by (simp_all add: get_plan_def owned_row_def plans_put)

section \<open>The use cases\<close>

text \<open>How a granted execution may end: the state it leaves the plan in, the payload, the requests
  made, what the caller gets.\<close>

inductive settles :: "uuid \<Rightarrow> bool \<Rightarrow> string \<Rightarrow> (string \<times> json) list \<Rightarrow> nat \<Rightarrow> (exn, idle_execution) result \<Rightarrow> bool" where
  settles_failed: "settles p False ''failed'' [(''status'', JStr ''precondition_failed'')] 0
    (Inl PlanPreconditionFailed)"
| settles_unknown: "n = (if recovery then 0 else 1) \<Longrightarrow> settles p recovery ''reconciliation_required''
    [(''status'', JStr ''reconciliation_required'')] n (Inl IdleReconciliationRequired)"
| settles_executed: "ie_plan_id ie = p \<Longrightarrow> ie_applied ie = (\<not> recovery) \<Longrightarrow>
    n = (if recovery then 0 else 1) \<Longrightarrow> (recovery \<Longrightarrow> ie_reconciled ie) \<Longrightarrow>
    settles p recovery ''executed'' (executed_payload (ie_reconciled ie)) n (Inr ie)"

definition claim_outcome ::
  "bool \<Rightarrow> execution_claim \<Rightarrow> action_plan \<Rightarrow> world \<Rightarrow> (exn, idle_execution) result \<Rightarrow> world \<Rightarrow> bool" where
  "claim_outcome recovery c row u x t \<longleftrightarrow>
     (\<exists>e. x = Inl e) \<and> plans (w_db t) = plans (w_db u) \<and>
       (collects t = collects u \<or> \<not> recovery \<and> collects t = Suc (collects u)) \<or>
     (\<exists>st res n now. settles (plan_id (claim_plan c)) recovery st res n x \<and>
       collects t = collects u + n \<and>
       plans (w_db t) = plans (put_plan (settled_row now st res row) (w_db u)))"

lemma claim_outcome_finish:
  assumes "claim_finish env c st who corr res v = (y, t)" "actor_ok who" "owned_row c (w_db u) = Inr row"
    "plans (w_db v) = plans (w_db u)" "collects v = collects u + n"
    "settles (plan_id (claim_plan c)) recovery st res n x"
  shows "claim_outcome recovery c row u x t \<and> y = Inr ()"
proof -
  have owned: "owned_row c (w_db v) = Inr row" using assms(3,4) plans_cong(2) by metis
  note fin = claim_finish_run [OF assms(1,2) owned]
  have "plans (w_db t) = plans (put_plan (settled_row (env_now env (w_ticks v)) st res row) (w_db u))"
    using fin plans_cong(3) [OF assms(4)] by simp
  then have "\<exists>st res n now. settles (plan_id (claim_plan c)) recovery st res n x \<and>
      collects t = collects u + n \<and>
      plans (w_db t) = plans (put_plan (settled_row now st res row) (w_db u))"
    using fin assms(5,6) by (intro exI conjI) auto
  then show ?thesis using fin by (simp add: claim_outcome_def)
qed

lemma require_reconciliation_run:
  assumes "require_reconciliation env c who corr v = (x, t)"
  obtains y where "claim_finish env c ''reconciliation_required'' who corr
      [(''status'', JStr ''reconciliation_required'')] v = (y, t)"
    "y = Inr () \<Longrightarrow> x = Inl IdleReconciliationRequired"
  using assms by (auto simp: require_reconciliation_def andthen_def raise_def elim!: bnd_cases)

lemma settle_sent_run:
  assumes "settle_sent env a c who corr outcome v = (x, t)"
  obtains st res y where "claim_finish env c st who corr res v = (y, t)"
    "y = Inr () \<Longrightarrow> settles (plan_id (claim_plan c)) False st res
       (if outcome = Precondition_failed then 0 else 1) x"
proof (cases outcome)
  case Precondition_failed
  then show thesis using assms that settles_failed [of "plan_id (claim_plan c)"]
    by (auto simp: settle_sent_def andthen_def raise_def elim!: bnd_cases)
next
  case Reconciliation
  then have "require_reconciliation env c who corr v = (x, t)" using assms by (simp add: settle_sent_def)
  then show thesis
    by (rule require_reconciliation_run) (rule that, assumption, simp add: Reconciliation settles_unknown)
next
  case Reconciled
  then have "andthen (claim_finish env c ''executed'' who corr (executed_payload True))
      (ret (execution_result a c corr ''reconciled'' True True)) v = (x, t)"
    using assms by (simp add: settle_sent_def)
  then show thesis
    using that settles_executed [of "execution_result a c corr ''reconciled'' True True" _ False]
    by (auto simp: andthen_def ret_def execution_result_def Reconciled elim!: bnd_cases)
next
  case Collected
  then have "andthen (claim_finish env c ''executed'' who corr (executed_payload False))
      (ret (execution_result a c corr ''executed'' True False)) v = (x, t)"
    using assms by (simp add: settle_sent_def)
  then show thesis
    using that settles_executed [of "execution_result a c corr ''executed'' True False" _ False]
    by (auto simp: andthen_def ret_def execution_result_def Collected elim!: bnd_cases)
qed

lemma idle_send_once_run:
  assumes "idle_send_once env a c who corr u = (x, t)" "actor_ok who" "owned_row c (w_db u) = Inr row"
  shows "claim_outcome False c row u x t"
  using assms(1) unfolding idle_send_once_def
proof (cases rule: bnd_cases)
  case (err e)
  from err(1) have "(collects t = collects u \<or> collects t = Suc (collects u)) \<and> plans (w_db t) = plans (w_db u)"
    by (rule locked_run) (auto simp: body_ran_def dest!: send_body_run)
  then show ?thesis using err(2) by (auto simp: claim_outcome_def)
next
  case (ok outcome v)
  from ok(1) have v: "plans (w_db v) = plans (w_db u)"
    "collects v = collects u + (if outcome = Precondition_failed then 0 else 1)"
    by (rule locked_run; auto simp: body_ran_def dest!: send_body_run)+
  from ok(2) show ?thesis
  proof (rule settle_sent_run)
    fix st res y assume fin: "claim_finish env c st who corr res v = (y, t)"
      and "y = Inr () \<Longrightarrow> settles (plan_id (claim_plan c)) False st res
       (if outcome = Precondition_failed then 0 else 1) x"
    moreover have "owned_row c (w_db v) = Inr row" using plans_cong(2) [OF v(1)] assms(3) by simp
    then have "y = Inr ()" using claim_finish_run [OF fin assms(2)] by simp
    ultimately show ?thesis using claim_outcome_finish [OF fin assms(2,3) v] by simp
  qed
qed

lemma recover_run:
  assumes "recover env a c who corr u = (x, t)" "actor_ok who" "owned_row c (w_db u) = Inr row"
  shows "claim_outcome True c row u x t"
  using assms(1) unfolding recover_def
proof (cases rule: bnd_cases)
  case (err e)
  from err(1) have "collects t = collects u \<and> plans (w_db t) = plans (w_db u)"
    by (rule locked_run) (auto simp: body_ran_def dest!: recover_body_run)
  then show ?thesis using err(2) by (auto simp: claim_outcome_def)
next
  case (ok proven v)
  from ok(1) have v: "plans (w_db v) = plans (w_db u)" "collects v = collects u + 0"
    by (rule locked_run; auto simp: body_ran_def dest!: recover_body_run)+
  have owned: "owned_row c (w_db v) = Inr row" using plans_cong(2) [OF v(1)] assms(3) by simp
  show ?thesis
  proof (cases proven)
    case True
    then have "andthen (claim_finish env c ''executed'' who corr (executed_payload True))
        (ret (execution_result a c corr ''reconciled'' False True)) v = (x, t)" using ok(2) by simp
    then obtain y where fin: "claim_finish env c ''executed'' who corr (executed_payload True) v = (y, t)"
      and "y = Inr () \<Longrightarrow> x = Inr (execution_result a c corr ''reconciled'' False True)"
      by (auto simp: andthen_def ret_def elim!: bnd_cases)
    moreover have "y = Inr ()" using claim_finish_run [OF fin assms(2) owned] by simp
    ultimately show ?thesis
      using claim_outcome_finish [OF fin assms(2,3) v, of True x]
        settles_executed [of "execution_result a c corr ''reconciled'' False True" _ True 0]
      by (simp add: execution_result_def)
  next
    case False
    then have "require_reconciliation env c who corr v = (x, t)" using ok(2) by simp
    then show ?thesis
    proof (rule require_reconciliation_run)
      fix y assume fin: "claim_finish env c ''reconciliation_required'' who corr
          [(''status'', JStr ''reconciliation_required'')] v = (y, t)"
        and "y = Inr () \<Longrightarrow> x = Inl IdleReconciliationRequired"
      moreover have "y = Inr ()" using claim_finish_run [OF fin assms(2) owned] by simp
      ultimately show ?thesis
        using claim_outcome_finish [OF fin assms(2,3) v, of True x] settles_unknown [of 0 True]
        by simp
    qed
  qed
qed

lemma claim_owned:
  assumes "claim_plan_row now owner a p recovery d = Inr (c, d')"
  shows "owned_row c d' = Inr (claim_plan c)" "get_plan p d' = Some (claim_plan c)"
    "plan_id (claim_plan c) = p" "claim_recovery c \<Longrightarrow> recovery"
  using assms
  by (cases rule: claim_plan_row_cases;
      auto simp: owned_row_def table_simps claimed_row_def lease_row_def)+

lemma idle_execute_run:
  assumes "idle_execute env busy a p who corr recovery w = (x, t)"
  obtains (refused) e where "x = Inl e" "collects t = collects w" "plans (w_db t) = plans (w_db w)"
    | (granted) c d' u where
      "claim_plan_row (env_now env (w_ticks w)) (claim_owner_of env w) a p recovery (w_db w) = Inr (c, d')"
      "plans (w_db u) = plans d'" "collects u = collects w"
      "claim_outcome (claim_recovery c) c (claim_plan c) u x t"
proof (cases "identifier_ok corr \<and> \<not> busy")
  case False
  then show thesis using assms refused
    by (auto simp: idle_execute_def andthen_eval identifier_run check_def raise_def ret_def
        split: if_splits)
next
  case True
  then have "bnd (claim env a p who corr recovery) (\<lambda>c. if claim_recovery c
      then recover env a c who corr else idle_send_once env a c who corr) w = (x, t)"
    using assms by (simp add: idle_execute_def andthen_eval identifier_run check_def ret_def)
  then show thesis
  proof (cases rule: bnd_cases)
    case (err e)
    from err(1) show thesis by (rule claim_run) (use err(2) refused in auto)
  next
    case (ok c u)
    from ok(1) show thesis
    proof (rule claim_run)
      fix c' d' assume c: "Inr c = (Inr c' :: (exn, execution_claim) result)" "collects u = collects w"
        "plans (w_db u) = plans d'" "actor_ok who" "claim_plan_row (env_now env (w_ticks w))
           (claim_owner_of env w) a p recovery (w_db w) = Inr (c', d')"
      then have "owned_row c (w_db u) = Inr (claim_plan c)"
        using claim_owned(1) [OF c(5)] plans_cong(2) [OF c(3)] by simp
      then have "claim_outcome (claim_recovery c) c (claim_plan c) u x t"
        using ok(2) c(4) idle_send_once_run recover_run by (cases "claim_recovery c") auto
      then show thesis using granted c by simp
    qed simp
  qed
qed

lemma settles_payload:
  "settles p recovery st res n x \<Longrightarrow> st \<in> set terminal_states \<and> res \<in> set claim_payloads"
proof (induction rule: settles.induct)
  case (settles_executed ie p recovery n)
  then show ?case by (cases "ie_reconciled ie") (simp_all add: terminal_states_def claim_payloads_def)
qed (simp_all add: terminal_states_def claim_payloads_def)

text \<open>An execution is a sequence of steps of the plan machine.\<close>

lemma claim_outcome_step:
  assumes "claim_outcome recovery c row u x t" "owned_row c (w_db u) = Inr row"
  shows "steps (plan_step px horizon) (w_db u) (w_db t)"
proof -
  consider "plans (w_db t) = plans (w_db u)"
    | st res n now where "settles (plan_id (claim_plan c)) recovery st res n x"
      "plans (w_db t) = plans (put_plan (settled_row now st res row) (w_db u))"
    using assms(1) by (auto simp: claim_outcome_def)
  then show ?thesis
  proof cases
    case 1
    show ?thesis by (rule steps_step [OF steps_refl [of _ "w_db u"]]) (rule plan_step_other [OF 1])
  next
    case 2
    note payload = settles_payload [OF 2(1)]
    have "plan_step px horizon (w_db u) (put_plan (settled_row now st res row) (w_db u))"
      using payload by (intro plan_step_settle [OF assms(2)]) simp_all
    then have "steps (plan_step px horizon) (w_db u) (put_plan (settled_row now st res row) (w_db u))"
      by (rule steps_step [OF steps_refl [of _ "w_db u"]])
    moreover have "plan_step px horizon (put_plan (settled_row now st res row) (w_db u)) (w_db t)"
      by (rule plan_step_other [OF 2(2)])
    ultimately show ?thesis by (rule steps_step)
  qed
qed

lemma idle_execute_steps:
  assumes "idle_execute env busy a p who corr recovery w = (x, t)" "env_now env (w_ticks w) < horizon"
  shows "steps (plan_step px horizon) (w_db w) (w_db t)"
  using assms(1)
proof (cases rule: idle_execute_run)
  case (refused e)
  show ?thesis by (rule steps_step [OF steps_refl [of _ "w_db w"]]) (rule plan_step_other [OF refused(3)])
next
  case (granted c d' u)
  have "steps (plan_step px horizon) (w_db w) d'"
    by (rule steps_step [OF steps_refl [of _ "w_db w"]])
      (rule plan_step_claim [OF granted(1) assms(2)])
  then have "steps (plan_step px horizon) (w_db w) (w_db u)"
    by (rule steps_step) (rule plan_step_other [OF granted(2)])
  moreover have "owned_row c (w_db u) = Inr (claim_plan c)"
    using claim_owned(1) [OF granted(1)] plans_cong(2) [OF granted(2)] by simp
  then have "steps (plan_step px horizon) (w_db u) (w_db t)" by (rule claim_outcome_step [OF granted(4)])
  ultimately show ?thesis using steps_trans by metis
qed

section \<open>What the caller is told\<close>

definition fresh_state :: "action_plan \<Rightarrow> bool" where
  "fresh_state row \<longleftrightarrow> plan_execution_state row \<in> set [''pending'', ''confirmed'']"

lemma claim_row_state:
  assumes "claim_plan_row now owner a p recovery d = Inr (c, d')" "get_plan p d = Some row"
  shows "plan_execution_state (claim_plan c) = ''executing'' \<and> plan_execution_owner (claim_plan c) = Some owner \<and>
    (if claim_recovery c then recovery \<and> plan_execution_state row = ''executing'' else fresh_state row)"
  using assms(1)
  by (cases rule: claim_plan_row_cases)
    (use assms(2) in \<open>auto simp: fresh_state_def claimed_row_def lease_row_def dest: validate_fresh_state\<close>)

text \<open>
  C5: what an execution reports is what it did. On a plan of the table, \<open>execute\<close> asks the game to
  collect at most once, and only when the plan was pending or confirmed. It returns only with the
  plan executed: by its own request, or by a recovery that made no request. When it raises, the
  plan is as before and nothing was sent, or it is still executing under this execution's lease,
  or it failed before anything was sent (\<open>PlanPreconditionFailed\<close>), or it awaits reconciliation
  (\<open>IdleReconciliationRequired\<close>).
\<close>

theorem idle_execution_settles:
  assumes "idle_execute env busy a p who corr recovery w = (x, t)" "get_plan p (w_db w) = Some row"
  shows "\<exists>row'. get_plan p (w_db t) = Some row' \<and> collects t \<le> Suc (collects w) \<and>
    (collects t \<noteq> collects w \<longrightarrow> fresh_state row \<and> \<not> fresh_state row') \<and>
    (case x of
       Inr ie \<Rightarrow> plan_execution_state row' = ''executed'' \<and> ie_plan_id ie = p \<and>
         (if ie_applied ie then fresh_state row \<and> collects t = Suc (collects w)
          else recovery \<and> plan_execution_state row = ''executing'' \<and> collects t = collects w)
     | Inl e \<Rightarrow> row' = row \<and> collects t = collects w \<or>
         plan_execution_state row' = ''executing'' \<and>
           plan_execution_owner row' = Some (claim_owner_of env w) \<or>
         plan_execution_state row' = ''failed'' \<and> e = PlanPreconditionFailed \<and> collects t = collects w \<or>
         plan_execution_state row' = ''reconciliation_required'' \<and> e = IdleReconciliationRequired)"
  using assms(1)
proof (cases rule: idle_execute_run)
  case (refused e)
  then show ?thesis using assms(2) plans_cong(1) [OF refused(3)] by auto
next
  case (granted c d' u)
  note state = claim_row_state [OF granted(1) assms(2)]
  note owned = claim_owned [OF granted(1)]
  have u: "get_plan p (w_db u) = Some (claim_plan c)" using owned(2) plans_cong(1) [OF granted(2)] by simp
  from granted(4) consider (interrupted) e where "x = Inl e" "plans (w_db t) = plans (w_db u)"
      "collects t = collects u \<or> \<not> claim_recovery c \<and> collects t = Suc (collects u)"
    | (settled) st res n now where "settles (plan_id (claim_plan c)) (claim_recovery c) st res n x"
      "collects t = collects u + n"
      "plans (w_db t) = plans (put_plan (settled_row now st res (claim_plan c)) (w_db u))"
    by (auto simp: claim_outcome_def)
  then show ?thesis
  proof cases
    case (interrupted e)
    then show ?thesis
      using u plans_cong(1) [of "w_db t" "w_db u"] state granted(3)
      by (auto simp: fresh_state_def split: if_splits)
  next
    case (settled st res n now)
    then have "get_plan p (w_db t) = Some (settled_row now st res (claim_plan c))"
      using u owned(3) plans_cong(1) [of "w_db t"] by (simp add: table_simps settled_row_def)
    then show ?thesis
      using settled state granted(3) owned(3)
      by (auto simp: fresh_state_def settled_row_def elim!: settles.cases split: if_splits)
  qed
qed

section \<open>Previews\<close>

lemma preview_body_run:
  assumes "preview_body env a l w = (x, t)"
  shows "w_db t = w_db w \<and> collects t = collects w \<and> (\<forall>y. x = Inr y \<longrightarrow>
    (case y of (idle, policy, draft) \<Rightarrow> \<exists>now. idle_draft (env_sha env) a idle policy now = Inr draft))"
  using assms
  by (auto simp: preview_body_def clock_def lift_result_def ret_def elim!: bnd_cases dest!: requests(1))

lemma idle_draft_cases:
  assumes "idle_draft sha a idle policy now = Inr draft"
  obtains (wait) "draft = None" "idle_decision idle policy = Idle_wait"
    | (offer) p where "draft = Some p" "idle_decision idle policy = Idle_collect" "draft_valid p"
      "pd_account_id p = a" "pd_expires_at p = now + minutes 5" "pd_risk p = ''low''"
      "\<not> pd_confirmation_required p" "pd_policy_version p = policy_version policy"
      "pd_decisions p = [SelectedDecision Fam_idle ''idle_threshold_reached'' IdleCollectAction]"
proof (cases "idle_decision idle policy")
  case Idle_collect
  with assms obtain p where "draft = Some p" "draft_valid p" "pd_account_id p = a"
    "pd_expires_at p = now + minutes 5" "pd_risk p = ''low''" "\<not> pd_confirmation_required p"
    "pd_policy_version p = policy_version policy"
    "pd_decisions p = [SelectedDecision Fam_idle ''idle_threshold_reached'' IdleCollectAction]"
    by (auto simp: idle_draft_def result_simps Let_def split: if_splits)
  then show thesis using offer Idle_collect by blast
next
  case Idle_wait
  then show thesis using assms wait by (simp add: idle_draft_def)
qed

text \<open>A fresh row of an idle draft passes the check of a claim until it expires.\<close>

lemma draft_row_fresh:
  assumes "pd_risk p = ''low''" "\<not> pd_confirmation_required p" "now < pd_expires_at p"
    "pd_decisions p = [SelectedDecision Fam_idle ''idle_threshold_reached'' IdleCollectAction]"
  shows "validate_fresh (draft_row i p) now = Inr ()"
  using assms
  by (simp add: validate_fresh_def draft_row_def decision_json_def action_json_def
      claims_idle_collect_def dict_get_def dict_eq_def)

lemma preview_save_run:
  assumes "preview_save env draft who corr payload w = (Inr plan, t)"
  shows "collects t = collects w \<and> (case draft of
      None \<Rightarrow> plan = None \<and> plans (w_db t) = plans (w_db w)
    | Some p \<Rightarrow> (\<exists>i. plan = Some i \<and> get_plan i (w_db w) = None \<and>
        plans (w_db t) = plans (insert_plan (draft_row i p) (w_db w))))"
  using assms
  by (cases draft)
    (auto simp: preview_save_def andthen_eval bnd_eval identifier_run audit_actor_run
      transaction_def atomically_def ret_def lift_result_def add_plan_def fresh_id_def asks_def
      check_def raise_def on_db_def modify_def insert_plan_def
      split: if_splits sum.splits prod.splits)

lemma preview_save_error:
  "preview_save env draft who corr payload w = (Inl e, t) \<Longrightarrow>
     collects t = collects w \<and> plans (w_db t) = plans (w_db w)"
  by (cases draft)
    (auto simp: preview_save_def andthen_eval bnd_eval identifier_run audit_actor_run
      transaction_def atomically_def ret_def lift_result_def add_plan_def fresh_id_def asks_def
      check_def raise_def on_db_def modify_def insert_plan_def
      split: if_splits sum.splits prod.splits)

lemma preview_run:
  assumes "idle_plan_preview env a who corr w = (Inr ip, t)"
  obtains idle policy draft now u plan where
    "collects u = collects w" "plans (w_db u) = plans (w_db w)"
    "idle_draft (env_sha env) a idle policy now = Inr draft"
    "preview_save env draft who corr (preview_payload a idle policy) u = (Inr plan, t)"
    "ip_plan_id ip = plan" "ip_decision ip = idle_decision idle policy"
    "ip_accumulated_seconds ip = accumulated_seconds idle"
    "ip_threshold_seconds ip = idle_threshold policy idle"
    "ip_expires_at ip = map_option pd_expires_at draft"
proof -
  from assms obtain idle policy draft u where
    body: "locked env a who (preview_body env a) w = (Inr (idle, policy, draft), u)"
    and rest: "bnd (preview_save env draft who corr (preview_payload a idle policy)) (\<lambda>plan.
       let p = \<lparr>ip_account_id = a, ip_plan_id = plan, ip_decision = idle_decision idle policy,
           ip_accumulated_seconds = accumulated_seconds idle,
           ip_capacity_seconds = capacity_seconds idle,
           ip_threshold_seconds = idle_threshold policy idle,
           ip_expires_at = map_option pd_expires_at draft,
           ip_reason = idle_reason (idle_decision idle policy), ip_correlation_id = corr\<rparr> in
       if idle_preview_valid p then ret p else raise ValueErr) u = (Inr ip, t)"
    unfolding idle_plan_preview_def andthen_eval identifier_run
    by (fastforce split: if_splits prod.splits elim!: bnd_cases [of "locked env a who (preview_body env a)"])
  from body obtain now where "collects u = collects w" "plans (w_db u) = plans (w_db w)"
    "idle_draft (env_sha env) a idle policy now = Inr draft"
    by (rule locked_run) (auto simp: body_ran_def dest!: preview_body_run)
  then show thesis using rest that
    by (auto simp: Let_def raise_def ret_def split: if_splits elim!: bnd_cases)
qed

text \<open>
  C27: a preview offers a plan exactly when there is something to collect, and the plan it offers
  can be executed until it expires. The decision compares the accumulated seconds with the
  threshold; without an offer no plan is written; an offered plan is claimable by any owner at
  any time before the expiry the preview reports. A preview never collects.
\<close>

theorem idle_preview_offers_plan:
  assumes "idle_plan_preview env a who corr w = (Inr ip, t)"
  shows "(ip_decision ip = Idle_collect \<longleftrightarrow> ip_threshold_seconds ip \<le> ip_accumulated_seconds ip) \<and>
    collects t = collects w \<and>
    (case ip_plan_id ip of
       None \<Rightarrow> ip_decision ip = Idle_wait \<and> ip_expires_at ip = None \<and> plans (w_db t) = plans (w_db w)
     | Some p \<Rightarrow> ip_decision ip = Idle_collect \<and> (\<exists>x. ip_expires_at ip = Some x \<and>
         (\<forall>now owner recovery. now < x \<longrightarrow> (\<exists>c d'.
            claim_plan_row now owner a p recovery (w_db t) = Inr (c, d') \<and> \<not> claim_recovery c))))"
proof (rule preview_run [OF assms])
  fix idle policy draft now u plan
  assume u: "collects u = collects w" "plans (w_db u) = plans (w_db w)"
    and draft: "idle_draft (env_sha env) a idle policy now = Inr draft"
    and save: "preview_save env draft who corr (preview_payload a idle policy) u = (Inr plan, t)"
    and ip: "ip_plan_id ip = plan" "ip_decision ip = idle_decision idle policy"
    "ip_accumulated_seconds ip = accumulated_seconds idle"
    "ip_threshold_seconds ip = idle_threshold policy idle"
    "ip_expires_at ip = map_option pd_expires_at draft"
  note saved = preview_save_run [OF save]
  have decision: "ip_decision ip = Idle_collect \<longleftrightarrow> ip_threshold_seconds ip \<le> ip_accumulated_seconds ip"
    by (simp add: ip idle_decision_def)
  from draft show ?thesis
  proof (cases rule: idle_draft_cases)
    case wait
    then show ?thesis using decision saved u ip by auto
  next
    case (offer p)
    then obtain i where i: "plan = Some i" "get_plan i (w_db u) = None"
      "plans (w_db t) = plans (insert_plan (draft_row i p) (w_db u))" using saved by auto
    have row: "get_plan i (w_db t) = Some (draft_row i p)"
      using i plans_cong(1) [OF i(3)] by (simp add: table_simps draft_row_def)
    have "\<exists>c d'. claim_plan_row time owner a i recovery (w_db t) = Inr (c, d') \<and> \<not> claim_recovery c"
      if "time < pd_expires_at p" for time owner recovery
      using draft_row_fresh [OF offer(6,7) that offer(9), of i] row offer(4)
      by (simp add: claim_plan_row_def account_plan_def Let_def)
        (simp add: draft_row_def)
    then show ?thesis using decision saved u ip i offer by auto
  qed
qed

text \<open>Whatever its outcome, a preview adds one fresh plan or none.\<close>

lemma preview_effect:
  assumes "idle_plan_preview env a who corr w = (x, t)"
  shows "collects t = collects w \<and> plan_step px horizon (w_db w) (w_db t)"
proof (cases "identifier_ok corr")
  case False
  then show ?thesis
    using assms by (auto simp: idle_plan_preview_def andthen_eval identifier_run intro: plan_step_other)
next
  case True
  obtain y u where body: "locked env a who (preview_body env a) w = (y, u)" by force
  have u: "collects u = collects w \<and> plans (w_db u) = plans (w_db w) \<and> (\<forall>idle policy draft.
      y = Inr (idle, policy, draft) \<longrightarrow> (\<exists>now. idle_draft (env_sha env) a idle policy now = Inr draft))"
    by (rule locked_run [OF body]; cases y) (auto simp: body_ran_def dest!: preview_body_run)
  show ?thesis
  proof (cases y)
    case (Inl e)
    then show ?thesis using assms True body u
      by (auto simp: idle_plan_preview_def andthen_eval identifier_run bnd_eval intro: plan_step_other)
  next
    case (Inr z)
    obtain idle policy draft where z: "z = (idle, policy, draft)" by (cases z)
    obtain r v where save: "preview_save env draft who corr (preview_payload a idle policy) u = (r, v)"
      by force
    have "t = v" using assms True body Inr z save
      by (auto simp: idle_plan_preview_def andthen_eval identifier_run bnd_eval Let_def ret_def
          raise_def split: sum.splits if_splits)
    moreover have "collects v = collects w \<and> plan_step px horizon (w_db w) (w_db v)"
    proof (cases r)
      case (Inl e)
      then show ?thesis using preview_save_error save u plan_step_other by metis
    next
      case r: (Inr plan)
      note saved = preview_save_run [OF save [unfolded r]]
      from u Inr z obtain now where "idle_draft (env_sha env) a idle policy now = Inr draft" by blast
      then show ?thesis
      proof (cases rule: idle_draft_cases)
        case wait
        then show ?thesis using saved u plan_step_other by simp
      next
        case (offer p)
        then obtain i where i: "get_plan i (w_db w) = None"
          "plans (w_db v) = plans (w_db w) @ [draft_row i p]"
          using saved u plans_cong(1) [of "w_db u" "w_db w"] by (auto simp: insert_plan_def)
        then show ?thesis using saved u plan_step_preview [OF i(1) offer(3)] by simp
      qed
    qed
    ultimately show ?thesis by simp
  qed
qed

section \<open>Collections are paid for by plans\<close>

text \<open>
  The service as the machine whose steps are executions and anything else that neither collects
  nor starts an execution: the other users of the plan table and every operation of the account
  service.
\<close>

inductive service_step :: "env \<Rightarrow> pydantic \<Rightarrow> world \<Rightarrow> world \<Rightarrow> bool" for env px where
  service_execute: "idle_execute env busy a p who corr recovery w = (x, t) \<Longrightarrow> service_step env px w t"
| service_preview: "idle_plan_preview env a who corr w = (y, t) \<Longrightarrow> service_step env px w t"
| service_plans: "plan_step px horizon (w_db w) (w_db t) \<Longrightarrow> collects t = collects w \<Longrightarrow>
    service_step env px w t"

definition attempts :: "database \<Rightarrow> int" where
  "attempts d = sum_list (map plan_execution_attempt_count (plans d))"

definition attempt_ok :: "action_plan \<Rightarrow> bool" where
  "attempt_ok row \<longleftrightarrow> 0 \<le> plan_execution_attempt_count row \<and> plan_execution_attempt_count row \<le> 1 \<and>
     (fresh_state row \<longrightarrow> plan_execution_attempt_count row = 0)"

definition plans_ok :: "database \<Rightarrow> bool" where
  "plans_ok d \<longleftrightarrow> distinct (map plan_id (plans d)) \<and> list_all attempt_ok (plans d)"

lemma row_step_attempts:
  assumes "row_step px horizon row row'" "attempt_ok row"
  shows "attempt_ok row' \<and> plan_execution_attempt_count row \<le> plan_execution_attempt_count row'"
  using assms
  by (induction rule: row_step.induct)
    (auto simp: attempt_ok_def fresh_state_def row_update_defs terminal_states_def
      dest!: validate_fresh_state)

lemma sum_replace:
  fixes f :: "'r \<Rightarrow> int"
  assumes "distinct (map key rows)" "lookup key k rows = Some row" "key row' = k"
  shows "sum_list (map f (replace_row key row' rows)) = sum_list (map f rows) - f row + f row'"
  using assms
proof (induction rows)
  case (Cons r rows)
  have "k \<notin> key ` set rows \<Longrightarrow> replace_row key row' rows = rows"
    using Cons.prems(3) by (auto simp: replace_row_def image_iff intro!: map_idI)
  moreover have "replace_row key row' (r # rows) =
      (if key r = key row' then row' else r) # replace_row key row' rows"
    by (simp add: replace_row_def)
  ultimately show ?case using Cons by (auto simp: table_simps split: if_splits)
qed (simp add: table_simps)

lemma update_ok:
  assumes "plans_ok d" "get_plan p d = Some row" "attempt_ok row'" "plan_id row' = p"
    "plans d' = replace_row plan_id row' (plans d)"
  shows "plans_ok d' \<and> attempts d' =
    attempts d - plan_execution_attempt_count row + plan_execution_attempt_count row'"
  using assms set_replace [of plan_id row' "plans d"]
    sum_replace [of plan_id "plans d" p row row' plan_execution_attempt_count]
  by (auto simp: plans_ok_def attempts_def get_plan_def list_all_iff)

lemma plan_ok_row: "plans_ok d \<Longrightarrow> get_plan p d = Some row \<Longrightarrow> attempt_ok row"
  using get_plan_set by (auto simp: plans_ok_def list_all_iff)

lemma plan_step_attempts:
  assumes "plan_step px horizon d d'" "plans_ok d"
  shows "plans_ok d' \<and> attempts d \<le> attempts d'"
  using assms(1)
proof (cases rule: plan_step_cases)
  case (grow i draft)
  then have "i \<notin> plan_id ` set (plans d)" by (simp add: get_plan_def lookup_None)
  then show ?thesis
    using assms(2) grow by (simp add: plans_ok_def attempts_def draft_row_def attempt_ok_def)
next
  case (update p row row')
  note ok = row_step_attempts [OF update(2) plan_ok_row [OF assms(2) update(1)]]
  have "plan_id row' = p" using row_step_id [OF update(2)] get_plan_id [OF update(1)] by simp
  with update_ok [OF assms(2) update(1) _ _ update(3)] ok show ?thesis by simp
next
  case same
  then show ?thesis using assms(2) by (simp add: plans_ok_def attempts_def)
qed

lemma plan_steps_attempts:
  "steps (plan_step px horizon) d d' \<Longrightarrow> plans_ok d \<Longrightarrow> plans_ok d' \<and> attempts d \<le> attempts d'"
  by (induction rule: steps.induct) (use plan_step_attempts in fastforce)+

lemma claim_attempts:
  assumes "claim_plan_row now owner a p recovery d = Inr (c, d')" "plans_ok d"
  shows "plans_ok d' \<and> attempts d' = attempts d + (if claim_recovery c then 0 else 1)"
  using assms(1)
proof (cases rule: claim_plan_row_cases)
  case (take_over row)
  then have "attempt_ok (lease_row owner now row)" "plan_id (lease_row owner now row) = p"
    using plan_ok_row [OF assms(2) take_over(1)] by (auto simp: attempt_ok_def fresh_state_def lease_row_def)
  from update_ok [OF assms(2) take_over(1) this] take_over(7,8) show ?thesis
    by (simp add: plans_put lease_row_def)
next
  case (fresh row)
  then have "attempt_ok (claimed_row owner now row)" "plan_id (claimed_row owner now row) = p"
    "plan_execution_attempt_count row = 0"
    using plan_ok_row [OF assms(2) fresh(1)] validate_fresh_state [OF fresh(4)]
    by (auto simp: attempt_ok_def fresh_state_def claimed_row_def lease_row_def)
  with update_ok [OF assms(2) fresh(1) this(1,2)] fresh(5,6) show ?thesis
    by (simp add: plans_put lease_row_def claimed_row_def)
qed

text \<open>An execution adds at most one request, and one attempt to the plan it claimed.\<close>

lemma idle_execute_attempts:
  assumes "idle_execute env busy a p who corr recovery w = (x, t)" "plans_ok (w_db w)"
  shows "plans_ok (w_db t) \<and>
    int (collects t) - int (collects w) \<le> attempts (w_db t) - attempts (w_db w)"
  using assms(1)
proof (cases rule: idle_execute_run)
  case (refused e)
  then show ?thesis using assms(2) by (simp add: plans_ok_def attempts_def)
next
  case (granted c d' u)
  have same: "plans_ok (w_db u) = plans_ok d'" "attempts (w_db u) = attempts d'"
    by (simp_all add: plans_ok_def attempts_def granted(2))
  note claimed = claim_attempts [OF granted(1) assms(2)]
  have "owned_row c (w_db u) = Inr (claim_plan c)"
    using claim_owned(1) [OF granted(1)] plans_cong(2) [OF granted(2)] by simp
  from claim_outcome_step [OF granted(4) this]
  have "plans_ok (w_db t) \<and> attempts (w_db u) \<le> attempts (w_db t)"
    by (rule plan_steps_attempts) (use claimed same in simp)
  moreover have "collects t \<le> collects u + (if claim_recovery c then 0 else 1)"
    using granted(4) by (auto simp: claim_outcome_def elim!: settles.cases)
  ultimately show ?thesis using claimed same granted(3) by (auto split: if_splits)
qed

definition collections_paid :: "world \<Rightarrow> bool" where
  "collections_paid w \<longleftrightarrow> plans_ok (w_db w) \<and> int (collects w) \<le> attempts (w_db w)"

lemma service_step_paid: "service_step env px w t \<Longrightarrow> collections_paid w \<Longrightarrow> collections_paid t"
proof (induction rule: service_step.induct)
  case (service_preview a who corr w y t)
  note preview_effect [OF service_preview(1), of px 0]
  then show ?case using service_preview(2)
    by (auto simp: collections_paid_def dest!: plan_step_attempts)
qed (auto simp: collections_paid_def dest!: idle_execute_attempts plan_step_attempts)

interpretation collections: invariant_machine "\<lambda>w. plans (w_db w) = [] \<and> collects w = 0"
    "service_step env px" collections_paid for env px
proof
  show "plans (w_db w) = [] \<and> collects w = 0 \<Longrightarrow> collections_paid w" for w
    by (simp add: collections_paid_def plans_ok_def attempts_def)
qed (rule service_step_paid)

lemma attempts_bound: "list_all attempt_ok rows \<Longrightarrow>
    sum_list (map plan_execution_attempt_count rows) =
      int (length (filter (\<lambda>r. plan_execution_attempt_count r = 1 \<and> \<not> fresh_state r) rows))"
  by (induction rows) (auto simp: attempt_ok_def)

text \<open>
  C1: one plan, one collection. However the executions, previews, confirmations, recoveries and
  account operations of the service interleave, the game has been asked to collect at most as
  often as there are plans that an executor claimed while they were fresh; none of them can be
  claimed like that again.
\<close>

theorem one_collection_per_plan:
  assumes "reach (\<lambda>w. plans (w_db w) = [] \<and> collects w = 0) (service_step env px) w"
  shows "collects w \<le> length (filter (\<lambda>r. plan_execution_attempt_count r = 1 \<and> \<not> fresh_state r)
    (plans (w_db w)))"
  using collections.reach_inv [OF assms] attempts_bound [of "plans (w_db w)"]
  by (simp add: collections_paid_def plans_ok_def attempts_def)

section \<open>A sample world\<close>

text \<open>Account 7 with a session token, and a game whose rewards are gone once they were collected.\<close>

definition idle_env :: env where
  "idle_env = sample_env\<lparr>env_idle := (\<lambda>calls. Inr \<lparr>valid_seconds =
     (if list_ex is_collect calls then 60 else 50000), capacity_seconds = None\<rparr>)\<rparr>"

definition idle_world :: world where
  "idle_world = sample_world\<lparr>w_db := empty_database\<lparr>accounts := [sample_account\<lparr>ga_session_token :=
     seal_secret plain_box (replicate 12 CHR ''n'') 7 ''session_token'' (Some ''tok'')\<rparr>]\<rparr>\<rparr>"

definition planned_world :: world where
  "planned_world = idle_world\<lparr>w_db := insert_plan sample_idle_row (w_db idle_world)\<rparr>"

lemma planned_row: "get_plan 9 (w_db planned_world) = Some sample_idle_row"
  by (simp add: planned_world_def idle_world_def insert_plan_def get_plan_def empty_database_def
      table_simps) (simp add: sample_idle_row_def draft_row_def)

theorem idle_execution_settles_witness:
  "\<exists>row'. get_plan 9 (w_db (snd (idle_execute idle_env False 7 9 sample_actor ''c2'' False planned_world))) =
     Some row' \<and> collects (snd (idle_execute idle_env False 7 9 sample_actor ''c2'' False planned_world))
       \<le> Suc (collects planned_world)"
  using idle_execution_settles [OF prod.collapse [symmetric] planned_row] by blast

theorem one_collection_per_plan_witness:
  "let t = snd (idle_execute idle_env False 7 9 sample_actor ''c2'' False planned_world) in
   collects t \<le> length (filter (\<lambda>r. plan_execution_attempt_count r = 1 \<and> \<not> fresh_state r) (plans (w_db t)))"
proof -
  let ?ini = "\<lambda>w. plans (w_db w) = [] \<and> collects w = 0"
  have "reach ?ini (service_step idle_env strict_pydantic) idle_world"
    by (rule reach_init) (simp add: idle_world_def sample_world_def empty_database_def collects_def)
  moreover have "plan_step strict_pydantic 0 (w_db idle_world) (w_db planned_world)"
    by (rule plan_step_preview [OF _ sample_idle_draft_valid, of 9])
      (simp_all add: planned_world_def sample_idle_row_def idle_world_def get_plan_def
        empty_database_def table_simps insert_plan_def)
  then have "service_step idle_env strict_pydantic idle_world planned_world"
    by (rule service_plans) (simp add: planned_world_def)
  ultimately have "reach ?ini (service_step idle_env strict_pydantic) planned_world" by (rule reach_step)
  moreover have "service_step idle_env strict_pydantic planned_world
      (snd (idle_execute idle_env False 7 9 sample_actor ''c2'' False planned_world))"
    by (rule service_execute [OF prod.collapse [symmetric]])
  ultimately have "reach ?ini (service_step idle_env strict_pydantic)
      (snd (idle_execute idle_env False 7 9 sample_actor ''c2'' False planned_world))" by (rule reach_step)
  from one_collection_per_plan [OF this] show ?thesis by (simp add: Let_def)
qed

lemma previewed_plan:
  "case fst (idle_plan_preview idle_env 7 sample_actor ''c1'' idle_world) of
     Inl e \<Rightarrow> False | Inr ip \<Rightarrow> ip_plan_id ip = Some 100"
  by code_simp

theorem idle_preview_offers_plan_witness:
  "\<exists>ip t. idle_plan_preview idle_env 7 sample_actor ''c1'' idle_world = (Inr ip, t) \<and>
     (\<exists>x. ip_expires_at ip = Some x \<and> (\<exists>c d'.
        claim_plan_row (x - 1) ''o'' 7 100 False (w_db t) = Inr (c, d')))"
proof -
  obtain ip t where run: "idle_plan_preview idle_env 7 sample_actor ''c1'' idle_world = (Inr ip, t)"
    and id: "ip_plan_id ip = Some 100"
    using previewed_plan by (cases "idle_plan_preview idle_env 7 sample_actor ''c1'' idle_world")
      (auto split: sum.splits)
  from idle_preview_offers_plan [OF run] id run show ?thesis
    by auto (metis zle_diff1_eq order_refl)
qed

end
