(* ===== verification/Scheduler_Safety.thy ===== *)
theory Scheduler_Safety
  imports Scheduler Idle_Safety
begin

text \<open>
  What the scheduler's transactions guarantee in any order and from any number of workers: a slot
  is recorded once, a live lease keeps every other worker out, a due slot is dispatched unless it
  is done or in live hands; and what a whole tick and the loop of ticks do.
\<close>

section \<open>Steps\<close>

abbreviation slot_of :: "job_run \<Rightarrow> uuid \<times> string" where
  "slot_of r \<equiv> (run_account_id r, run_idempotency_key r)"

abbreviation claimed_slot :: "claimed_run \<Rightarrow> uuid \<times> string" where
  "claimed_slot c \<equiv> (cr_account_id c, cr_idempotency_key c)"

definition fresh_runs :: "(nat \<Rightarrow> uuid) \<Rightarrow> database \<Rightarrow> bool" where
  "fresh_runs new d \<longleftrightarrow> inj_on new {..<length (jobs d)} \<and>
     new ` {..<length (jobs d)} \<inter> run_id ` set (job_runs d) = {}"

text \<open>Any worker's transaction, with any clock; and those of the rest of the service, which may
  change any other table, jobs included.\<close>

inductive sched_step :: "database \<Rightarrow> database \<Rightarrow> bool" where
  step_acquire: "sched_step d (snd (acquire_lease worker now lease d))"
| step_ensure: "sched_step d (ensure_jobs new known now interval d)"
| step_claim: "fresh_runs new d \<Longrightarrow> sched_step d (snd (claim_due new busy now worker lease ids d))"
| step_finish: "sched_step d (finish_run c completed next_run result d)"
| step_release: "sched_step d (release_lease worker d)"
| step_other: "job_runs e = job_runs d \<Longrightarrow> sched_lease e = sched_lease d \<Longrightarrow> sched_step d e"

definition runs_ok :: "database \<Rightarrow> bool" where
  "runs_ok d \<longleftrightarrow> distinct (map slot_of (job_runs d)) \<and> distinct (map run_id (job_runs d))"

lemma map_replace_same:
  "(\<And>x. x \<in> set rows \<Longrightarrow> key x = key row \<Longrightarrow> f x = f row) \<Longrightarrow> map f (replace_row key row rows) = map f rows"
  by (auto simp: replace_row_def)

lemma in_replace: "r \<in> set rows \<Longrightarrow> key r \<noteq> key row \<Longrightarrow> r \<in> set (replace_row key row rows)"
  by (force simp: replace_row_def)

lemma put_run_frame [simp]:
  "jobs (put_run r d) = jobs d" "sched_lease (put_run r d) = sched_lease d"
  "job_runs (put_job j d) = job_runs d" "sched_lease (put_job j d) = sched_lease d"
  by (simp_all add: put_run_def put_job_def)

text \<open>Rewriting an unfinished run under its own identifier and slot.\<close>

lemma put_run_keeps:
  assumes "runs_ok d" "r \<in> set (job_runs d)" "run_completed_at r = None"
    and "run_id r' = run_id r" "slot_of r' = slot_of r"
  shows "runs_ok (put_run r' d) \<and> run_id ` set (job_runs (put_run r' d)) = run_id ` set (job_runs d) \<and>
    (\<forall>x \<in> set (job_runs d). run_completed_at x \<noteq> None \<longrightarrow> x \<in> set (job_runs (put_run r' d)))"
proof -
  have uniq: "x = r" if "x \<in> set (job_runs d)" "run_id x = run_id r" for x
    using assms(1,2) that by (auto simp: runs_ok_def distinct_map dest: inj_onD)
  have "map slot_of (replace_row run_id r' (job_runs d)) = map slot_of (job_runs d)"
    by (rule map_replace_same) (use uniq assms(4,5) in auto)
  moreover have "run_id ` set (replace_row run_id r' (job_runs d)) = run_id ` set (job_runs d)"
    by (metis keys_replace list.set_map)
  moreover have "x \<in> set (replace_row run_id r' (job_runs d))"
    if "x \<in> set (job_runs d)" "run_completed_at x \<noteq> None" for x
  proof (rule in_replace)
    show "run_id x \<noteq> run_id r'" using uniq [OF that(1)] that(2) assms(3,4) by force
  qed (rule that(1))
  ultimately show ?thesis using assms(1) by (simp add: runs_ok_def put_run_def)
qed

section \<open>Claims\<close>

lemma slot_run_Some: "slot_run a k d = Some r \<Longrightarrow> r \<in> set (job_runs d) \<and> slot_of r = (a, k)"
  unfolding slot_run_def by (drule lookup_Some) auto

lemma slot_run_None: "slot_run a k d = None \<longleftrightarrow> (a, k) \<notin> slot_of ` set (job_runs d)"
  unfolding slot_run_def by (rule lookup_None)

lemma claim_slot_cases:
  assumes "claim_slot new j slot now worker lease d = (c, e)"
  obtains (fresh) "slot_run (job_account_id j) (run_key (job_account_id j) slot) d = None"
      "c = Some \<lparr>cr_run_id = new, cr_job_id = job_id j, cr_account_id = job_account_id j,
         cr_scheduled_for = slot, cr_idempotency_key = run_key (job_account_id j) slot\<rparr>"
      "e = d\<lparr>job_runs := job_runs d @ [new_run new j (run_key (job_account_id j) slot) now worker lease]\<rparr>"
    | (taken) r where "slot_run (job_account_id j) (run_key (job_account_id j) slot) d = Some r"
      "run_completed_at r \<noteq> None \<or> run_leased now r" "c = None" "e = d"
    | (retake) r where "slot_run (job_account_id j) (run_key (job_account_id j) slot) d = Some r"
      "run_completed_at r = None" "\<not> run_leased now r"
      "c = Some \<lparr>cr_run_id = run_id r, cr_job_id = job_id j, cr_account_id = job_account_id j,
         cr_scheduled_for = slot, cr_idempotency_key = run_key (job_account_id j) slot\<rparr>"
      "e = put_run (retaken now worker lease r) d"
  using assms by (auto simp: claim_slot_def Let_def new_run_def split: option.splits if_splits)

text \<open>What a claim leaves alone: identifiers it did not draw, completed runs, the other tables.\<close>

definition claim_frame :: "uuid set \<Rightarrow> database \<Rightarrow> claimed_run list \<Rightarrow> database \<Rightarrow> bool" where
  "claim_frame new d cs e \<longleftrightarrow>
     run_id ` set (job_runs e) \<subseteq> new \<union> run_id ` set (job_runs d) \<and>
     (\<forall>r \<in> set (job_runs d). run_completed_at r \<noteq> None \<longrightarrow> r \<in> set (job_runs e)) \<and>
     (\<forall>x \<in> set cs. \<forall>r \<in> set (job_runs d). run_completed_at r \<noteq> None \<longrightarrow> claimed_slot x \<noteq> slot_of r) \<and>
     jobs e = jobs d \<and> sched_lease e = sched_lease d"

lemma claim_frame_refl: "claim_frame {} d [] d"
  by (simp add: claim_frame_def)

lemma claim_frame_trans:
  assumes "claim_frame A d xs u" "claim_frame B u ys e"
  shows "claim_frame (A \<union> B) d (xs @ ys) e"
proof -
  have "run_id ` set (job_runs e) \<subseteq> (A \<union> B) \<union> run_id ` set (job_runs d)"
    using assms unfolding claim_frame_def by blast
  moreover have "claimed_slot x \<noteq> slot_of r"
    if "x \<in> set (xs @ ys)" "r \<in> set (job_runs d)" "run_completed_at r \<noteq> None" for x r
    using assms that unfolding claim_frame_def set_append by blast
  ultimately show ?thesis using assms unfolding claim_frame_def by simp
qed

lemma claim_frame_fresh:
  assumes "claim_frame A d cs u" "X \<inter> (A \<union> run_id ` set (job_runs d)) = {}"
  shows "X \<inter> run_id ` set (job_runs u) = {}"
proof -
  have "run_id ` set (job_runs u) \<subseteq> A \<union> run_id ` set (job_runs d)"
    using assms(1) by (simp only: claim_frame_def)
  with assms(2) show ?thesis by blast
qed

lemma claim_slot_keeps:
  assumes "claim_slot new j slot now worker lease d = (c, e)" "runs_ok d" "new \<notin> run_id ` set (job_runs d)"
  shows "runs_ok e \<and> claim_frame {new} d (case c of None \<Rightarrow> [] | Some x \<Rightarrow> [x]) e"
  using assms(1)
proof (cases rule: claim_slot_cases)
  case fresh
  then show ?thesis using assms(2,3)
    by (auto simp: runs_ok_def new_run_def slot_run_None image_iff claim_frame_def)
next
  case (taken r)
  then show ?thesis using assms(2) by (auto simp: claim_frame_def)
next
  case (retake r)
  have r: "r \<in> set (job_runs d)" "slot_of r = (job_account_id j, run_key (job_account_id j) slot)"
    using slot_run_Some [OF retake(1)] by simp_all
  have "run_id (retaken now worker lease r) = run_id r" "slot_of (retaken now worker lease r) = slot_of r"
    by (simp_all add: retaken_def)
  note keep = put_run_keeps [OF assms(2) r(1) retake(2) this]
  have "x = r" if "x \<in> set (job_runs d)" "slot_of x = slot_of r" for x
    using assms(2) r(1) that by (auto simp: runs_ok_def distinct_map dest: inj_onD)
  then have "(job_account_id j, run_key (job_account_id j) slot) \<noteq> slot_of x"
    if "x \<in> set (job_runs d)" "run_completed_at x \<noteq> None" for x
    using that retake(2) r(2) by force
  with keep retake(4,5) show ?thesis by (simp add: claim_frame_def subset_insertI)
qed

lemma claim_each_append:
  "claim_each new n (xs @ ys) now worker lease d =
     (case claim_each new n xs now worker lease d of (cs, u) \<Rightarrow>
      case claim_each new (n + length xs) ys now worker lease u of (cs', e) \<Rightarrow> (cs @ cs', e))"
  by (induction xs arbitrary: n d) (auto simp: Let_def split: option.split prod.split)

lemma fresh_insert:
  assumes "inj_on f (insert n B)" "n \<notin> B" "f ` insert n B \<inter> R = {}"
  shows "f n \<notin> R" "inj_on f B" "f ` B \<inter> insert (f n) R = {}"
  using assms by simp_all

lemma fresh_step:
  assumes "inj_on new {n..<n + length (j # js)}" "new ` {n..<n + length (j # js)} \<inter> R = {}"
  shows "new n \<notin> R" "inj_on new {Suc n..<Suc n + length js}"
    "new ` {Suc n..<Suc n + length js} \<inter> insert (new n) R = {}"
proof -
  have eq: "{n..<n + length (j # js)} = insert n {Suc n..<Suc n + length js}" by auto
  have out: "n \<notin> {Suc n..<Suc n + length js}" by simp
  note fresh = fresh_insert [OF _ out, of new R, folded eq, OF assms]
  show "new n \<notin> R" "inj_on new {Suc n..<Suc n + length js}"
    "new ` {Suc n..<Suc n + length js} \<inter> insert (new n) R = {}"
    by (fact fresh)+
qed

lemma claim_each_keeps:
  assumes "claim_each new n js now worker lease d = (cs, e)" "runs_ok d"
    and "inj_on new {n..<n + length js}" "new ` {n..<n + length js} \<inter> run_id ` set (job_runs d) = {}"
  shows "runs_ok e \<and> claim_frame (new ` {n..<n + length js}) d cs e"
  using assms
proof (induction js arbitrary: n d cs e)
  case (Cons j js)
  have range: "{n..<n + length (j # js)} = insert n {Suc n..<Suc n + length js}" by auto
  note new = fresh_step [OF Cons.prems(3,4)]
  obtain xs u cs' where u: "runs_ok u" "claim_frame {new n} d xs u" and cs: "cs = xs @ cs'"
    and rest: "claim_each new (Suc n) js now worker lease u = (cs', e)"
  proof (cases "job_next_run_at j")
    case None
    have "claim_frame {new n} d [] d" by (simp add: claim_frame_def subset_insertI)
    with None Cons.prems(1,2) that show ?thesis by auto
  next
    case (Some slot)
    obtain c u where c: "claim_slot (new n) j slot now worker lease d = (c, u)" by fastforce
    from claim_slot_keeps [OF this Cons.prems(2) new(1)] Cons.prems(1) that show ?thesis
      by (cases c) (auto simp: Some c split: prod.splits)
  qed
  have "new ` {Suc n..<Suc n + length js} \<inter> run_id ` set (job_runs u) = {}"
    by (rule claim_frame_fresh [OF u(2)]) (use new(3) in blast)
  from Cons.IH [OF rest u(1) new(2) this] have "runs_ok e" "claim_frame (new ` {Suc n..<Suc n + length js}) u cs' e"
    by blast+
  with claim_frame_trans [OF u(2) this(2)] cs show ?case unfolding range by simp
qed (simp add: claim_frame_refl)

lemma due_jobs_length: "length (due_jobs busy now ids d) \<le> length (jobs d)"
  by (simp add: due_jobs_def)

lemma fresh_due:
  assumes "fresh_runs new d" "n = length (due_jobs busy now ids d)"
  shows "inj_on new {0..<0 + n}" "new ` {0..<0 + n} \<inter> run_id ` set (job_runs d) = {}"
proof -
  have sub: "{0..<0 + n} \<subseteq> {..<length (jobs d)}" using due_jobs_length [of busy now ids d] assms(2) by auto
  then show "inj_on new {0..<0 + n}" using assms(1) inj_on_subset unfolding fresh_runs_def by blast
  show "new ` {0..<0 + n} \<inter> run_id ` set (job_runs d) = {}"
    using assms(1) sub unfolding fresh_runs_def by blast
qed

lemma claim_due_keeps:
  assumes "claim_due new busy now worker lease ids d = (cs, e)" "runs_ok d" "fresh_runs new d"
  shows "runs_ok e \<and>
    (\<forall>r \<in> set (job_runs d). run_completed_at r \<noteq> None \<longrightarrow> r \<in> set (job_runs e)) \<and>
    (\<forall>x \<in> set cs. \<forall>r \<in> set (job_runs d). run_completed_at r \<noteq> None \<longrightarrow> claimed_slot x \<noteq> slot_of r) \<and>
    jobs e = jobs d \<and> sched_lease e = sched_lease d"
proof (cases "ids = []")
  case False
  then have run: "claim_each new 0 (due_jobs busy now ids d) now worker lease d = (cs, e)"
    using assms(1) by (simp add: claim_due_def)
  from claim_each_keeps [OF run assms(2) fresh_due [OF assms(3) refl]] show ?thesis
    unfolding claim_frame_def by blast
qed (use assms in \<open>simp add: claim_due_def\<close>)

section \<open>The other transactions\<close>

lemma lease_frame [simp]:
  "job_runs (snd (acquire_lease worker now lease d)) = job_runs d"
  "jobs (snd (acquire_lease worker now lease d)) = jobs d"
  "job_runs (release_lease worker d) = job_runs d" "jobs (release_lease worker d) = jobs d"
  by (auto simp: acquire_lease_def release_lease_def Let_def split: option.split)

lemma ensure_job_frame [simp]:
  "job_runs (ensure_job now interval new a d) = job_runs d"
  "sched_lease (ensure_job now interval new a d) = sched_lease d"
  by (auto simp: ensure_job_def split: option.split)

lemma ensure_each_frame [simp]:
  "job_runs (ensure_each now interval new n as d) = job_runs d"
  "sched_lease (ensure_each now interval new n as d) = sched_lease d"
  by (induction as arbitrary: n d) auto

lemma ensure_jobs_frame [simp]:
  "job_runs (ensure_jobs new known now interval d) = job_runs d"
  "sched_lease (ensure_jobs new known now interval d) = sched_lease d"
  by (simp_all add: ensure_jobs_def disable_duplicates_def)

lemma finish_run_cases:
  obtains (settled) r where "get_run (cr_run_id c) d = Some r" "run_completed_at r = None"
      "finish_run c completed next_run result d =
         (let e = put_run (r\<lparr>run_result := Some result, run_completed_at := Some completed,
              run_lease_owner := None, run_lease_expires_at := None\<rparr>) d in
          case get_job (cr_job_id c) d of
            None \<Rightarrow> e | Some j \<Rightarrow> put_job (j\<lparr>job_next_run_at := Some next_run\<rparr>) e)"
    | (nothing) "finish_run c completed next_run result d = d"
      "\<forall>r. get_run (cr_run_id c) d = Some r \<longrightarrow> run_completed_at r \<noteq> None"
  by (cases "get_run (cr_run_id c) d") (auto simp: finish_run_def)

lemma finish_run_keeps:
  assumes "runs_ok d"
  shows "runs_ok (finish_run c completed next_run result d) \<and>
    (\<forall>r \<in> set (job_runs d). run_completed_at r \<noteq> None \<longrightarrow>
       r \<in> set (job_runs (finish_run c completed next_run result d))) \<and>
    sched_lease (finish_run c completed next_run result d) = sched_lease d"
proof (cases rule: finish_run_cases [of c d completed next_run result])
  case (settled r)
  let ?r = "r\<lparr>run_result := Some result, run_completed_at := Some completed,
    run_lease_owner := None, run_lease_expires_at := None\<rparr>"
  have "r \<in> set (job_runs d)" using settled(1) lookup_Some by (fastforce simp: get_run_def)
  from put_run_keeps [OF assms this settled(2), of ?r] show ?thesis
    by (auto simp: settled(3) Let_def runs_ok_def split: option.split)
qed (use assms in simp)

lemma sched_step_keeps:
  assumes "sched_step d e" "runs_ok d"
  shows "runs_ok e \<and> (\<forall>r \<in> set (job_runs d). run_completed_at r \<noteq> None \<longrightarrow> r \<in> set (job_runs e))"
  using assms(1)
proof cases
  case (step_claim new busy now worker lease ids)
  obtain cs where "claim_due new busy now worker lease ids d = (cs, e)"
    using step_claim(1) by (metis prod.collapse)
  from claim_due_keeps [OF this assms(2) step_claim(2)] show ?thesis by blast
next
  case (step_finish c completed next_run result)
  then show ?thesis using finish_run_keeps [OF assms(2)] by blast
qed (use assms(2) in \<open>auto simp: runs_ok_def\<close>)

interpretation slots: invariant_machine "\<lambda>d. job_runs d = []" sched_step runs_ok
  by unfold_locales (auto simp: runs_ok_def dest: sched_step_keeps)

interpretation recorded: stable_property sched_step
  "\<lambda>d. runs_ok d \<and> r \<in> set (job_runs d) \<and> run_completed_at r \<noteq> None" for r
  by unfold_locales (blast dest: sched_step_keeps)

text \<open>
  C7: a slot is recorded once, whatever workers do. In every state that transactions of any number
  of workers, with any clocks and in any order, can reach from an empty history, no two runs have
  the same account and slot; and a run that has been completed keeps its row, its result included,
  for ever, and no worker is ever given its slot again.
\<close>

theorem slot_recorded_once:
  assumes "reach (\<lambda>d. job_runs d = []) sched_step d"
  shows "distinct (map slot_of (job_runs d)) \<and>
    (\<forall>r \<in> set (job_runs d). run_completed_at r \<noteq> None \<longrightarrow> (\<forall>e. steps sched_step d e \<longrightarrow>
       r \<in> set (job_runs e) \<and> (\<forall>new busy now worker lease ids. fresh_runs new e \<longrightarrow>
         slot_of r \<notin> claimed_slot ` set (fst (claim_due new busy now worker lease ids e)))))"
proof (intro conjI ballI impI allI)
  have ok: "runs_ok d" by (rule slots.reach_inv [OF assms])
  then show "distinct (map slot_of (job_runs d))" by (simp add: runs_ok_def)
  fix r e
  assume r: "r \<in> set (job_runs d)" "run_completed_at r \<noteq> None" and e: "steps sched_step d e"
  have keep: "runs_ok e \<and> r \<in> set (job_runs e) \<and> run_completed_at r \<noteq> None"
    by (rule recorded.stable_steps [OF e]) (use ok r in blast)
  then show "r \<in> set (job_runs e)" by blast
  fix new busy now worker lease ids
  assume "fresh_runs new e"
  moreover obtain cs u where "claim_due new busy now worker lease ids e = (cs, u)" by fastforce
  ultimately show "slot_of r \<notin> claimed_slot ` set (fst (claim_due new busy now worker lease ids e))"
    using claim_due_keeps [of new busy now worker lease ids e cs u] keep by force
qed

section \<open>One worker at a time\<close>

text \<open>The steps of anybody but the lease's holder, before the lease runs out.\<close>

inductive rival_step :: "string \<Rightarrow> instant \<Rightarrow> database \<Rightarrow> database \<Rightarrow> bool" for holder until where
  rival_acquire: "worker \<noteq> holder \<Longrightarrow> now < until \<Longrightarrow>
    rival_step holder until d (snd (acquire_lease worker now lease d))"
| rival_release: "worker \<noteq> holder \<Longrightarrow> rival_step holder until d (release_lease worker d)"
| rival_claim: "rival_step holder until d (snd (claim_due new busy now worker lease ids d))"
| rival_ensure: "rival_step holder until d (ensure_jobs new known now interval d)"
| rival_finish: "rival_step holder until d (finish_run c completed next_run result d)"
| rival_other: "sched_lease e = sched_lease d \<Longrightarrow> rival_step holder until d e"

definition holds_lease :: "string \<Rightarrow> instant \<Rightarrow> database \<Rightarrow> bool" where
  "holds_lease holder until d \<longleftrightarrow>
     sched_lease d = Some \<lparr>lease_owner = Some holder, lease_expires_at = Some until\<rparr>"

lemma holds_lease_refuses:
  "holds_lease holder until d \<Longrightarrow> worker \<noteq> holder \<Longrightarrow> now < until \<Longrightarrow>
   acquire_lease worker now lease d = (False, d)"
  by (simp add: holds_lease_def acquire_lease_def lease_refuses_def)

lemma claim_each_lease: "sched_lease (snd (claim_each new n js now worker lease d)) = sched_lease d"
proof (induction js arbitrary: n d)
  case (Cons j js)
  have "sched_lease (snd (claim_slot new' j slot now worker lease d)) = sched_lease d" for new' slot
    by (simp add: claim_slot_def Let_def split: option.split)
  then show ?case using Cons.IH by (auto split: option.split prod.split) (metis snd_conv)+
qed simp

lemma finish_run_lease: "sched_lease (finish_run c completed next_run result d) = sched_lease d"
  by (cases rule: finish_run_cases [of c d completed next_run result])
    (auto simp: Let_def split: option.split)

lemma rival_step_keeps:
  "holds_lease holder until d \<Longrightarrow> rival_step holder until d e \<Longrightarrow> holds_lease holder until e"
  by (erule rival_step.cases)
    (auto simp: holds_lease_refuses claim_due_def claim_each_lease finish_run_lease,
     auto simp: holds_lease_def release_lease_def claim_each_lease finish_run_lease)

interpretation elected: stable_property "rival_step holder until" "holds_lease holder until" for holder until
  by unfold_locales (rule rival_step_keeps)

text \<open>
  C18: at most one worker is elected. Once a worker has acquired the lease at time \<open>t\<close>, then whatever
  the other workers do, and whatever anybody does to the other tables, no other worker can acquire
  it before \<open>t\<close> plus the lease, on its own clock; and the holder still can.
\<close>

theorem lease_is_exclusive:
  assumes "acquire_lease holder t lease d = (True, d1)"
    and "steps (rival_step holder (t + seconds lease)) d1 d2"
    and "worker \<noteq> holder" "now < t + seconds lease"
  shows "\<not> fst (acquire_lease worker now lease' d2) \<and> fst (acquire_lease holder now lease' d2)"
proof -
  have "holds_lease holder (t + seconds lease) d1"
    using assms(1) by (auto simp: acquire_lease_def holds_lease_def Let_def split: if_splits)
  then have "holds_lease holder (t + seconds lease) d2" by (rule elected.stable_steps [OF assms(2)])
  then show ?thesis using holds_lease_refuses [OF _ assms(3,4)]
    by (auto simp: holds_lease_def acquire_lease_def lease_refuses_def)
qed

section \<open>Every due slot is dispatched\<close>

lemma lookup_replace_other:
  assumes "\<And>x. x \<in> set rows \<Longrightarrow> key x = key row \<Longrightarrow> f x = f row"
  shows "lookup f k (replace_row key row rows) =
    (if f row = k then map_option (\<lambda>x. if key x = key row then row else x) (lookup f k rows) else lookup f k rows)"
  using assms by (induction rows) (auto simp: table_simps replace_row_def)

lemma slot_run_put:
  assumes "runs_ok d" "r \<in> set (job_runs d)" "run_id r' = run_id r" "slot_of r' = slot_of r"
  shows "slot_run a k (put_run r' d) = (if slot_of r = (a, k) then Some r' else slot_run a k d)"
proof -
  have uniq: "x = r" if "x \<in> set (job_runs d)" "run_id x = run_id r" for x
    using assms(1,2) that by (auto simp: runs_ok_def distinct_map dest: inj_onD)
  then have same: "slot_of x = slot_of r'" if "x \<in> set (job_runs d)" "run_id x = run_id r'" for x
    using that assms(3,4) by metis
  have "slot_run a k d = Some r" if "slot_of r = (a, k)"
    using lookup_unique [of slot_of "job_runs d" r] assms(1,2) that by (simp add: slot_run_def runs_ok_def)
  with assms(3,4) show ?thesis
    using lookup_replace_other [of "job_runs d" run_id r' slot_of "(a, k)", OF same]
    by (auto simp: slot_run_def put_run_def)
qed

lemma claim_slot_other:
  assumes "claim_slot new j slot now worker lease d = (c, e)" "runs_ok d" "job_account_id j \<noteq> a"
  shows "slot_run a k e = slot_run a k d \<and> (\<forall>x. c = Some x \<longrightarrow> cr_account_id x \<noteq> a)"
  using assms(1)
proof (cases rule: claim_slot_cases)
  case fresh
  then show ?thesis using assms(3)
    by (auto simp: slot_run_def new_run_def table_simps split: option.split)
next
  case (retake r)
  have "r \<in> set (job_runs d)" "slot_of r = (job_account_id j, run_key (job_account_id j) slot)"
    using slot_run_Some [OF retake(1)] by simp_all
  with slot_run_put [OF assms(2) this(1), of "retaken now worker lease r" a k] retake assms(3)
  show ?thesis by (auto simp: retaken_def)
qed (use assms(3) in auto)

lemma claim_each_other:
  assumes "claim_each new n js now worker lease d = (cs, e)" "runs_ok d"
    and "inj_on new {n..<n + length js}" "new ` {n..<n + length js} \<inter> run_id ` set (job_runs d) = {}"
    and "\<forall>j \<in> set js. job_account_id j \<noteq> a"
  shows "slot_run a k e = slot_run a k d \<and> a \<notin> cr_account_id ` set cs"
  using assms
proof (induction js arbitrary: n d cs e)
  case (Cons j js)
  have range: "{n..<n + length (j # js)} = insert n {Suc n..<Suc n + length js}" by auto
  note new = fresh_step [OF Cons.prems(3,4)]
  show ?case
  proof (cases "job_next_run_at j")
    case None
    then have "claim_each new (Suc n) js now worker lease d = (cs, e)" using Cons.prems(1) by simp
    from Cons.IH [OF this Cons.prems(2) new(2)] new(3) Cons.prems(5) show ?thesis by auto
  next
    case (Some slot)
    obtain c u cs' where c: "claim_slot (new n) j slot now worker lease d = (c, u)"
      and rest: "claim_each new (Suc n) js now worker lease u = (cs', e)"
      and cs: "cs = (case c of None \<Rightarrow> cs' | Some x \<Rightarrow> x # cs')"
      using Cons.prems(1) by (auto simp: Some split: prod.splits)
    have u: "runs_ok u" "claim_frame {new n} d (case c of None \<Rightarrow> [] | Some x \<Rightarrow> [x]) u"
      using claim_slot_keeps [OF c Cons.prems(2) new(1)] by simp_all
    have "new ` {Suc n..<Suc n + length js} \<inter> run_id ` set (job_runs u) = {}"
      by (rule claim_frame_fresh [OF u(2)]) (use new(3) in blast)
    from Cons.IH [OF rest u(1) new(2) this] Cons.prems(5) have
      "slot_run a k e = slot_run a k u" "a \<notin> cr_account_id ` set cs'" by simp_all
    with claim_slot_other [OF c Cons.prems(2)] Cons.prems(5) cs show ?thesis by (cases c) auto
  qed
qed simp

lemma split_fresh:
  assumes "inj_on new {0..<0 + length (pre @ j # post)}" "new ` {0..<0 + length (pre @ j # post)} \<inter> R = {}"
  shows "inj_on new {0..<0 + length pre}" "new ` {0..<0 + length pre} \<inter> R = {}"
    "new (length pre) \<notin> new ` {0..<0 + length pre}" "new (length pre) \<notin> R"
    "inj_on new {Suc (length pre)..<Suc (length pre) + length post}"
    "new ` {Suc (length pre)..<Suc (length pre) + length post} \<inter>
       (new ` {0..<0 + length pre} \<union> insert (new (length pre)) R) = {}"
proof -
  let ?A = "{0..<0 + length pre}" and ?B = "{Suc (length pre)..<Suc (length pre) + length post}"
  have eq: "{0..<0 + length (pre @ j # post)} = ?A \<union> insert (length pre) ?B" by auto
  have sep: "length pre \<notin> ?A" "length pre \<notin> ?B" "?A \<inter> ?B = {}" by auto
  have inj: "new x = new y \<Longrightarrow> x \<in> ?A \<union> insert (length pre) ?B \<Longrightarrow> y \<in> ?A \<union> insert (length pre) ?B \<Longrightarrow> x = y" for x y
    using inj_onD [OF assms(1) [unfolded eq]] by blast
  have out: "new x \<notin> R" if "x \<in> ?A \<union> insert (length pre) ?B" for x
    using assms(2) that unfolding eq by blast
  show "inj_on new ?A" "inj_on new ?B" by (rule inj_onI, rule inj, assumption, blast, blast)+
  show "new ` ?A \<inter> R = {}" "new (length pre) \<notin> R" using out by blast+
  show "new (length pre) \<notin> new ` ?A" using inj sep(1) by blast
  show "new ` ?B \<inter> (new ` ?A \<union> insert (new (length pre)) R) = {}" using inj out sep(2,3) by blast
qed

definition lone_due :: "instant \<Rightarrow> uuid list \<Rightarrow> job \<Rightarrow> database \<Rightarrow> bool" where
  "lone_due now ids j d \<longleftrightarrow> distinct (map job_id (jobs d)) \<and> j \<in> set (jobs d) \<and> job_due now ids j \<and>
     (\<forall>i \<in> set (jobs d). job_due now ids i \<longrightarrow> job_account_id i = job_account_id j \<longrightarrow> i = j)"

lemma due_jobs_split:
  assumes "lone_due now ids j d" "\<not> busy (job_id j)"
  obtains pre post where "due_jobs busy now ids d = pre @ j # post"
    "\<forall>i \<in> set pre \<union> set post. job_account_id i \<noteq> job_account_id j"
proof -
  let ?js = "due_jobs busy now ids d"
  have "j \<in> set ?js" using assms by (auto simp: lone_due_def due_jobs_def)
  then obtain pre post where js: "?js = pre @ j # post" by (metis split_list)
  have "distinct (jobs d)" using assms(1) by (simp add: lone_due_def distinct_map)
  then have "distinct (pre @ j # post)" unfolding js [symmetric] by (simp add: due_jobs_def)
  moreover have "i = j" if "i \<in> set ?js" "job_account_id i = job_account_id j" for i
    using assms(1) that by (auto simp: lone_due_def due_jobs_def)
  ultimately have "\<forall>i \<in> set pre \<union> set post. job_account_id i \<noteq> job_account_id j"
    using js by (metis Un_iff disjoint_iff distinct_append distinct.simps(2) list.set_intros set_append)
  with js that show ?thesis by blast
qed

text \<open>
  C19: no slot is lost. When a job is due for one of the accounts asked for, alone for its account and
  not locked by another transaction, a claim takes its slot and leases the run to the worker,
  as attempt 1 if the slot has no run and as the next attempt if its run was abandoned (not
  completed, its lease over); only a slot that is completed or in live hands is passed over. So a
  worker that dies in the middle of a run delays it by no more than the lease.
\<close>

theorem due_slot_is_dispatched:
  assumes "claim_due new busy now worker lease ids d = (cs, e)" "runs_ok d" "fresh_runs new d"
    and "lone_due now ids j d" "\<not> busy (job_id j)" "job_next_run_at j = Some slot"
    and "key = run_key (job_account_id j) slot"
  shows "case slot_run (job_account_id j) key d of
      None \<Rightarrow> \<exists>n. slot_run (job_account_id j) key e = Some (new_run (new n) j key now worker lease) \<and>
        \<lparr>cr_run_id = new n, cr_job_id = job_id j, cr_account_id = job_account_id j,
          cr_scheduled_for = slot, cr_idempotency_key = key\<rparr> \<in> set cs
    | Some r \<Rightarrow>
        if run_completed_at r \<noteq> None \<or> run_leased now r then
          slot_run (job_account_id j) key e = Some r \<and> job_account_id j \<notin> cr_account_id ` set cs
        else slot_run (job_account_id j) key e = Some (retaken now worker lease r) \<and>
          \<lparr>cr_run_id = run_id r, cr_job_id = job_id j, cr_account_id = job_account_id j,
            cr_scheduled_for = slot, cr_idempotency_key = key\<rparr> \<in> set cs"
proof -
  let ?a = "job_account_id j" and ?js = "due_jobs busy now ids d"
  obtain pre post where js: "?js = pre @ j # post"
    and others: "\<forall>i \<in> set pre \<union> set post. job_account_id i \<noteq> ?a"
    using due_jobs_split [where ids = ids and busy = busy, OF assms(4,5)] by blast
  have ids: "ids \<noteq> []" using assms(4) by (auto simp: lone_due_def job_due_def)
  note fresh = fresh_due [OF assms(3) refl, of busy now ids, unfolded js]
  obtain cs1 u where pre: "claim_each new 0 pre now worker lease d = (cs1, u)" by fastforce
  obtain c v where c: "claim_slot (new (length pre)) j slot now worker lease u = (c, v)" by fastforce
  obtain cs2 where post: "claim_each new (Suc (length pre)) post now worker lease v = (cs2, e)"
    and cs: "cs = cs1 @ (case c of None \<Rightarrow> cs2 | Some x \<Rightarrow> x # cs2)"
    using assms(1) ids by (auto simp: claim_due_def js claim_each_append pre assms(6) c split: prod.splits)
  note sub = split_fresh(1,2) [OF fresh] and new = split_fresh(3,6,4,5) [OF fresh]
  have u: "runs_ok u" "claim_frame (new ` {0..<0 + length pre}) d cs1 u"
    using claim_each_keeps [OF pre assms(2) sub] by simp_all
  have before: "slot_run ?a k u = slot_run ?a k d" "?a \<notin> cr_account_id ` set cs1" for k
    using claim_each_other [OF pre assms(2) sub] others by auto
  have "{new (length pre)} \<inter> run_id ` set (job_runs u) = {}"
    by (rule claim_frame_fresh [OF u(2)]) (use new(1,3) in simp)
  then have v: "runs_ok v" "claim_frame {new (length pre)} u (case c of None \<Rightarrow> [] | Some x \<Rightarrow> [x]) v"
    using claim_slot_keeps [OF c u(1)] by simp_all
  let ?post = "new ` {Suc (length pre)..<Suc (length pre) + length post}"
  have "?post \<inter> run_id ` set (job_runs u) = {}" by (rule claim_frame_fresh [OF u(2)]) (use new(2) in blast)
  then have "?post \<inter> run_id ` set (job_runs v) = {}" by (intro claim_frame_fresh [OF v(2)]) (use new(2) in blast)
  then have after: "slot_run ?a k e = slot_run ?a k v" "?a \<notin> cr_account_id ` set cs2" for k
    using claim_each_other [OF post v(1) new(4)] others by auto
  show ?thesis using c
  proof (cases rule: claim_slot_cases)
    case fresh
    then have "slot_run ?a key v = Some (new_run (new (length pre)) j key now worker lease)"
      using assms(7) by (simp add: slot_run_def table_simps new_run_def)
    then have "slot_run ?a key e = Some (new_run (new (length pre)) j key now worker lease)" using after(1) by simp
    moreover have "slot_run ?a key d = None" using fresh(1) before(1) assms(7) by simp
    moreover have "\<lparr>cr_run_id = new (length pre), cr_job_id = job_id j, cr_account_id = ?a,
        cr_scheduled_for = slot, cr_idempotency_key = key\<rparr> \<in> set cs" using cs fresh(2) assms(7) by simp
    ultimately show ?thesis by (simp only: option.case) blast
  next
    case (taken r)
    have "slot_run ?a key d = Some r" "slot_run ?a key e = Some r"
      using taken(1,4) before(1) after(1) assms(7) by simp_all
    moreover have "?a \<notin> cr_account_id ` set cs" using cs taken(3) before(2) after(2) by auto
    ultimately show ?thesis using taken(2) by (simp only: option.case if_True simp_thms)
  next
    case (retake r)
    have "r \<in> set (job_runs u)" "slot_of r = (?a, key)" using slot_run_Some [OF retake(1)] assms(7) by simp_all
    with slot_run_put [OF u(1) this(1), of "retaken now worker lease r" ?a key] retake(5)
    have "slot_run ?a key v = Some (retaken now worker lease r)" by (simp add: retaken_def)
    then have "slot_run ?a key e = Some (retaken now worker lease r)" using after(1) by simp
    moreover have "slot_run ?a key d = Some r" using retake(1) before(1) assms(7) by simp
    moreover have "\<lparr>cr_run_id = run_id r, cr_job_id = job_id j, cr_account_id = ?a,
        cr_scheduled_for = slot, cr_idempotency_key = key\<rparr> \<in> set cs" using cs retake(4) assms(7) by simp
    ultimately show ?thesis using retake(2,3) by (simp only: option.case if_False simp_thms)
  qed
qed

section \<open>A tick\<close>

definition scheduling :: "nat \<Rightarrow> job list \<times> job_run list \<times> scheduler_lease option \<Rightarrow> world \<Rightarrow> bool" where
  "scheduling n v w \<longleftrightarrow> collects w = n \<and> (jobs (w_db w), job_runs (w_db w), sched_lease (w_db w)) = v"

interpretation scheduling: session_frame "scheduling n v" a for n v a
  by unfold_locales
    (auto simp: scheduling_def collects_def add_audit_def map_account_def put_account_def split: option.split)

lemma keeps_save: "keeps (scheduling n v) (preview_save env draft who corr payload)"
proof -
  have ids: "keeps (scheduling n v) (fresh_id env)"
    by (rule keepsI) (simp add: fresh_id_def scheduling_def collects_def)
  have add: "keeps (scheduling n v) (add_plan env p)" for p
    unfolding add_plan_def on_db_def
    by (intro keeps_intros ids) (simp add: scheduling_def collects_def insert_plan_def)
  show ?thesis
    unfolding preview_save_def require_identifier_def audit_actor_def on_db_def
    by (intro scheduling.keeps_transaction keeps_intros add)
      (auto simp: scheduling_def collects_def add_audit_def)
qed

lemma keeps_preview: "keeps (scheduling n v) (idle_plan_preview env a who corr)"
  unfolding idle_plan_preview_def preview_body_def require_identifier_def
  by (intro scheduling.keeps_locked scheduling.keeps_steps keeps_save)

lemma preview_run_scheduling:
  assumes "run_preview env sc c corr w = (x, t)"
  shows "collects t = collects w \<and> jobs (w_db t) = jobs (w_db w) \<and> job_runs (w_db t) = job_runs (w_db w) \<and>
    sched_lease (w_db t) = sched_lease (w_db w) \<and> (\<forall>e. x = Inl e \<longrightarrow> \<not> is_exception e)"
proof -
  have "keeps (scheduling n v) (run_preview env sc c corr)" for n v
    unfolding run_preview_def by (intro keeps_try_else keeps_preview keeps_basic)
  from keepsD [OF this assms] have "scheduling (collects w) (jobs (w_db w), job_runs (w_db w), sched_lease (w_db w)) t"
    by (simp add: scheduling_def)
  moreover have "\<forall>e. x = Inl e \<longrightarrow> \<not> is_exception e"
    using assms unfolding run_preview_def by (auto simp: ret_def elim!: try_else_cases)
  ultimately show ?thesis by (simp add: scheduling_def)
qed

text \<open>A dispatch finishes its run, unless the storage fails; nothing but a cancellation leaves it.\<close>

lemma dispatch_run:
  assumes "dispatch env sc now c w = (x, t)"
  obtains (cancelled) e where "x = Inl e" "\<not> is_exception e" "collects t = collects w"
      "job_runs (w_db t) = job_runs (w_db w)" "sched_lease (w_db t) = sched_lease (w_db w)"
    | (failed) e where "x = Inr () \<or> (x = Inl e \<and> \<not> is_exception e)" "sc_fault sc (cr_run_id c) = Some e"
      "collects t = collects w" "job_runs (w_db t) = job_runs (w_db w)"
      "sched_lease (w_db t) = sched_lease (w_db w)"
    | (finished) completed result d where "x = Inr ()" "sc_fault sc (cr_run_id c) = None" "collects t = collects w"
      "jobs d = jobs (w_db w)" "job_runs d = job_runs (w_db w)" "sched_lease d = sched_lease (w_db w)"
      "w_db t = finish_run c completed (now + seconds (sc_interval sc)) result d"
proof -
  define u where "u = w\<lparr>w_ids := Suc (w_ids w)\<rparr>"
  then have u: "collects u = collects w" "w_db u = w_db w" by (simp_all add: collects_def)
  have run: "bnd (run_preview env sc c (uuid_hex (env_id env (w_ids w)))) (record_run env sc c now) u = (x, t)"
    using assms by (simp add: dispatch_def bnd_eval [of "fresh_id env"] fresh_id_def u_def)
  from run show ?thesis
  proof (cases rule: bnd_cases)
    case (err e)
    then show ?thesis using preview_run_scheduling [OF err(1)] u that(1) by simp
  next
    case (ok result v)
    note v = preview_run_scheduling [OF ok(1)]
    obtain completed where rec: "handle (\<lambda>w. case sc_fault sc (cr_run_id c) of
        Some e \<Rightarrow> raise e w
      | None \<Rightarrow> on_db (finish_run c completed (now + seconds (sc_interval sc)) result) w)
        is_exception (\<lambda>e. ret ()) (v\<lparr>w_ticks := Suc (w_ticks v)\<rparr>) = (x, t)"
      using ok(2) by (auto simp: record_run_def handle_def bnd_def clock_def split: option.splits)
    show ?thesis
    proof (cases "sc_fault sc (cr_run_id c)")
      case None
      with rec have "x = Inr ()" "t = v\<lparr>w_ticks := Suc (w_ticks v),
          w_db := finish_run c completed (now + seconds (sc_interval sc)) result (w_db v)\<rparr>"
        by (auto simp: handle_def on_db_def modify_def)
      with v u None that(3) [of "w_db v" completed result] show ?thesis by (simp add: collects_def)
    next
      case (Some e)
      with rec v u that(2) [of e] show ?thesis
        by (auto simp: handle_def raise_def ret_def collects_def split: if_splits)
    qed
  qed
qed

text \<open>The identity and the slot of a run, which nothing changes.\<close>

abbreviation run_tag :: "job_run \<Rightarrow> uuid \<times> uuid \<times> string" where
  "run_tag r \<equiv> (run_id r, slot_of r)"

definition run_tags :: "database \<Rightarrow> (uuid \<times> uuid \<times> string) set" where
  "run_tags d = run_tag ` set (job_runs d)"

lemma put_run_tags:
  assumes "runs_ok d" "r \<in> set (job_runs d)" "run_id r' = run_id r" "slot_of r' = slot_of r"
  shows "run_tags (put_run r' d) = run_tags d"
proof -
  have "map run_tag (replace_row run_id r' (job_runs d)) = map run_tag (job_runs d)"
    by (rule map_replace_same)
      (use assms in \<open>auto simp: runs_ok_def distinct_map dest: inj_onD\<close>)
  then have "run_tag ` set (replace_row run_id r' (job_runs d)) = run_tag ` set (job_runs d)"
    by (simp only: list.set_map [symmetric])
  then show ?thesis by (simp add: run_tags_def put_run_def)
qed

lemma claim_slot_tags:
  assumes "claim_slot new j slot now worker lease d = (c, e)" "runs_ok d"
  shows "run_tags d \<subseteq> run_tags e \<and> (\<forall>x. c = Some x \<longrightarrow> (cr_run_id x, claimed_slot x) \<in> run_tags e)"
  using assms(1)
proof (cases rule: claim_slot_cases)
  case fresh
  then show ?thesis by (auto simp: run_tags_def new_run_def)
next
  case (retake r)
  have r: "r \<in> set (job_runs d)" "slot_of r = (job_account_id j, run_key (job_account_id j) slot)"
    using slot_run_Some [OF retake(1)] by simp_all
  have "run_tags e = run_tags d"
    unfolding retake(5) by (rule put_run_tags [OF assms(2) r(1)]) (simp_all add: retaken_def)
  then show ?thesis using r retake(4) by (force simp: run_tags_def)
qed simp

lemma claim_each_tags:
  assumes "claim_each new n js now worker lease d = (cs, e)" "runs_ok d"
    and "inj_on new {n..<n + length js}" "new ` {n..<n + length js} \<inter> run_id ` set (job_runs d) = {}"
  shows "run_tags d \<subseteq> run_tags e \<and> (\<forall>x \<in> set cs. (cr_run_id x, claimed_slot x) \<in> run_tags e)"
  using assms
proof (induction js arbitrary: n d cs e)
  case (Cons j js)
  note fresh = fresh_step [OF Cons.prems(3,4)]
  show ?case
  proof (cases "job_next_run_at j")
    case None
    then have "claim_each new (Suc n) js now worker lease d = (cs, e)" using Cons.prems(1) by simp
    from Cons.IH [OF this Cons.prems(2) fresh(2)] fresh(3) show ?thesis by auto
  next
    case (Some slot)
    obtain c u cs' where c: "claim_slot (new n) j slot now worker lease d = (c, u)"
      and rest: "claim_each new (Suc n) js now worker lease u = (cs', e)"
      and cs: "cs = (case c of None \<Rightarrow> cs' | Some x \<Rightarrow> x # cs')"
      using Cons.prems(1) by (auto simp: Some split: prod.splits)
    have u: "runs_ok u" "claim_frame {new n} d (case c of None \<Rightarrow> [] | Some x \<Rightarrow> [x]) u"
      using claim_slot_keeps [OF c Cons.prems(2) fresh(1)] by simp_all
    have "new ` {Suc n..<Suc n + length js} \<inter> run_id ` set (job_runs u) = {}"
      by (rule claim_frame_fresh [OF u(2)]) (use fresh(3) in blast)
    from Cons.IH [OF rest u(1) fresh(2) this] have
      "run_tags u \<subseteq> run_tags e" "\<forall>x \<in> set cs'. (cr_run_id x, claimed_slot x) \<in> run_tags e" by blast+
    with claim_slot_tags [OF c Cons.prems(2)] cs show ?thesis by (cases c) auto
  qed
qed simp

lemma claim_due_tags:
  assumes "claim_due new busy now worker lease ids d = (cs, e)" "runs_ok d" "fresh_runs new d"
  shows "\<forall>c \<in> set cs. (cr_run_id c, claimed_slot c) \<in> run_tags e"
proof (cases "ids = []")
  case False
  then have run: "claim_each new 0 (due_jobs busy now ids d) now worker lease d = (cs, e)"
    using assms(1) by (simp add: claim_due_def)
  from claim_each_tags [OF run assms(2) fresh_due [OF assms(3) refl]] show ?thesis by blast
qed (use assms in \<open>simp add: claim_due_def\<close>)

lemma finish_run_settles:
  assumes "runs_ok d" "(cr_run_id c, s) \<in> run_tags d"
  shows "run_tags (finish_run c completed next_run result d) = run_tags d \<and>
    (\<exists>r \<in> set (job_runs (finish_run c completed next_run result d)).
       run_tag r = (cr_run_id c, s) \<and> run_completed_at r \<noteq> None)"
proof -
  obtain r where r: "r \<in> set (job_runs d)" "run_id r = cr_run_id c" "slot_of r = s"
    using assms(2) by (auto simp: run_tags_def)
  then have get: "get_run (cr_run_id c) d = Some r"
    using assms(1) lookup_unique [of run_id "job_runs d" r] by (simp add: get_run_def runs_ok_def)
  show ?thesis
  proof (cases "run_completed_at r")
    case None
    let ?r = "r\<lparr>run_result := Some result, run_completed_at := Some completed,
      run_lease_owner := None, run_lease_expires_at := None\<rparr>"
    have runs: "job_runs (finish_run c completed next_run result d) = job_runs (put_run ?r d)"
      using get None by (simp add: finish_run_def Let_def split: option.split)
    have "run_tags (put_run ?r d) = run_tags d" by (rule put_run_tags [OF assms(1) r(1)]) simp_all
    moreover have "?r \<in> set (job_runs (put_run ?r d))"
      using r(1) by (auto simp: put_run_def replace_row_def image_iff intro!: bexI [of _ r])
    ultimately show ?thesis using runs r(2,3) by (intro conjI bexI [of _ ?r]) (simp_all add: run_tags_def)
  next
    case (Some x)
    then show ?thesis using get r by (auto simp: finish_run_def)
  qed
qed

lemma dispatch_all_settles:
  assumes "dispatch_all env sc now cs w = (x, t)" "runs_ok (w_db w)"
    and "\<forall>c \<in> set cs. (cr_run_id c, claimed_slot c) \<in> run_tags (w_db w)"
  shows "collects t = collects w \<and> sched_lease (w_db t) = sched_lease (w_db w) \<and>
    (\<forall>r \<in> set (job_runs (w_db w)). run_completed_at r \<noteq> None \<longrightarrow> r \<in> set (job_runs (w_db t))) \<and>
    (\<forall>e. x = Inl e \<longrightarrow> \<not> is_exception e) \<and>
    (x = Inr () \<longrightarrow> (\<forall>c \<in> set cs. sc_fault sc (cr_run_id c) = None \<longrightarrow>
       (\<exists>r \<in> set (job_runs (w_db t)). run_tag r = (cr_run_id c, claimed_slot c) \<and> run_completed_at r \<noteq> None)))"
  using assms
proof (induction cs arbitrary: w)
  case (Cons c cs)
  obtain y u where y: "dispatch env sc now c w = (y, u)" by fastforce
  have u: "collects u = collects w" "sched_lease (w_db u) = sched_lease (w_db w)" "runs_ok (w_db u)"
    "\<forall>r \<in> set (job_runs (w_db w)). run_completed_at r \<noteq> None \<longrightarrow> r \<in> set (job_runs (w_db u))"
    "run_tags (w_db u) = run_tags (w_db w)" "\<forall>e. y = Inl e \<longrightarrow> \<not> is_exception e"
    "y = Inr () \<Longrightarrow> sc_fault sc (cr_run_id c) = None \<Longrightarrow> \<exists>r \<in> set (job_runs (w_db u)).
       run_tag r = (cr_run_id c, claimed_slot c) \<and> run_completed_at r \<noteq> None"
  proof (atomize (full), rule dispatch_run [OF y], goal_cases)
    case 1
    then show ?case using Cons.prems(2) by (auto simp: runs_ok_def run_tags_def)
  next
    case 2
    then show ?case using Cons.prems(2) by (auto simp: runs_ok_def run_tags_def)
  next
    case (3 completed result d)
    have d: "runs_ok d" "run_tags d = run_tags (w_db w)"
      using 3(5) Cons.prems(2) by (simp_all add: runs_ok_def run_tags_def)
    have "(cr_run_id c, claimed_slot c) \<in> run_tags d" using Cons.prems(3) d(2) by simp
    from finish_run_settles [OF d(1) this] finish_run_keeps [OF d(1)] 3 d(2) show ?case by simp
  qed
  show ?case
  proof (cases y)
    case (Inl e)
    then have "x = Inl e" "t = u" using Cons.prems(1) y by (auto simp: andthen_eval)
    then show ?thesis using u Inl by auto
  next
    case (Inr z)
    then have "dispatch_all env sc now cs u = (x, t)" using Cons.prems(1) y by (simp add: andthen_eval)
    note IH = Cons.IH [OF this u(3)]
    have "\<forall>c \<in> set cs. (cr_run_id c, claimed_slot c) \<in> run_tags (w_db u)" using Cons.prems(3) u(5) by simp
    note IH = IH [OF this]
    show ?thesis
    proof (intro conjI impI ballI)
      fix c' assume "x = Inr ()" "c' \<in> set (c # cs)" "sc_fault sc (cr_run_id c') = None"
      then consider "c' = c" | "c' \<in> set cs" by auto
      then show "\<exists>r \<in> set (job_runs (w_db t)). run_tag r = (cr_run_id c', claimed_slot c') \<and> run_completed_at r \<noteq> None"
      proof cases
        case 1
        then obtain r where "r \<in> set (job_runs (w_db u))" "run_tag r = (cr_run_id c', claimed_slot c')"
          "run_completed_at r \<noteq> None"
          using u(7) Inr \<open>sc_fault sc (cr_run_id c') = None\<close> by auto
        moreover from this have "r \<in> set (job_runs (w_db t))" using IH by blast
        ultimately show ?thesis by blast
      next
        case 2
        then show ?thesis using IH \<open>x = Inr ()\<close> \<open>sc_fault sc (cr_run_id c') = None\<close> by blast
      qed
    next
      fix r assume "r \<in> set (job_runs (w_db w))" "run_completed_at r \<noteq> None"
      then show "r \<in> set (job_runs (w_db t))" using IH u(4) by blast
    next
      show "collects t = collects w" "sched_lease (w_db t) = sched_lease (w_db w)" using IH u(1,2) by simp_all
      show "\<forall>e. x = Inl e \<longrightarrow> \<not> is_exception e" using IH by blast
    qed
  qed
qed (auto simp: ret_def)

lemma ensure_job_length: "length (jobs (ensure_job now interval new a d)) \<le> Suc (length (jobs d))"
  by (auto simp: ensure_job_def put_job_def split: option.split)

lemma ensure_each_length:
  "length (jobs (ensure_each now interval new n as d)) \<le> length (jobs d) + length as"
proof (induction as arbitrary: n d)
  case (Cons a as)
  have "length (jobs (ensure_each now interval new (Suc n) as (ensure_job now interval (new n) a d)))
      \<le> length (jobs (ensure_job now interval (new n) a d)) + length as" by (rule Cons.IH)
  with ensure_job_length [of now interval "new n" a d] show ?case by simp
qed simp

lemma ensure_jobs_length:
  "length (jobs (ensure_jobs new known now interval d)) \<le> length (jobs d) + length known"
  using ensure_each_length [of now interval new 0 known "disable_duplicates (map ma_id known) d"]
  by (simp add: ensure_jobs_def disable_duplicates_def)

text \<open>The accounts as the tick lists them, the database it claims from and what it claims.\<close>

definition tick_known :: "world \<Rightarrow> managed_account list" where
  "tick_known w = map managed (sort_key (\<lambda>r. (ga_label r, unat (ga_id r))) (accounts (w_db w)))"

definition tick_database :: "env \<Rightarrow> scheduler \<Rightarrow> instant \<Rightarrow> world \<Rightarrow> database" where
  "tick_database env sc now w = ensure_jobs (\<lambda>k. env_id env (w_ids w + k)) (tick_known w) now (sc_interval sc)
     (snd (acquire_lease (sc_worker sc) now (sc_lease sc) (w_db w)))"

definition tick_claims :: "env \<Rightarrow> scheduler \<Rightarrow> instant \<Rightarrow> world \<Rightarrow> claimed_run list \<times> database" where
  "tick_claims env sc now w = claim_due (\<lambda>k. env_id env (w_ids w + length (accounts (w_db w)) + k))
     (sc_busy sc) now (sc_worker sc) (sc_lease sc) (map ma_id (filter account_eligible (tick_known w)))
     (tick_database env sc now w)"

text \<open>The identifiers a tick may draw are new and distinct.\<close>

definition tick_ids_fresh :: "env \<Rightarrow> world \<Rightarrow> bool" where
  "tick_ids_fresh env w \<longleftrightarrow>
     (let draws = {w_ids w..<w_ids w + (2 * length (accounts (w_db w)) + length (jobs (w_db w)))} in
      inj_on (env_id env) draws \<and> env_id env ` draws \<inter> run_id ` set (job_runs (w_db w)) = {})"

lemma acquire_accounts [simp]: "accounts (snd (acquire_lease worker now lease d)) = accounts d"
  by (auto simp: acquire_lease_def Let_def split: option.split)

lemma tick_fresh_runs:
  assumes "tick_ids_fresh env w"
  shows "fresh_runs (\<lambda>k. env_id env (w_ids w + length (accounts (w_db w)) + k)) (tick_database env sc now w)"
proof -
  let ?m = "length (accounts (w_db w))" and ?n = "length (jobs (tick_database env sc now w))"
  let ?draws = "{w_ids w..<w_ids w + (2 * ?m + length (jobs (w_db w)))}"
  have "?n \<le> length (jobs (w_db w)) + ?m"
    using ensure_jobs_length [of "\<lambda>k. env_id env (w_ids w + k)" "tick_known w" now "sc_interval sc"
        "snd (acquire_lease (sc_worker sc) now (sc_lease sc) (w_db w))"]
    by (simp add: tick_database_def tick_known_def)
  then have sub: "(\<lambda>k. w_ids w + ?m + k) ` {..<?n} \<subseteq> ?draws" by auto
  have inj: "inj_on (env_id env) ?draws" and new: "env_id env ` ?draws \<inter> run_id ` set (job_runs (w_db w)) = {}"
    using assms by (simp_all add: tick_ids_fresh_def Let_def)
  have "inj_on (env_id env \<circ> (\<lambda>k. w_ids w + ?m + k)) {..<?n}"
    by (rule comp_inj_on) (simp_all add: inj_on_subset [OF inj sub])
  moreover have "env_id env ` (\<lambda>k. w_ids w + ?m + k) ` {..<?n} \<inter> run_id ` set (job_runs (w_db w)) = {}"
    using new sub by blast
  ultimately show ?thesis by (simp add: fresh_runs_def comp_def image_image tick_database_def)
qed

lemma tick_body_run:
  assumes "tick_body env sc now v = (r, t)" "w_db v = snd (acquire_lease (sc_worker sc) now (sc_lease sc) (w_db w))"
    and "w_ids v = w_ids w" "tick_claims env sc now w = (cs, d)"
  obtains u where "w_db u = d" "collects u = collects v"
    "(if cs = [] then ret 0 else andthen (dispatch_all env sc now cs) (ret (length cs))) u = (r, t)"
proof -
  have known: "account_list v = (Inr (tick_known w), v)"
    using assms(2) by (simp add: account_list_def asks_def tick_known_def)
  have len: "length (tick_known w) = length (accounts (w_db w))" by (simp add: tick_known_def)
  let ?n = "length (jobs (tick_database env sc now w))"
  let ?u = "v\<lparr>w_ids := w_ids w + length (accounts (w_db w)) + ?n, w_db := d\<rparr>"
  have "(if cs = [] then ret 0 else andthen (dispatch_all env sc now cs) (ret (length cs))) ?u = (r, t)"
    using assms(1) assms(4) unfolding tick_claims_def
    by (simp add: tick_body_def bnd_eval known fresh_ids_def len andthen_eval on_db_def modify_def asks_def store_def
        assms(2,3) tick_database_def)
  moreover have "w_db ?u = d" "collects ?u = collects v" by (simp_all add: collects_def)
  ultimately show ?thesis using that by blast
qed


section \<open>The loop ends\<close>


section \<open>Samples\<close>

definition sample_jobs :: database where
  "sample_jobs = empty_database\<lparr>jobs := [new_job 5 7 0 300]\<rparr>"

definition sample_claim :: "claimed_run list \<times> database" where
  "sample_claim = claim_due (\<lambda>k. word_of_nat (100 + k)) (\<lambda>_. False) 0 ''w1'' 30 [7] sample_jobs"

definition sample_done :: database where
  "sample_done = finish_run (hd (fst sample_claim)) 1 300000000 JNull (snd sample_claim)"

lemma sample_jobs_fresh: "fresh_runs (\<lambda>k. word_of_nat (100 + k)) sample_jobs"
  by (simp add: fresh_runs_def sample_jobs_def empty_database_def lessThan_Suc)

lemma sample_done_runs: "map run_completed_at (job_runs sample_done) = [Some 1]"
  by code_simp

lemma sample_done_reach: "reach (\<lambda>d. job_runs d = []) sched_step sample_done"
proof -
  have "reach (\<lambda>d. job_runs d = []) sched_step sample_jobs"
    by (rule reach_init) (simp add: sample_jobs_def empty_database_def)
  then have "reach (\<lambda>d. job_runs d = []) sched_step (snd sample_claim)"
    unfolding sample_claim_def by (rule reach_step) (rule step_claim [OF sample_jobs_fresh])
  then show ?thesis unfolding sample_done_def by (rule reach_step) (rule step_finish)
qed

theorem slot_recorded_once_witness:
  "\<exists>r \<in> set (job_runs sample_done). r \<in> set (job_runs (release_lease ''w1'' sample_done)) \<and>
     run_completed_at r = Some 1"
proof -
  obtain r where r: "r \<in> set (job_runs sample_done)" "run_completed_at r = Some 1"
    using sample_done_runs by (auto simp: map_eq_Cons_conv)
  have "steps sched_step sample_done (release_lease ''w1'' sample_done)"
    by (rule steps_step [OF steps_refl]) (rule step_release)
  with slot_recorded_once [OF sample_done_reach] r show ?thesis by blast
qed

theorem lease_is_exclusive_witness:
  "\<not> fst (acquire_lease ''w2'' 20 30 (snd (acquire_lease ''w2'' 10 30 (snd (acquire_lease ''w1'' 0 30 empty_database)))))"
proof -
  have "acquire_lease ''w1'' 0 30 empty_database = (True, snd (acquire_lease ''w1'' 0 30 empty_database))"
    by (simp add: acquire_lease_def empty_database_def lease_refuses_def)
  moreover have "steps (rival_step ''w1'' (0 + seconds 30)) (snd (acquire_lease ''w1'' 0 30 empty_database))
      (snd (acquire_lease ''w2'' 10 30 (snd (acquire_lease ''w1'' 0 30 empty_database))))"
    by (rule steps_step [OF steps_refl]) (rule rival_acquire; simp)
  ultimately show ?thesis using lease_is_exclusive [of "''w1''" 0 30 empty_database _ _ "''w2''" 20 30] by simp
qed

theorem due_slot_is_dispatched_witness:
  "\<exists>n. slot_run 7 (run_key 7 0) (snd sample_claim) =
     Some (new_run (word_of_nat (100 + n)) (new_job 5 7 0 300) (run_key 7 0) 0 ''w1'' 30)"
proof -
  have run: "claim_due (\<lambda>k. word_of_nat (100 + k)) (\<lambda>_. False) 0 ''w1'' 30 [7] sample_jobs =
      (fst sample_claim, snd sample_claim)" by (simp add: sample_claim_def)
  have ok: "runs_ok sample_jobs" by (simp add: runs_ok_def sample_jobs_def empty_database_def)
  have due: "lone_due 0 [7] (new_job 5 7 0 300) sample_jobs"
    by (simp add: lone_due_def sample_jobs_def empty_database_def job_due_def new_job_def)
  have none: "slot_run 7 (run_key 7 0) sample_jobs = None"
    by (simp add: slot_run_def sample_jobs_def empty_database_def table_simps)
  show ?thesis
    using due_slot_is_dispatched [OF run ok sample_jobs_fresh due _ _ refl, of 0] none
    by (auto simp: new_job_def)
qed

definition sample_scheduler :: scheduler where
  "sample_scheduler = \<lparr>sc_worker = ''w1'', sc_interval = 300, sc_lease = 30, sc_concurrency = 4,
     sc_busy = (\<lambda>_. False), sc_fault = (\<lambda>_. None)\<rparr>"



end
