(* ===== verification/Admin_Auth.thy ===== *)
theory Admin_Auth
  imports Account_Safety
begin

text \<open>
  The administrator's password and sessions (\<open>admin/auth.py\<close>). The store's operations are
  transactions, functions of the database; the service composes them. Argon2 (with its random
  salt) and \<open>secrets.token_urlsafe\<close> are parameters; the clock and SHA-256 are those of \<open>env\<close>.
  The locale \<open>session_store\<close> is the part of the protocol \<open>AdminAuthStore\<close> that concerns sessions: what
  its operations promise, from which the facts about sequences of them follow.
\<close>

section \<open>The interface of a session store\<close>

datatype session_op =
    Op_create string instant instant \<comment> \<open>digest, time, absolute expiry\<close>
  | Op_find string instant \<comment> \<open>a request with this cookie, at a time\<close>
  | Op_drop string
  | Op_drop_all

fun creates :: "string \<Rightarrow> session_op \<Rightarrow> bool" where
  "creates g (Op_create h now until) \<longleftrightarrow> h = g"
| "creates g x \<longleftrightarrow> False"

definition session_live :: "instant \<Rightarrow> int \<Rightarrow> admin_session \<Rightarrow> bool" where
  "session_live now idle s \<longleftrightarrow> now < sess_absolute_expires_at s \<and> now < sess_last_seen_at s + seconds idle"

locale session_store =
  fixes known :: "string \<Rightarrow> 'd \<Rightarrow> admin_session option"
    and create :: "string \<Rightarrow> instant \<Rightarrow> instant \<Rightarrow> 'd \<Rightarrow> 'd option"
    and look :: "string \<Rightarrow> instant \<Rightarrow> int \<Rightarrow> 'd \<Rightarrow> admin_session option \<times> 'd"
    and drop_one :: "string \<Rightarrow> 'd \<Rightarrow> 'd"
    and drop_all :: "'d \<Rightarrow> 'd"
    and ok :: "'d \<Rightarrow> bool"
  assumes created: "ok d \<Longrightarrow> create g now until d = Some e \<Longrightarrow> ok e \<and> known g d = None \<and>
      known h e = (if h = g then Some \<lparr>sess_token_digest = g, sess_created_at = now,
        sess_absolute_expires_at = until, sess_last_seen_at = now\<rparr> else known h d)"
    and looked: "ok d \<Longrightarrow> look g now idle d = (r, e) \<Longrightarrow> ok e \<and>
      r = (case known g d of None \<Rightarrow> None
           | Some s \<Rightarrow> if session_live now idle s then Some (s\<lparr>sess_last_seen_at := now\<rparr>) else None) \<and>
      known h e = (if h = g then r else known h d)"
    and dropped: "ok d \<Longrightarrow> ok (drop_one g d) \<and> known h (drop_one g d) = (if h = g then None else known h d)"
    and dropped_all: "ok d \<Longrightarrow> ok (drop_all d) \<and> known h (drop_all d) = None"
begin

text \<open>A refused insertion changes nothing.\<close>

fun apply_op :: "int \<Rightarrow> session_op \<Rightarrow> 'd \<Rightarrow> 'd" where
  "apply_op idle (Op_create g now until) d = (case create g now until d of None \<Rightarrow> d | Some e \<Rightarrow> e)"
| "apply_op idle (Op_find g now) d = snd (look g now idle d)"
| "apply_op idle (Op_drop g) d = drop_one g d"
| "apply_op idle Op_drop_all d = drop_all d"

lemma apply_ok: "ok d \<Longrightarrow> ok (apply_op idle x d)"
  by (cases x) (auto simp: created dropped dropped_all split: option.split intro: prod.collapse [symmetric] dest: looked)

lemma apply_known:
  assumes "ok d" "\<not> creates g x"
  shows "case known g (apply_op idle x d) of None \<Rightarrow> True
    | Some s \<Rightarrow> (\<exists>s'. known g d = Some s' \<and> sess_absolute_expires_at s = sess_absolute_expires_at s')"
proof (cases x)
  case (Op_create h now until)
  then show ?thesis using assms created [OF assms(1), of h now until _ g]
    by (auto split: option.splits)
next
  case (Op_find h now)
  obtain r e where run: "look h now idle d = (r, e)" by fastforce
  from looked [OF assms(1) this, of g] show ?thesis using Op_find run
    by (auto split: option.splits if_splits)
next
  case (Op_drop h)
  then show ?thesis using dropped [OF assms(1), of h g] by (auto split: option.splits)
next
  case Op_drop_all
  then show ?thesis using dropped_all [OF assms(1), of g] by simp
qed

lemma run_ops_ok: "ok d \<Longrightarrow> ok (fold (apply_op idle) ops d)"
  by (induction ops arbitrary: d) (auto intro: apply_ok)

text \<open>Without a new login a session is never prolonged beyond its absolute expiry, nor revived.\<close>

lemma run_ops_known:
  "ok d \<Longrightarrow> list_all (\<lambda>x. \<not> creates g x) ops \<Longrightarrow>
   case known g (fold (apply_op idle) ops d) of None \<Rightarrow> True
   | Some s \<Rightarrow> (\<exists>s'. known g d = Some s' \<and> sess_absolute_expires_at s = sess_absolute_expires_at s')"
proof (induction ops arbitrary: d)
  case Nil
  then show ?case by (simp split: option.split)
next
  case (Cons x ops)
  have "case known g (fold (apply_op idle) ops (apply_op idle x d)) of None \<Rightarrow> True
     | Some s \<Rightarrow> (\<exists>s'. known g (apply_op idle x d) = Some s' \<and> sess_absolute_expires_at s = sess_absolute_expires_at s')"
    by (rule Cons.IH) (use Cons.prems apply_ok in simp_all)
  with apply_known [OF Cons.prems(1), of g x idle] Cons.prems(2) show ?case
    by (auto split: option.splits)
qed

lemma absent_stays_absent:
  assumes "ok d" "list_all (\<lambda>x. \<not> creates g x) ops" "known g d = None"
  shows "known g (fold (apply_op idle) ops d) = None"
  using run_ops_known [OF assms(1,2), of idle] assms(3) by (auto split: option.splits)

lemma expired_is_refused:
  assumes "ok d" "list_all (\<lambda>x. \<not> creates g x) ops" "known g d = Some s" "sess_absolute_expires_at s \<le> now"
  shows "fst (look g now idle (fold (apply_op idle) ops d)) = None"
proof -
  obtain r e where run: "look g now idle (fold (apply_op idle) ops d) = (r, e)" by fastforce
  from looked [OF run_ops_ok [OF assms(1)] this] run_ops_known [OF assms(1,2), of idle] assms(3,4) run
  show ?thesis by (auto simp: session_live_def split: option.splits)
qed

lemma absent_is_refused:
  assumes "ok d" "known g d = None"
  shows "fst (look g now idle d) = None"
proof -
  obtain r e where run: "look g now idle d = (r, e)" by fastforce
  from looked [OF assms(1) this] assms(2) run show ?thesis by simp
qed

end

section \<open>The store\<close>

definition session_token_ok :: "string \<Rightarrow> bool" where
  "session_token_ok s \<longleftrightarrow> length s = 43 \<and> list_all (\<lambda>c. is_ascii_alnum c \<or> c \<in> set ''_-'') s"

definition default_idle_seconds :: int where
  "default_idle_seconds = 30 * 60"

definition default_absolute_seconds :: int where
  "default_absolute_seconds = 12 * 60 * 60"

text \<open>\<open>False\<close> is never returned: a used primary key raises.\<close>

definition store_setup :: "string \<Rightarrow> instant \<Rightarrow> database \<Rightarrow> (exn, database) result" where
  "store_setup pw_hash now d =
     (case credential d of
        Some c \<Rightarrow> Inl SetupAlreadyComplete
      | None \<Rightarrow> Inr (d\<lparr>credential := Some \<lparr>cred_password_hash = pw_hash, cred_created_at = now,
          cred_updated_at = now\<rparr>\<rparr>))"

definition read_password_hash :: "database \<Rightarrow> string option" where
  "read_password_hash d = map_option cred_password_hash (credential d)"

definition update_password_hash :: "string \<Rightarrow> instant \<Rightarrow> database \<Rightarrow> (exn, database) result" where
  "update_password_hash pw_hash now d =
     (case credential d of
        None \<Rightarrow> Inl Unauthorized
      | Some c \<Rightarrow> Inr (d\<lparr>credential := Some (c\<lparr>cred_password_hash := pw_hash, cred_updated_at := now\<rparr>)\<rparr>))"

definition session_row :: "string \<Rightarrow> database \<Rightarrow> admin_session option" where
  "session_row g d = lookup sess_token_digest g (admin_sessions d)"

definition delete_session :: "string \<Rightarrow> database \<Rightarrow> database" where
  "delete_session g d = d\<lparr>admin_sessions := filter (\<lambda>s. sess_token_digest s \<noteq> g) (admin_sessions d)\<rparr>"

definition delete_all_sessions :: "database \<Rightarrow> database" where
  "delete_all_sessions d = d\<lparr>admin_sessions := []\<rparr>"

text \<open>The digest is unique: the flush of a second row with it fails.\<close>

definition create_session :: "string \<Rightarrow> instant \<Rightarrow> instant \<Rightarrow> database \<Rightarrow> database option" where
  "create_session g now until d =
     (if session_row g d \<noteq> None then None
      else Some (d\<lparr>admin_sessions := admin_sessions d @ [\<lparr>sess_token_digest = g, sess_created_at = now,
        sess_absolute_expires_at = until, sess_last_seen_at = now\<rparr>]\<rparr>))"

definition find_session :: "string \<Rightarrow> instant \<Rightarrow> int \<Rightarrow> database \<Rightarrow> admin_session option \<times> database" where
  "find_session g now idle_seconds d =
     (case session_row g d of
        None \<Rightarrow> (None, d)
      | Some s \<Rightarrow>
          let idle_expiry = sess_last_seen_at s + seconds idle_seconds in
          if sess_absolute_expires_at s \<le> now \<or> idle_expiry \<le> now then (None, delete_session g d)
          else
            let s' = s\<lparr>sess_last_seen_at := now\<rparr> in
            (Some s', d\<lparr>admin_sessions := replace_row sess_token_digest s' (admin_sessions d)\<rparr>))"

lemma lookup_filter [table_simps]:
  "lookup key k (filter (\<lambda>r. key r \<noteq> g) rows) = (if k = g then None else lookup key k rows)"
  by (induction rows) (auto simp: table_simps)

interpretation db_sessions: session_store session_row create_session find_session delete_session
  delete_all_sessions "\<lambda>d. True"
proof unfold_locales
  fix d :: database and g now until e h
  assume "create_session g now until d = Some e"
  then show "True \<and> session_row g d = None \<and> session_row h e = (if h = g then
      Some \<lparr>sess_token_digest = g, sess_created_at = now, sess_absolute_expires_at = until,
        sess_last_seen_at = now\<rparr> else session_row h d)"
    by (auto simp: create_session_def session_row_def table_simps split: if_splits option.split)
next
  fix d :: database and g now idle r e h
  assume run: "find_session g now idle d = (r, e)"
  have key: "sess_token_digest s = g" if "session_row g d = Some s" for s
    using lookup_Some that by (fastforce simp: session_row_def)
  from run key show "True \<and> r = (case session_row g d of None \<Rightarrow> None
      | Some s \<Rightarrow> if session_live now idle s then Some (s\<lparr>sess_last_seen_at := now\<rparr>) else None) \<and>
      session_row h e = (if h = g then r else session_row h d)"
    by (auto simp: find_session_def session_live_def session_row_def delete_session_def table_simps Let_def
        split: option.splits if_splits)
qed (simp_all add: session_row_def delete_session_def delete_all_sessions_def table_simps)

section \<open>The service\<close>

text \<open>The hasher (\<open>hash\<close> with the salt of its \<open>n\<close>-th use, \<open>verify\<close>), the \<open>n\<close>-th random token and the
  lifetimes in seconds.\<close>

record auth =
  au_hash :: "nat \<Rightarrow> string \<Rightarrow> string"
  au_verify :: "string \<Rightarrow> string \<Rightarrow> bool"
  au_token :: "nat \<Rightarrow> string"
  au_idle :: int
  au_absolute :: int

definition auth_init ::
  "int \<Rightarrow> int \<Rightarrow> (nat \<Rightarrow> string \<Rightarrow> string) \<Rightarrow> (string \<Rightarrow> string \<Rightarrow> bool) \<Rightarrow> (nat \<Rightarrow> string) \<Rightarrow> (exn, auth) result" where
  "auth_init idle absolute hash verify tok =
     (if idle \<le> 0 \<or> absolute \<le> 0 then Inl ValueErr
      else Inr \<lparr>au_hash = hash, au_verify = verify, au_token = tok, au_idle = idle, au_absolute = absolute\<rparr>)"

definition token_digest :: "env \<Rightarrow> string \<Rightarrow> string" where
  "token_digest env t = env_sha env (utf8 t)"

definition require_password :: "string \<Rightarrow> unit io" where
  "require_password p = check (strip p \<noteq> []) PasswordTooShort"

text \<open>One transaction that may fail.\<close>

definition attempt_db :: "(database \<Rightarrow> (exn, database) result) \<Rightarrow> unit io" where
  "attempt_db f = (\<lambda>w. case f (w_db w) of Inl e \<Rightarrow> (Inl e, w) | Inr d \<Rightarrow> (Inr (), w\<lparr>w_db := d\<rparr>))"

definition hash_password :: "auth \<Rightarrow> string \<Rightarrow> string io" where
  "hash_password au p = (\<lambda>w. (Inr (au_hash au (w_nonces w) p), w\<lparr>w_nonces := Suc (w_nonces w)\<rparr>))"

definition random_token :: "auth \<Rightarrow> string io" where
  "random_token au = (\<lambda>w. (Inr (au_token au (w_nonces w)), w\<lparr>w_nonces := Suc (w_nonces w)\<rparr>))"

definition auth_is_setup :: "bool io" where
  "auth_is_setup = asks (\<lambda>w. read_password_hash (w_db w) \<noteq> None)"

definition auth_setup :: "env \<Rightarrow> auth \<Rightarrow> string \<Rightarrow> unit io" where
  "auth_setup env au password =
     andthen (require_password password) (
     bnd (hash_password au password) (\<lambda>h.
     bnd (clock env) (\<lambda>now. attempt_db (store_setup h now))))"

text \<open>The stored hash, if the password is the one it was made of.\<close>

definition verify_password :: "auth \<Rightarrow> string \<Rightarrow> unit io" where
  "verify_password au password = bnd (asks (\<lambda>w. read_password_hash (w_db w))) (\<lambda>h.
     case h of None \<Rightarrow> raise Unauthorized | Some x \<Rightarrow> check (au_verify au x password) Unauthorized)"

record login_session =
  ls_token :: string
  ls_session :: admin_session

definition auth_login :: "env \<Rightarrow> auth \<Rightarrow> string \<Rightarrow> login_session io" where
  "auth_login env au password =
     andthen (verify_password au password) (
     bnd (clock env) (\<lambda>now.
     bnd (random_token au) (\<lambda>tok.
     let g = token_digest env tok; expires = now + seconds (au_absolute au) in
     andthen (attempt_db (\<lambda>d. case create_session g now expires d of
         None \<Rightarrow> Inl OtherException | Some e \<Rightarrow> Inr e))
     (ret \<lparr>ls_token = tok, ls_session = \<lparr>sess_token_digest = g, sess_created_at = now,
        sess_absolute_expires_at = expires, sess_last_seen_at = now\<rparr>\<rparr>))))"

definition auth_change_password :: "env \<Rightarrow> auth \<Rightarrow> string \<Rightarrow> string \<Rightarrow> unit io" where
  "auth_change_password env au current new =
     andthen (verify_password au current) (
     andthen (require_password new) (
     bnd (hash_password au new) (\<lambda>h.
     bnd (clock env) (\<lambda>now.
     andthen (attempt_db (update_password_hash h now))
       (on_db delete_all_sessions)))))"

definition auth_validate :: "env \<Rightarrow> auth \<Rightarrow> string option \<Rightarrow> admin_session option io" where
  "auth_validate env au raw =
     (case raw of
        None \<Rightarrow> ret None
      | Some t \<Rightarrow>
          if \<not> session_token_ok t then ret None
          else bnd (clock env) (\<lambda>now w.
            case find_session (token_digest env t) now (au_idle au) (w_db w) of
              (s, d) \<Rightarrow> (Inr s, w\<lparr>w_db := d\<rparr>)))"

definition auth_logout :: "env \<Rightarrow> string option \<Rightarrow> unit io" where
  "auth_logout env raw =
     (case raw of
        None \<Rightarrow> ret ()
      | Some t \<Rightarrow>
          if \<not> session_token_ok t then ret ()
          else on_db (delete_session (token_digest env t)))"

section \<open>Sessions end\<close>

text \<open>The store's transactions on sessions, as requests interleave them.\<close>

fun session_transaction :: "int \<Rightarrow> session_op \<Rightarrow> database \<Rightarrow> database" where
  "session_transaction idle (Op_create g now until) d =
     (case create_session g now until d of None \<Rightarrow> d | Some e \<Rightarrow> e)"
| "session_transaction idle (Op_find g now) d = snd (find_session g now idle d)"
| "session_transaction idle (Op_drop g) d = delete_session g d"
| "session_transaction idle Op_drop_all d = delete_all_sessions d"

lemma session_transaction_op: "session_transaction idle = db_sessions.apply_op idle"
proof (intro ext)
  show "session_transaction idle x d = db_sessions.apply_op idle x d" for x d by (cases x) simp_all
qed

lemma login_creates:
  assumes "auth_login env au pw w = (Inr l, t)"
  shows "session_row (token_digest env (ls_token l)) (w_db t) = Some \<lparr>sess_token_digest = token_digest env (ls_token l),
     sess_created_at = env_now env (w_ticks w),
     sess_absolute_expires_at = env_now env (w_ticks w) + seconds (au_absolute au),
     sess_last_seen_at = env_now env (w_ticks w)\<rparr>"
proof -
  have "create_session (token_digest env (ls_token l)) (env_now env (w_ticks w))
      (env_now env (w_ticks w) + seconds (au_absolute au)) (w_db w) = Some (w_db t)"
    using assms by (auto simp: auth_login_def andthen_eval bnd_eval verify_password_def asks_def check_def raise_def
        ret_def clock_def random_token_def Let_def attempt_db_def split: option.splits if_splits)
  from db_sessions.created [OF _ this, of "token_digest env (ls_token l)"] show ?thesis by simp
qed

lemma dropped_is_refused:
  assumes "list_all (\<lambda>x. \<not> creates g x) ops" "Op_drop g \<in> set ops \<or> Op_drop_all \<in> set ops"
  shows "fst (find_session g now idle (fold (session_transaction idle) ops d)) = None"
proof -
  obtain pre x post where ops: "ops = pre @ x # post" and x: "x = Op_drop g \<or> x = Op_drop_all"
    using assms(2) by (metis split_list)
  let ?d = "session_transaction idle x (fold (session_transaction idle) pre d)"
  have "session_row g ?d = None" using x db_sessions.dropped db_sessions.dropped_all by auto
  moreover have "list_all (\<lambda>x. \<not> creates g x) post" using assms(1) ops by simp
  ultimately have "session_row g (fold (session_transaction idle) post ?d) = None"
    unfolding session_transaction_op by (intro db_sessions.absent_stays_absent) simp_all
  then show ?thesis using db_sessions.absent_is_refused ops by simp
qed

text \<open>
  C16: a session ends when it must. Right after a login its token is accepted, and it stays so until
  the idle time or the absolute time has passed; whatever transactions other requests make in
  between, short of another login that draws the same token, it is refused from the absolute
  expiry on, which no use of the session moves, and after a logout or a password change.
\<close>

theorem session_lifetime:
  assumes "auth_login env au pw w = (Inr l, t)" "g = token_digest env (ls_token l)"
    and "list_all (\<lambda>x. \<not> creates g x) ops" "d = fold (session_transaction idle) ops (w_db t)"
    and "now0 = env_now env (w_ticks w)"
  shows "(\<forall>now. now0 + seconds (au_absolute au) \<le> now \<longrightarrow> fst (find_session g now idle d) = None) \<and>
    (Op_drop g \<in> set ops \<or> Op_drop_all \<in> set ops \<longrightarrow> (\<forall>now. fst (find_session g now idle d) = None)) \<and>
    (\<forall>now. now < now0 + seconds (au_absolute au) \<longrightarrow> now < now0 + seconds idle \<longrightarrow>
       fst (find_session g now idle (w_db t)) \<noteq> None)"
proof (intro conjI allI impI)
  note row = login_creates [OF assms(1), folded assms(2)]
  show "fst (find_session g now idle d) = None" if "now0 + seconds (au_absolute au) \<le> now" for now
    unfolding assms(4) session_transaction_op
    by (rule db_sessions.expired_is_refused [OF _ assms(3) row]) (use that assms(5) in simp_all)
  show "fst (find_session g now idle d) = None" if "Op_drop g \<in> set ops \<or> Op_drop_all \<in> set ops" for now
    unfolding assms(4) by (rule dropped_is_refused [OF assms(3) that])
  show "fst (find_session g now idle (w_db t)) \<noteq> None"
    if "now < now0 + seconds (au_absolute au)" "now < now0 + seconds idle" for now
  proof -
    obtain r e where "find_session g now idle (w_db t) = (r, e)" by fastforce
    with db_sessions.looked [OF _ this] row that assms(5) show ?thesis by (simp add: session_live_def)
  qed
qed

section \<open>Passwords\<close>

text \<open>
  C38: a password change is all or nothing, and it signs everybody out. It succeeds only for the
  current password and a new one that is not blank; then the new password's hash is stored and
  no token of before is accepted again, unless a later login draws it anew. Otherwise it raises
  and leaves the database as it was.
\<close>

theorem password_change_revokes:
  assumes "auth_change_password env au current new w = (r, t)"
    and "list_all (\<lambda>x. \<not> creates g x) ops"
  shows "case r of
      Inl e \<Rightarrow> w_db t = w_db w \<and> e = (case read_password_hash (w_db w) of
        None \<Rightarrow> Unauthorized | Some h \<Rightarrow> if au_verify au h current then PasswordTooShort else Unauthorized)
    | Inr u \<Rightarrow> (\<exists>h. read_password_hash (w_db w) = Some h \<and> au_verify au h current) \<and> strip new \<noteq> [] \<and>
        read_password_hash (w_db t) = Some (au_hash au (w_nonces w) new) \<and>
        fst (find_session g now idle (fold (session_transaction idle) ops (w_db t))) = None"
proof (cases r)
  case (Inl e)
  then show ?thesis using assms(1)
    by (auto simp: auth_change_password_def verify_password_def require_password_def andthen_eval bnd_eval asks_def
        check_def raise_def ret_def hash_password_def clock_def attempt_db_def on_db_def modify_def
        update_password_hash_def read_password_hash_def split: option.splits if_splits)
next
  case (Inr u)
  then obtain c where c: "credential (w_db w) = Some c" "au_verify au (cred_password_hash c) current" "strip new \<noteq> []"
    and t: "w_db t = delete_all_sessions ((w_db w)\<lparr>credential := Some (c\<lparr>cred_password_hash :=
      au_hash au (w_nonces w) new, cred_updated_at := env_now env (w_ticks w)\<rparr>)\<rparr>)"
    using assms(1)
    by (auto simp: auth_change_password_def verify_password_def require_password_def andthen_eval bnd_eval asks_def
        check_def raise_def ret_def hash_password_def clock_def attempt_db_def on_db_def modify_def
        update_password_hash_def read_password_hash_def split: option.splits if_splits)
  have "session_row g (w_db t) = None" using db_sessions.dropped_all t by simp
  then have "session_row g (fold (session_transaction idle) ops (w_db t)) = None"
    unfolding session_transaction_op by (intro db_sessions.absent_stays_absent assms(2)) simp_all
  then have "fst (find_session g now idle (fold (session_transaction idle) ops (w_db t))) = None"
    using db_sessions.absent_is_refused by simp
  with Inr c t show ?thesis by (simp add: read_password_hash_def delete_all_sessions_def)
qed

text \<open>Setting up twice is refused, and a set-up service can be signed in to with its password.\<close>

lemma setup_once:
  assumes "auth_setup env au p w = (Inr (), t)"
  shows "read_password_hash (w_db t) = Some (au_hash au (w_nonces w) p) \<and>
    (\<exists>e. fst (auth_setup env au q t) = Inl e \<and> e \<in> {SetupAlreadyComplete, PasswordTooShort})"
  using assms
  by (auto simp: auth_setup_def require_password_def andthen_eval bnd_eval check_def raise_def ret_def hash_password_def
      clock_def attempt_db_def store_setup_def read_password_hash_def split: option.splits if_splits)

section \<open>Samples\<close>

definition sample_auth :: auth where
  "sample_auth = \<lparr>au_hash = (\<lambda>n p. p), au_verify = (\<lambda>h p. h = p), au_token = (\<lambda>n. replicate 43 CHR ''t''),
     au_idle = default_idle_seconds, au_absolute = default_absolute_seconds\<rparr>"

definition auth_world :: world where
  "auth_world = snd (auth_setup sample_env sample_auth ''secret'' sample_world)"

lemma sample_login:
  "\<exists>l t. auth_login sample_env sample_auth ''secret'' auth_world = (Inr l, t)"
  by (simp add: auth_world_def auth_setup_def auth_login_def verify_password_def require_password_def andthen_eval
      bnd_eval asks_def check_def ret_def hash_password_def clock_def attempt_db_def store_setup_def
      random_token_def read_password_hash_def create_session_def session_row_def Let_def sample_auth_def
      sample_world_def sample_database_def empty_database_def lookup_def strip_def is_space_def)

theorem session_lifetime_witness:
  "\<exists>l t. auth_login sample_env sample_auth ''secret'' auth_world = (Inr l, t) \<and>
     fst (find_session (token_digest sample_env (ls_token l)) (hours 13) default_idle_seconds
       (session_transaction default_idle_seconds (Op_find (token_digest sample_env (ls_token l)) (hours 12)) (w_db t))) = None"
proof -
  obtain l t where run: "auth_login sample_env sample_auth ''secret'' auth_world = (Inr l, t)"
    using sample_login by blast
  have now: "env_now sample_env (w_ticks auth_world) = seconds 1"
    by (simp add: sample_env_def auth_world_def auth_setup_def require_password_def andthen_eval bnd_eval check_def
        ret_def hash_password_def clock_def attempt_db_def store_setup_def sample_world_def sample_database_def
        empty_database_def strip_def is_space_def)
  from session_lifetime [OF run refl _ refl now [symmetric], of "[Op_find (token_digest sample_env (ls_token l)) (hours 12)]"
      default_idle_seconds] run
  show ?thesis by (simp add: sample_auth_def default_absolute_seconds_def)
qed

theorem password_change_revokes_witness:
  "case auth_change_password sample_env sample_auth ''secret'' ''new'' auth_world of
     (Inl e, t) \<Rightarrow> w_db t = w_db auth_world
   | (Inr u, t) \<Rightarrow> read_password_hash (w_db t) = Some ''new'' \<and> fst (find_session ''g'' 0 1800 (w_db t)) = None"
proof -
  obtain r t where run: "auth_change_password sample_env sample_auth ''secret'' ''new'' auth_world = (r, t)" by fastforce
  have "au_hash sample_auth n p = p" for n p by (simp add: sample_auth_def)
  with password_change_revokes [OF run, of _ "[]"] run show ?thesis by (auto split: sum.splits)
qed

end
