(* ===== verification/Status.thy ===== *)
theory Status
  imports Idle_Safety
begin

text \<open>
  The account status query (\<open>application/status.py\<close>): the accounts as a list, and one account with a
  fresh reading of the game, taken through the account service's snapshot and validated against
  the strict schema the query keeps of it.
\<close>

section \<open>The snapshot's schema\<close>

record idle_state =
  st_accumulated_seconds :: int
  st_capacity_seconds :: "int option"

definition parse_idle_state :: "json \<Rightarrow> idle_state option" where
  "parse_idle_state = obj (\<lambda>kvs.
     if \<not> only_fields kvs [(''accumulatedSeconds'', ''accumulated_seconds''),
         (''capacitySeconds'', ''capacity_seconds'')] then None
     else Option.bind (req kvs ''accumulatedSeconds'' ''accumulated_seconds'' (strict_int 0)) (\<lambda>n.
       Option.bind (opt kvs ''capacitySeconds'' ''capacity_seconds'' None (nullable (strict_int 1))) (\<lambda>c.
       Some \<lparr>st_accumulated_seconds = n, st_capacity_seconds = c\<rparr>)))"

definition parse_snapshot_state :: "json \<Rightarrow> (string \<times> idle_state) option" where
  "parse_snapshot_state = obj (\<lambda>kvs.
     if \<not> only_fields kvs [(''accountId'', ''account_id''), (''idle'', ''idle'')] then None
     else Option.bind (req kvs ''accountId'' ''account_id''
         (\<lambda>v. case strict_str v of Some s \<Rightarrow> if length s \<le> 128 then Some s else None | None \<Rightarrow> None)) (\<lambda>i.
       Option.bind (req kvs ''idle'' ''idle'' parse_idle_state) (\<lambda>idle. Some (i, idle))))"

section \<open>The query\<close>

record account_summary =
  sm_account_id :: uuid
  sm_label :: string
  sm_enabled :: bool
  sm_paused_reason :: "string option"
  sm_auth_state :: string

record account_status =
  st_account :: account_summary
  st_bootstrap_account_id :: string
  st_idle :: idle_state
  st_fetched_at :: instant

definition listed_auth_state :: "managed_account \<Rightarrow> string" where
  "listed_auth_state m =
     (if ma_paused_reason m = Some ''authentication_required'' then ''required'' else ''unknown'')"

definition account_summary_of :: "managed_account \<Rightarrow> account_summary" where
  "account_summary_of m = \<lparr>sm_account_id = ma_id m, sm_label = ma_label m, sm_enabled = ma_enabled m,
     sm_paused_reason = ma_paused_reason m, sm_auth_state = listed_auth_state m\<rparr>"

definition status_list :: "account_summary list io" where
  "status_list = bnd account_list (\<lambda>ms. ret (map account_summary_of ms))"

definition status_get :: "env \<Rightarrow> uuid \<Rightarrow> actor \<Rightarrow> account_status io" where
  "status_get env a who = bnd (snapshot env a who) (\<lambda>s.
     case parse_snapshot_state (as_state s) of
       None \<Rightarrow> raise GameContractChanged
     | Some (i, idle) \<Rightarrow> bnd (account_get a) (\<lambda>m.
         ret \<lparr>st_account = \<lparr>sm_account_id = ma_id m, sm_label = ma_label m, sm_enabled = ma_enabled m,
             sm_paused_reason = ma_paused_reason m,
             sm_auth_state = if as_authenticated s then ''authenticated'' else listed_auth_state m\<rparr>,
           st_bootstrap_account_id = i, st_idle = idle, st_fetched_at = as_fetched_at s\<rparr>))"

section \<open>What a status says\<close>

text \<open>The schema accepts the states of authenticated snapshots, and not the empty state of the others.\<close>

definition snapshot_json :: "string \<Rightarrow> idle_summary \<Rightarrow> json" where
  "snapshot_json i idle = JObj [(''accountId'', JStr i), (''idle'',
     JObj [(''accumulatedSeconds'', JInt (accumulated_seconds idle)),
       (''capacitySeconds'', case capacity_seconds idle of None \<Rightarrow> JNull | Some c \<Rightarrow> JInt c)])]"

lemma parse_empty_state: "parse_snapshot_state (JObj []) = None"
  by (simp add: parse_snapshot_state_def obj_def only_fields_def req_def field_def dict_get_def)

lemma parse_snapshot_json:
  "parse_snapshot_state (snapshot_json i idle) =
     (if i \<noteq> [] \<and> length i \<le> 128 \<and> 0 \<le> accumulated_seconds idle \<and>
         (case capacity_seconds idle of None \<Rightarrow> True | Some c \<Rightarrow> 1 \<le> c)
      then Some (i, \<lparr>st_accumulated_seconds = accumulated_seconds idle,
        st_capacity_seconds = capacity_seconds idle\<rparr>)
      else None)"
  by (simp add: parse_snapshot_state_def parse_idle_state_def snapshot_json_def obj_def only_fields_def
      req_def opt_def field_def dict_get_def strict_str_def nullable_def non_empty_def
      split: option.split list.split)

lemma saved_state:
  assumes "save_snapshot env a res auth u = (Inr s, t)"
  shows "(as_state s = JObj [] \<or> as_authenticated s \<and> (\<exists>i idle. as_state s = snapshot_json i idle \<and>
    env_idle env (w_calls t) = Inr idle)) \<and> (\<exists>r. get_account a (w_db t) = Some r)"
  using assms unfolding save_snapshot_def snapshot_json_def [symmetric]
  by (auto simp: game_idle_summary_def game_request_def ret_def clock_def Let_def andthen_eval on_db_def
      modify_def require_def elim!: bnd_cases split: option.splits if_splits) blast

lemma snapshot_state:
  assumes "snapshot env a who w = (Inr s, t)"
  shows "(as_state s = JObj [] \<or> as_authenticated s \<and> (\<exists>i idle. as_state s = snapshot_json i idle \<and>
    env_idle env (w_calls t) = Inr idle)) \<and> (\<exists>r. get_account a (w_db t) = Some r)"
proof -
  obtain res u where "save_snapshot env a res (sr_api res \<noteq> None) u = (Inr s, t)"
    using assms unfolding snapshot_def with_account_def transaction_def
    by (auto elim!: atomically_cases bnd_cases)
  then show ?thesis by (rule saved_state)
qed

text \<open>
  C26: a status is what the game and the account table said when it was taken. It is returned
  exactly when the snapshot opened a session and read a valid state: then the account is reported
  as authenticated with the label, flags and pause of its row, under the identity of the session,
  and the idle seconds are those of the game's answer. In every other case the query raises what
  the snapshot raised, or \<open>GameContractChanged\<close>: for an account that must sign in again too,
  for which the branch of \<open>get\<close> that would report \<open>required\<close> is never reached.
\<close>

theorem status_is_true:
  assumes "status_get env a who w = (x, t)"
  shows "case x of
      Inr st \<Rightarrow> (\<exists>s r idle. snapshot env a who w = (Inr s, t) \<and> as_authenticated s \<and>
        get_account a (w_db t) = Some r \<and> env_idle env (w_calls t) = Inr idle \<and>
        st_account st = (account_summary_of (managed r))\<lparr>sm_auth_state := ''authenticated''\<rparr> \<and>
        as_state s = snapshot_json (st_bootstrap_account_id st) idle \<and>
        st_idle st = \<lparr>st_accumulated_seconds = accumulated_seconds idle,
          st_capacity_seconds = capacity_seconds idle\<rparr> \<and> st_fetched_at st = as_fetched_at s)
    | Inl e \<Rightarrow> snapshot env a who w = (Inl e, t) \<or>
        e = GameContractChanged \<and> (\<exists>s. snapshot env a who w = (Inr s, t) \<and>
          (\<not> as_authenticated s \<or> parse_snapshot_state (as_state s) = None))"
  using assms unfolding status_get_def
proof (cases rule: bnd_cases)
  case (err e)
  then show ?thesis by simp
next
  case (ok s u)
  obtain r where row: "get_account a (w_db u) = Some r" using snapshot_state [OF ok(1)] by blast
  show ?thesis
  proof (cases "parse_snapshot_state (as_state s)")
    case None
    with ok show ?thesis by (auto simp: raise_def)
  next
    case (Some p)
    then obtain i idle where auth: "as_authenticated s" and st: "as_state s = snapshot_json i idle"
      and game: "env_idle env (w_calls u) = Inr idle"
      using snapshot_state [OF ok(1)] parse_empty_state by auto
    from Some ok(2) row have t: "t = u" and x: "\<exists>st. x = Inr st"
      by (auto simp: account_get_def bnd_eval require_def ret_def split: prod.splits)
    from Some ok(2) row auth st game t ok(1) show ?thesis
      by (auto simp: account_get_def bnd_eval require_def ret_def parse_snapshot_json account_summary_of_def
          split: if_splits)
  qed
qed

section \<open>A sample\<close>

lemma sample_status:
  "fst (status_get sample_env 7 sample_actor idle_world) = Inr \<lparr>st_account =
     \<lparr>sm_account_id = 7, sm_label = ''main'', sm_enabled = True, sm_paused_reason = None,
       sm_auth_state = ''authenticated''\<rparr>, st_bootstrap_account_id = ''g7'',
     st_idle = \<lparr>st_accumulated_seconds = 50000, st_capacity_seconds = None\<rparr>, st_fetched_at = seconds 1\<rparr>"
  by code_simp

theorem status_is_true_witness:
  "\<exists>s r. fst (snapshot sample_env 7 sample_actor idle_world) = Inr s \<and> as_authenticated s \<and>
     get_account 7 (w_db (snd (snapshot sample_env 7 sample_actor idle_world))) = Some r \<and> ga_label r = ''main''"
proof -
  obtain t where run: "status_get sample_env 7 sample_actor idle_world = (Inr \<lparr>st_account =
     \<lparr>sm_account_id = 7, sm_label = ''main'', sm_enabled = True, sm_paused_reason = None,
       sm_auth_state = ''authenticated''\<rparr>, st_bootstrap_account_id = ''g7'',
     st_idle = \<lparr>st_accumulated_seconds = 50000, st_capacity_seconds = None\<rparr>, st_fetched_at = seconds 1\<rparr>, t)"
    using sample_status by (metis prod.collapse)
  from status_is_true [OF run] show ?thesis
    by (auto simp: account_summary_of_def managed_def)
qed

end
