(* ===== verification/Mcp.thy ===== *)
theory Mcp
  imports Status
begin

text \<open>
  The MCP surface: the middleware that admits a request by its static bearer token
  (\<open>mcp/auth.py\<close>) and the tools behind it (\<open>mcp/adapter.py\<close>). FastMCP, which turns a request into
  a call of a tool and its result into a response, is not modelled; a call is given by the
  tool's name and parsed arguments.
\<close>

section \<open>The middleware\<close>

definition mcp_token_ok :: "string \<Rightarrow> bool" where
  "mcp_token_ok s \<longleftrightarrow> length s = 43 \<and> list_all (\<lambda>c. is_ascii_alnum c \<or> c \<in> set ''_-'') s"

definition validate_static_token :: "string \<Rightarrow> (exn, string) result" where
  "validate_static_token s = (if mcp_token_ok s then Inr s else Inl ValueErr)"

text \<open>\<open>bytes.lower\<close>: ASCII letters only.\<close>

definition bytes_lower :: "bytes \<Rightarrow> bytes" where
  "bytes_lower = map (\<lambda>c. if is_ascii c then lower_char c else c)"

datatype asgi_scope = Http_scope "(bytes \<times> bytes) list" | Other_scope

definition authorization_values :: "(bytes \<times> bytes) list \<Rightarrow> bytes list" where
  "authorization_values headers = map snd (filter (\<lambda>(name, v). bytes_lower name = ''authorization'') headers)"

definition bearer_candidate :: "(bytes \<times> bytes) list \<Rightarrow> string option" where
  "bearer_candidate headers =
     (case authorization_values headers of
        [v] \<Rightarrow>
          if \<not> list_all is_ascii v then None
          else (case split_once CHR '' '' v of
            None \<Rightarrow> None
          | Some (scheme, candidate) \<Rightarrow>
              if \<not> mcp_token_ok candidate then None
              else if lower scheme \<noteq> ''bearer'' then None else Some candidate)
      | _ \<Rightarrow> None)"

definition bearer_admits :: "string \<Rightarrow> asgi_scope \<Rightarrow> bool" where
  "bearer_admits expected scope =
     (case scope of
        Other_scope \<Rightarrow> True
      | Http_scope headers \<Rightarrow>
          (case bearer_candidate headers of None \<Rightarrow> False | Some c \<Rightarrow> c = expected))"

section \<open>The tools\<close>

definition mcp_actor :: actor where
  "mcp_actor = \<lparr>actor_kind = ''mcp'', actor_id = ''operator'', actor_scopes = {}\<rparr>"

datatype tool_call =
    T_accounts_list
  | T_account_status uuid
  | T_idle_preview uuid
  | T_idle_execute uuid uuid

datatype tool_value =
    V_accounts "account_summary list"
  | V_status account_status
  | V_preview idle_preview
  | V_execution idle_execution

fun registered :: "bool \<Rightarrow> tool_call \<Rightarrow> bool" where
  "registered test_mode (T_idle_execute a p) = test_mode"
| "registered test_mode call = True"

text \<open>\<open>busy\<close>: whether another execution holds the account's advisory lock. A correlation id is drawn first.\<close>

definition tool_operation :: "env \<Rightarrow> bool \<Rightarrow> tool_call \<Rightarrow> tool_value io" where
  "tool_operation env busy call = bnd (fresh_id env) (\<lambda>correlation.
     let corr = uuid_hex correlation in
     case call of
       T_accounts_list \<Rightarrow> bnd status_list (\<lambda>x. ret (V_accounts x))
     | T_account_status a \<Rightarrow> bnd (status_get env a mcp_actor) (\<lambda>x. ret (V_status x))
     | T_idle_preview a \<Rightarrow> bnd (idle_plan_preview env a mcp_actor corr) (\<lambda>x. ret (V_preview x))
     | T_idle_execute a p \<Rightarrow> bnd (idle_execute env busy a p mcp_actor corr False) (\<lambda>x. ret (V_execution x)))"

datatype mcp_reply =
    Mcp_unauthorized
  | Mcp_unknown_tool
  | Mcp_reply "tool_value tool_outcome"

text \<open>The server mounted behind the middleware, on a request that calls a tool.\<close>

definition mcp_serve ::
  "env \<Rightarrow> string \<Rightarrow> bool \<Rightarrow> bool \<Rightarrow> asgi_scope \<Rightarrow> tool_call \<Rightarrow> world \<Rightarrow> mcp_reply \<times> world" where
  "mcp_serve env expected test_mode busy scope call w =
     (if \<not> bearer_admits expected scope then (Mcp_unauthorized, w)
      else if \<not> registered test_mode call then (Mcp_unknown_tool, w)
      else case tool_operation env busy call w of (r, t) \<Rightarrow> (Mcp_reply (mcp_invoke r), t))"

section \<open>Who is admitted\<close>

lemma token_ascii: "mcp_token_ok c \<Longrightarrow> list_all is_ascii c"
  unfolding mcp_token_ok_def
  by (erule conjE, erule list.pred_mono_strong)
    (auto simp: is_ascii_alnum_def is_ascii_upper_def is_ascii_lower_def is_digit_def is_ascii_def)

lemma lower_bearer:
  assumes "lower s = ''bearer''"
  shows "list_all is_ascii s \<and> CHR '' '' \<notin> set s"
proof -
  have char: "is_ascii c \<and> c \<noteq> CHR '' ''" if "is_ascii_lower (lower_char c)" for c
  proof -
    have "of_char (char_of (of_char c + 32 :: nat) :: char) = (of_char c + 32 :: nat) mod 256" by simp
    then show ?thesis using that
      by (cases "of_char c < (256::nat)")
        (auto simp: is_ascii_lower_def lower_char_def Let_def is_ascii_def split: if_splits)
  qed
  have "list_all is_ascii_lower (map lower_char s)"
    using assms unfolding lower_def by (simp add: is_ascii_lower_def)
  then show ?thesis by (auto simp: list_all_iff dest!: char)
qed

text \<open>
  C24: the middleware admits an HTTP request exactly when it carries one \<open>Authorization\<close> header (in
  any capitals of its name), and that is the scheme \<open>Bearer\<close> (in any capitals), one space and
  the configured token; so no prefix, padding, second header or other scheme gets in, and every
  request its owner makes does.
\<close>

theorem bearer_admits_exactly:
  assumes "validate_static_token t = Inr expected"
  shows "bearer_admits expected (Http_scope headers) \<longleftrightarrow>
    (\<exists>scheme. authorization_values headers = [scheme @ '' '' @ expected] \<and> lower scheme = ''bearer'')"
proof
  have ok: "mcp_token_ok expected" using assms by (auto simp: validate_static_token_def split: if_splits)
  show "\<exists>scheme. authorization_values headers = [scheme @ '' '' @ expected] \<and> lower scheme = ''bearer''"
    if "bearer_admits expected (Http_scope headers)"
    using that by (auto simp: bearer_admits_def bearer_candidate_def split_once_Some_iff
        split: option.splits list.splits if_splits prod.splits)
  show "bearer_admits expected (Http_scope headers)"
    if "\<exists>scheme. authorization_values headers = [scheme @ '' '' @ expected] \<and> lower scheme = ''bearer''"
  proof -
    from that obtain scheme where v: "authorization_values headers = [scheme @ '' '' @ expected]"
      and s: "lower scheme = ''bearer''" by blast
    from lower_bearer [OF s] token_ascii [OF ok]
    have "list_all is_ascii (scheme @ '' '' @ expected)" by (simp add: is_ascii_def)
    moreover have "split_once CHR '' '' (scheme @ '' '' @ expected) = Some (scheme, expected)"
      using lower_bearer [OF s] split_once_append by simp
    ultimately show ?thesis using ok s by (simp add: bearer_admits_def bearer_candidate_def v)
  qed
qed

section \<open>What the tools may change\<close>

text \<open>What serving a request keeps: no collection, no plan of before touched, and every other table
  but those of accounts, snapshots and audits.\<close>

definition served :: "nat \<Rightarrow> database \<Rightarrow> world \<Rightarrow> bool" where
  "served n d w \<longleftrightarrow> collects w = n \<and> (\<forall>p row. get_plan p d = Some row \<longrightarrow> get_plan p (w_db w) = Some row) \<and>
     jobs (w_db w) = jobs d \<and> job_runs (w_db w) = job_runs d \<and> sched_lease (w_db w) = sched_lease d \<and>
     policies (w_db w) = policies d \<and> credential (w_db w) = credential d \<and>
     admin_sessions (w_db w) = admin_sessions d"

lemma served_refl: "served (collects w) (w_db w) w"
  by (simp add: served_def)

interpretation serving: session_frame "served n d" a for n d a
  by unfold_locales
    (auto simp: served_def collects_def add_audit_def map_account_def put_account_def get_plan_def split: option.split)

lemma served_insert: "served n d w \<Longrightarrow> served n d (w\<lparr>w_ids := i, w_db := insert_plan row (w_db w)\<rparr>)"
proof -
  assume w: "served n d w"
  have "get_plan p (insert_plan row (w_db w)) = Some r" if "get_plan p d = Some r" for p r
    using w that by (simp add: served_def lookup_insert_plan)
  with w show ?thesis by (simp add: served_def collects_def) (simp add: insert_plan_def)
qed

lemma add_plan_run:
  "add_plan env draft w = (let i = env_id env (w_ids w); v = w\<lparr>w_ids := Suc (w_ids w)\<rparr> in
     if get_plan i (w_db w) = None then (Inr i, v\<lparr>w_db := insert_plan (draft_row i draft) (w_db w)\<rparr>)
     else (Inl OtherException, v))"
  by (simp add: add_plan_def bnd_eval fresh_id_def prog_eval andthen_eval on_db_def Let_def)

lemma served_add_plan: "keeps (served n d) (add_plan env draft)"
  by (rule keepsI) (auto simp: add_plan_run Let_def served_insert, simp add: served_def collects_def)

lemma served_preview: "keeps (served n d) (idle_plan_preview env a who corr)"
proof -
  have "keeps (served n d) (preview_save env draft who corr payload)" for draft payload
    unfolding preview_save_def require_identifier_def audit_actor_def on_db_def
    by (intro serving.keeps_transaction keeps_intros served_add_plan)
      (auto simp: served_def collects_def add_audit_def get_plan_def)
  then show ?thesis
    unfolding idle_plan_preview_def preview_body_def require_identifier_def
    by (intro serving.keeps_locked serving.keeps_steps)
qed

lemma served_status: "keeps (served n d) (status_get env a who)" "keeps (served n d) status_list"
  "keeps (served n d) (account_get a)"
  unfolding status_get_def status_list_def account_get_def account_list_def
  by (intro serving.keeps_steps serving.keeps_snapshot_op)+

lemma served_tool:
  assumes "registered False call"
  shows "keeps (served n d) (tool_operation env busy call)"
proof -
  have "keeps (served n d) (fresh_id env)"
    by (rule keepsI) (simp add: fresh_id_def served_def collects_def)
  moreover have "keeps (served n d) (case call of T_accounts_list \<Rightarrow> bnd status_list (\<lambda>x. ret (V_accounts x))
     | T_account_status a \<Rightarrow> bnd (status_get env a mcp_actor) (\<lambda>x. ret (V_status x))
     | T_idle_preview a \<Rightarrow> bnd (idle_plan_preview env a mcp_actor corr) (\<lambda>x. ret (V_preview x))
     | T_idle_execute a p \<Rightarrow> bnd (idle_execute env busy a p mcp_actor corr False) (\<lambda>x. ret (V_execution x)))" for corr
    using assms by (cases call) (auto intro: keeps_intros served_preview served_status)
  ultimately show ?thesis unfolding tool_operation_def Let_def by (intro keeps_bnd)
qed

definition mcp_codes :: "string set" where
  "mcp_codes = insert ''internal_error'' (snd ` set mcp_error_codes \<union>
     {''plan_in_progress'', ''game_contract_changed'', ''reconciliation_required''})"

lemma first_match_in: "first_match xs e = Some y \<Longrightarrow> y \<in> snd ` set xs"
  by (induction xs) (auto split: if_splits)

lemma tool_error_code: "mcp_invoke r = ToolError code \<Longrightarrow> code \<in> mcp_codes"
  by (cases r) (auto simp: mcp_codes_def instance_of_simps dest: first_match_in split: if_splits option.splits)

text \<open>
  Outside the test mode the MCP surface only looks. Whatever the request, without the token it
  changes nothing, not even the game's session; with it no tool collects or is even offered for
  collecting, no existing plan is touched, and policies, jobs, runs, the lease, the administrator's
  password and sessions stay as they are. A tool that fails answers with one of a fixed list of
  codes and nothing else.
\<close>

theorem mcp_only_looks:
  assumes "mcp_serve env expected False busy scope call w = (r, t)"
  shows "(\<not> bearer_admits expected scope \<longrightarrow> r = Mcp_unauthorized \<and> t = w) \<and>
    (\<forall>a p. call = T_idle_execute a p \<longrightarrow> r \<in> {Mcp_unauthorized, Mcp_unknown_tool} \<and> t = w) \<and>
    served (collects w) (w_db w) t \<and>
    (\<forall>code. r = Mcp_reply (ToolError code) \<longrightarrow> code \<in> mcp_codes)"
proof -
  have "served (collects w) (w_db w) t"
    using assms keepsD [OF served_tool _ served_refl, of call env busy w]
    by (auto simp: mcp_serve_def served_refl split: if_splits prod.splits)
  then show ?thesis using assms
    by (auto simp: mcp_serve_def split: if_splits prod.splits dest!: tool_error_code)
qed

section \<open>Samples\<close>

definition sample_mcp_token :: string where
  "sample_mcp_token = replicate 43 CHR ''k''"

lemma sample_mcp_token_ok: "validate_static_token sample_mcp_token = Inr sample_mcp_token"
  by code_simp

theorem bearer_admits_exactly_witness:
  "bearer_admits sample_mcp_token (Http_scope [(''Host'', ''h''), (''AUTHORIZATION'', ''bEARER '' @ sample_mcp_token)]) \<and>
   \<not> bearer_admits sample_mcp_token (Http_scope [(''authorization'', ''Basic '' @ sample_mcp_token)])"
proof -
  have "authorization_values [(''Host'', ''h''), (''AUTHORIZATION'', ''bEARER '' @ sample_mcp_token)] =
      [''bEARER'' @ '' '' @ sample_mcp_token]" "lower ''bEARER'' = ''bearer''"
    by code_simp+
  moreover have "authorization_values [(''authorization'', ''Basic '' @ sample_mcp_token)] =
      [''Basic '' @ sample_mcp_token]"
    by code_simp
  moreover have "lower s \<noteq> ''bearer''" if "''Basic '' @ sample_mcp_token = s @ '' '' @ sample_mcp_token" for s
  proof -
    have "s = ''Basic''" using that by simp
    then show ?thesis by (simp add: lower_def lower_char_def)
  qed
  ultimately show ?thesis
    unfolding bearer_admits_exactly [OF sample_mcp_token_ok] by (metis list.inject)
qed

theorem mcp_only_looks_witness:
  "collects (snd (mcp_serve sample_env sample_mcp_token False False
     (Http_scope [(''authorization'', ''Bearer '' @ sample_mcp_token)]) (T_account_status 7) idle_world)) = collects idle_world \<and>
   mcp_serve sample_env sample_mcp_token False False (Http_scope []) (T_account_status 7) idle_world =
     (Mcp_unauthorized, idle_world)"
proof -
  obtain r t where run: "mcp_serve sample_env sample_mcp_token False False
     (Http_scope [(''authorization'', ''Bearer '' @ sample_mcp_token)]) (T_account_status 7) idle_world = (r, t)" by fastforce
  obtain r' t' where run': "mcp_serve sample_env sample_mcp_token False False (Http_scope []) (T_account_status 7)
     idle_world = (r', t')" by fastforce
  have "\<not> bearer_admits sample_mcp_token (Http_scope [])" by code_simp
  with mcp_only_looks [OF run] mcp_only_looks [OF run'] run run' show ?thesis by (simp add: served_def)
qed

end
