(* ===== verification/Url.thy ===== *)
theory Url
  imports Errors
begin

text \<open>
  What the source uses of \<open>urllib.parse\<close>: the scheme and the network location of \<open>urlsplit\<close>, and the
  \<open>hostname\<close> of the result. The check that \<open>ipaddress\<close> makes of a bracketed host is a parameter; the
  check of characters that normalise to delimiters never fails below code point 256.
\<close>

text \<open>\<open>urllib.parse.urlsplit\<close>, of which the source reads the scheme and the network location.\<close>

definition url_cleaned :: "string \<Rightarrow> string" where
  "url_cleaned url = filter (\<lambda>c. c \<notin> {CHR 0x09, CHR 0x0A, CHR 0x0D})
     (dropWhile (\<lambda>c. of_char c \<le> (32::nat)) url)"

definition url_scheme :: "string \<Rightarrow> string \<times> string" where
  "url_scheme url = (case split_once CHR '':'' url of
     None \<Rightarrow> ([], url)
   | Some (scheme, rest) \<Rightarrow>
       (case scheme of
          [] \<Rightarrow> ([], url)
        | c # cs \<Rightarrow>
            if (is_ascii_upper c \<or> is_ascii_lower c) \<and>
               list_all (\<lambda>c. is_ascii_alnum c \<or> c \<in> set ''+-.'') scheme
            then (lower scheme, rest) else ([], url)))"

definition urlsplit :: "(string \<Rightarrow> bool) \<Rightarrow> string \<Rightarrow> (exn, string \<times> string) result" where
  "urlsplit bracket_ok url = (case url_scheme (url_cleaned url) of (scheme, rest) \<Rightarrow>
     if take 2 rest = ''//'' then
       let netloc = takeWhile (\<lambda>c. c \<notin> set ''/?#'') (drop 2 rest) in
       if (CHR ''['' \<in> set netloc) \<noteq> (CHR '']'' \<in> set netloc) then Inl ValueErr
       else if CHR ''['' \<in> set netloc \<and> \<not> bracket_ok netloc then Inl ValueErr
       else Inr (scheme, netloc)
     else Inr (scheme, []))"

text \<open>\<open>str.partition\<close> and \<open>str.rpartition\<close>, the parts before and after the separator.\<close>

definition part_before :: "char \<Rightarrow> string \<Rightarrow> string" where
  "part_before d s = takeWhile (\<lambda>c. c \<noteq> d) s"

definition part_after :: "char \<Rightarrow> string \<Rightarrow> string" where
  "part_after d s = drop 1 (dropWhile (\<lambda>c. c \<noteq> d) s)"

definition last_part :: "char \<Rightarrow> string \<Rightarrow> string" where
  "last_part d s = rev (takeWhile (\<lambda>c. c \<noteq> d) (rev s))"

text \<open>\<open>SplitResult.hostname\<close>: a zone after a percent sign keeps its case.\<close>

definition netloc_hostname :: "string \<Rightarrow> string option" where
  "netloc_hostname netloc =
     (let hostinfo = last_part CHR ''@'' netloc;
          host = (if CHR ''['' \<in> set hostinfo then part_before CHR '']'' (part_after CHR ''['' hostinfo)
                  else part_before CHR '':'' hostinfo) in
      if host = [] then None
      else Some (lower (part_before CHR ''%'' host) @ dropWhile (\<lambda>c. c \<noteq> CHR ''%'') host))"

definition url_hostname :: "(string \<Rightarrow> bool) \<Rightarrow> string \<Rightarrow> (exn, string option) result" where
  "url_hostname bracket_ok url = rbind (urlsplit bracket_ok url) (\<lambda>(scheme, netloc). Inr (netloc_hostname netloc))"

end
