(* ===== verification/Admin_Routes.thy ===== *)
theory Admin_Routes
  imports Admin_Auth Mcp Url
begin

text \<open>
  The admin API (\<open>admin/routes.py\<close>, \<open>admin/dependencies.py\<close>): the routes with their guards, the
  strict request bodies and the replies, composed of the authentication service, the account
  service, the status query and the idle preview. FastAPI is the surrounding framework; what the
  model takes of it is the order in which it works: a body that is not JSON is refused first,
  then the dependency \<open>require_admin\<close> runs, then path and body are validated, then the handler.
  Cookie and header parsing, pydantic's reading of a UUID and \<open>ipaddress\<close>' check of a bracketed
  host are parameters.
\<close>

section \<open>Requests and replies\<close>

record admin_app =
  ad_auth :: auth
  ad_cookie_secure :: bool
  ad_has_accounts :: bool
  ad_uuid :: "string \<Rightarrow> uuid option"
  ad_bracket_ok :: "string \<Rightarrow> bool"
  ad_stamps :: "database \<Rightarrow> uuid \<Rightarrow> instant \<times> instant" \<comment> \<open>the columns \<open>created_at\<close> and \<open>updated_at\<close>\<close>

text \<open>\<open>rq_body\<close> is what FastAPI reads of the body: \<open>None\<close> when it is announced as JSON and is none;
  \<open>JNull\<close> stands for an absent body and one that is not announced as JSON, which no schema accepts.\<close>

record admin_request =
  rq_origin :: "string option"
  rq_content_type :: "string option"
  rq_netloc :: string
  rq_cookie :: "string option"
  rq_body :: "json option"

record cookie =
  ck_value :: string
  ck_max_age :: int
  ck_http_only :: bool
  ck_secure :: bool
  ck_same_site :: string
  ck_path :: string

record account_view =
  av_account :: managed_account
  av_created_at :: instant
  av_updated_at :: instant

datatype admin_body =
    Body_error string
  | Body_flags "(string \<times> bool) list"
  | Body_account account_view
  | Body_accounts "(account_view \<times> string) list" \<comment> \<open>with \<open>auth_state\<close>\<close>
  | Body_summaries "account_summary list"
  | Body_status account_status
  | Body_preview idle_preview
  | Body_empty

record reply =
  rp_status :: int
  rp_body :: admin_body
  rp_cookie :: "cookie option"

definition reply_error :: "int \<Rightarrow> string \<Rightarrow> reply" where
  "reply_error n code = \<lparr>rp_status = n, rp_body = Body_error code, rp_cookie = None\<rparr>"

definition reply_with :: "int \<Rightarrow> admin_body \<Rightarrow> reply" where
  "reply_with n body = \<lparr>rp_status = n, rp_body = body, rp_cookie = None\<rparr>"

definition reply_unauthorized :: reply where
  "reply_unauthorized = reply_error 401 ''unauthorized''"

definition reply_invalid :: reply where
  "reply_invalid = reply_error 422 ''invalid_request''"

definition reply_exception :: "exn \<Rightarrow> reply" where
  "reply_exception e = (case error_response e of (code, n) \<Rightarrow> reply_error n code)"

definition webui_actor :: actor where
  "webui_actor = \<lparr>actor_kind = ''webui'', actor_id = ''operator'', actor_scopes = {}\<rparr>"

section \<open>Request bodies\<close>

definition bounded_str :: "nat \<Rightarrow> nat \<Rightarrow> json \<Rightarrow> string option" where
  "bounded_str least most v = (case as_str v of
     Some s \<Rightarrow> if least \<le> length s \<and> length s \<le> most then Some s else None | None \<Rightarrow> None)"

definition strict_body ::
  "(string \<times> string) list \<Rightarrow> ((string \<times> json) list \<Rightarrow> 'a option) \<Rightarrow> json \<Rightarrow> 'a option" where
  "strict_body fs parse = obj (\<lambda>kvs. if only_fields kvs fs then parse kvs else None)"

definition password_body :: "json \<Rightarrow> string option" where
  "password_body = strict_body [(''password'', ''password'')]
     (\<lambda>kvs. req kvs ''password'' ''password'' strict_str)"

definition password_change_body :: "json \<Rightarrow> (string \<times> string) option" where
  "password_change_body =
     strict_body [(''currentPassword'', ''current_password''), (''newPassword'', ''new_password'')] (\<lambda>kvs.
       Option.bind (req kvs ''currentPassword'' ''current_password'' strict_str) (\<lambda>old.
       Option.bind (req kvs ''newPassword'' ''new_password'' strict_str) (\<lambda>new. Some (old, new))))"

definition credentials_create_body :: "json \<Rightarrow> (string \<times> string \<times> string) option" where
  "credentials_create_body =
     strict_body [(''label'', ''label''), (''username'', ''username''), (''password'', ''password'')] (\<lambda>kvs.
       Option.bind (req kvs ''label'' ''label'' (bounded_str 1 120)) (\<lambda>label.
       Option.bind (req kvs ''username'' ''username'' (bounded_str 1 256)) (\<lambda>name.
       Option.bind (req kvs ''password'' ''password'' (bounded_str 1 8192)) (\<lambda>pass. Some (label, name, pass)))))"

definition token_create_body :: "json \<Rightarrow> (string \<times> string) option" where
  "token_create_body =
     strict_body [(''label'', ''label''), (''sessionToken'', ''session_token'')] (\<lambda>kvs.
       Option.bind (req kvs ''label'' ''label'' (bounded_str 1 120)) (\<lambda>label.
       Option.bind (req kvs ''sessionToken'' ''session_token'' (bounded_str 1 8192)) (\<lambda>tok. Some (label, tok))))"

definition label_body :: "json \<Rightarrow> string option" where
  "label_body = strict_body [(''label'', ''label'')] (\<lambda>kvs. req kvs ''label'' ''label'' (bounded_str 1 120))"

definition credentials_update_body :: "json \<Rightarrow> (string option \<times> string) option" where
  "credentials_update_body =
     strict_body [(''username'', ''username''), (''password'', ''password'')] (\<lambda>kvs.
       Option.bind (opt kvs ''username'' ''username'' None (nullable (bounded_str 0 256))) (\<lambda>name.
       Option.bind (req kvs ''password'' ''password'' (bounded_str 1 8192)) (\<lambda>pass. Some (name, pass))))"

definition token_update_body :: "json \<Rightarrow> string option" where
  "token_update_body = strict_body [(''sessionToken'', ''session_token'')]
     (\<lambda>kvs. req kvs ''sessionToken'' ''session_token'' (bounded_str 1 8192))"

definition pause_body :: "json \<Rightarrow> string option" where
  "pause_body = strict_body [(''reason'', ''reason'')] (\<lambda>kvs. req kvs ''reason'' ''reason'' (bounded_str 1 256))"

section \<open>Guards\<close>

definition same_origin :: "admin_app \<Rightarrow> admin_request \<Rightarrow> (exn, reply option) result" where
  "same_origin app rq = (case rq_origin rq of
     None \<Rightarrow> Inr None
   | Some origin \<Rightarrow> rbind (urlsplit (ad_bracket_ok app) origin) (\<lambda>(scheme, netloc).
       if scheme \<notin> {''http'', ''https''} \<or> lower netloc \<noteq> lower (rq_netloc rq)
       then Inr (Some (reply_error 403 ''origin_forbidden'')) else Inr None))"

definition require_json :: "admin_request \<Rightarrow> reply option" where
  "require_json rq =
     (let content_type = (case rq_content_type rq of None \<Rightarrow> [] | Some c \<Rightarrow> c) in
      if \<not> starts_with ''application/json'' (lower content_type)
      then Some (reply_error 415 ''content_type_required'') else None)"

definition write_guard :: "admin_app \<Rightarrow> admin_request \<Rightarrow> (exn, reply option) result" where
  "write_guard app rq = rbind (same_origin app rq) (\<lambda>e.
     case e of Some rep \<Rightarrow> Inr (Some rep) | None \<Rightarrow> Inr (require_json rq))"

datatype access = Signed_in admin_session | Access_error reply | Not_signed_in

definition require_admin :: "env \<Rightarrow> admin_app \<Rightarrow> admin_request \<Rightarrow> access io" where
  "require_admin env app rq = (case rq_cookie rq of
     None \<Rightarrow> ret Not_signed_in
   | Some t \<Rightarrow>
       if \<not> session_token_ok t then ret Not_signed_in
       else handle
         (bnd (auth_validate env (ad_auth app) (Some t)) (\<lambda>s.
            ret (case s of None \<Rightarrow> Not_signed_in | Some s \<Rightarrow> Signed_in s)))
         is_exception (\<lambda>e. ret (Access_error (reply_error 500 ''internal_error''))))"

text \<open>\<open>isinstance(session, JSONResponse)\<close>, then \<open>session is None\<close>.\<close>

definition denied :: "access \<Rightarrow> reply option" where
  "denied a = (case a of Signed_in s \<Rightarrow> None | Access_error rep \<Rightarrow> Some rep | Not_signed_in \<Rightarrow> Some reply_unauthorized)"

definition write_access :: "admin_app \<Rightarrow> admin_request \<Rightarrow> access \<Rightarrow> (exn, reply option) result" where
  "write_access app rq a = rbind (write_guard app rq) (\<lambda>e.
     case e of Some rep \<Rightarrow> Inr (Some rep) | None \<Rightarrow> Inr (denied a))"

section \<open>Handlers\<close>

text \<open>\<open>result = await invoke(m); if isinstance(result, JSONResponse): return result\<close>, then \<open>f\<close>.\<close>

definition invoke :: "'a io \<Rightarrow> (reply + 'a) io" where
  "invoke m = handle (bnd m (\<lambda>x. ret (Inr x))) is_exception (\<lambda>e. ret (Inl (reply_exception e)))"

definition on_result :: "(reply + 'a) io \<Rightarrow> ('a \<Rightarrow> reply io) \<Rightarrow> reply io" where
  "on_result m f = bnd m (\<lambda>x. case x of Inl rep \<Rightarrow> ret rep | Inr y \<Rightarrow> f y)"

text \<open>\<open>error = guard; if error is not None: return error\<close>, then \<open>m\<close>.\<close>

definition guarded :: "(exn, reply option) result \<Rightarrow> reply io \<Rightarrow> reply io" where
  "guarded g m = bnd (lift_result g) (\<lambda>e. case e of Some rep \<Rightarrow> ret rep | None \<Rightarrow> m)"

definition account_payload :: "admin_app \<Rightarrow> database \<Rightarrow> managed_account \<Rightarrow> account_view" where
  "account_payload app d m = \<lparr>av_account = m, av_created_at = fst (ad_stamps app d (ma_id m)),
     av_updated_at = snd (ad_stamps app d (ma_id m))\<rparr>"

definition account_list_payload :: "admin_app \<Rightarrow> database \<Rightarrow> managed_account \<Rightarrow> account_view \<times> string" where
  "account_list_payload app d m = (account_payload app d m,
     if ma_paused_reason m = Some ''authentication_required'' then ''required'' else ''unknown'')"

definition account_response :: "admin_app \<Rightarrow> int \<Rightarrow> managed_account \<Rightarrow> reply io" where
  "account_response app n m = asks (\<lambda>w. reply_with n (Body_account (account_payload app (w_db w) m)))"

definition session_cookie :: "admin_app \<Rightarrow> string \<Rightarrow> cookie" where
  "session_cookie app t = \<lparr>ck_value = t, ck_max_age = default_absolute_seconds, ck_http_only = True,
     ck_secure = ad_cookie_secure app, ck_same_site = ''strict'', ck_path = ''/''\<rparr>"

definition cleared_cookie :: "admin_app \<Rightarrow> cookie" where
  "cleared_cookie app = (session_cookie app [])\<lparr>ck_max_age := 0\<rparr>"

definition handle_status :: "env \<Rightarrow> admin_app \<Rightarrow> admin_request \<Rightarrow> reply io" where
  "handle_status env app rq = on_result (invoke auth_is_setup) (\<lambda>is_setup.
     bnd (if \<not> is_setup then ret Not_signed_in else require_admin env app rq) (\<lambda>a.
     case a of
       Access_error rep \<Rightarrow> ret rep
     | _ \<Rightarrow> ret (reply_with 200 (Body_flags [(''setupRequired'', \<not> is_setup),
         (''authenticated'', a \<noteq> Not_signed_in)]))))"

definition handle_setup :: "env \<Rightarrow> admin_app \<Rightarrow> admin_request \<Rightarrow> string \<Rightarrow> reply io" where
  "handle_setup env app rq password = guarded (same_origin app rq) (guarded (Inr (require_json rq)) (
     on_result (invoke (auth_setup env (ad_auth app) password)) (\<lambda>_.
     ret (reply_with 201 (Body_flags [(''setupRequired'', False), (''authenticated'', False)])))))"

definition handle_login :: "env \<Rightarrow> admin_app \<Rightarrow> admin_request \<Rightarrow> string \<Rightarrow> reply io" where
  "handle_login env app rq password = guarded (same_origin app rq) (guarded (Inr (require_json rq)) (
     on_result (invoke (auth_login env (ad_auth app) password)) (\<lambda>l.
     ret ((reply_with 200 (Body_flags [(''authenticated'', True)]))
       \<lparr>rp_cookie := Some (session_cookie app (ls_token l))\<rparr>))))"

definition handle_logout :: "env \<Rightarrow> admin_app \<Rightarrow> admin_request \<Rightarrow> access \<Rightarrow> reply io" where
  "handle_logout env app rq a = guarded (same_origin app rq) (guarded (Inr (require_json rq)) (
     guarded (Inr (denied a)) (
     on_result (invoke (auth_logout env (rq_cookie rq))) (\<lambda>_.
     ret ((reply_with 204 Body_empty)\<lparr>rp_cookie := Some (cleared_cookie app)\<rparr>)))))"

definition handle_password :: "env \<Rightarrow> admin_app \<Rightarrow> admin_request \<Rightarrow> access \<Rightarrow> string \<times> string \<Rightarrow> reply io" where
  "handle_password env app rq a body = guarded (write_guard app rq) (guarded (Inr (denied a)) (
     on_result (invoke (auth_change_password env (ad_auth app) (fst body) (snd body))) (\<lambda>_.
     ret ((reply_with 204 Body_empty)\<lparr>rp_cookie := Some (cleared_cookie app)\<rparr>))))"

definition handle_accounts_list :: "admin_app \<Rightarrow> access \<Rightarrow> reply io" where
  "handle_accounts_list app a = guarded (Inr (denied a)) (
     if ad_has_accounts app then
       on_result (invoke account_list) (\<lambda>ms.
         asks (\<lambda>w. reply_with 200 (Body_accounts (map (account_list_payload app (w_db w)) ms))))
     else on_result (invoke status_list) (\<lambda>xs. ret (reply_with 200 (Body_summaries xs))))"

definition handle_account_status :: "env \<Rightarrow> access \<Rightarrow> uuid \<Rightarrow> reply io" where
  "handle_account_status env a account = guarded (Inr (denied a)) (
     on_result (invoke (status_get env account webui_actor)) (\<lambda>st. ret (reply_with 200 (Body_status st))))"

definition handle_idle_preview :: "env \<Rightarrow> access \<Rightarrow> uuid \<Rightarrow> reply io" where
  "handle_idle_preview env a account = guarded (Inr (denied a)) (
     bnd (fresh_id env) (\<lambda>correlation.
     on_result (invoke (idle_plan_preview env account webui_actor (uuid_hex correlation))) (\<lambda>p.
     ret (reply_with 200 (Body_preview p)))))"

definition authenticated_write :: "admin_app \<Rightarrow> admin_request \<Rightarrow> access \<Rightarrow> 'a io \<Rightarrow> (reply + 'a) io" where
  "authenticated_write app rq a m = bnd (lift_result (write_access app rq a)) (\<lambda>e.
     case e of Some rep \<Rightarrow> ret (Inl rep) | None \<Rightarrow> invoke m)"

definition account_after :: "admin_app \<Rightarrow> admin_request \<Rightarrow> uuid \<Rightarrow> access \<Rightarrow> 'a io \<Rightarrow> reply io" where
  "account_after app rq account a m = on_result (authenticated_write app rq a m) (\<lambda>_.
     on_result (invoke (account_get account)) (account_response app 200))"

definition require_account_mode :: "uuid \<Rightarrow> string \<Rightarrow> reply option io" where
  "require_account_mode account expected = bnd (invoke (account_get account)) (\<lambda>x. ret (case x of
     Inl rep \<Rightarrow> Some rep
   | Inr m \<Rightarrow> if ma_auth_mode m \<noteq> expected then Some (reply_error 409 ''account_auth_mode_conflict'') else None))"

definition create_account :: "admin_app \<Rightarrow> admin_request \<Rightarrow> access \<Rightarrow> managed_account io \<Rightarrow> reply io" where
  "create_account app rq a m = on_result (authenticated_write app rq a m) (account_response app 201)"

definition update_in_mode ::
  "admin_app \<Rightarrow> admin_request \<Rightarrow> uuid \<Rightarrow> access \<Rightarrow> string \<Rightarrow> managed_account io \<Rightarrow> reply io" where
  "update_in_mode app rq account a mode m = guarded (write_access app rq a) (
     bnd (require_account_mode account mode) (\<lambda>e.
     case e of Some rep \<Rightarrow> ret rep | None \<Rightarrow> account_after app rq account a m))"

section \<open>Routes\<close>

datatype http_method = GET | POST | PUT | PATCH | DELETE | OPTIONS

datatype endpoint =
    E_status | E_setup | E_login | E_logout | E_password
  | E_accounts_list | E_account_status string | E_idle_preview string
  | E_create_credentials | E_create_token | E_label string | E_credentials string | E_token string
  | E_enable string | E_disable string | E_pause string | E_resume string | E_remove string
  | E_not_found

text \<open>The path below \<open>/api/admin/v1\<close>, by its segments; the last two routes of the source catch the rest.\<close>

fun admin_route :: "http_method \<Rightarrow> string list \<Rightarrow> endpoint" where
  "admin_route m [x, y] =
     (if x = ''auth'' \<and> m = GET \<and> y = ''status'' then E_status
      else if x = ''auth'' \<and> m = POST \<and> y = ''setup'' then E_setup
      else if x = ''auth'' \<and> m = POST \<and> y = ''login'' then E_login
      else if x = ''auth'' \<and> m = POST \<and> y = ''logout'' then E_logout
      else if x = ''auth'' \<and> m = PATCH \<and> y = ''password'' then E_password
      else if x = ''accounts'' \<and> m = POST \<and> y = ''credentials'' then E_create_credentials
      else if x = ''accounts'' \<and> m = POST \<and> y = ''token-only'' then E_create_token
      else if x = ''accounts'' \<and> m = DELETE \<and> y \<noteq> [] then E_remove y
      else E_not_found)"
| "admin_route m [x] = (if x = ''accounts'' \<and> m = GET then E_accounts_list else E_not_found)"
| "admin_route m [x, a, y] =
     (if x \<noteq> ''accounts'' \<or> a = [] then E_not_found
      else if m = GET \<and> y = ''status'' then E_account_status a
      else if m = GET \<and> y = ''idle-preview'' then E_idle_preview a
      else if m = PATCH \<and> y = ''label'' then E_label a
      else if m = PATCH \<and> y = ''credentials'' then E_credentials a
      else if m = PATCH \<and> y = ''token-only'' then E_token a
      else if m = POST \<and> y = ''enable'' then E_enable a
      else if m = POST \<and> y = ''disable'' then E_disable a
      else if m = POST \<and> y = ''pause'' then E_pause a
      else if m = POST \<and> y = ''resume'' then E_resume a
      else E_not_found)"
| "admin_route m path = E_not_found"

text \<open>The validation FastAPI makes of a body and of a path parameter; \<open>SafeValidationRoute\<close> answers a
  failure.\<close>

definition undecodable :: "admin_request \<Rightarrow> reply io \<Rightarrow> reply io" where
  "undecodable rq m = (if rq_body rq = None then ret reply_invalid else m)"

definition with_body :: "admin_request \<Rightarrow> (json \<Rightarrow> 'a option) \<Rightarrow> ('a \<Rightarrow> reply io) \<Rightarrow> reply io" where
  "with_body rq parse f = (case Option.bind (rq_body rq) parse of None \<Rightarrow> ret reply_invalid | Some x \<Rightarrow> f x)"

definition with_path :: "admin_app \<Rightarrow> string \<Rightarrow> (uuid \<Rightarrow> reply io) \<Rightarrow> reply io" where
  "with_path app s f = (case ad_uuid app s of None \<Rightarrow> ret reply_invalid | Some a \<Rightarrow> f a)"

fun has_body :: "endpoint \<Rightarrow> bool" where
  "has_body E_setup = True"
| "has_body E_login = True"
| "has_body E_password = True"
| "has_body E_create_credentials = True"
| "has_body E_create_token = True"
| "has_body (E_label s) = True"
| "has_body (E_credentials s) = True"
| "has_body (E_token s) = True"
| "has_body (E_pause s) = True"
| "has_body ep = False"

text \<open>The routes that depend on \<open>require_admin\<close>, after it gave \<open>a\<close>.\<close>

fun admin_action :: "env \<Rightarrow> admin_app \<Rightarrow> admin_request \<Rightarrow> access \<Rightarrow> endpoint \<Rightarrow> reply io" where
  "admin_action env app rq a E_logout = handle_logout env app rq a"
| "admin_action env app rq a E_password = with_body rq password_change_body (handle_password env app rq a)"
| "admin_action env app rq a E_accounts_list = handle_accounts_list app a"
| "admin_action env app rq a (E_account_status s) = with_path app s (handle_account_status env a)"
| "admin_action env app rq a (E_idle_preview s) = with_path app s (handle_idle_preview env a)"
| "admin_action env app rq a E_create_credentials = with_body rq credentials_create_body (\<lambda>(label, name, pass).
     create_account app rq a (add_credentials env label name pass webui_actor))"
| "admin_action env app rq a E_create_token = with_body rq token_create_body (\<lambda>(label, tok).
     create_account app rq a (add_token_only env label tok webui_actor))"
| "admin_action env app rq a (E_label s) = with_path app s (\<lambda>account. with_body rq label_body (\<lambda>label.
     account_after app rq account a (update_label env account label webui_actor)))"
| "admin_action env app rq a (E_credentials s) = with_path app s (\<lambda>account.
     with_body rq credentials_update_body (\<lambda>(name, pass).
       update_in_mode app rq account a ''credentials'' (update_credentials env account name pass webui_actor)))"
| "admin_action env app rq a (E_token s) = with_path app s (\<lambda>account. with_body rq token_update_body (\<lambda>tok.
     update_in_mode app rq account a ''token_only'' (update_token_only env account tok webui_actor)))"
| "admin_action env app rq a (E_enable s) = with_path app s (\<lambda>account.
     account_after app rq account a (enable env account webui_actor))"
| "admin_action env app rq a (E_disable s) = with_path app s (\<lambda>account.
     account_after app rq account a (disable env account webui_actor))"
| "admin_action env app rq a (E_pause s) = with_path app s (\<lambda>account. with_body rq pause_body (\<lambda>reason.
     account_after app rq account a (pause env account reason webui_actor)))"
| "admin_action env app rq a (E_resume s) = with_path app s (\<lambda>account.
     account_after app rq account a (resume env account webui_actor))"
| "admin_action env app rq a (E_remove s) = with_path app s (\<lambda>account.
     account_after app rq account a (disable_drain_remove env account webui_actor))"
| "admin_action env app rq a ep = ret (reply_error 404 ''not_found'')"

fun admin_open :: "env \<Rightarrow> admin_app \<Rightarrow> admin_request \<Rightarrow> endpoint \<Rightarrow> reply io option" where
  "admin_open env app rq E_status = Some (handle_status env app rq)"
| "admin_open env app rq E_setup = Some (with_body rq password_body (handle_setup env app rq))"
| "admin_open env app rq E_login = Some (with_body rq password_body (handle_login env app rq))"
| "admin_open env app rq E_not_found = Some (ret (reply_error 404 ''not_found''))"
| "admin_open env app rq ep = None"

definition admin_endpoint :: "env \<Rightarrow> admin_app \<Rightarrow> admin_request \<Rightarrow> endpoint \<Rightarrow> reply io" where
  "admin_endpoint env app rq ep = (if has_body ep then undecodable rq else id)
     (case admin_open env app rq ep of
        Some m \<Rightarrow> m
      | None \<Rightarrow> bnd (require_admin env app rq) (\<lambda>a. admin_action env app rq a ep))"

definition admin_handle ::
  "env \<Rightarrow> admin_app \<Rightarrow> http_method \<Rightarrow> string list \<Rightarrow> admin_request \<Rightarrow> reply io" where
  "admin_handle env app m path rq = admin_endpoint env app rq (admin_route m path)"

end
