(* ===== verification/Admin_Safety.thy ===== *)
theory Admin_Safety
  imports Admin_Routes
begin

text \<open>
  What the admin API guarantees of any request: who is let in, what a refused request leaves
  behind, what no request can do, and the form of its replies.
\<close>

section \<open>Who is let in\<close>

definition signed_in :: "env \<Rightarrow> admin_app \<Rightarrow> admin_request \<Rightarrow> world \<Rightarrow> bool" where
  "signed_in env app rq w = (case rq_cookie rq of
     None \<Rightarrow> False
   | Some t \<Rightarrow> session_token_ok t \<and> (case session_row (token_digest env t) (w_db w) of
       None \<Rightarrow> False
     | Some s \<Rightarrow> session_live (env_now env (w_ticks w)) (au_idle (ad_auth app)) s))"

text \<open>Nothing changed but the clock and the last use of a session, or the end of one.\<close>

definition only_sessions :: "world \<Rightarrow> world \<Rightarrow> bool" where
  "only_sessions w t \<longleftrightarrow>
     t = w\<lparr>w_db := (w_db w)\<lparr>admin_sessions := admin_sessions (w_db t)\<rparr>, w_ticks := w_ticks t\<rparr> \<and>
     (\<forall>g. session_row g (w_db w) = None \<longrightarrow> session_row g (w_db t) = None)"

lemma only_sessions_refl [simp]: "only_sessions w w"
  by (simp add: only_sessions_def)

lemma find_session_tables:
  "find_session g now idle d = (r, e) \<Longrightarrow> e = d\<lparr>admin_sessions := admin_sessions e\<rparr>"
  by (auto simp: find_session_def delete_session_def Let_def split: option.splits if_splits)

lemma require_admin_run:
  assumes "require_admin env app rq w = (x, t)"
  shows "only_sessions w t \<and> (\<exists>a. x = Inr a \<and> (if signed_in env app rq w then \<exists>s. a = Signed_in s else a = Not_signed_in))"
proof (cases "\<exists>tok. rq_cookie rq = Some tok \<and> session_token_ok tok")
  case False
  then show ?thesis using assms
    by (auto simp: require_admin_def signed_in_def ret_def split: option.splits if_splits)
next
  case True
  then obtain tok where tok: "rq_cookie rq = Some tok" "session_token_ok tok" by blast
  let ?now = "env_now env (w_ticks w)" and ?idle = "au_idle (ad_auth app)" and ?g = "token_digest env tok"
  obtain r e where run: "find_session ?g ?now ?idle (w_db w) = (r, e)" by fastforce
  have t: "t = w\<lparr>w_ticks := Suc (w_ticks w), w_db := e\<rparr>"
    and x: "x = Inr (case r of None \<Rightarrow> Not_signed_in | Some s \<Rightarrow> Signed_in s)"
    using assms tok run
    by (simp_all add: require_admin_def auth_validate_def handle_def bnd_eval clock_def ret_def)
  note looked = db_sessions.looked [OF _ run]
  have "only_sessions w t"
    using t find_session_tables [OF run] looked by (auto simp: only_sessions_def split: option.splits if_splits)
  moreover have "(r \<noteq> None) = signed_in env app rq w"
    using looked tok by (auto simp: signed_in_def split: option.splits)
  ultimately show ?thesis using x by (auto split: option.splits)
qed

text \<open>A program that refuses: it changes nothing and answers with an error, or lets the
  \<open>ValueError\<close> of a malformed \<open>Origin\<close> through.\<close>

definition refusal :: "(exn, reply) result \<Rightarrow> bool" where
  "refusal x = (case x of Inl e \<Rightarrow> e = ValueErr
     | Inr rep \<Rightarrow> \<exists>n code. rep = reply_error n code \<and> 400 \<le> n \<and> n < 600)"

definition refuses :: "reply io \<Rightarrow> bool" where
  "refuses m \<longleftrightarrow> (\<forall>w. \<exists>x. m w = (x, w) \<and> refusal x)"

lemma refusal_simps [simp]:
  "refusal (Inl ValueErr)" "400 \<le> n \<Longrightarrow> n < 600 \<Longrightarrow> refusal (Inr (reply_error n code))"
  "refusal (Inr reply_unauthorized)" "refusal (Inr reply_invalid)"
  by (auto simp: refusal_def reply_unauthorized_def reply_invalid_def)

lemma refuses_ret: "refusal (Inr rep) \<Longrightarrow> refuses (ret rep)"
  by (simp add: refuses_def ret_def)

lemma refuses_parts:
  "refuses m \<Longrightarrow> refuses (undecodable rq m)"
  "(\<And>y. refuses (f y)) \<Longrightarrow> refuses (with_body rq parse f)"
  "(\<And>a. refuses (g a)) \<Longrightarrow> refuses (with_path app s g)"
  by (auto simp: undecodable_def with_body_def with_path_def intro: refuses_ret split: option.split)

text \<open>A guard that stops the request.\<close>

definition stops :: "(exn, reply option) result \<Rightarrow> bool" where
  "stops g = (case g of Inl e \<Rightarrow> e = ValueErr | Inr None \<Rightarrow> False | Inr (Some rep) \<Rightarrow> refusal (Inr rep))"

lemma same_origin_cases: "stops (same_origin app rq) \<or> same_origin app rq = Inr None"
proof (cases "rq_origin rq")
  case (Some origin)
  have "urlsplit (ad_bracket_ok app) origin = Inl ValueErr \<or> (\<exists>p. urlsplit (ad_bracket_ok app) origin = Inr p)"
    by (simp add: urlsplit_def Let_def split: prod.split)
  with Some show ?thesis by (auto simp: same_origin_def stops_def)
qed (simp add: same_origin_def)

lemma require_json_cases: "require_json rq = None \<or> stops (Inr (require_json rq))"
  by (simp add: require_json_def stops_def Let_def)

lemma write_guard_cases: "stops (write_guard app rq) \<or> write_guard app rq = Inr None"
  using same_origin_cases [of app rq] require_json_cases [of rq]
  by (auto simp: write_guard_def stops_def split: sum.splits option.splits)

lemma denied_stops: "stops (Inr (denied Not_signed_in))"
  by (simp add: denied_def stops_def)

lemma write_access_stops:
  "a = Not_signed_in \<or> write_guard app rq \<noteq> Inr None \<Longrightarrow> stops (write_access app rq a)"
  using write_guard_cases [of app rq] denied_stops
  by (auto simp: write_access_def stops_def split: sum.splits option.splits)

lemma guarded_stops: "stops g \<Longrightarrow> refuses (guarded g m)"
  by (auto simp: refuses_def guarded_def stops_def bnd_eval lift_result_def ret_def split: sum.splits option.splits)

lemma guarded_passes: "g = Inr None \<Longrightarrow> guarded g m = m"
  by (auto simp: guarded_def bnd_def lift_result_def)

text \<open>The two guards, one after the other, are the guard of the writes.\<close>

lemma guarded_twice: "guarded (same_origin app rq) (guarded (Inr (require_json rq)) m) = guarded (write_guard app rq) m"
  by (auto simp: guarded_def write_guard_def bnd_def lift_result_def ret_def fun_eq_iff split: sum.split option.split)

lemma write_refused:
  assumes "a = Not_signed_in \<or> write_guard app rq \<noteq> Inr None"
  shows "refuses (account_after app rq account a m)" "refuses (create_account app rq a mc)"
    "refuses (update_in_mode app rq account a mode mc)"
  using write_access_stops [OF assms]
  by (auto simp: refuses_def account_after_def create_account_def update_in_mode_def guarded_def on_result_def
      authenticated_write_def bnd_eval lift_result_def ret_def stops_def split: sum.splits option.splits)

lemma session_write_refused:
  assumes "a = Not_signed_in \<or> write_guard app rq \<noteq> Inr None"
  shows "refuses (handle_logout env app rq a)" "refuses (handle_password env app rq a body)"
proof -
  have "refuses (guarded (write_guard app rq) (guarded (Inr (denied a)) m))" for m
    using assms write_guard_cases [of app rq] denied_stops
    by (cases "write_guard app rq = Inr None") (auto simp: guarded_passes intro: guarded_stops)
  then show "refuses (handle_logout env app rq a)" "refuses (handle_password env app rq a body)"
    by (simp_all add: handle_logout_def handle_password_def guarded_twice)
qed

lemma read_refused:
  "refuses (handle_accounts_list app Not_signed_in)" "refuses (handle_account_status env Not_signed_in account)"
  "refuses (handle_idle_preview env Not_signed_in account)"
  unfolding handle_accounts_list_def handle_account_status_def handle_idle_preview_def
  by (intro guarded_stops denied_stops)+

fun reads :: "endpoint \<Rightarrow> bool" where
  "reads E_accounts_list = True"
| "reads (E_account_status s) = True"
| "reads (E_idle_preview s) = True"
| "reads ep = False"

text \<open>Whether a request may act: a session, and for everything but reading also the guards of a write.\<close>

definition may_act :: "env \<Rightarrow> admin_app \<Rightarrow> admin_request \<Rightarrow> endpoint \<Rightarrow> world \<Rightarrow> bool" where
  "may_act env app rq ep w \<longleftrightarrow>
     (ep \<in> {E_setup, E_login} \<or> signed_in env app rq w) \<and> (reads ep \<or> write_guard app rq = Inr None)"

lemma action_refused:
  assumes "a = Not_signed_in \<or> \<not> reads ep \<and> write_guard app rq \<noteq> Inr None"
  shows "refuses (admin_action env app rq a ep)"
proof (cases "reads ep")
  case True
  with assms have "a = Not_signed_in" by simp
  with True show ?thesis by (cases ep) (auto intro: refuses_parts read_refused)
next
  case False
  with assms have "a = Not_signed_in \<or> write_guard app rq \<noteq> Inr None" by blast
  note refused = write_refused [OF this] session_write_refused [OF this]
  from False show ?thesis
    by (cases ep) (auto intro!: refuses_parts refused refuses_ret split: prod.split)
qed

lemma open_refused:
  assumes "admin_open env app rq ep = Some m" "ep \<noteq> E_status" "\<not> may_act env app rq ep w"
  shows "refuses m"
proof -
  have "refuses (with_body rq password_body (\<lambda>p. guarded (write_guard app rq) (g p)))"
    if "ep \<in> {E_setup, E_login}" for g
    using that assms(3) write_guard_cases [of app rq]
    by (auto simp: may_act_def intro!: refuses_parts guarded_stops)
  then show ?thesis using assms
    by (cases ep) (auto simp: handle_setup_def [abs_def] handle_login_def [abs_def] guarded_twice intro!: refuses_ret)
qed

lemma after_require_admin:
  assumes "bnd (require_admin env app rq) f w = (x, t)"
    and "\<And>a. (\<not> signed_in env app rq w \<longrightarrow> a = Not_signed_in) \<Longrightarrow> refuses (f a)"
  shows "only_sessions w t \<and> refusal x"
proof -
  obtain a u where run: "require_admin env app rq w = (Inr a, u)" "only_sessions w u"
      "\<not> signed_in env app rq w \<longrightarrow> a = Not_signed_in"
    using require_admin_run [of env app rq w] by (metis prod.collapse)
  from assms(2) [OF run(3)] obtain y where "f a u = (y, u)" "refusal y" unfolding refuses_def by blast
  with assms(1) run(1,2) show ?thesis by (simp add: bnd_eval)
qed


section \<open>What no request can do\<close>

text \<open>
  A fact about the world that the session and password tables, the clock and the random sources do
  not matter to, and that the service operations behind the API keep, is kept by every request.
\<close>

locale admin_frame =
  fixes P :: "world \<Rightarrow> bool" and env :: env
  assumes ticks: "P w \<Longrightarrow> P (w\<lparr>w_ticks := k\<rparr>)"
    and nonces: "P w \<Longrightarrow> P (w\<lparr>w_nonces := k\<rparr>)"
    and ids: "P w \<Longrightarrow> P (w\<lparr>w_ids := k\<rparr>)"
    and sessions: "P w \<Longrightarrow> P (w\<lparr>w_db := w_db w\<lparr>admin_sessions := ss\<rparr>\<rparr>)"
    and password: "P w \<Longrightarrow> P (w\<lparr>w_db := w_db w\<lparr>credential := c\<rparr>\<rparr>)"
    and enrolments: "keeps P (add_credentials env label name pass webui_actor)"
      "keeps P (add_token_only env label tok webui_actor)"
    and updates: "keeps P (update_label env a label webui_actor)"
      "keeps P (update_credentials env a login pass webui_actor)"
      "keeps P (update_token_only env a tok webui_actor)"
    and lifecycle: "keeps P (enable env a webui_actor)" "keeps P (disable env a webui_actor)"
      "keeps P (pause env a reason webui_actor)" "keeps P (resume env a webui_actor)"
      "keeps P (disable_drain_remove env a webui_actor)"
    and looks: "keeps P (status_get env a webui_actor)" "keeps P (idle_plan_preview env a webui_actor corr)"
begin

lemma keeps_sources: "keeps P (clock env)" "keeps P (fresh_id env)" "keeps P (hash_password au p)"
  "keeps P (random_token au)"
  by (auto simp: keeps_def clock_def fresh_id_def hash_password_def random_token_def ticks nonces ids)

lemma keeps_attempt:
  "(\<And>d e. f d = Inr e \<Longrightarrow> \<exists>ss c. e = d\<lparr>admin_sessions := ss\<rparr> \<or> e = d\<lparr>credential := c\<rparr>) \<Longrightarrow> keeps P (attempt_db f)"
  by (rule keepsI) (fastforce simp: attempt_db_def sessions password split: sum.split)

lemma keeps_auth: "keeps P auth_is_setup" "keeps P (auth_setup env au p)" "keeps P (auth_login env au p)"
  "keeps P (auth_change_password env au p q)" "keeps P (auth_logout env cookie)" "keeps P (auth_validate env au cookie)"
proof -
  have drop: "keeps P (on_db delete_all_sessions)" "keeps P (on_db (delete_session g))" for g
    by (simp_all add: on_db_def delete_all_sessions_def delete_session_def keeps_modify sessions)
  have put: "keeps P (attempt_db (store_setup h now))" "keeps P (attempt_db (update_password_hash h now))"
    "keeps P (attempt_db (\<lambda>d. case create_session g now until d of None \<Rightarrow> Inl OtherException | Some e \<Rightarrow> Inr e))"
    for h g now until
    by (rule keeps_attempt; auto simp: store_setup_def update_password_hash_def create_session_def
        split: option.splits if_splits)+
  have find: "keeps P (\<lambda>w. case find_session g now idle (w_db w) of (s, d) \<Rightarrow> (Inr s, w\<lparr>w_db := d\<rparr>))" for g now idle
  proof (rule keepsI)
    fix w assume w: "P w"
    obtain r e where run: "find_session g now idle (w_db w) = (r, e)" by fastforce
    show "P (snd (case find_session g now idle (w_db w) of (s, d) \<Rightarrow> (Inr s, w\<lparr>w_db := d\<rparr>)))"
      using sessions [OF w, of "admin_sessions e"] find_session_tables [OF run] run by simp
  qed
  show "keeps P auth_is_setup" by (simp add: auth_is_setup_def keeps_basic)
  show "keeps P (auth_setup env au p)" "keeps P (auth_login env au p)" "keeps P (auth_change_password env au p q)"
    unfolding auth_setup_def auth_login_def auth_change_password_def verify_password_def require_password_def Let_def
    by (intro keeps_intros keeps_sources put drop)+
  show "keeps P (auth_logout env cookie)" "keeps P (auth_validate env au cookie)"
    unfolding auth_logout_def auth_validate_def by (intro keeps_intros keeps_sources drop find)+
qed

lemma keeps_invoke: "keeps P m \<Longrightarrow> keeps P (invoke m)"
  unfolding invoke_def by (intro keeps_intros)

lemma keeps_on_result: "keeps P m \<Longrightarrow> (\<And>x. keeps P (f x)) \<Longrightarrow> keeps P (on_result m f)"
  by (auto simp: on_result_def intro!: keeps_intros split: sum.split)

lemma keeps_guarded: "keeps P m \<Longrightarrow> keeps P (guarded g m)"
  unfolding guarded_def by (intro keeps_intros)

lemma keeps_read: "keeps P (account_get a)" "keeps P account_list" "keeps P status_list"
  by (auto simp: keeps_def account_get_def account_list_def status_list_def bnd_eval require_def asks_def ret_def
      split: option.split)

lemma keeps_require_admin: "keeps P (require_admin env app rq)"
  unfolding require_admin_def by (intro keeps_intros keeps_auth)

lemma keeps_authenticated: "keeps P m \<Longrightarrow> keeps P (authenticated_write app rq a m)"
  unfolding authenticated_write_def by (intro keeps_intros keeps_invoke)

lemma keeps_response: "keeps P (account_response app n m)"
  unfolding account_response_def by (rule keeps_basic)

lemma keeps_writes:
  "keeps P m \<Longrightarrow> keeps P (account_after app rq account a m)"
  "keeps P mc \<Longrightarrow> keeps P (create_account app rq a mc)"
  "keeps P mc \<Longrightarrow> keeps P (update_in_mode app rq account a mode mc)"
  unfolding account_after_def create_account_def update_in_mode_def require_account_mode_def
  by (intro keeps_on_result keeps_authenticated keeps_invoke keeps_read keeps_response keeps_guarded keeps_intros;
      assumption)+

lemma keeps_parts:
  "keeps P m \<Longrightarrow> keeps P (undecodable rq m)"
  "(\<And>y. keeps P (f y)) \<Longrightarrow> keeps P (with_body rq parse f)"
  "(\<And>b. keeps P (g b)) \<Longrightarrow> keeps P (with_path app s g)"
  by (auto simp: undecodable_def with_body_def with_path_def intro: keeps_basic split: option.split)

lemma keeps_action: "keeps P (admin_action env app rq a ep)"
  by (cases ep)
    (auto simp: handle_logout_def handle_password_def [abs_def] handle_accounts_list_def
      handle_account_status_def [abs_def] handle_idle_preview_def [abs_def]
      intro!: keeps_parts keeps_writes enrolments updates lifecycle keeps_guarded keeps_on_result keeps_invoke
        looks keeps_auth keeps_read keeps_basic keeps_bnd keeps_sources keeps_if)

lemma keeps_open: "admin_open env app rq ep = Some m \<Longrightarrow> keeps P m"
proof (cases ep)
  case E_status
  have "keeps P (case a of Access_error rep \<Rightarrow> ret rep | _ \<Rightarrow> ret (r a))" for a :: access and r
    by (cases a) (simp_all add: keeps_basic)
  moreover assume "admin_open env app rq ep = Some m"
  ultimately show ?thesis using E_status
    by (auto simp: handle_status_def intro!: keeps_on_result keeps_invoke keeps_auth keeps_bnd keeps_if keeps_basic
        keeps_require_admin)
qed (auto simp: handle_setup_def [abs_def] handle_login_def [abs_def] intro!: keeps_parts keeps_guarded keeps_on_result
  keeps_invoke keeps_auth keeps_basic)

lemma keeps_admin: "keeps P (admin_handle env app m path rq)"
proof -
  have "keeps P (case admin_open env app rq ep of Some h \<Rightarrow> h
      | None \<Rightarrow> bnd (require_admin env app rq) (\<lambda>a. admin_action env app rq a ep))" for ep
    by (cases "admin_open env app rq ep") (auto intro: keeps_open keeps_bnd keeps_require_admin keeps_action)
  then show ?thesis unfolding admin_handle_def admin_endpoint_def by (auto intro: keeps_parts)
qed

end

subsection \<open>Removed accounts\<close>

lemma keeps_removed_step:
  "(\<And>w x t. m w = (x, t) \<Longrightarrow> account_step env w t) \<Longrightarrow> keeps (removed_row b r) m"
  by (rule keepsI) (metis prod.collapse removed_step)

lemma removed_tables: "w_db t = w_db w \<Longrightarrow> removed_row b r t = removed_row b r w"
  by (simp add: removed_row_def)

lemma keeps_removed_read: "keeps (removed_row b r) (account_get a)"
  by (auto simp: keeps_def account_get_def bnd_eval require_def ret_def split: option.split)

lemma keeps_removed_preview: "keeps (removed_row b r) (idle_plan_preview env a who corr)"
proof -
  have run: "keeps (removed_row b r) (locked env a who (preview_body env a))"
  proof (rule keepsI)
    fix w assume w: "removed_row b r w"
    show "removed_row b r (snd (locked env a who (preview_body env a) w))"
    proof (cases "a = b")
      case True
      then show ?thesis using w by (simp add: rejected_when_removed [of b r] locked_def bnd_eval)
    next
      case False
      have "keeps (\<lambda>w. a \<noteq> b \<longrightarrow> get_account b (w_db w) = Some r) (locked env a who (preview_body env a))"
        unfolding preview_body_def by (intro other_row.keeps_locked other_row.keeps_steps)
      from keep_other [OF this False prod.collapse [symmetric]] w show ?thesis by (simp add: removed_row_def)
    qed
  qed
  have add: "keeps (removed_row b r) (add_plan env draft)" for draft
    by (rule keepsI) (simp add: add_plan_run Let_def insert_plan_def removed_row_def get_account_def)
  have "keeps (removed_row b r) (transaction m)" if "keeps (removed_row b r) m" for m :: "'x io"
    unfolding transaction_def by (rule keeps_atomically [OF that]) (simp add: removed_row_def)
  note tr = this
  have "keeps (removed_row b r) (preview_save env draft who corr payload)" for draft payload
    unfolding preview_save_def require_identifier_def audit_actor_def on_db_def
    by (intro tr keeps_intros add) (simp add: removed_row_def)
  with run show ?thesis
    unfolding idle_plan_preview_def require_identifier_def by (intro keeps_intros)
qed

interpretation kept_removed: admin_frame "removed_row b r" env for b r env
proof unfold_locales
  show "keeps (removed_row b r) (status_get env a webui_actor)" for a
    unfolding status_get_def
    by (intro keeps_intros keeps_removed_read keeps_removed_step) (rule step_snapshot)
qed (auto intro: keeps_removed_step account_step.intros keeps_removed_preview
  simp: removed_row_def get_account_def)

subsection \<open>Plans and collections\<close>

definition untouched :: "nat \<Rightarrow> database \<Rightarrow> world \<Rightarrow> bool" where
  "untouched n d w \<longleftrightarrow> collects w = n \<and> (\<forall>p row. get_plan p d = Some row \<longrightarrow> get_plan p (w_db w) = Some row) \<and>
     (\<exists>es. audits (w_db w) = audits d @ es)"

interpretation untouched: session_frame "untouched n d" a for n d a
  by unfold_locales (auto simp: untouched_def collects_def add_audit_def get_plan_def map_account_def put_account_def split: option.split)

lemma untouched_on_db:
  assumes "\<And>d. plans (f d) = plans d \<and> (\<exists>es. audits (f d) = audits d @ es)"
  shows "keeps (untouched n d) (on_db f)"
  unfolding on_db_def
proof (rule keeps_modify)
  fix w assume w: "untouched n d w"
  obtain es where "plans (f (w_db w)) = plans (w_db w)" "audits (f (w_db w)) = audits (w_db w) @ es"
    using assms by blast
  with w show "untouched n d (w\<lparr>w_db := f (w_db w)\<rparr>)"
    by (auto simp: untouched_def collects_def get_plan_def)
qed

lemma untouched_update: "keeps (untouched n d) (update_account a f)"
  unfolding update_account_def by (rule untouched_on_db) simp

lemma untouched_fresh: "keeps (untouched n d) (fresh_id env)"
  by (rule keepsI) (simp add: fresh_id_def untouched_def collects_def)

lemma untouched_enrol:
  assumes "\<And>i. keeps (untouched n d) (fill i)"
  shows "keeps (untouched n d) (enrol env label mode identity action who fill)"
  unfolding enrol_def
  by (intro untouched.keeps_transaction keeps_intros untouched.keeps_audit untouched_fresh untouched_on_db
      untouched.keeps_require assms) simp_all

lemma untouched_lifecycle:
  "keeps (untouched n d) (pause env a reason who)" "keeps (untouched n d) (disable_drain_remove env a who)"
proof -
  have job: "keeps (untouched n d) (on_db (disable_jobs a))"
    by (rule untouched_on_db) (simp add: disable_jobs_def)
  show "keeps (untouched n d) (pause env a reason who)" "keeps (untouched n d) (disable_drain_remove env a who)"
    unfolding pause_def disable_drain_remove_def begin_removal_def complete_removal_def with_account_def
    by (intro untouched.keeps_transaction keeps_intros untouched.keeps_audit untouched.keeps_require
        untouched.keeps_marker untouched.keeps_clock untouched.keeps_setters untouched_update job)+
qed

lemma untouched_add:
  "keeps (untouched n d) (add_credentials env label name pass who)"
  "keeps (untouched n d) (add_token_only env label tok who)"
  unfolding add_credentials_def add_token_only_def normalize_label_def Let_def
  by (intro keeps_intros untouched.keeps_login untouched.keeps_clock untouched.keeps_game untouched_enrol
      untouched.keeps_setters untouched_update)+

lemma untouched_insert: "untouched n d w \<Longrightarrow> untouched n d (w\<lparr>w_ids := i, w_db := insert_plan row (w_db w)\<rparr>)"
  by (simp add: untouched_def collects_def lookup_insert_plan) (simp add: insert_plan_def)

lemma untouched_preview: "keeps (untouched n d) (idle_plan_preview env a who corr)"
proof -
  have add: "keeps (untouched n d) (add_plan env draft)" for draft
    by (rule keepsI) (auto simp: add_plan_run Let_def untouched_insert, simp add: untouched_def collects_def)
  have log: "keeps (untouched n d) (on_db (add_audit v src ac pl nm x y z c))" for v src ac pl nm x y z c
    by (rule untouched_on_db) (simp add: add_audit_def)
  have "keeps (untouched n d) (preview_save env draft who corr payload)" for draft payload
    unfolding preview_save_def require_identifier_def audit_actor_def
    by (intro untouched.keeps_transaction keeps_intros add log)
  then show ?thesis
    unfolding idle_plan_preview_def preview_body_def require_identifier_def
    by (intro untouched.keeps_locked untouched.keeps_steps)
qed

interpretation api_untouched: admin_frame "untouched n d" env for n d env
proof unfold_locales
  show "keeps (untouched n d) (status_get env a webui_actor)" for a
    unfolding status_get_def account_get_def
    by (intro untouched.keeps_steps untouched.keeps_snapshot_op)
  show "keeps (untouched n d) (enable env a webui_actor)" "keeps (untouched n d) (disable env a webui_actor)" for a
    unfolding enable_def disable_def by (rule untouched.keeps_lifecycle)+
qed (rule untouched_add untouched_lifecycle untouched_preview untouched.keeps_update_label
    untouched.keeps_update_credentials untouched.keeps_update_token_only untouched.keeps_lifecycle
    | simp add: untouched_def collects_def get_plan_def)+

section \<open>Removal through the API\<close>

lemma reply_exception_status: "400 \<le> rp_status (reply_exception e)"
  using error_response_status [of e] by (auto simp: reply_exception_def reply_error_def split: prod.split)

lemma invoke_eval:
  "invoke m u = (case m u of (Inr y, v) \<Rightarrow> (Inr (Inr y), v)
    | (Inl e, v) \<Rightarrow> if is_exception e then (Inr (Inl (reply_exception e)), v) else (Inl e, v))"
  by (simp add: invoke_def handle_def bnd_eval ret_def split: prod.split sum.split)

lemma account_get_run: "account_get a u = (x, v) \<Longrightarrow> v = u"
  by (auto simp: account_get_def bnd_eval require_def ret_def split: option.splits)

lemma write_access_cases:
  "(\<And>r. a \<noteq> Access_error r) \<Longrightarrow> stops (write_access app rq a) \<or> write_access app rq a = Inr None"
proof (cases "a = Not_signed_in \<or> write_guard app rq \<noteq> Inr None")
  case True
  then show ?thesis using write_access_stops by blast
next
  case False
  assume "\<And>r. a \<noteq> Access_error r"
  with False show ?thesis by (cases a) (auto simp: write_access_def denied_def)
qed

lemma only_sessions_account: "only_sessions w v \<Longrightarrow> get_account a (w_db v) = get_account a (w_db w)"
proof -
  assume "only_sessions w v"
  then have "v = w\<lparr>w_db := (w_db w)\<lparr>admin_sessions := admin_sessions (w_db v)\<rparr>, w_ticks := w_ticks v\<rparr>"
    by (simp add: only_sessions_def)
  then obtain ss k where "v = w\<lparr>w_db := (w_db w)\<lparr>admin_sessions := ss\<rparr>, w_ticks := k\<rparr>" by blast
  then show ?thesis by (simp add: get_account_def)
qed

text \<open>A removal that is asked for properly succeeds.\<close>

lemma removal_answers:
  assumes "signed_in env app rq w" "write_guard app rq = Inr None" "ad_uuid app s = Some a" "s \<noteq> []"
    and "get_account a (w_db w) = Some r" "ga_paused_reason r \<noteq> Some ''removed''"
  shows "\<exists>rep t. admin_handle env app DELETE [''accounts'', s] rq w = (Inr rep, t) \<and> rp_status rep = 200"
proof -
  obtain x v where "require_admin env app rq w = (x, v)" by fastforce
  with require_admin_run [OF this] assms(1) obtain st where
    adm: "require_admin env app rq w = (Inr (Signed_in st), v)" "only_sessions w v" by auto
  have access: "write_access app rq (Signed_in st) = Inr None"
    using assms(2) by (simp add: write_access_def denied_def)
  obtain z t where run: "disable_drain_remove env a webui_actor v = (z, t)" by fastforce
  have "get_account a (w_db v) = Some r" using only_sessions_account [OF adm(2)] assms(5) by simp
  from removal_run [OF this assms(6) run] obtain y where "z = Inr y" "get_account a (w_db t) = Some (scrubbed r)" by blast
  then show ?thesis using adm(1) access run assms(3,4)
    by (simp add: admin_handle_def admin_endpoint_def bnd_eval with_path_def account_after_def on_result_def
        authenticated_write_def lift_result_def invoke_eval account_get_def require_def ret_def account_response_def
        asks_def reply_with_def)
qed

lemma account_after_done:
  assumes "account_after app rq account a m u = (Inr rep, t)" "rp_status rep = 200" "\<And>r. a \<noteq> Access_error r"
  shows "\<exists>y. m u = (Inr y, t)"
proof (cases "write_access app rq a = Inr None")
  case False
  with write_access_cases [OF assms(3)] have "stops (write_access app rq a)" by blast
  then show ?thesis using assms(1,2)
    by (auto simp: account_after_def on_result_def authenticated_write_def bnd_eval lift_result_def ret_def stops_def
        refusal_def reply_error_def split: sum.splits option.splits)
next
  case True
  obtain x v where run: "m u = (x, v)" by fastforce
  obtain y s where again: "account_get account v = (y, s)" by fastforce
  show ?thesis
  proof (cases x)
    case (Inl e)
    then show ?thesis using assms(1,2) True reply_exception_status [of e]
      by (auto simp: account_after_def on_result_def authenticated_write_def bnd_eval lift_result_def ret_def
          invoke_eval run split: if_splits)
  next
    case (Inr z)
    then have "t = v" using assms(1) True account_get_run [OF again]
      by (auto simp: account_after_def on_result_def authenticated_write_def bnd_eval lift_result_def ret_def
          invoke_eval run again account_response_def asks_def split: if_splits sum.splits)
    with run Inr show ?thesis by simp
  qed
qed

text \<open>A removal that is answered with success is done.\<close>

lemma removal_answered:
  assumes "admin_handle env app DELETE [''accounts'', s] rq w = (Inr rep, t)" "rp_status rep = 200"
    and "ad_uuid app s = Some a" "get_account a (w_db w) = Some r" "ga_paused_reason r \<noteq> Some ''removed''"
  shows "get_account a (w_db t) = Some (scrubbed r) \<and> enabled_jobs a (w_db t) = 0"
proof -
  have "s \<noteq> []" using assms(1,2) by (auto simp: admin_handle_def admin_endpoint_def ret_def reply_error_def)
  then have run: "bnd (require_admin env app rq) (\<lambda>x. admin_action env app rq x (E_remove s)) w = (Inr rep, t)"
    using assms(1) by (simp add: admin_handle_def admin_endpoint_def)
  obtain x v where adm: "require_admin env app rq w = (Inr x, v)" "only_sessions w v" "\<And>e. x \<noteq> Access_error e"
  proof -
    obtain y v where "require_admin env app rq w = (y, v)" by fastforce
    with require_admin_run [OF this] that show thesis by (auto split: if_splits)
  qed
  have row: "get_account a (w_db v) = Some r" using only_sessions_account [OF adm(2)] assms(4) by simp
  have "account_after app rq a x (disable_drain_remove env a webui_actor) v = (Inr rep, t)"
    using run adm(1) assms(3) by (simp add: bnd_eval with_path_def)
  from account_after_done [OF this assms(2) adm(3)] obtain y where "disable_drain_remove env a webui_actor v = (Inr y, t)"
    by blast
  from removal_run [OF row assms(5) this] show ?thesis by simp
qed

section \<open>The form of the replies\<close>

definition admin_codes :: "string list" where
  "admin_codes = map (\<lambda>(c, code, n). code) http_error_codes @
     [''invalid_request'', ''internal_error'', ''plan_in_progress'', ''password_too_short'', ''setup_already_complete'',
      ''unauthorized'', ''origin_forbidden'', ''content_type_required'', ''account_auth_mode_conflict'', ''not_found'']"

definition cookie_ok :: "admin_app \<Rightarrow> bool \<Rightarrow> cookie \<Rightarrow> bool" where
  "cookie_ok app signing_in c \<longleftrightarrow> ck_http_only c \<and> ck_secure c = ad_cookie_secure app \<and> ck_same_site c = ''strict'' \<and>
     ck_path c = ''/'' \<and> (ck_value c = [] \<and> ck_max_age c = 0 \<or> signing_in \<and> ck_max_age c = default_absolute_seconds)"

definition error_statuses :: "int set" where
  "error_statuses = {401, 403, 404, 409, 415, 422, 429, 500, 503}"

definition reply_ok :: "admin_app \<Rightarrow> bool \<Rightarrow> reply \<Rightarrow> bool" where
  "reply_ok app signing_in rep \<longleftrightarrow>
     (case rp_body rep of
        Body_error code \<Rightarrow> rp_status rep \<in> error_statuses \<and> code \<in> set admin_codes \<and> rp_cookie rep = None
      | _ \<Rightarrow> rp_status rep \<in> {200, 201, 204}) \<and>
     (case rp_cookie rep of None \<Rightarrow> True | Some c \<Rightarrow> cookie_ok app signing_in c)"

lemma reply_exception_ok: "reply_ok app b (reply_exception e)"
  by (cases e) (simp_all add: reply_ok_def reply_exception_def reply_error_def error_response_def admin_codes_def
      error_statuses_def http_error_codes_def instance_of_def base_class_def eval_nat_numeral)

lemma reply_ok_error:
  "n \<in> error_statuses \<Longrightarrow> code \<in> set admin_codes \<Longrightarrow> reply_ok app b (reply_error n code)"
  by (simp add: reply_ok_def reply_error_def)

lemma reply_ok_errors [simp]:
  "reply_ok app b reply_unauthorized" "reply_ok app b reply_invalid"
  "reply_ok app b (reply_error 404 ''not_found'')" "reply_ok app b (reply_error 403 ''origin_forbidden'')"
  "reply_ok app b (reply_error 415 ''content_type_required'')" "reply_ok app b (reply_error 500 ''internal_error'')"
  "reply_ok app b (reply_error 409 ''account_auth_mode_conflict'')"
  by (simp_all add: reply_unauthorized_def reply_invalid_def reply_ok_error error_statuses_def admin_codes_def)

lemma reply_ok_with [simp]:
  "n \<in> {200, 201, 204} \<Longrightarrow> (\<And>c. body \<noteq> Body_error c) \<Longrightarrow> reply_ok app b (reply_with n body)"
  by (auto simp: reply_ok_def reply_with_def split: admin_body.split)

text \<open>\<open>answers\<close> speaks of the replies of a program, \<open>stops_with\<close> of those it stops early with.\<close>

definition answers :: "(reply \<Rightarrow> bool) \<Rightarrow> reply io \<Rightarrow> bool" where
  "answers P m \<longleftrightarrow> (\<forall>w rep t. m w = (Inr rep, t) \<longrightarrow> P rep)"

definition stops_with :: "(reply \<Rightarrow> bool) \<Rightarrow> (reply + 'a) io \<Rightarrow> bool" where
  "stops_with P m \<longleftrightarrow> (\<forall>w rep t. m w = (Inr (Inl rep), t) \<longrightarrow> P rep)"

definition guard_ok :: "(reply \<Rightarrow> bool) \<Rightarrow> (exn, reply option) result \<Rightarrow> bool" where
  "guard_ok P g \<longleftrightarrow> (\<forall>rep. g = Inr (Some rep) \<longrightarrow> P rep)"

lemma answers_ret: "P rep \<Longrightarrow> answers P (ret rep)"
  by (simp add: answers_def ret_def)

lemma answers_bnd: "(\<And>x. answers P (f x)) \<Longrightarrow> answers P (bnd m f)"
  unfolding answers_def by (auto elim!: bnd_cases)

lemma answers_result: "stops_with P m \<Longrightarrow> (\<And>x. answers P (f x)) \<Longrightarrow> answers P (on_result m f)"
  unfolding answers_def stops_with_def on_result_def
  by (auto simp: ret_def elim!: bnd_cases split: sum.splits) blast+

lemma answers_guarded: "guard_ok P g \<Longrightarrow> answers P m \<Longrightarrow> answers P (guarded g m)"
  unfolding answers_def guard_ok_def guarded_def
  by (auto simp: ret_def lift_result_def elim!: bnd_cases split: option.splits) blast+

lemma answers_parts:
  "P reply_invalid \<Longrightarrow> answers P m \<Longrightarrow> answers P (undecodable rq m)"
  "P reply_invalid \<Longrightarrow> (\<And>y. answers P (f y)) \<Longrightarrow> answers P (with_body rq parse f)"
  "P reply_invalid \<Longrightarrow> (\<And>b. answers P (g b)) \<Longrightarrow> answers P (with_path app s g)"
  by (auto simp: undecodable_def with_body_def with_path_def intro: answers_ret split: option.split)

lemma stops_invoke: "stops_with (reply_ok app b) (invoke m)"
  by (auto simp: stops_with_def invoke_eval reply_exception_ok split: prod.splits sum.splits if_splits)

definition access_ok :: "access \<Rightarrow> bool" where
  "access_ok a \<longleftrightarrow> (\<forall>rep. a \<noteq> Access_error rep)"

lemma guards_ok:
  "guard_ok (reply_ok app b) (same_origin app rq)" "guard_ok (reply_ok app b) (Inr (require_json rq))"
  "guard_ok (reply_ok app b) (write_guard app rq)"
  "access_ok a \<Longrightarrow> guard_ok (reply_ok app b) (Inr (denied a))"
  "access_ok a \<Longrightarrow> guard_ok (reply_ok app b) (write_access app rq a)"
proof -
  show o1: "guard_ok (reply_ok app b) (same_origin app rq)"
    by (auto simp: guard_ok_def same_origin_def result_simps split: option.splits prod.splits if_splits)
  show j: "guard_ok (reply_ok app b) (Inr (require_json rq))"
    by (auto simp: guard_ok_def require_json_def Let_def split: if_splits)
  show g: "guard_ok (reply_ok app b) (write_guard app rq)"
    using o1 j by (auto simp: guard_ok_def write_guard_def result_simps split: option.splits)
  show d: "access_ok a \<Longrightarrow> guard_ok (reply_ok app b) (Inr (denied a))"
    by (auto simp: guard_ok_def denied_def access_ok_def split: access.splits)
  show "access_ok a \<Longrightarrow> guard_ok (reply_ok app b) (write_access app rq a)"
    using g d by (auto simp: guard_ok_def write_access_def result_simps split: option.splits)
qed

lemma stops_write: "access_ok a \<Longrightarrow> stops_with (reply_ok app b) (authenticated_write app rq a m)"
  using guards_ok(5) [of a app b rq] stops_invoke [of app b m]
  unfolding stops_with_def guard_ok_def authenticated_write_def
  by (auto simp: lift_result_def ret_def elim!: bnd_cases split: option.splits) blast+

lemma answers_response: "n \<in> {200, 201} \<Longrightarrow> answers (reply_ok app b) (account_response app n m)"
  by (auto simp: answers_def account_response_def asks_def)

lemma mode_errors_ok:
  "bnd (require_account_mode account mode) (\<lambda>e. case e of Some rep \<Rightarrow> ret rep | None \<Rightarrow> m) w = (Inr rep, t) \<Longrightarrow>
   answers (reply_ok app b) m \<Longrightarrow> reply_ok app b rep"
  using stops_invoke [of app b "account_get account"]
  by (auto simp: require_account_mode_def stops_with_def answers_def ret_def elim!: bnd_cases
      split: option.splits sum.splits if_splits) blast+

lemma answers_writes:
  assumes "access_ok a"
  shows "answers (reply_ok app b) (account_after app rq account a m)"
    "answers (reply_ok app b) (create_account app rq a mc)"
    "answers (reply_ok app b) (update_in_mode app rq account a mode mc)"
proof -
  show after: "answers (reply_ok app b) (account_after app rq account a m)" for m :: "'x io"
    unfolding account_after_def
    by (intro answers_result stops_write [OF assms] stops_invoke answers_response) simp
  show "answers (reply_ok app b) (create_account app rq a mc)"
    unfolding create_account_def by (intro answers_result stops_write [OF assms] answers_response) simp
  show "answers (reply_ok app b) (update_in_mode app rq account a mode mc)"
    unfolding update_in_mode_def
    by (intro answers_guarded guards_ok assms) (auto simp: answers_def dest: mode_errors_ok [OF _ after])
qed

lemma cookies_ok:
  "n \<in> {200, 204} \<Longrightarrow> (\<And>c. body \<noteq> Body_error c) \<Longrightarrow>
     reply_ok app b ((reply_with n body)\<lparr>rp_cookie := Some (cleared_cookie app)\<rparr>)"
  "reply_ok app True ((reply_with 200 (Body_flags fs))\<lparr>rp_cookie := Some (session_cookie app t)\<rparr>)"
  by (auto simp: reply_ok_def reply_with_def cookie_ok_def cleared_cookie_def session_cookie_def split: admin_body.split)

lemma answers_after:
  "(\<And>w x t. m w = (Inr x, t) \<Longrightarrow> Q x) \<Longrightarrow> (\<And>x. Q x \<Longrightarrow> answers P (f x)) \<Longrightarrow> answers P (bnd m f)"
  unfolding answers_def by (auto elim!: bnd_cases) blast

lemma require_admin_ok: "require_admin env app rq w = (Inr a, t) \<Longrightarrow> access_ok a"
  by (drule require_admin_run) (auto simp: access_ok_def split: if_splits)

lemma answers_list:
  assumes "access_ok a"
  shows "answers (reply_ok app b) (handle_accounts_list app a)"
proof -
  have "answers (reply_ok app b) (on_result (invoke account_list)
      (\<lambda>ms. asks (\<lambda>w. reply_with 200 (Body_accounts (map (account_list_payload app (w_db w)) ms)))))"
    by (rule answers_result [OF stops_invoke]) (simp add: answers_def asks_def)
  moreover have "answers (reply_ok app b) (on_result (invoke status_list) (\<lambda>xs. ret (reply_with 200 (Body_summaries xs))))"
    by (rule answers_result [OF stops_invoke]) (simp add: answers_ret)
  ultimately show ?thesis unfolding handle_accounts_list_def
    by (intro answers_guarded guards_ok assms) simp
qed

lemma answers_action:
  assumes "access_ok a"
  shows "answers (reply_ok app b) (admin_action env app rq a ep)"
  by (cases ep)
    (auto simp: handle_logout_def handle_password_def [abs_def] handle_account_status_def [abs_def]
      handle_idle_preview_def [abs_def] cookies_ok
      intro!: answers_parts answers_guarded answers_result answers_bnd guards_ok stops_invoke answers_writes assms
        answers_list answers_ret split: prod.split)

lemma answers_status: "answers (reply_ok app b) (handle_status env app rq)"
proof -
  have "answers (reply_ok app b) (case a of Access_error rep \<Rightarrow> ret rep
      | _ \<Rightarrow> ret (reply_with 200 (Body_flags (fs a))))" if "access_ok a" for a fs
    using that by (cases a) (auto simp: access_ok_def intro: answers_ret)
  moreover have "access_ok x" if "(if c then ret Not_signed_in else require_admin env app rq) w = (Inr x, t)" for c w x t
    using that require_admin_ok by (auto simp: ret_def access_ok_def split: if_splits)
  ultimately show ?thesis unfolding handle_status_def
    by (intro answers_result stops_invoke answers_after [where Q = access_ok])
qed

lemma answers_open:
  "admin_open env app rq ep = Some m \<Longrightarrow> answers (reply_ok app (ep = E_login)) m"
  by (cases ep) (auto simp: handle_setup_def [abs_def] handle_login_def [abs_def] cookies_ok answers_status
    intro!: answers_parts answers_guarded answers_result guards_ok stops_invoke answers_ret)


section \<open>Samples\<close>

definition sample_app :: admin_app where
  "sample_app = \<lparr>ad_auth = sample_auth, ad_cookie_secure = True, ad_has_accounts = True,
     ad_uuid = (\<lambda>s. if s = ''7'' then Some 7 else None), ad_bracket_ok = (\<lambda>n. False),
     ad_stamps = (\<lambda>d a. (0, 0))\<rparr>"

definition sample_request :: admin_request where
  "sample_request = \<lparr>rq_origin = None, rq_content_type = Some ''application/json'', rq_netloc = ''host'',
     rq_cookie = None, rq_body = None\<rparr>"


text \<open>
  A malformed \<open>Origin\<close> is not refused by the guard: \<open>urlsplit\<close> raises outside every handler, so the
  request ends in an unhandled exception.
\<close>

lemma malformed_origin_is_unhandled:
  "fst (admin_handle sample_env sample_app POST [''auth'', ''login'']
     (sample_request\<lparr>rq_origin := Some ''http://['', rq_body := Some (JObj [(''password'', JStr ''p'')])\<rparr>) idle_world) =
   Inl ValueErr"
  by code_simp

text \<open>A world in which the administrator is signed in, and a request that carries the cookie.\<close>

definition signed_in_world :: world where
  "signed_in_world = idle_world\<lparr>w_db := (w_db idle_world)\<lparr>admin_sessions := [\<lparr>sess_token_digest =
     token_digest sample_env (replicate 43 CHR ''t''), sess_created_at = 0, sess_absolute_expires_at = hours 12,
     sess_last_seen_at = 0\<rparr>]\<rparr>\<rparr>"

definition signed_in_request :: admin_request where
  "signed_in_request = sample_request\<lparr>rq_cookie := Some (replicate 43 CHR ''t'')\<rparr>"

lemma sample_removal_row:
  "get_account 7 (w_db signed_in_world) = Some (sample_account\<lparr>ga_session_token :=
     seal_secret plain_box (replicate 12 CHR ''n'') 7 ''session_token'' (Some ''tok'')\<rparr>)"
  by (simp add: signed_in_world_def idle_world_def empty_database_def get_account_def table_simps sample_account_def)

lemma sample_signed_in: "signed_in sample_env sample_app signed_in_request signed_in_world"
  by (simp add: signed_in_def signed_in_request_def sample_request_def session_token_ok_def list_all_iff
      is_ascii_alnum_def is_ascii_lower_def session_row_def lookup_simps signed_in_world_def session_live_def
      sample_app_def sample_auth_def default_idle_seconds_def sample_env_def idle_world_def sample_world_def)

lemma sample_removal:
  "\<exists>rep t. admin_handle sample_env sample_app DELETE [''accounts'', ''7''] signed_in_request signed_in_world = (Inr rep, t) \<and>
     rp_status rep = 200"
  by (rule removal_answers [OF sample_signed_in _ _ _ sample_removal_row])
    (simp_all add: write_guard_def same_origin_def signed_in_request_def sample_request_def require_json_def
      lower_def lower_char_def sample_app_def sample_account_def)


end
