(* ===== verification/Service.thy ===== *)
theory Service
  imports Scheduler_Safety Admin_Safety Config
begin

text \<open>
  The service as it is composed in \<open>app.py\<close>: which part answers a request (the admin API, the health
  checks, the pages, and behind the bearer token everything else), the life of the background
  loop, and the steps the running service takes. What the parts guarantee is put together here.
\<close>

section \<open>Requests\<close>

text \<open>
  A request as the routers see it. A method none of the routes names is \<open>None\<close>; the path is given by
  its segments; \<open>as_admin\<close> is what FastAPI reads of it for the admin API and \<open>as_call\<close> the call of a
  tool FastMCP finds in it, if any.
\<close>

record app_request =
  as_method :: "http_method option"
  as_path :: "string list"
  as_headers :: "(bytes \<times> bytes) list"
  as_admin :: admin_request
  as_call :: "tool_call option"

datatype app_reply =
    Health_reply int string
  | File_reply string string
  | Admin_reply reply
  | Mcp_answer mcp_reply
  | Mcp_other

datatype app_route =
    R_admin http_method "string list"
  | R_live
  | R_ready
  | R_file string string
  | R_mounted

text \<open>The routes in the order of their registration. The mount at the end takes every path and method.\<close>

definition app_route :: "app_request \<Rightarrow> app_route" where
  "app_route rq =
     (case as_method rq of
        None \<Rightarrow> R_mounted
      | Some m \<Rightarrow>
          if take 3 (as_path rq) = [''api'', ''admin'', ''v1''] then R_admin m (drop 3 (as_path rq))
          else if m \<noteq> GET then R_mounted
          else if as_path rq = [''health'', ''live''] then R_live
          else if as_path rq = [''health'', ''ready''] then R_ready
          else if as_path rq = [''''] then R_file ''index.html'' ''text/html''
          else if as_path rq = [''assets'', ''style.css''] then R_file ''style.css'' ''text/css''
          else if as_path rq = [''assets'', ''app.js''] then R_file ''app.js'' ''text/javascript''
          else R_mounted)"

definition admin_of :: "platform \<Rightarrow> application \<Rightarrow> admin_app" where
  "admin_of pf app = \<lparr>ad_auth = ap_auth app, ad_cookie_secure = ap_cookie_secure app, ad_has_accounts = True,
     ad_uuid = pf_uuid pf, ad_bracket_ok = pf_bracket_ok pf, ad_stamps = pf_stamps pf\<rparr>"

text \<open>The readiness check asks the database; whether it answers is an argument.\<close>

definition health_ready :: "bool \<Rightarrow> app_reply" where
  "health_ready reachable = (if reachable then Health_reply 200 ''ok'' else Health_reply 503 ''unavailable'')"

text \<open>The MCP server is at the path \<open>/mcp\<close> only, behind the middleware, which guards every other path too.\<close>

definition app_mounted :: "env \<Rightarrow> application \<Rightarrow> bool \<Rightarrow> app_request \<Rightarrow> app_reply io" where
  "app_mounted env app busy rq = (\<lambda>w.
     (case (if as_path rq = [''mcp''] then as_call rq else None) of
        Some call \<Rightarrow> (case mcp_serve env (ap_token app) (ap_test_mode app) busy (Http_scope (as_headers rq)) call w of
          (r, t) \<Rightarrow> (Inr (Mcp_answer r), t))
      | None \<Rightarrow> (Inr (if bearer_admits (ap_token app) (Http_scope (as_headers rq)) then Mcp_other
            else Mcp_answer Mcp_unauthorized), w)))"

definition app_serve :: "env \<Rightarrow> platform \<Rightarrow> application \<Rightarrow> bool \<Rightarrow> bool \<Rightarrow> app_request \<Rightarrow> app_reply io" where
  "app_serve env pf app reachable busy rq =
     (case app_route rq of
        R_admin m path \<Rightarrow> bnd (admin_handle env (admin_of pf app) m path (as_admin rq)) (\<lambda>x. ret (Admin_reply x))
      | R_live \<Rightarrow> ret (Health_reply 200 ''ok'')
      | R_ready \<Rightarrow> ret (health_ready reachable)
      | R_file name media \<Rightarrow> ret (File_reply name media)
      | R_mounted \<Rightarrow> app_mounted env app busy rq)"

section \<open>The lifespan\<close>

text \<open>
  The context around the running application, as a log of what it does. \<open>trouble\<close> tells which step
  raises; cancelling and joining the task cannot.
\<close>

datatype life_event =
    Manager_entered | Task_started | Application_served | Stop_set | Scheduler_closed | Task_joined
  | Manager_exited | Client_closed | Database_disposed

definition emit :: "(life_event \<Rightarrow> exn option) \<Rightarrow> life_event \<Rightarrow> (life_event list, unit) prog" where
  "emit trouble e = (\<lambda>s. ((case trouble e of None \<Rightarrow> Inr () | Some x \<Rightarrow> Inl x), s @ [e]))"

definition lifespan :: "(life_event \<Rightarrow> exn option) \<Rightarrow> (life_event list, unit) prog" where
  "lifespan trouble = finally_do
     (andthen (emit trouble Manager_entered)
        (finally_do
           (andthen (emit trouble Task_started)
              (finally_do (emit trouble Application_served)
                 (andthen (emit trouble Stop_set)
                 (andthen (emit trouble Scheduler_closed) (emit (\<lambda>e. None) Task_joined)))))
           (emit trouble Manager_exited)))
     (andthen (emit trouble Client_closed) (emit trouble Database_disposed))"

section \<open>The running service\<close>

text \<open>A request at any time, or a round of the scheduler's loop.\<close>

inductive service_step :: "env \<Rightarrow> platform \<Rightarrow> application \<Rightarrow> world \<Rightarrow> world \<Rightarrow> bool" for env pf app where
  serve: "app_serve env pf app reachable busy rq w = (x, t) \<Longrightarrow> service_step env pf app w t"
| round: "tick env (ap_scheduler app) is_closed None w = (n, t) \<Longrightarrow> service_step env pf app w t"

section \<open>What the running service keeps\<close>

text \<open>The transactions of the scheduler leave three tables alone.\<close>

definition same_tables :: "database \<Rightarrow> database \<Rightarrow> bool" where
  "same_tables d e \<longleftrightarrow> accounts e = accounts d \<and> plans e = plans d \<and> audits e = audits d"

lemma same_tables_refl [simp]: "same_tables d d"
  by (simp add: same_tables_def)

lemma same_tables_trans: "same_tables d e \<Longrightarrow> same_tables e f \<Longrightarrow> same_tables d f"
  by (simp add: same_tables_def)

lemma lease_tables [simp]:
  "same_tables d (snd (acquire_lease worker now lease d))" "same_tables d (release_lease worker d)"
  "same_tables d (put_job j e) = same_tables d e" "same_tables d (put_run r e) = same_tables d e"
  by (auto simp: same_tables_def acquire_lease_def release_lease_def put_job_def put_run_def Let_def split: option.split)

lemma job_tables [simp]: "same_tables d (ensure_jobs new known now interval d)"
proof -
  have one: "same_tables d (ensure_job now interval i a d)" for i a d
    by (auto simp: ensure_job_def split: option.split) (simp add: same_tables_def)
  have "same_tables d (ensure_each now interval new n as d)" for n as d
  proof (induction as arbitrary: n d)
    case (Cons a as)
    from same_tables_trans [OF one Cons] show ?case by simp
  qed simp
  moreover have "same_tables d (disable_duplicates ks d)" for ks
    by (simp add: same_tables_def disable_duplicates_def)
  ultimately have "same_tables d (ensure_each now interval new 0 known (disable_duplicates (map ma_id known) d))"
    by (rule same_tables_trans [rotated])
  then show ?thesis by (simp add: ensure_jobs_def)
qed

lemma claim_tables [simp]: "same_tables d (snd (claim_due new busy now worker lease ids d))"
proof -
  have slot: "same_tables d (snd (claim_slot i j s now worker lease d))" for i j s d
    by (auto simp: claim_slot_def Let_def split: option.split) (simp add: same_tables_def)
  have "same_tables d (snd (claim_each new n js now worker lease d))" for n js d
  proof (induction js arbitrary: n d)
    case (Cons j js)
    then show ?case using slot
      by (auto simp: Let_def split: option.split prod.split) (metis same_tables_trans snd_conv)
  qed simp
  then show ?thesis by (simp add: claim_due_def)
qed

lemma finish_tables [simp]: "same_tables d (finish_run c done_at next_at result d)"
  by (auto simp: finish_run_def Let_def split: option.split)

lemma keeps_finally [keeps_intros]: "keeps P m \<Longrightarrow> keeps P n \<Longrightarrow> keeps P (finally_do m n)"
  by (auto simp: keeps_def finally_do_def split: prod.split sum.split; metis snd_conv)

text \<open>
  A fact that the admin API keeps (\<open>admin_frame\<close>) and that speaks of no table but those of accounts,
  plans and audits is kept by the whole service outside the test mode.
\<close>

locale service_frame = admin_frame +
  assumes tables: "P w \<Longrightarrow> same_tables (w_db w) d \<Longrightarrow> P (w\<lparr>w_db := d\<rparr>)"
    and anyone: "keeps P (status_get env a who)" "keeps P (idle_plan_preview env a who corr)"
begin

lemma keeps_store:
  assumes "\<And>d. same_tables d (snd (f d))"
  shows "keeps P (store f)"
proof (rule keepsI)
  fix w assume w: "P w"
  obtain x d where run: "f (w_db w) = (x, d)" by fastforce
  with assms [of "w_db w"] have "same_tables (w_db w) d" by simp
  with w run show "P (snd (store f w))" by (simp add: store_def tables)
qed

lemma keeps_on_db: "(\<And>d. same_tables d (f d)) \<Longrightarrow> keeps P (on_db f)"
  unfolding on_db_def by (intro keeps_modify tables)

lemma keeps_dispatch: "keeps P (dispatch_all env sc now cs)"
proof (induction cs)
  case (Cons c cs)
  have "keeps P (dispatch env sc now c)"
    unfolding dispatch_def run_preview_def record_run_def
    by (auto intro!: keeps_intros keeps_sources anyone keeps_on_db split: option.split)
  with Cons show ?case by (simp add: keeps_andthen)
qed (simp add: keeps_basic)

lemma keeps_tick: "keeps P (tick env sc is_closed now)"
proof -
  have ids: "keeps P (fresh_ids env n)" for n
    by (rule keepsI) (simp add: fresh_ids_def ids)
  show ?thesis
    unfolding tick_def tick_body_def
    by (intro keeps_intros keeps_sources keeps_store keeps_on_db keeps_read keeps_dispatch ids) simp_all
qed

lemma keeps_mounted:
  assumes "\<not> ap_test_mode app"
  shows "keeps P (app_mounted env app busy rq)"
proof -
  have tool: "keeps P (tool_operation env b call)" if "registered False call" for b call
    using that unfolding tool_operation_def Let_def
    by (cases call) (auto intro!: keeps_intros keeps_sources keeps_read anyone)
  have "P (snd (mcp_serve env tok False b scope call w))" if "P w" for tok b scope call w
    using that keepsD [OF tool prod.collapse [symmetric], of call w b]
    by (auto simp: mcp_serve_def split: prod.split)
  then show ?thesis using assms
    by (auto simp: keeps_def app_mounted_def split: option.split prod.split) (metis snd_conv)+
qed

lemma keeps_serve: "\<not> ap_test_mode app \<Longrightarrow> keeps P (app_serve env pf app reachable busy rq)"
  unfolding app_serve_def
  by (cases "app_route rq") (auto intro!: keeps_intros keeps_admin keeps_mounted)

lemma service_stable: "\<not> ap_test_mode app \<Longrightarrow> stable_property (service_step env pf app) P"
  by unfold_locales (auto elim!: service_step.cases dest: keepsD [OF keeps_serve] keepsD [OF keeps_tick])

end

interpretation service_untouched: service_frame "untouched n d" env for n d env
proof unfold_locales
  show "keeps (untouched n d) (status_get env a who)" for a who
    unfolding status_get_def account_get_def
    by (intro untouched.keeps_steps untouched.keeps_snapshot_op)
qed (auto intro: untouched_preview simp: untouched_def collects_def get_plan_def same_tables_def)

interpretation service_removed: service_frame "removed_row b r" env for b r env
proof unfold_locales
  show "keeps (removed_row b r) (status_get env a who)" for a who
    unfolding status_get_def
    by (intro keeps_intros keeps_removed_read keeps_removed_step) (rule step_snapshot)
qed (auto intro: keeps_removed_preview simp: removed_row_def get_account_def same_tables_def)

lemma started_mode: "create_app pf st = Inr app \<Longrightarrow> \<not> cf_test_mode st \<Longrightarrow> \<not> ap_test_mode app"
  by (auto simp: create_app_def result_simps dest!: validated)

text \<open>
  C2: the service in production only looks. In an application started outside the test mode, no
  sequence of requests, from whomever and to whichever part, and of scheduler rounds collects
  anything in the game, or changes a plan that exists, or alters or drops an entry of the audit log,
  which only grows.
\<close>

theorem production_only_looks:
  assumes "create_app pf st = Inr app" "\<not> cf_test_mode st" "steps (service_step env pf app) w t"
  shows "collects t = collects w \<and> (\<forall>p row. get_plan p (w_db w) = Some row \<longrightarrow> get_plan p (w_db t) = Some row) \<and>
    (\<exists>es. audits (w_db t) = audits (w_db w) @ es)"
proof -
  note stable = service_untouched.service_stable [OF started_mode [OF assms(1,2)]]
  have "untouched (collects w) (w_db w) w" by (simp add: untouched_def)
  from stable_property.stable_steps [OF stable assms(3) this] show ?thesis by (simp add: untouched_def)
qed


section \<open>Strangers\<close>

lemma no_cookie: "rq_cookie rq = None \<Longrightarrow> require_admin env app rq w = (Inr Not_signed_in, w)"
  by (simp add: require_admin_def ret_def)

lemma stranger_status: "rq_cookie rq = None \<Longrightarrow> handle_status env app rq w = (x, t) \<Longrightarrow> t = w"
  by (auto simp: handle_status_def on_result_def invoke_eval auth_is_setup_def asks_def bnd_eval no_cookie ret_def
      split: if_splits)

lemma stranger_admin:
  assumes "rq_cookie rq = None" "admin_handle env app m path rq w = (x, t)" "admin_route m path \<notin> {E_setup, E_login}"
  shows "t = w"
proof -
  let ?ep = "admin_route m path"
  have refused: "refuses (admin_action env app rq Not_signed_in ?ep)" by (rule action_refused) simp
  have "\<exists>y. (case admin_open env app rq ?ep of Some h \<Rightarrow> h
      | None \<Rightarrow> bnd (require_admin env app rq) (\<lambda>a. admin_action env app rq a ?ep)) w = (y, w)"
  proof (cases "admin_open env app rq ?ep")
    case None
    with refused show ?thesis by (auto simp: bnd_eval no_cookie [OF assms(1)] refuses_def)
  next
    case (Some h)
    then consider "?ep = E_status" "h = handle_status env app rq"
      | "h = ret (reply_error 404 ''not_found'')"
      using assms(3) by (cases ?ep) auto
    then show ?thesis
      using Some stranger_status [OF assms(1) prod.collapse [symmetric]] by cases (auto simp: ret_def prod_eq_iff)
  qed
  then show ?thesis using assms(2)
    by (auto simp: admin_handle_def admin_endpoint_def undecodable_def ret_def split: if_splits)
qed

text \<open>
  C13: strangers change nothing. A request without a session cookie and without an \<open>Authorization\<close>
  header, other than setting up the password and signing in, leaves the service exactly as it
  was, in every mode and on every path: the database, the calls to the game, even the clocks and
  identifiers drawn.
\<close>

theorem strangers_change_nothing:
  assumes "app_serve env pf app reachable busy rq w = (x, t)"
    and "rq_cookie (as_admin rq) = None" "authorization_values (as_headers rq) = []"
    and "\<And>m path. app_route rq = R_admin m path \<Longrightarrow> admin_route m path \<notin> {E_setup, E_login}"
  shows "t = w"
proof (cases "app_route rq")
  case (R_admin m path)
  obtain y u where run: "admin_handle env (admin_of pf app) m path (as_admin rq) w = (y, u)" by fastforce
  from stranger_admin [OF assms(2) run assms(4) [OF R_admin]] run assms(1) R_admin show ?thesis
    by (auto simp: app_serve_def bnd_eval ret_def split: sum.splits)
next
  case R_mounted
  have "\<not> bearer_admits tok (Http_scope (as_headers rq))" for tok
    using assms(3) by (simp add: bearer_admits_def bearer_candidate_def)
  with R_mounted assms(1) show ?thesis
    by (auto simp: app_serve_def app_mounted_def mcp_serve_def split: option.splits)
qed (use assms(1) in \<open>auto simp: app_serve_def ret_def\<close>)

section \<open>Shutting down\<close>

text \<open>
  However the application ends, its HTTP client is closed, and then its database is released unless
  closing the client raised; if the scheduler's task was started, its loop was told to stop before,
  and joined unless that raised.
\<close>

theorem lifespan_releases:
  assumes "lifespan trouble [] = (r, evs)" "trouble Stop_set = None" "trouble Scheduler_closed = None"
  shows "(\<exists>before. evs = before @ (if trouble Client_closed = None then [Client_closed, Database_disposed] else [Client_closed]) \<and>
      (Application_served \<in> set before \<longrightarrow>
        (\<exists>b. before = b @ [Application_served, Stop_set, Scheduler_closed, Task_joined, Manager_exited])))"
  using assms
  by (auto simp: lifespan_def finally_do_def andthen_eval emit_def split: option.splits)

section \<open>Samples\<close>

lemma sample_production: "\<not> cf_test_mode sample_settings"
  by (simp add: sample_settings_def default_settings_def)

theorem production_only_looks_witness:
  "collects (snd (tick sample_env (ap_scheduler sample_application) False None idle_world)) = collects idle_world"
proof -
  obtain n t where run: "tick sample_env (ap_scheduler sample_application) False None idle_world = (n, t)" by fastforce
  have "steps (service_step sample_env sample_platform sample_application) idle_world t"
    by (rule steps_step) (rule steps_refl, rule round, rule run)
  from production_only_looks [OF sample_startup sample_production this] run show ?thesis by simp
qed

text \<open>A removal by the signed-in administrator, and the same request without the cookie.\<close>

definition sample_removal_request :: app_request where
  "sample_removal_request = \<lparr>as_method = Some DELETE, as_path = [''api'', ''admin'', ''v1'', ''accounts'', ''7''],
     as_headers = [], as_admin = signed_in_request, as_call = None\<rparr>"

lemma sample_admin_of:
  "ad_auth (admin_of sample_platform sample_application) = sample_auth"
  "ad_uuid (admin_of sample_platform sample_application) s = (if s = ''7'' then Some 7 else None)"
  by (simp_all add: admin_of_def sample_application_def sample_auth_def sample_platform_def)

lemma sample_served:
  "\<exists>rep t. app_serve sample_env sample_platform sample_application True False sample_removal_request signed_in_world =
     (Inr (Admin_reply rep), t) \<and> rp_status rep = 200"
proof -
  let ?app = "admin_of sample_platform sample_application"
  have "signed_in sample_env ?app signed_in_request signed_in_world"
    using sample_signed_in unfolding signed_in_def sample_admin_of by (simp add: sample_app_def cong: option.case_cong)
  moreover have "write_guard ?app signed_in_request = Inr None"
    by (simp add: write_guard_def same_origin_def signed_in_request_def sample_request_def require_json_def
      lower_def lower_char_def)
  ultimately have "\<exists>rep t. admin_handle sample_env ?app DELETE [''accounts'', ''7''] signed_in_request signed_in_world =
      (Inr rep, t) \<and> rp_status rep = 200"
    by (rule removal_answers [OF _ _ _ _ sample_removal_row]) (simp_all add: sample_admin_of sample_account_def)
  then show ?thesis by (auto simp: app_serve_def app_route_def sample_removal_request_def bnd_eval ret_def)
qed


theorem strangers_change_nothing_witness:
  "snd (app_serve sample_env sample_platform sample_application True False
     (sample_removal_request\<lparr>as_admin := sample_request\<rparr>) signed_in_world) = signed_in_world"
proof -
  let ?rq = "sample_removal_request\<lparr>as_admin := sample_request\<rparr>"
  obtain x t where run: "app_serve sample_env sample_platform sample_application True False ?rq signed_in_world = (x, t)"
    by fastforce
  have "app_route ?rq = R_admin DELETE [''accounts'', ''7'']"
    by (simp add: sample_removal_request_def app_route_def)
  then have "admin_route m path \<notin> {E_setup, E_login}" if "app_route ?rq = R_admin m path" for m path
    using that by auto
  moreover have "rq_cookie (as_admin ?rq) = None" "authorization_values (as_headers ?rq) = []"
    by (simp_all add: sample_request_def sample_removal_request_def authorization_values_def)
  ultimately have "t = signed_in_world" using strangers_change_nothing [OF run] by blast
  with run show ?thesis by simp
qed

theorem lifespan_releases_witness:
  "last (snd (lifespan (\<lambda>e. None) [])) = Database_disposed"
  using lifespan_releases [of "\<lambda>e. None" "fst (lifespan (\<lambda>e. None) [])" "snd (lifespan (\<lambda>e. None) [])"] by auto

end
