(* ===== verification/Spec2Isabelle.thy ===== *)
theory Spec2Isabelle
  imports Fingerprint Redaction Policy Engine Deploy Migrations Service
begin

text \<open>
  A verification library for placegame, the service that looks after accounts of an idle game: it
  keeps their credentials, reads their state on a schedule, offers plans for collecting what has
  accumulated, and executes such a plan at most once. This header says what the program's parts
  are, where each is modelled, what is proved of it, and what is left out. Paths are below
  \<open>src/src/placegame/\<close> unless they start with \<open>deploy\<close> or \<open>migrations\<close>.

  \<^bold>\<open>The program and how its parts meet.\<close> An account's row is the lock everything works under:
  \<open>AccountService\<close> (\<open>accounts/service.py\<close>) opens a session with the game, reads a snapshot, runs a
  mutation or removes the account, always in transactions on that row. The idle use cases
  (\<open>application/idle.py\<close>) build on it: a preview reads the game under the lock, decides, and stores a
  plan; an execution claims the plan, sends one collecting request through the game client
  (\<open>game/client.py\<close>), proves from the next reading what happened, and settles the plan; a claim whose
  lease ran out is recovered without sending again. The scheduler (\<open>scheduler.py\<close>) elects one worker by a
  lease and runs previews slot by slot. Three surfaces drive these: the admin API (\<open>admin\<close>) for a signed-in
  operator, the MCP tools (\<open>mcp\<close>) behind a static token, and the scheduler's loop. \<open>app.py\<close> composes them.
  The policy engine, the boss optimizer and the reward planner (\<open>policy/engine.py\<close>, \<open>boss_optimizer.py\<close>,
  \<open>rewards.py\<close>) decide what a plan of their family would do; they are called by tests and future families
  and have no effects. A deployer and migrations stand beside the service.

  \<^bold>\<open>How it is modelled.\<close> A coroutine is a function of a state that gives a value or an exception and
  the state it leaves (theory \<open>Effects\<close>); exceptions are the values of \<open>exn\<close> with the class hierarchy of
  \<open>errors.py\<close> (\<open>Errors\<close>). The state of the service is \<open>world\<close> (\<open>Accounts\<close>): the database (\<open>Database\<close>, lists of
  rows per table), the log of calls to the game, and counters of the clock readings, nonces and identifiers
  drawn. A transaction gives up its database part when it raises. What the code takes from outside
  is an argument, gathered in \<open>env\<close>, \<open>admin_app\<close>, \<open>platform\<close>, \<open>pydantic\<close> and \<open>deployer\<close>: the game's answers as a function of the
  calls made so far, the clock, random tokens, AES-GCM, SHA-256, Argon2, the reading of a UUID and
  pydantic's lax conversions, the files and the outcome of commands. Hypotheses on them are named
  definitions (for example \<open>aead_correct\<close>, \<open>aead_binds\<close>, \<open>pydantic_ok\<close>, \<open>sha_hex\<close>) and every property that has one has a witness with a
  concrete instance. Python's \<open>str\<close> is a list of code points below 256, \<open>int\<close> is \<open>int\<close>, \<open>Decimal\<close> and \<open>float\<close> values
  from the game are rationals, time is an \<open>int\<close> of microseconds, a UUID a word of 128 bits.

  \<^bold>\<open>The theories.\<close>
  \<^item> \<open>Prelude\<close>, \<open>Errors\<close>, \<open>Effects\<close>: strings, results, tables of rows, reachability and stable properties as
    locales; the exceptions and the three code tables of the boundaries; programs and the rules for what they
    keep (\<open>keeps\<close>), on which all frame arguments rest.
  \<^item> \<open>Json\<close>, \<open>Fingerprint\<close> (\<open>policy/plans.py\<close>, canonical JSON and fingerprints): the encoding is injective up to
    key order, a fingerprint determines the normalised projection, the order of keyed arrays does not
    matter. \<open>Redaction\<close> (\<open>security/redaction.py\<close>): nothing under a sensitive key reaches the audit log.
    \<open>Secrets\<close> (\<open>security/crypto.py\<close>, \<open>contracts.py\<close>, accessors of \<open>models.py\<close>): frames and the binding of a stored
    credential to its row and column.
  \<^item> \<open>Database\<close> (\<open>models.py\<close>), \<open>Plans\<close> (\<open>policy/plans.py\<close>), \<open>Policy\<close> (\<open>policy/models.py\<close>, \<open>policy/store.py\<close>), \<open>Schemas\<close> (\<open>game/schemas.py\<close>):
    rows, typed plans with their validators and the plan store, versioned policies (a compare-and-set cell,
    locale \<open>versioned_cell\<close>), strict parsing of every response model.
  \<^item> \<open>Game_Client\<close> (\<open>game/client.py\<close>, \<open>game/registry.py\<close>): requests, retries, version negotiation, classification of
    answers, the rate limiter. A mutation is sent once, requests are bounded, errors disclose nothing.
  \<^item> \<open>Accounts\<close>, \<open>Account_Frame\<close>, \<open>Account_Safety\<close> (\<open>accounts/service.py\<close>, \<open>accounts/repository.py\<close>): every operation of the
    service; the locales \<open>session_frame\<close> and \<open>mutation_frame\<close> for what sessions and mutations keep; removal is
    final, identities stay bound and unique, a paused, disabled or removed account causes no traffic.
  \<^item> \<open>Idle\<close>, \<open>Plan_Lifecycle\<close>, \<open>Idle_Safety\<close> (\<open>application/idle.py\<close>): previews, claims, executions and recovery; every history
    of the plan table refines a life cycle of six states, live claims exclude others, settled plans are final,
    what is written can be read back; the game is asked to collect at most once per plan, and what
    an execution answers agrees with what it left behind.
  \<^item> \<open>Timestamps\<close>, \<open>Scheduler\<close>, \<open>Scheduler_Safety\<close> (\<open>scheduler.py\<close>): slots, lease, jobs, claims, ticks and the loop; a slot is
    recorded once in any interleaving of workers, the lease is exclusive, a due slot is dispatched, a
    tick settles what it claims, the loop ends when told to.
  \<^item> \<open>Boss_Optimizer\<close>, \<open>Rewards\<close>, \<open>Engine\<close>: the planners; the search is sound, bounded and as good as an exhaustive
    one, at most one reward that is safe is claimed, a world boss is assisted only when open, refills fit the queue.
  \<^item> \<open>Admin_Auth\<close> (\<open>admin/auth.py\<close>; locale \<open>session_store\<close>), \<open>Status\<close> (\<open>application/status.py\<close>), \<open>Mcp\<close> (\<open>mcp/auth.py\<close>, \<open>mcp/adapter.py\<close>),
    \<open>Url\<close>, \<open>Admin_Routes\<close>, \<open>Admin_Safety\<close> (\<open>admin/routes.py\<close>, \<open>admin/dependencies.py\<close>; locale \<open>admin_frame\<close>): who is let in, what a
    refused request leaves behind, how long a session lives, the form of every reply, what a status says.
  \<^item> \<open>Config\<close> (\<open>config.py\<close>, \<open>create_app\<close> of \<open>app.py\<close>), \<open>Service\<close> (\<open>app.py\<close>; locale \<open>service_frame\<close>, an extension of
    \<open>admin_frame\<close>): the settings and secrets an application starts with, the dispatch of a request, the steps
    of the running service, and what holds over all of them: outside the test mode nothing is
    collected and no plan or audit entry changes, a removed account stays removed, strangers change nothing.
  \<^item> \<open>Deploy\<close> (\<open>deploy/placegame_deploy.py\<close>) and \<open>Migrations\<close> (\<open>migrations/versions\<close>, \<open>models.py\<close>): the switch to a new image and
    back, and the four revisions, which build exactly the schema the models declare and can be taken back.

  \<^bold>\<open>Bounds and termination.\<close> No definition takes fuel that could run out. The retries of the client count down
  from two and are followed by at most one second round after a 426, which gives the bound of six requests.
  A mutation runs at most three rounds and signing in tries three times, the ranges of the code's loops. The
  boss search previews the twelve baseline configurations of an entry and, for each affix, the three best. \<open>await_health\<close> counts the at most thirty
  attempts down, \<open>revisions_from\<close> the four revisions. \<open>run_loop\<close>, which may run for ever, is a \<open>partial_function\<close> in
  the option monad; that it returns once it is signalled is a theorem, not an assumption.

  \<^bold>\<open>Interleaving.\<close> Database transactions are the atomic steps: the step relations \<open>ok_step\<close>, \<open>sched_step\<close> and those of the
  collections interleave them in any order, with other writers of the table. A service operation as a whole
  (\<open>account_step\<close>, \<open>service_step\<close>) is one step, since it works under the account's advisory and row locks; the dispatches
  of one tick run one after the other, which is the order a semaphore of one admits.

  \<^bold>\<open>Not modelled.\<close> The frameworks the code calls: FastAPI and Starlette beyond the order in which they
  validate, match and call; FastMCP's transport and argument parsing; SQLAlchemy's mapping and
  connection pool; Alembic's runner (\<open>migrations/env.py\<close>); pydantic-settings' reading of the environment;
  \<open>httpx\<close> below a request. The advisory locks (\<open>accounts/locks.py\<close>) are the reason a locked section is one step. The expiry hint of
  a session token (\<open>accounts/reconcile.py\<close>), which needs a JSON parser and binary floating point, is the parameter
  \<open>env_token_expiry\<close>. The columns \<open>created_at\<close> and \<open>updated_at\<close> of an account are not in its row but a parameter of the admin
  API, \<open>ad_stamps\<close>, the only place that shows them. Log messages are left out throughout. The browser's
  code under \<open>web\<close>, tests, workflows and compose files are not Python of the service.
\<close>

end
